(* ===== verification/Prelude.thy ===== *)
theory Prelude
  imports Main
begin

text \<open>
  Shared vocabulary of the development.

  Rust byte vectors and strings are both \<^typ>\<open>string\<close>: a \<^typ>\<open>char\<close> is one byte, so
  \<^verbatim>\<open>as_bytes\<close> is the identity and \<^verbatim>\<open>len\<close> is \<^const>\<open>length\<close>.  A \<^verbatim>\<open>Result<T, E>\<close>
  is a value of \<^typ>\<open>'e + 'a\<close> with the error on the left, and a method that mutates
  state is a function from the state to a result and the next state.  The theory holds the
  combinators that stand for the \<^verbatim>\<open>?\<close> operator, byte classes, the string functions of the
  standard library the sources call, saturating 64-bit arithmetic, and the rules that lift
  facts about single steps through the combinators.
\<close>

named_theorems moves_intros \<open>rules that push a transition relation through the combinators\<close>
named_theorems wp_simps \<open>equations that compute the outcome predicate of a combinator\<close>
named_theorems codec_simps \<open>decode-after-encode equations\<close>

section \<open>Results and stateful methods\<close>

type_synonym bytes = string

type_synonym ('e, 'a) result = "'e + 'a"

type_synonym ('s, 'e, 'a) routine = "'s \<Rightarrow> ('e, 'a) result \<times> 's"

definition bindR :: "('e, 'a) result \<Rightarrow> ('a \<Rightarrow> ('e, 'b) result) \<Rightarrow> ('e, 'b) result" where
  "bindR r k = (case r of Inl e \<Rightarrow> Inl e | Inr x \<Rightarrow> k x)"

definition require :: "bool \<Rightarrow> 'e \<Rightarrow> ('e, unit) result" where
  "require b e = (if b then Inr () else Inl e)"

definition ok_or :: "'a option \<Rightarrow> 'e \<Rightarrow> ('e, 'a) result" where
  "ok_or v e = (case v of None \<Rightarrow> Inl e | Some x \<Rightarrow> Inr x)"

definition map_err :: "('e \<Rightarrow> 'f) \<Rightarrow> ('e, 'a) result \<Rightarrow> ('f, 'a) result" where
  "map_err f r = (case r of Inl e \<Rightarrow> Inl (f e) | Inr x \<Rightarrow> Inr x)"

definition is_ok :: "('e, 'a) result \<Rightarrow> bool" where
  "is_ok r = (case r of Inl _ \<Rightarrow> False | Inr _ \<Rightarrow> True)"

definition ret :: "'a \<Rightarrow> ('s, 'e, 'a) routine" where
  "ret x = (\<lambda>s. (Inr x, s))"

definition fail :: "'e \<Rightarrow> ('s, 'e, 'a) routine" where
  "fail e = (\<lambda>s. (Inl e, s))"

definition bindM :: "('s, 'e, 'a) routine \<Rightarrow> ('a \<Rightarrow> ('s, 'e, 'b) routine) \<Rightarrow> ('s, 'e, 'b) routine" where
  "bindM m k = (\<lambda>s. case m s of (Inl e, t) \<Rightarrow> (Inl e, t) | (Inr x, t) \<Rightarrow> k x t)"

text \<open>\<^verbatim>\<open>attempt m k\<close> is a \<^verbatim>\<open>match\<close> on the result of a call: the continuation sees the error as a value.\<close>

definition attempt ::
    "('s, 'e, 'a) routine \<Rightarrow> (('e, 'a) result \<Rightarrow> ('s, 'f, 'b) routine) \<Rightarrow> ('s, 'f, 'b) routine" where
  "attempt m k = (\<lambda>s. case m s of (r, t) \<Rightarrow> k r t)"

definition liftR :: "('e, 'a) result \<Rightarrow> ('s, 'e, 'a) routine" where
  "liftR r = (\<lambda>s. (r, s))"

text \<open>Reading a value out of the state, changing it, and running a method on a component of it.\<close>

definition reading :: "('s \<Rightarrow> ('e, 'a) result) \<Rightarrow> ('s, 'e, 'a) routine" where
  "reading f = (\<lambda>s. (f s, s))"

definition modify :: "('s \<Rightarrow> 's) \<Rightarrow> ('s, 'e, unit) routine" where
  "modify f = (\<lambda>s. (Inr (), f s))"

definition within ::
    "('s \<Rightarrow> 't) \<Rightarrow> ('t \<Rightarrow> 's \<Rightarrow> 's) \<Rightarrow> ('t, 'e, 'a) routine \<Rightarrow> ('s, 'e, 'a) routine" where
  "within get put m = (\<lambda>s. case m (get s) of (r, t) \<Rightarrow> (r, put t s))"

text \<open>\<^verbatim>\<open>map_err\<close> on the result of a call.\<close>

definition on_err :: "('e \<Rightarrow> 'f) \<Rightarrow> ('s, 'e, 'a) routine \<Rightarrow> ('s, 'f, 'a) routine" where
  "on_err f m = (\<lambda>s. case m s of (r, t) \<Rightarrow> (map_err f r, t))"

lemma bindR_simps [simp]:
  "bindR (Inl e) k = Inl e"
  "bindR (Inr x) k = k x"
  by (simp_all add: bindR_def)

lemma bindR_eq_Inr [simp]: "bindR r k = Inr y \<longleftrightarrow> (\<exists>x. r = Inr x \<and> k x = Inr y)"
  by (cases r) auto

lemma bindR_eq_Inl: "bindR r k = Inl e \<longleftrightarrow> r = Inl e \<or> (\<exists>x. r = Inr x \<and> k x = Inl e)"
  by (cases r) auto

lemma require_eq [simp]:
  "require b e = Inr u \<longleftrightarrow> b"
  "require b e = Inl f \<longleftrightarrow> \<not> b \<and> f = e"
  by (auto simp: require_def)

lemma require_simps [simp]:
  "require True e = Inr ()"
  "require False e = Inl e"
  by (simp_all add: require_def)

lemma ok_or_eq [simp]:
  "ok_or v e = Inr x \<longleftrightarrow> v = Some x"
  "ok_or v e = Inl f \<longleftrightarrow> v = None \<and> f = e"
  by (auto simp: ok_or_def split: option.splits)

lemma ok_or_simps [simp]:
  "ok_or None e = Inl e"
  "ok_or (Some x) e = Inr x"
  by (simp_all add: ok_or_def)

lemma map_err_simps [simp]:
  "map_err f (Inl e) = Inl (f e)"
  "map_err f (Inr x) = Inr x"
  by (simp_all add: map_err_def)

lemma map_err_eq_Inr [simp]: "map_err f r = Inr x \<longleftrightarrow> r = Inr x"
  by (cases r) auto

lemma is_ok_simps [simp]:
  "is_ok (Inl e) = False"
  "is_ok (Inr x) = True"
  by (simp_all add: is_ok_def)

section \<open>Outcome predicate of a method\<close>

text \<open>
  \<^verbatim>\<open>wp m Q E s\<close> says that running \<^verbatim>\<open>m\<close> from \<^verbatim>\<open>s\<close> ends either normally in \<^verbatim>\<open>Q\<close> or with an
  error in \<^verbatim>\<open>E\<close>.  Methods are total functions, so the predicate is a claim about a run that
  does end.
\<close>

definition wp ::
    "('s, 'e, 'a) routine \<Rightarrow> ('a \<Rightarrow> 's \<Rightarrow> bool) \<Rightarrow> ('e \<Rightarrow> 's \<Rightarrow> bool) \<Rightarrow> 's \<Rightarrow> bool" where
  "wp m Q E s = (case m s of (Inl e, t) \<Rightarrow> E e t | (Inr x, t) \<Rightarrow> Q x t)"

lemma wp_ret [wp_simps]: "wp (ret x) Q E s = Q x s"
  by (simp add: wp_def ret_def)

lemma wp_fail [wp_simps]: "wp (fail e) Q E s = E e s"
  by (simp add: wp_def fail_def)

lemma wp_bindM [wp_simps]: "wp (bindM m k) Q E s = wp m (\<lambda>x. wp (k x) Q E) E s"
  by (auto simp: wp_def bindM_def split: prod.splits sum.splits)

lemma wp_attempt [wp_simps]:
  "wp (attempt m k) Q E s = wp m (\<lambda>x. wp (k (Inr x)) Q E) (\<lambda>e. wp (k (Inl e)) Q E) s"
  by (auto simp: wp_def attempt_def split: prod.splits sum.splits)

lemma wp_liftR [wp_simps]:
  "wp (liftR r) Q E s = (case r of Inl e \<Rightarrow> E e s | Inr x \<Rightarrow> Q x s)"
  by (simp add: wp_def liftR_def split: sum.splits)

lemma wp_reading [wp_simps]:
  "wp (reading f) Q E s = (case f s of Inl e \<Rightarrow> E e s | Inr x \<Rightarrow> Q x s)"
  by (simp add: wp_def reading_def split: sum.splits)

lemma wp_modify [wp_simps]: "wp (modify f) Q E s = Q () (f s)"
  by (simp add: wp_def modify_def)

lemma wp_within [wp_simps]:
  "wp (within g p m) Q E s = wp m (\<lambda>x t. Q x (p t s)) (\<lambda>e t. E e (p t s)) (g s)"
  by (auto simp: wp_def within_def split: prod.splits sum.splits)

lemma wp_on_err [wp_simps]: "wp (on_err f m) Q E s = wp m Q (\<lambda>e. E (f e)) s"
  by (auto simp: wp_def on_err_def split: prod.splits sum.splits)

text \<open>The same equations before the state is applied, for rewriting in the continuation of a call.\<close>

lemma wp_pure_fun:
  "wp (ret x) Q E = Q x"
  "wp (fail e) Q E = E e"
  "wp (liftR (Inl e)) Q E = E e"
  "wp (liftR (Inr x)) Q E = Q x"
  by (simp_all add: fun_eq_iff wp_simps)

lemma wp_bindM_fun: "wp (bindM m k) Q E = wp m (\<lambda>x. wp (k x) Q E) E"
  by (simp add: fun_eq_iff wp_simps)

lemma wp_attempt_fun:
  "wp (attempt m k) Q E = wp m (\<lambda>x. wp (k (Inr x)) Q E) (\<lambda>e. wp (k (Inl e)) Q E)"
  by (simp add: fun_eq_iff wp_simps)

lemma wp_modify_fun: "wp (modify f) Q E = (\<lambda>s. Q () (f s))"
  by (simp add: fun_eq_iff wp_simps)

lemma wp_on_err_fun: "wp (on_err f m) Q E = wp m Q (\<lambda>e. E (f e))"
  by (simp add: fun_eq_iff wp_simps)

lemmas wp_funs = wp_pure_fun wp_bindM_fun wp_attempt_fun wp_modify_fun wp_on_err_fun

lemma wp_mono:
  assumes "wp m Q E s"
    and "\<And>x t. Q x t \<Longrightarrow> Q' x t"
    and "\<And>e t. E e t \<Longrightarrow> E' e t"
  shows "wp m Q' E' s"
  using assms by (auto simp: wp_def split: prod.splits sum.splits)

lemma wp_conj:
  "wp m (\<lambda>x t. Q x t \<and> Q' x t) (\<lambda>e t. E e t \<and> E' e t) s \<longleftrightarrow> wp m Q E s \<and> wp m Q' E' s"
  by (auto simp: wp_def split: prod.splits sum.splits)

section \<open>Relations every step of a method keeps\<close>

text \<open>
  \<^verbatim>\<open>moves R m\<close>: every run of \<^verbatim>\<open>m\<close>, failing runs included, moves the state along \<^verbatim>\<open>R\<close>.  For a
  reflexive and transitive \<^verbatim>\<open>R\<close> the property passes through the combinators, so a long handler
  moves along \<^verbatim>\<open>R\<close> as soon as its primitive steps do.
\<close>

definition moves :: "('s \<Rightarrow> 's \<Rightarrow> bool) \<Rightarrow> ('s, 'e, 'a) routine \<Rightarrow> bool" where
  "moves R m = (\<forall>s. R s (snd (m s)))"

lemma movesD: "moves R m \<Longrightarrow> R s (snd (m s))"
  by (simp add: moves_def)

lemma wp_state: "wp m (\<lambda>_. P) (\<lambda>_. P) s = P (snd (m s))"
  by (simp add: wp_def split: prod.splits sum.splits)

lemma moves_wp: "moves R m \<longleftrightarrow> (\<forall>s. wp m (\<lambda>_. R s) (\<lambda>_. R s) s)"
  by (simp add: moves_def wp_state)

lemma moves_if [moves_intros]:
  "(b \<Longrightarrow> moves R m) \<Longrightarrow> (\<not> b \<Longrightarrow> moves R n) \<Longrightarrow> moves R (if b then m else n)"
  by simp

lemma moves_case_option [moves_intros]:
  "(v = None \<Longrightarrow> moves R m) \<Longrightarrow> (\<And>x. v = Some x \<Longrightarrow> moves R (n x)) \<Longrightarrow>
    moves R (case v of None \<Rightarrow> m | Some x \<Rightarrow> n x)"
  by (cases v) auto

lemma moves_case_sum [moves_intros]:
  "(\<And>e. v = Inl e \<Longrightarrow> moves R (m e)) \<Longrightarrow> (\<And>x. v = Inr x \<Longrightarrow> moves R (n x)) \<Longrightarrow>
    moves R (case v of Inl e \<Rightarrow> m e | Inr x \<Rightarrow> n x)"
  by (cases v) auto

lemma moves_case_prod [moves_intros]:
  "(\<And>x y. v = (x, y) \<Longrightarrow> moves R (m x y)) \<Longrightarrow> moves R (case v of (x, y) \<Rightarrow> m x y)"
  by (cases v) auto

lemma moves_on_err [moves_intros]: "moves R m \<Longrightarrow> moves R (on_err f m)"
  by (simp add: moves_wp wp_on_err)

lemma moves_let [moves_intros]:
  "(\<And>x. x = v \<Longrightarrow> moves R (m x)) \<Longrightarrow> moves R (let x = v in m x)"
  by simp

locale step_relation =
  fixes R :: "'s \<Rightarrow> 's \<Rightarrow> bool"
  assumes R_refl: "R s s"
    and R_trans: "R s t \<Longrightarrow> R t u \<Longrightarrow> R s u"
begin

lemma moves_pure:
  "moves R (ret x)" "moves R (fail e)" "moves R (liftR r)" "moves R (reading f)"
  by (simp_all add: moves_def ret_def fail_def liftR_def reading_def R_refl)

lemma moves_bindM:
  assumes "moves R m" and "\<And>x. moves R (k x)"
  shows "moves R (bindM m k)"
proof (unfold moves_def, intro allI)
  fix s
  obtain r t where run: "m s = (r, t)" by (cases "m s")
  have first: "R s t" using assms(1) movesD [of R m s] by (simp add: run)
  show "R s (snd (bindM m k s))"
  proof (cases r)
    case (Inr x)
    then show ?thesis
      using first R_trans movesD [OF assms(2), of t x] by (simp add: bindM_def run)
  qed (simp add: bindM_def run first)
qed

lemma moves_attempt:
  assumes "moves R m" and "\<And>r. moves R (k r)"
  shows "moves R (attempt m k)"
proof (unfold moves_def, intro allI)
  fix s
  obtain r t where run: "m s = (r, t)" by (cases "m s")
  then show "R s (snd (attempt m k s))"
    using R_trans [of s t] movesD [OF assms(1), of s] movesD [OF assms(2), of t r]
    by (simp add: attempt_def)
qed

lemmas moves_rules = moves_pure moves_bindM moves_attempt

end

text \<open>A state invariant is the step relation that carries it forward.\<close>

definition keeps :: "('s \<Rightarrow> bool) \<Rightarrow> 's \<Rightarrow> 's \<Rightarrow> bool" where
  "keeps P s t = (P s \<longrightarrow> P t)"

interpretation keeps_rel: step_relation "keeps P" for P
  by unfold_locales (auto simp: keeps_def)

section \<open>Byte classes\<close>

definition byte :: "char \<Rightarrow> nat" where
  "byte c = of_char c"

definition is_ascii :: "char \<Rightarrow> bool" where
  "is_ascii c = (byte c < 128)"

definition is_ascii_digit :: "char \<Rightarrow> bool" where
  "is_ascii_digit c = (48 \<le> byte c \<and> byte c \<le> 57)"

definition is_ascii_lowercase :: "char \<Rightarrow> bool" where
  "is_ascii_lowercase c = (97 \<le> byte c \<and> byte c \<le> 122)"

definition is_ascii_uppercase :: "char \<Rightarrow> bool" where
  "is_ascii_uppercase c = (65 \<le> byte c \<and> byte c \<le> 90)"

definition is_ascii_alphabetic :: "char \<Rightarrow> bool" where
  "is_ascii_alphabetic c = (is_ascii_lowercase c \<or> is_ascii_uppercase c)"

definition is_ascii_alphanumeric :: "char \<Rightarrow> bool" where
  "is_ascii_alphanumeric c = (is_ascii_alphabetic c \<or> is_ascii_digit c)"

definition is_ascii_hexdigit :: "char \<Rightarrow> bool" where
  "is_ascii_hexdigit c =
    (is_ascii_digit c \<or> (97 \<le> byte c \<and> byte c \<le> 102) \<or> (65 \<le> byte c \<and> byte c \<le> 70))"

definition is_ascii_graphic :: "char \<Rightarrow> bool" where
  "is_ascii_graphic c = (33 \<le> byte c \<and> byte c \<le> 126)"

definition is_ascii_control :: "char \<Rightarrow> bool" where
  "is_ascii_control c = (byte c < 32 \<or> byte c = 127)"

lemmas byte_class_defs =
  is_ascii_def is_ascii_digit_def is_ascii_lowercase_def is_ascii_uppercase_def
  is_ascii_alphabetic_def is_ascii_alphanumeric_def is_ascii_hexdigit_def is_ascii_graphic_def
  is_ascii_control_def

lemma byte_less [simp]: "byte c < 256"
  by (simp add: byte_def)

lemma char_of_byte [simp]: "char_of (byte c) = c"
  by (simp add: byte_def)

lemma byte_char_of [simp]: "byte (char_of n) = n mod 256"
  by (simp add: byte_def)

lemma byte_inject [simp]: "byte c = byte d \<longleftrightarrow> c = d"
  by (simp add: byte_def)

section \<open>String functions of the standard library\<close>

fun strip_prefix :: "string \<Rightarrow> string \<Rightarrow> string option" where
  "strip_prefix [] s = Some s"
| "strip_prefix (p # ps) [] = None"
| "strip_prefix (p # ps) (c # cs) = (if p = c then strip_prefix ps cs else None)"

definition starts_with :: "string \<Rightarrow> string \<Rightarrow> bool" where
  "starts_with p s = (strip_prefix p s \<noteq> None)"

definition strip_suffix :: "string \<Rightarrow> string \<Rightarrow> string option" where
  "strip_suffix p s = map_option rev (strip_prefix (rev p) (rev s))"

lemma strip_prefix_eq_Some [simp]: "strip_prefix p s = Some t \<longleftrightarrow> s = p @ t"
  by (induction p s rule: strip_prefix.induct) auto

lemma strip_prefix_append [simp]: "strip_prefix p (p @ t) = Some t"
  by simp

lemma starts_with_iff: "starts_with p s \<longleftrightarrow> (\<exists>t. s = p @ t)"
  by (auto simp: starts_with_def)

lemma strip_suffix_eq_Some: "strip_suffix p s = Some t \<longleftrightarrow> s = t @ p"
  by (auto simp: strip_suffix_def) (metis rev_append rev_rev_ident)

text \<open>\<^verbatim>\<open>str::split\<close> on a single separator byte; the result is never empty.\<close>

fun split_on :: "char \<Rightarrow> string \<Rightarrow> string list" where
  "split_on d [] = [[]]"
| "split_on d (c # cs) =
    (if c = d then [] # split_on d cs
     else case split_on d cs of [] \<Rightarrow> [[c]] | w # ws \<Rightarrow> (c # w) # ws)"

text \<open>\<^verbatim>\<open>str::split_once\<close> on a single separator byte.\<close>

fun split_once :: "char \<Rightarrow> string \<Rightarrow> (string \<times> string) option" where
  "split_once d [] = None"
| "split_once d (c # cs) =
    (if c = d then Some ([], cs)
     else map_option (\<lambda>(a, b). (c # a, b)) (split_once d cs))"

fun join_with :: "string \<Rightarrow> string list \<Rightarrow> string" where
  "join_with d [] = []"
| "join_with d [w] = w"
| "join_with d (w # ws) = w @ d @ join_with d ws"

lemma split_on_not_Nil [simp]: "split_on d s \<noteq> []"
  by (induction s) (auto split: list.splits)

lemma join_split_on: "join_with [d] (split_on d s) = s"
proof (induction s)
  case (Cons c cs)
  then show ?case
    by (cases "split_on d cs") (auto split: list.splits, (metis join_with.simps(2,3) list.exhaust append_Cons)+)
qed simp

lemma split_on_no_sep: "d \<notin> set s \<Longrightarrow> split_on d s = [s]"
  by (induction s) auto

lemma split_on_parts: "w \<in> set (split_on d s) \<Longrightarrow> d \<notin> set w"
  by (induction s arbitrary: w) (auto split: list.splits if_splits)

section \<open>Keyed rows\<close>

text \<open>A table is a list of rows; a row is found by the first match on its key.\<close>

lemma set_map_filter: "set (List.map_filter f xs) = {y. \<exists>x \<in> set xs. f x = Some y}"
  by (induction xs) (auto simp: List.map_filter_simps split: option.splits)

lemma find_append:
  "find P (xs @ ys) = (case find P xs of None \<Rightarrow> find P ys | Some x \<Rightarrow> Some x)"
  by (induction xs) auto

lemma find_append_no_match: "\<forall>y \<in> set ys. \<not> P y \<Longrightarrow> find P (xs @ ys) = find P xs"
  by (induction xs) (auto simp: find_None_iff)

lemma find_SomeD: "find P xs = Some x \<Longrightarrow> x \<in> set xs \<and> P x"
  by (induction xs) (auto split: if_splits)

lemma find_key_distinct:
  "distinct (map key xs) \<Longrightarrow> r \<in> set xs \<Longrightarrow> key r = k \<Longrightarrow> find (\<lambda>x. key x = k) xs = Some r"
  by (induction xs) force+

lemma find_map_keep_key:
  "(\<And>x. key (f x) = key x) \<Longrightarrow>
    find (\<lambda>x. key x = k) (map f xs) = map_option f (find (\<lambda>x. key x = k) xs)"
  by (induction xs) auto

lemma map_keep_key [simp]:
  "(\<And>x. key (f x) = key x) \<Longrightarrow> map (\<lambda>x. key (if P x then f x else x)) xs = map key xs"
  by (induction xs) auto

lemma filter_key_single:
  "distinct (map key xs) \<Longrightarrow> length (filter (\<lambda>r. key r = k \<and> P r) xs) \<le> 1"
  by (induction xs) (auto simp: filter_empty_conv, metis imageI)

section \<open>Saturating 64-bit arithmetic\<close>

definition i64_max :: int where
  "i64_max = 9223372036854775807"

definition i64_min :: int where
  "i64_min = -9223372036854775808"

definition sat64 :: "int \<Rightarrow> int" where
  "sat64 n = max i64_min (min i64_max n)"

definition sat_add :: "int \<Rightarrow> int \<Rightarrow> int" where
  "sat_add a b = sat64 (a + b)"

definition sat_sub :: "int \<Rightarrow> int \<Rightarrow> int" where
  "sat_sub a b = sat64 (a - b)"

definition sat_mul :: "int \<Rightarrow> int \<Rightarrow> int" where
  "sat_mul a b = sat64 (a * b)"

definition is_i64 :: "int \<Rightarrow> bool" where
  "is_i64 n = (i64_min \<le> n \<and> n \<le> i64_max)"

lemma sat64_id [simp]: "is_i64 n \<Longrightarrow> sat64 n = n"
  by (auto simp: sat64_def is_i64_def)

lemma sat64_is_i64 [simp]: "is_i64 (sat64 n)"
  by (auto simp: sat64_def is_i64_def i64_max_def i64_min_def)

lemma sat_add_one: "0 \<le> n \<Longrightarrow> n < i64_max \<Longrightarrow> sat_add n 1 = n + 1"
  by (auto simp: sat_add_def sat64_def i64_min_def)

end
