(* ===== verification/Framing.thy ===== *)
theory Framing
  imports Prelude
begin

text \<open>
  Length-prefixed frames of the local sockets (\<^verbatim>\<open>jw-contracts/src/framing.rs\<close>).  The JSON codec of
  the payload type is a pair of arguments: \<^verbatim>\<open>ser\<close> (\<^verbatim>\<open>serde_json::to_vec\<close>) and \<^verbatim>\<open>de\<close>
  (\<^verbatim>\<open>serde_json::from_slice\<close>).  A reader is the bytes it still has to deliver; a writer is an arbitrary
  state with its own \<^verbatim>\<open>write_all\<close> and \<^verbatim>\<open>flush\<close>.
\<close>

datatype frame_error = Empty | TooLarge | Truncated | InvalidJson | Io string

fun frame_error_display :: "frame_error \<Rightarrow> string" where
  "frame_error_display Empty = ''empty frame''"
| "frame_error_display TooLarge = ''frame exceeds limit''"
| "frame_error_display Truncated = ''truncated frame''"
| "frame_error_display InvalidJson = ''invalid frame payload''"
| "frame_error_display (Io e) = ''frame I/O error: '' @ e"

definition IPC_PROTOCOL_VERSION :: nat where
  "IPC_PROTOCOL_VERSION = 1"

definition AUTH_FRAME_MAX_BYTES :: nat where
  "AUTH_FRAME_MAX_BYTES = 16 * 1024"

definition OPS_FRAME_MAX_BYTES :: nat where
  "OPS_FRAME_MAX_BYTES = 256 * 1024"

definition u32_max :: nat where
  "u32_max = 4294967295"

text \<open>\<^verbatim>\<open>u32::to_be_bytes\<close> and \<^verbatim>\<open>u32::from_be_bytes\<close>; the conversion \<^verbatim>\<open>as u32\<close> truncates.\<close>

definition u32_to_be_bytes :: "nat \<Rightarrow> bytes" where
  "u32_to_be_bytes n =
    (let m = n mod 4294967296
     in [char_of (m div 16777216), char_of (m div 65536 mod 256), char_of (m div 256 mod 256),
         char_of (m mod 256)])"

fun u32_from_be_bytes :: "bytes \<Rightarrow> nat" where
  "u32_from_be_bytes [a, b, c, d] = ((byte a * 256 + byte b) * 256 + byte c) * 256 + byte d"
| "u32_from_be_bytes _ = 0"

definition encode_frame :: "('a \<Rightarrow> bytes option) \<Rightarrow> 'a \<Rightarrow> nat \<Rightarrow> (frame_error, bytes) result" where
  "encode_frame ser value maximum =
    bindR (ok_or (ser value) InvalidJson) (\<lambda>payload.
      if payload = [] then Inl Empty
      else if length payload > maximum \<or> length payload > u32_max then Inl TooLarge
      else Inr (u32_to_be_bytes (length payload) @ payload))"

definition decode_frame :: "(bytes \<Rightarrow> 'a option) \<Rightarrow> bytes \<Rightarrow> nat \<Rightarrow> (frame_error, 'a) result" where
  "decode_frame de frame maximum =
    (if length frame < 4 then Inl Truncated
     else
       let len = u32_from_be_bytes (take 4 frame) in
       if len = 0 then Inl Empty
       else if len > maximum then Inl TooLarge
       else
         let payload = drop 4 frame in
         if length payload \<noteq> len then Inl Truncated else ok_or (de payload) InvalidJson)"

text \<open>\<^verbatim>\<open>Read::read_exact\<close>: a source that ends early reports an error and has been drained.\<close>

definition read_exact :: "nat \<Rightarrow> (bytes, frame_error, bytes) routine" where
  "read_exact n = (\<lambda>input.
    if length input < n then (Inl (Io ''failed to fill whole buffer''), [])
    else (Inr (take n input), drop n input))"

definition read_frame :: "(bytes \<Rightarrow> 'a option) \<Rightarrow> nat \<Rightarrow> (bytes, frame_error, 'a) routine" where
  "read_frame de maximum =
    bindM (read_exact 4) (\<lambda>prefix.
      let len = u32_from_be_bytes prefix in
      if len = 0 then fail Empty
      else if len > maximum then fail TooLarge
      else bindM (read_exact len) (\<lambda>payload. liftR (ok_or (de payload) InvalidJson)))"

definition write_frame ::
    "(bytes \<Rightarrow> ('w, string, unit) routine) \<Rightarrow> ('w, string, unit) routine \<Rightarrow>
     ('a \<Rightarrow> bytes option) \<Rightarrow> 'a \<Rightarrow> nat \<Rightarrow> ('w, frame_error, unit) routine" where
  "write_frame write_all flush ser value maximum =
    bindM (liftR (encode_frame ser value maximum)) (\<lambda>frame.
      bindM (\<lambda>w. case write_all frame w of (r, w') \<Rightarrow> (map_err Io r, w')) (\<lambda>_.
        (\<lambda>w. case flush w of (r, w') \<Rightarrow> (map_err Io r, w'))))"

text \<open>Reading a given number of frames off one connection, one after the other.\<close>

fun read_frames :: "(bytes \<Rightarrow> 'a option) \<Rightarrow> nat \<Rightarrow> nat \<Rightarrow> (bytes, frame_error, 'a list) routine" where
  "read_frames de maximum 0 = ret []"
| "read_frames de maximum (Suc n) =
    bindM (read_frame de maximum) (\<lambda>v. bindM (read_frames de maximum n) (\<lambda>vs. ret (v # vs)))"

section \<open>Facts\<close>

lemma u32_be_length [simp]: "length (u32_to_be_bytes n) = 4"
  by (simp add: u32_to_be_bytes_def Let_def)

lemma u32_be_roundtrip [codec_simps]: "n \<le> u32_max \<Longrightarrow> u32_from_be_bytes (u32_to_be_bytes n) = n"
proof -
  assume "n \<le> u32_max"
  then have n: "n < 4294967296" by (simp add: u32_max_def)
  have top: "n div 16777216 < 256" using n by (simp add: less_mult_imp_div_less)
  have parts: "n div 65536 = n div 256 div 256" "n div 16777216 = n div 256 div 256 div 256"
    by (simp_all flip: div_mult2_eq)
  have "((n div 16777216 * 256 + n div 65536 mod 256) * 256 + n div 256 mod 256) * 256 + n mod 256 = n"
    unfolding parts by (simp only: div_mult_mod_eq)
  with top n show ?thesis by (simp add: u32_to_be_bytes_def Let_def)
qed

lemma encode_frame_Inr:
  "encode_frame ser v maximum = Inr f \<longleftrightarrow>
    (\<exists>p. ser v = Some p \<and> p \<noteq> [] \<and> length p \<le> maximum \<and> length p \<le> u32_max
      \<and> f = u32_to_be_bytes (length p) @ p)"
  by (cases "ser v") (auto simp: encode_frame_def)

text \<open>What the codec promises for a value: what it prints, it reads back.\<close>

definition codec_ok :: "('a \<Rightarrow> bytes option) \<Rightarrow> (bytes \<Rightarrow> 'a option) \<Rightarrow> bool" where
  "codec_ok ser de = (\<forall>v p. ser v = Some p \<longrightarrow> de p = Some v)"

lemma read_frame_encoded:
  assumes "codec_ok ser de" "encode_frame ser v maximum = Inr f"
  shows "read_frame de maximum (f @ rest) = (Inr v, rest)"
  using assms
  by (auto simp: encode_frame_Inr read_frame_def read_exact_def bindM_def liftR_def Let_def
      u32_be_roundtrip codec_ok_def)

lemma decode_frame_encoded:
  assumes "codec_ok ser de" "encode_frame ser v maximum = Inr f"
  shows "decode_frame de f maximum = Inr v"
  using assms by (auto simp: encode_frame_Inr decode_frame_def Let_def u32_be_roundtrip codec_ok_def)

section \<open>Properties\<close>


definition witness_ser :: "string \<Rightarrow> bytes option" where
  "witness_ser s = Some (CHR ''.'' # s)"

definition witness_de :: "bytes \<Rightarrow> string option" where
  "witness_de p = (case p of [] \<Rightarrow> None | _ # cs \<Rightarrow> Some cs)"



end
