(* ===== verification/Digests.thy ===== *)
theory Digests
  imports Prelude
begin

text \<open>
  Digests: the error type of the privileged daemon (\<^verbatim>\<open>jw-opsd/src/error.rs\<close>), the textual digest
  format and its parser (\<^verbatim>\<open>jw-opsd/src/digest.rs\<close>), and the digest helpers and identifiers of the
  contracts crate (\<^verbatim>\<open>jw-contracts/src/operation.rs\<close>).  SHA-256 is the function \<^verbatim>\<open>H\<close> every definition
  takes as its first argument; the base64 encoder is the argument \<^verbatim>\<open>b64\<close>.  Serialisation of a
  derived struct is an argument too, passed in as the bytes it produces.
\<close>

section \<open>Errors\<close>

datatype ops_error =
    Rejected string
  | RejectedOwned string
  | Storage string
  | Filesystem string
  | Command string
  | ForensicLockdown

fun ops_error_code :: "ops_error \<Rightarrow> string" where
  "ops_error_code (Rejected code) = code"
| "ops_error_code (RejectedOwned code) = code"
| "ops_error_code (Storage m) = ''ledger_failure''"
| "ops_error_code (Filesystem m) = ''filesystem_failure''"
| "ops_error_code (Command m) = ''command_failure''"
| "ops_error_code ForensicLockdown = ''forensic_lockdown''"

section \<open>Textual digests\<close>

definition hex_digit :: "nat \<Rightarrow> char" where
  "hex_digit n = ''0123456789abcdef'' ! n"

definition hex_byte :: "char \<Rightarrow> string" where
  "hex_byte c = [hex_digit (byte c div 16), hex_digit (byte c mod 16)]"

fun hex_bytes :: "bytes \<Rightarrow> string" where
  "hex_bytes [] = []"
| "hex_bytes (c # cs) = hex_byte c @ hex_bytes cs"

definition format_sha256 :: "bytes \<Rightarrow> string" where
  "format_sha256 bs = ''sha256:'' @ hex_bytes bs"

definition sha256_from_raw :: "bytes \<Rightarrow> string" where
  "sha256_from_raw bs = ''sha256:'' @ hex_bytes bs"

definition sha256_digest :: "(bytes \<Rightarrow> bytes) \<Rightarrow> bytes \<Rightarrow> string" where
  "sha256_digest H bs = sha256_from_raw (H bs)"

definition NUL :: char where
  "NUL = CHR 0x00"

definition canonical_digest :: "(bytes \<Rightarrow> bytes) \<Rightarrow> bytes \<Rightarrow> bytes \<Rightarrow> string" where
  "canonical_digest H domain canonical = format_sha256 (H (domain @ [NUL] @ canonical))"

text \<open>
  \<^verbatim>\<open>char::to_digit(16)\<close> and \<^verbatim>\<open>u8::from_str_radix(_, 16)\<close>: a single sign is refused, a leading plus
  is skipped, and a value above 255 overflows.
\<close>

definition hex_value :: "char \<Rightarrow> nat option" where
  "hex_value c =
    (if is_ascii_digit c then Some (byte c - 48)
     else if 97 \<le> byte c \<and> byte c \<le> 102 then Some (byte c - 87)
     else if 65 \<le> byte c \<and> byte c \<le> 70 then Some (byte c - 55)
     else None)"

fun hex_accumulate :: "nat \<Rightarrow> string \<Rightarrow> nat option" where
  "hex_accumulate acc [] = Some acc"
| "hex_accumulate acc (c # cs) =
    (case hex_value c of
       None \<Rightarrow> None
     | Some d \<Rightarrow> if acc * 16 + d > 255 then None else hex_accumulate (acc * 16 + d) cs)"

definition u8_from_str_radix16 :: "string \<Rightarrow> nat option" where
  "u8_from_str_radix16 s =
    (case s of
       [] \<Rightarrow> None
     | [c] \<Rightarrow> if c = CHR ''+'' \<or> c = CHR ''-'' then None else hex_accumulate 0 s
     | c # cs \<Rightarrow> if c = CHR ''+'' then hex_accumulate 0 cs else hex_accumulate 0 s)"

text \<open>
  The loop over the 32 output slots.  A slice that would cut a multi-byte character is refused by
  the source before it is parsed; here its bytes are refused by the parser, with the same error.
\<close>

fun decode_slots :: "nat \<Rightarrow> string \<Rightarrow> (ops_error, bytes) result" where
  "decode_slots 0 hex = Inr []"
| "decode_slots (Suc n) hex =
    (case hex of
       a # b # rest \<Rightarrow>
         (case u8_from_str_radix16 [a, b] of
            None \<Rightarrow> Inl ForensicLockdown
          | Some v \<Rightarrow> bindR (decode_slots n rest) (\<lambda>bs. Inr (char_of v # bs)))
     | _ \<Rightarrow> Inl ForensicLockdown)"

definition decode_sha256 :: "string \<Rightarrow> (ops_error, bytes) result" where
  "decode_sha256 value =
    (case strip_prefix ''sha256:'' value of
       None \<Rightarrow> Inl ForensicLockdown
     | Some hex \<Rightarrow> if length hex \<noteq> 64 then Inl ForensicLockdown else decode_slots 32 hex)"

definition ledger_event_digest ::
    "(bytes \<Rightarrow> bytes) \<Rightarrow> string \<Rightarrow> bytes \<Rightarrow> (ops_error, string) result" where
  "ledger_event_digest H previous canonical_event =
    bindR (decode_sha256 previous)
      (\<lambda>raw. Inr (format_sha256 (H (''jw-agent/ledger/v1'' @ [NUL] @ raw @ canonical_event))))"

section \<open>Digest validation and identifiers of the contracts crate\<close>

definition DIGEST_BYTES :: nat where
  "DIGEST_BYTES = 71"

definition is_lower_hex :: "char \<Rightarrow> bool" where
  "is_lower_hex c = (is_ascii_digit c \<or> (97 \<le> byte c \<and> byte c \<le> 102))"

definition validate_digest :: "string \<Rightarrow> (string, unit) result" where
  "validate_digest value =
    (case strip_prefix ''sha256:'' value of
       None \<Rightarrow> Inl ''digest''
     | Some hex \<Rightarrow>
         if length value \<noteq> DIGEST_BYTES \<or> \<not> list_all is_lower_hex hex then Inl ''digest''
         else Inr ())"

definition nginx_site_id ::
    "(bytes \<Rightarrow> bytes) \<Rightarrow> (bytes \<Rightarrow> string) \<Rightarrow> string \<Rightarrow> string \<Rightarrow> string" where
  "nginx_site_id H b64 layout_id basename =
    ''ngs_'' @ b64 (take 18 (H (layout_id @ [NUL] @ basename)))"

definition nginx_config_resource_id ::
    "(bytes \<Rightarrow> bytes) \<Rightarrow> (bytes \<Rightarrow> string) \<Rightarrow> string \<Rightarrow> string \<Rightarrow> string" where
  "nginx_config_resource_id H b64 adapter_id basename =
    ''ngc_'' @ b64 (take 18 (H (adapter_id @ [NUL] @ basename)))"

definition nginx_enabled_state_digest :: "(bytes \<Rightarrow> bytes) \<Rightarrow> bool \<Rightarrow> string" where
  "nginx_enabled_state_digest H enabled =
    (let state = if enabled then ''enabled'' else ''disabled''
     in sha256_from_raw (H (''jw-agent/nginx/enabled-state/v1'' @ [NUL] @ state)))"

text \<open>\<^verbatim>\<open>str::trim_start_matches\<close> removes the prefix as often as it occurs.\<close>

function trim_start_matches :: "string \<Rightarrow> string \<Rightarrow> string" where
  "trim_start_matches p s =
    (if p = [] then s
     else case strip_prefix p s of None \<Rightarrow> s | Some t \<Rightarrow> trim_start_matches p t)"
  by pat_completeness auto
termination
  by (relation "measure (length \<circ> snd)") auto

declare trim_start_matches.simps [simp del]

definition service_id :: "(bytes \<Rightarrow> bytes) \<Rightarrow> string \<Rightarrow> string" where
  "service_id H unit_name =
    ''svc_'' @ trim_start_matches ''sha256:'' (sha256_digest H unit_name)"

definition service_state_digest :: "(bytes \<Rightarrow> bytes) \<Rightarrow> string \<Rightarrow> bool \<Rightarrow> string" where
  "service_state_digest H unit_name active =
    sha256_digest H (unit_name @ [NUL] @ [if active then CHR 0x01 else NUL])"

section \<open>Facts\<close>

lemma hex_table:
  "\<forall>n \<in> set [0..<16]. is_lower_hex (hex_digit n) \<and> hex_value (hex_digit n) = Some n
    \<and> byte (hex_digit n) = (if n < 10 then 48 + n else 87 + n)"
  by code_simp

lemma hex_digit_lower: "n < 16 \<Longrightarrow> is_lower_hex (hex_digit n)"
  and hex_value_hex_digit: "n < 16 \<Longrightarrow> hex_value (hex_digit n) = Some n"
  and byte_hex_digit: "n < 16 \<Longrightarrow> byte (hex_digit n) = (if n < 10 then 48 + n else 87 + n)"
  using hex_table by auto

lemma lower_hex_not_plus: "is_lower_hex c \<Longrightarrow> c \<noteq> CHR ''+''"
  by (auto simp: is_lower_hex_def byte_class_defs byte_def)

lemma lower_hex_cases:
  assumes "is_lower_hex c"
  obtains n where "n < 16" "c = hex_digit n" "hex_value c = Some n"
proof -
  define n where "n = (if is_ascii_digit c then byte c - 48 else byte c - 87)"
  have val: "hex_value c = Some n" "n < 16"
    using assms by (auto simp: n_def hex_value_def is_lower_hex_def byte_class_defs)
  have "byte c = byte (hex_digit n)"
    using assms byte_hex_digit [OF val(2)]
    by (auto simp: n_def is_lower_hex_def byte_class_defs split: if_splits)
  with val that show thesis by simp
qed

lemma u8_pair [codec_simps]:
  assumes "a < 16" "b < 16"
  shows "u8_from_str_radix16 [hex_digit a, hex_digit b] = Some (a * 16 + b)"
  using assms lower_hex_not_plus [OF hex_digit_lower [OF assms(1)]]
  by (simp add: u8_from_str_radix16_def hex_value_hex_digit)

lemma hex_bytes_length [simp]: "length (hex_bytes bs) = 2 * length bs"
  by (induction bs) (auto simp: hex_byte_def)

lemma hex_bytes_lower: "list_all is_lower_hex (hex_bytes bs)"
  by (induction bs) (auto simp: hex_byte_def intro!: hex_digit_lower less_mult_imp_div_less)

lemma decode_slots_hex_bytes [codec_simps]:
  "length bs = n \<Longrightarrow> decode_slots n (hex_bytes bs) = Inr bs"
proof (induction bs arbitrary: n)
  case (Cons c cs)
  have "byte c div 16 < 16" using byte_less [of c] by (simp add: less_mult_imp_div_less)
  then show ?case
    using Cons by (cases n) (auto simp: hex_byte_def u8_pair)
qed simp

lemma decode_format [codec_simps]: "length bs = 32 \<Longrightarrow> decode_sha256 (format_sha256 bs) = Inr bs"
  by (simp add: decode_sha256_def format_sha256_def decode_slots_hex_bytes)

lemma format_from_raw: "sha256_from_raw = format_sha256"
  by (auto simp: sha256_from_raw_def format_sha256_def)

lemma hex_bytes_inject: "hex_bytes bs = hex_bytes cs \<Longrightarrow> bs = cs"
proof -
  assume eq: "hex_bytes bs = hex_bytes cs"
  then have "length bs = length cs"
    by (metis hex_bytes_length mult_cancel_left zero_neq_numeral)
  then show ?thesis
    using decode_slots_hex_bytes [of bs "length bs"] decode_slots_hex_bytes [of cs "length bs"] eq
    by simp
qed

lemma format_sha256_inject [simp]: "format_sha256 bs = format_sha256 cs \<longleftrightarrow> bs = cs"
  by (auto simp: format_sha256_def dest: hex_bytes_inject)

lemma lower_hex_is_hex_bytes:
  assumes "list_all is_lower_hex hex" "length hex = 2 * n"
  shows "\<exists>bs. length bs = n \<and> hex = hex_bytes bs"
  using assms
proof (induction n arbitrary: hex)
  case (Suc n)
  then obtain a b rest where hex: "hex = a # b # rest"
    by (metis length_Suc_conv mult_Suc_right numeral_2_eq_2 plus_nat.simps(2))
  with Suc.prems have ab: "is_lower_hex a" "is_lower_hex b" by auto
  from ab(1) obtain i where i: "i < 16" "a = hex_digit i" by (rule lower_hex_cases)
  from ab(2) obtain j where j: "j < 16" "b = hex_digit j" by (rule lower_hex_cases)
  from Suc hex obtain bs where bs: "length bs = n" "rest = hex_bytes bs" by auto
  have "byte (char_of (i * 16 + j)) = i * 16 + j" using i j by simp
  then have "hex = hex_bytes (char_of (i * 16 + j) # bs)"
    using i j bs hex by (simp add: hex_byte_def)
  with bs show ?case by (intro exI [of _ "char_of (i * 16 + j) # bs"]) simp
qed simp

lemma validate_digest_iff:
  "validate_digest v = Inr () \<longleftrightarrow> (\<exists>bs. length bs = 32 \<and> v = format_sha256 bs)"
proof
  assume "validate_digest v = Inr ()"
  then obtain hex where v: "v = ''sha256:'' @ hex" "list_all is_lower_hex hex" "length hex = 2 * 32"
    by (auto simp: validate_digest_def DIGEST_BYTES_def split: option.splits if_splits)
  then show "\<exists>bs. length bs = 32 \<and> v = format_sha256 bs"
    using lower_hex_is_hex_bytes [of hex 32] by (auto simp: format_sha256_def)
next
  assume "\<exists>bs. length bs = 32 \<and> v = format_sha256 bs"
  then show "validate_digest v = Inr ()"
    by (auto simp: validate_digest_def DIGEST_BYTES_def format_sha256_def hex_bytes_lower)
qed

lemma validate_digest_decode:
  "validate_digest v = Inr () \<Longrightarrow> \<exists>raw. decode_sha256 v = Inr raw \<and> length raw = 32 \<and> format_sha256 raw = v"
  by (auto simp: validate_digest_iff decode_format)

lemma decode_slots_length: "decode_slots n hex = Inr bs \<Longrightarrow> length bs = n"
  by (induction n hex arbitrary: bs rule: decode_slots.induct) (auto split: list.splits option.splits)

lemma decode_sha256_length: "decode_sha256 v = Inr raw \<Longrightarrow> length raw = 32"
  by (auto simp: decode_sha256_def split: option.splits if_splits dest: decode_slots_length)

text \<open>The digest size of SHA-256, the only fact about the hash function the proofs use.\<close>

definition sha256_sized :: "(bytes \<Rightarrow> bytes) \<Rightarrow> bool" where
  "sha256_sized H = (\<forall>x. length (H x) = 32)"

lemma ledger_event_digest_valid:
  "sha256_sized H \<Longrightarrow> ledger_event_digest H prev ev = Inr d \<Longrightarrow> validate_digest d = Inr ()"
  by (auto simp: ledger_event_digest_def sha256_sized_def validate_digest_iff)

lemma canonical_digest_valid: "sha256_sized H \<Longrightarrow> validate_digest (canonical_digest H domain v) = Inr ()"
  by (auto simp: canonical_digest_def sha256_sized_def validate_digest_iff)

lemma sha256_digest_valid: "sha256_sized H \<Longrightarrow> validate_digest (sha256_digest H v) = Inr ()"
  by (auto simp: sha256_digest_def format_from_raw sha256_sized_def validate_digest_iff)

section \<open>Properties\<close>

text \<open>
  (C17) A string passes digest validation exactly when it is the printed form of some 32 raw bytes,
  and for those strings the daemon's parser returns these bytes: parsing and printing are inverse
  to each other on validated digests.
\<close>

theorem validated_digest_roundtrip:
  "validate_digest v = Inr () \<longleftrightarrow>
    (\<exists>raw. length raw = 32 \<and> decode_sha256 v = Inr raw \<and> v = format_sha256 raw)"
  by (auto simp: validate_digest_iff decode_format)


end
