(* ===== verification/Contracts.thy ===== *)
theory Contracts
  imports Digests
begin

text \<open>
  The vocabulary of \<^verbatim>\<open>jw-contracts\<close> that both sides of the privileged socket share: subjects and
  roles (\<^verbatim>\<open>auth.rs\<close>), assurance statements (\<^verbatim>\<open>assurance.rs\<close>), operation stages and actions, the
  character rules for identifiers (\<^verbatim>\<open>operation.rs\<close>), and the evidence views a receipt carries
  (\<^verbatim>\<open>operation/command_evidence.rs\<close>, \<^verbatim>\<open>operation/diagnostic.rs\<close>).  Unsigned integers are \<^typ>\<open>nat\<close>
  and \<^verbatim>\<open>i32\<close>/\<^verbatim>\<open>i64\<close> are \<^typ>\<open>int\<close>.
\<close>

section \<open>Subjects\<close>

datatype role = Admin | Operator | Viewer

record subject =
  subj_uid :: nat
  subj_username :: string
  subj_role :: role

datatype ingress_channel = Public | Recovery

fun cookie_name :: "ingress_channel \<Rightarrow> string" where
  "cookie_name Public = ''__Host-jw_session''"
| "cookie_name Recovery = ''jw_recovery_session''"

fun forbidden_cookie_name :: "ingress_channel \<Rightarrow> string" where
  "forbidden_cookie_name Public = ''jw_recovery_session''"
| "forbidden_cookie_name Recovery = ''__Host-jw_session''"

section \<open>Assurance\<close>

datatype assurance_level =
  G0ObserveOnly | G1VerifiedAction | G2ReversibleConfig | G3RestoreValidatedData

datatype rollback_support = NotApplicable | NotGuaranteed | AutomaticBounded | RestoreValidated

record assurance_view =
  av_level :: assurance_level
  av_rollback_support :: rollback_support
  av_operation_available :: bool
  av_scope :: "string list"
  av_excluded_effects :: "string list"
  av_apply_verifier :: "string list"
  av_rollback_verifier :: "string list"
  av_reason :: "string option"

section \<open>Operation names and limits\<close>

definition NGINX_SITE_STATE_OPERATION :: string where
  "NGINX_SITE_STATE_OPERATION = ''nginx.site_state.set/v1''"

definition NGINX_LAYOUT_ID :: string where
  "NGINX_LAYOUT_ID = ''ubuntu-nginx-sites-v1''"

definition MANAGED_CONFIG_OPERATION :: string where
  "MANAGED_CONFIG_OPERATION = ''service.config_file.set/v1''"

definition MANAGED_CONFIG_RESTORE_OPERATION :: string where
  "MANAGED_CONFIG_RESTORE_OPERATION = ''service.config_file.restore/v1''"

definition SERVICE_CONTROL_OPERATION :: string where
  "SERVICE_CONTROL_OPERATION = ''service.lifecycle.set/v1''"

definition UFW_RULE_OPERATION :: string where
  "UFW_RULE_OPERATION = ''ufw.rule.set/v1''"

definition CERTBOT_ISSUE_OPERATION :: string where
  "CERTBOT_ISSUE_OPERATION = ''certbot.certificate.issue/v1''"

definition CERTBOT_RENEW_TEST_OPERATION :: string where
  "CERTBOT_RENEW_TEST_OPERATION = ''certbot.certificate.renew_test/v1''"

definition CERTBOT_ATTACH_OPERATION :: string where
  "CERTBOT_ATTACH_OPERATION = ''certbot.certificate.attach/v1''"

definition OPERATION_SCHEMA_VERSION :: nat where
  "OPERATION_SCHEMA_VERSION = 1"

definition IDEMPOTENCY_KEY_MIN_BYTES :: nat where
  "IDEMPOTENCY_KEY_MIN_BYTES = 16"

definition IDEMPOTENCY_KEY_MAX_BYTES :: nat where
  "IDEMPOTENCY_KEY_MAX_BYTES = 64"

definition PLAN_ID_MAX_BYTES :: nat where
  "PLAN_ID_MAX_BYTES = 64"

definition OPERATION_ID_MAX_BYTES :: nat where
  "OPERATION_ID_MAX_BYTES = 64"

definition MANAGED_CONFIG_MAX_BYTES :: nat where
  "MANAGED_CONFIG_MAX_BYTES = 128 * 1024"

definition NGINX_MANAGEMENT_MARKER :: bytes where
  "NGINX_MANAGEMENT_MARKER = ''jw-agent:protected-management-v1''"

definition NGINX_MANAGEMENT_PROXY_INCLUDE :: bytes where
  "NGINX_MANAGEMENT_PROXY_INCLUDE = ''include /usr/share/jw-agent/nginx/proxy-common.conf;''"

lemmas operation_name_defs =
  NGINX_SITE_STATE_OPERATION_def MANAGED_CONFIG_OPERATION_def MANAGED_CONFIG_RESTORE_OPERATION_def
  SERVICE_CONTROL_OPERATION_def UFW_RULE_OPERATION_def CERTBOT_ISSUE_OPERATION_def
  CERTBOT_RENEW_TEST_OPERATION_def CERTBOT_ATTACH_OPERATION_def

section \<open>Content rules\<close>

definition nginx_internal_temporary_name :: "string \<Rightarrow> bool" where
  "nginx_internal_temporary_name value =
    (case strip_prefix ''.jw-agent-'' value of
       None \<Rightarrow> False
     | Some name \<Rightarrow>
         (case strip_suffix ''.tmp'' name of
            None \<Rightarrow> False
          | Some suffix \<Rightarrow> length suffix = 16 \<and> list_all is_ascii_hexdigit suffix))"

text \<open>\<^verbatim>\<open>std::str::from_utf8\<close>: well-formed byte sequences of the encoding.\<close>

definition is_cont :: "char \<Rightarrow> bool" where
  "is_cont c = (128 \<le> byte c \<and> byte c \<le> 191)"

fun utf8_valid :: "bytes \<Rightarrow> bool" where
  "utf8_valid [] = True"
| "utf8_valid (a # rest) =
    (if byte a < 128 then utf8_valid rest
     else if 194 \<le> byte a \<and> byte a \<le> 223 then
       (case rest of b # r \<Rightarrow> is_cont b \<and> utf8_valid r | _ \<Rightarrow> False)
     else if 224 \<le> byte a \<and> byte a \<le> 239 then
       (case rest of
          b # c # r \<Rightarrow>
            is_cont b \<and> is_cont c \<and> (byte a = 224 \<longrightarrow> 160 \<le> byte b)
              \<and> (byte a = 237 \<longrightarrow> byte b \<le> 159) \<and> utf8_valid r
        | _ \<Rightarrow> False)
     else if 240 \<le> byte a \<and> byte a \<le> 244 then
       (case rest of
          b # c # d # r \<Rightarrow>
            is_cont b \<and> is_cont c \<and> is_cont d \<and> (byte a = 240 \<longrightarrow> 144 \<le> byte b)
              \<and> (byte a = 244 \<longrightarrow> byte b \<le> 143) \<and> utf8_valid r
        | _ \<Rightarrow> False)
     else False)"

definition managed_config_bytes_supported :: "bytes \<Rightarrow> bool" where
  "managed_config_bytes_supported value =
    (utf8_valid value \<and>
     list_all (\<lambda>c. \<not> is_ascii_control c \<or> c = CHR 0x0A \<or> c = CHR 0x0D \<or> c = CHR 0x09) value)"

fun contains_window :: "bytes \<Rightarrow> bytes \<Rightarrow> bool" where
  "contains_window needle [] = (needle = [])"
| "contains_window needle (c # cs) = (starts_with needle (c # cs) \<or> contains_window needle cs)"

definition contains_bytes :: "bytes \<Rightarrow> bytes \<Rightarrow> bool" where
  "contains_bytes value needle = (needle \<noteq> [] \<and> contains_window needle value)"

definition nginx_management_config :: "bytes \<Rightarrow> bool" where
  "nginx_management_config bs =
    (contains_bytes bs NGINX_MANAGEMENT_MARKER \<or> contains_bytes bs NGINX_MANAGEMENT_PROXY_INCLUDE)"

section \<open>Stages and actions\<close>

datatype nginx_site_state = Enabled | Disabled

datatype operation_stage =
    Planned | Approved | Snapshotted | Applying | Validating | Reloading | Verifying
  | RollingBack | Succeeded | RolledBack | RecoveryRequired | Stage_Rejected | Expired
  | CancelledBeforeApply

fun is_terminal :: "operation_stage \<Rightarrow> bool" where
  "is_terminal Succeeded = True"
| "is_terminal RolledBack = True"
| "is_terminal RecoveryRequired = True"
| "is_terminal Stage_Rejected = True"
| "is_terminal Expired = True"
| "is_terminal CancelledBeforeApply = True"
| "is_terminal _ = False"

fun as_storage_value :: "operation_stage \<Rightarrow> string" where
  "as_storage_value Planned = ''PLANNED''"
| "as_storage_value Approved = ''APPROVED''"
| "as_storage_value Snapshotted = ''SNAPSHOTTED''"
| "as_storage_value Applying = ''APPLYING''"
| "as_storage_value Validating = ''VALIDATING''"
| "as_storage_value Reloading = ''RELOADING''"
| "as_storage_value Verifying = ''VERIFYING''"
| "as_storage_value RollingBack = ''ROLLING_BACK''"
| "as_storage_value Succeeded = ''SUCCEEDED''"
| "as_storage_value RolledBack = ''ROLLED_BACK''"
| "as_storage_value RecoveryRequired = ''RECOVERY_REQUIRED''"
| "as_storage_value Stage_Rejected = ''REJECTED''"
| "as_storage_value Expired = ''EXPIRED''"
| "as_storage_value CancelledBeforeApply = ''CANCELLED_BEFORE_APPLY''"

datatype service_action = ValidateOnly | Reload | Restart

fun service_action_value :: "service_action \<Rightarrow> string" where
  "service_action_value ValidateOnly = ''validate_only''"
| "service_action_value Reload = ''reload''"
| "service_action_value Restart = ''restart''"

datatype managed_service_action = SvcStart | SvcStop | SvcRestart | SvcReload

fun managed_service_action_value :: "managed_service_action \<Rightarrow> string" where
  "managed_service_action_value SvcStart = ''start''"
| "managed_service_action_value SvcStop = ''stop''"
| "managed_service_action_value SvcRestart = ''restart''"
| "managed_service_action_value SvcReload = ''reload''"

datatype certificate_environment = Staging | Production

datatype ufw_rule_mutation = Allow | Deny | Delete

fun ufw_rule_mutation_value :: "ufw_rule_mutation \<Rightarrow> string" where
  "ufw_rule_mutation_value Allow = ''allow''"
| "ufw_rule_mutation_value Deny = ''deny''"
| "ufw_rule_mutation_value Delete = ''delete''"

datatype ufw_protocol = Tcp | Udp

fun ufw_protocol_value :: "ufw_protocol \<Rightarrow> string" where
  "ufw_protocol_value Tcp = ''tcp''"
| "ufw_protocol_value Udp = ''udp''"

section \<open>Identifier rules\<close>

definition is_token_char :: "char \<Rightarrow> bool" where
  "is_token_char c = (is_ascii_alphanumeric c \<or> c = CHR ''_'' \<or> c = CHR ''-'')"

definition validate_identifier :: "string \<Rightarrow> string \<Rightarrow> string \<Rightarrow> (string, unit) result" where
  "validate_identifier value prefix error =
    require (\<not> (length value < length prefix + 8 \<or> length value > 64
      \<or> \<not> starts_with prefix value \<or> \<not> list_all is_token_char value)) error"

definition validate_service_identifier :: "string \<Rightarrow> (string, unit) result" where
  "validate_service_identifier value =
    (case strip_prefix ''svc_'' value of
       None \<Rightarrow> Inl ''service_id''
     | Some digest \<Rightarrow>
         if length digest = 64 \<and> list_all is_ascii_hexdigit digest then Inr ()
         else Inl ''service_id'')"

definition validate_ascii_range :: "string \<Rightarrow> nat \<Rightarrow> nat \<Rightarrow> string \<Rightarrow> (string, unit) result" where
  "validate_ascii_range value minimum maximum error =
    (if length value < minimum \<or> length value > maximum \<or> \<not> list_all is_ascii_graphic value
     then Inl error else Inr ())"

definition managed_config_prefixes :: "string list" where
  "managed_config_prefixes =
    [''ngc_'', ''ngf_'', ''ngm_'', ''ngd_'', ''apf_'', ''apm_'', ''app_'', ''apc_'', ''aps_'', ''php_'']"

definition validate_managed_config_resource_id :: "string \<Rightarrow> (string, unit) result" where
  "validate_managed_config_resource_id value =
    (case find (\<lambda>prefix. starts_with prefix value) managed_config_prefixes of
       Some prefix \<Rightarrow> validate_identifier value prefix ''resource_id''
     | None \<Rightarrow> Inl ''resource_id'')"

section \<open>Evidence views\<close>

record command_evidence_view =
  cv_class :: string
  cv_success :: bool
  cv_exit_code :: "int option"
  cv_timed_out :: bool
  cv_stdout_digest :: string
  cv_stdout_truncated :: bool
  cv_stderr_digest :: string
  cv_stderr_truncated :: bool

definition validate_command_shape :: "command_evidence_view \<Rightarrow> (string, unit) result" where
  "validate_command_shape c =
    (if cv_class c = [] \<or> length (cv_class c) > 64
        \<or> \<not> list_all (\<lambda>b. is_ascii_lowercase b \<or> is_ascii_digit b \<or> b = CHR ''_'') (cv_class c)
     then Inl ''command_class''
     else if cv_success c \<and> (cv_timed_out c \<or> cv_exit_code c \<noteq> Some 0) then Inl ''command_success''
     else bindR (validate_digest (cv_stdout_digest c)) (\<lambda>_. validate_digest (cv_stderr_digest c)))"

datatype diagnostic_severity = DiagError | DiagWarning

record diagnostic_view =
  dv_service :: string
  dv_validator :: string
  dv_resource_id :: "string option"
  dv_masked_path :: "string option"
  dv_line :: "nat option"
  dv_column :: "nat option"
  dv_severity :: diagnostic_severity
  dv_code :: string
  dv_message :: string
  dv_related_changed_lines :: "nat list"
  dv_cause_candidate_lines :: "nat list"

definition validate_diagnostic_shape :: "diagnostic_view \<Rightarrow> (string, unit) result" where
  "validate_diagnostic_shape d =
    bindR (validate_ascii_range (dv_service d) 1 32 ''diagnostic_service'') (\<lambda>_.
    bindR (validate_ascii_range (dv_validator d) 1 64 ''diagnostic_validator'') (\<lambda>_.
    bindR (case dv_resource_id d of
             None \<Rightarrow> Inr ()
           | Some r \<Rightarrow> validate_managed_config_resource_id r) (\<lambda>_.
    bindR (case dv_masked_path d of
             None \<Rightarrow> Inr ()
           | Some p \<Rightarrow> require (\<not> (p = [] \<or> length p > 512 \<or> list_ex is_ascii_control p))
               ''diagnostic_masked_path'') (\<lambda>_.
    bindR (require (dv_line d \<noteq> Some 0) ''diagnostic_line'') (\<lambda>_.
    bindR (require (dv_column d \<noteq> Some 0) ''diagnostic_column'') (\<lambda>_.
    bindR (validate_ascii_range (dv_code d) 1 96 ''diagnostic_code'') (\<lambda>_.
    bindR (require (\<not> (dv_message d = [] \<or> length (dv_message d) > 240
        \<or> list_ex is_ascii_control (dv_message d))) ''diagnostic_message'') (\<lambda>_.
    bindR (require (\<not> (length (dv_related_changed_lines d) > 16
        \<or> 0 \<in> set (dv_related_changed_lines d))) ''diagnostic_related_lines'') (\<lambda>_.
    require (\<not> (length (dv_cause_candidate_lines d) > 16
        \<or> 0 \<in> set (dv_cause_candidate_lines d))) ''diagnostic_cause_candidate_lines'')))))))))"

definition DIAGNOSTIC_MAX_ENTRIES :: nat where
  "DIAGNOSTIC_MAX_ENTRIES = 32"

section \<open>Facts\<close>

lemma storage_value_inject [simp]: "as_storage_value a = as_storage_value b \<longleftrightarrow> a = b"
  by (cases a; cases b) simp_all

lemma contains_window_iff: "contains_window needle s \<longleftrightarrow> (\<exists>a b. s = a @ needle @ b)"
proof (induction s)
  case (Cons c cs)
  have "(\<exists>a b. c # cs = a @ needle @ b) \<longleftrightarrow>
      (\<exists>b. c # cs = needle @ b) \<or> (\<exists>a b. cs = a @ needle @ b)"
    by (metis append_Cons append_Nil list.exhaust list.inject)
  with Cons show ?case by (simp add: starts_with_iff)
qed auto

lemma managed_config_prefix_length: "p \<in> set managed_config_prefixes \<Longrightarrow> length p = 4"
  by (auto simp: managed_config_prefixes_def)

lemma validate_managed_config_resource_id_ok:
  "validate_managed_config_resource_id v = Inr () \<Longrightarrow>
    12 \<le> length v \<and> length v \<le> 64 \<and> list_all is_token_char v"
  by (auto simp: validate_managed_config_resource_id_def validate_identifier_def find_Some_iff
      split: option.splits dest!: nth_mem managed_config_prefix_length)

end
