(* ===== verification/Ip_Address.thy ===== *)
theory Ip_Address
  imports Digests
begin

text \<open>
  \<^verbatim>\<open>std::net::IpAddr\<close> as far as the contracts use it: the parser behind \<^verbatim>\<open>FromStr\<close>, \<^verbatim>\<open>Display\<close>, and
  the derived order.  The parser functions consume a prefix of the text and return the rest, as
  the parser object of the standard library does; \<^verbatim>\<open>None\<close> leaves the text unconsumed.
\<close>

datatype ip_addr = V4 "nat list" | V6 "nat list"

section \<open>Parsing\<close>

definition digit_in :: "nat \<Rightarrow> char \<Rightarrow> nat option" where
  "digit_in radix c = (case hex_value c of None \<Rightarrow> None | Some d \<Rightarrow> if d < radix then Some d else None)"

text \<open>Digits read so far, their value, and the rest; \<^verbatim>\<open>None\<close> once there are more than \<^verbatim>\<open>limit\<close>.\<close>

fun read_digits :: "nat \<Rightarrow> nat \<Rightarrow> nat \<Rightarrow> nat \<Rightarrow> string \<Rightarrow> (nat \<times> nat \<times> string) option" where
  "read_digits radix limit count acc [] = Some (count, acc, [])"
| "read_digits radix limit count acc (c # cs) =
    (case digit_in radix c of
       None \<Rightarrow> Some (count, acc, c # cs)
     | Some d \<Rightarrow> if count + 1 > limit then None else read_digits radix limit (count + 1) (acc * radix + d) cs)"

definition read_number :: "nat \<Rightarrow> nat \<Rightarrow> bool \<Rightarrow> nat \<Rightarrow> string \<Rightarrow> (nat \<times> string) option" where
  "read_number radix limit allow_zero_prefix maximum s =
    (case read_digits radix limit 0 0 s of
       None \<Rightarrow> None
     | Some (count, value, rest) \<Rightarrow>
         if value > maximum \<or> count = 0
            \<or> (\<not> allow_zero_prefix \<and> starts_with ''0'' s \<and> count > 1)
         then None else Some (value, rest))"

definition read_given_char :: "char \<Rightarrow> string \<Rightarrow> string option" where
  "read_given_char d s = (case s of c # cs \<Rightarrow> if c = d then Some cs else None | [] \<Rightarrow> None)"

text \<open>A separator is read before every group but the first.\<close>

definition read_separator :: "char \<Rightarrow> nat \<Rightarrow> (string \<Rightarrow> ('a \<times> string) option) \<Rightarrow> string \<Rightarrow> ('a \<times> string) option" where
  "read_separator d index inner s =
    (if index > 0 then (case read_given_char d s of None \<Rightarrow> None | Some rest \<Rightarrow> inner rest) else inner s)"

fun read_octets :: "nat \<Rightarrow> nat \<Rightarrow> string \<Rightarrow> (nat list \<times> string) option" where
  "read_octets index 0 s = Some ([], s)"
| "read_octets index (Suc n) s =
    (case read_separator (CHR ''.'') index (read_number 10 3 False 255) s of
       None \<Rightarrow> None
     | Some (octet, rest) \<Rightarrow>
         map_option (\<lambda>(octets, final). (octet # octets, final)) (read_octets (index + 1) n rest))"

definition read_ipv4 :: "string \<Rightarrow> (nat list \<times> string) option" where
  "read_ipv4 s = read_octets 0 4 s"

text \<open>
  \<^verbatim>\<open>read_groups index limit\<close>: the groups read, whether they end with an embedded dotted address
  (which needs room for two groups), and the rest.
\<close>

fun read_groups :: "nat \<Rightarrow> nat \<Rightarrow> string \<Rightarrow> nat list \<times> bool \<times> string" where
  "read_groups index 0 s = ([], False, s)"
| "read_groups index (Suc n) s =
    (case (if n > 0 then read_separator (CHR '':'') index read_ipv4 s else None) of
       Some ([a, b, c, d], rest) \<Rightarrow> ([a * 256 + b, c * 256 + d], True, rest)
     | _ \<Rightarrow>
         (case read_separator (CHR '':'') index (read_number 16 4 True 65535) s of
            None \<Rightarrow> ([], False, s)
          | Some (g, rest) \<Rightarrow>
              (case read_groups (index + 1) n rest of
                 (groups, v4, final) \<Rightarrow> (g # groups, v4, final))))"

definition read_ipv6 :: "string \<Rightarrow> (nat list \<times> string) option" where
  "read_ipv6 s =
    (case read_groups 0 8 s of
       (head_groups, head_ipv4, rest) \<Rightarrow>
         if length head_groups = 8 then Some (head_groups, rest)
         else if head_ipv4 then None
         else
           (case read_given_char (CHR '':'') rest of
              None \<Rightarrow> None
            | Some rest1 \<Rightarrow>
                (case read_given_char (CHR '':'') rest1 of
                   None \<Rightarrow> None
                 | Some rest2 \<Rightarrow>
                     (case read_groups 0 (8 - (length head_groups + 1)) rest2 of
                        (tail_groups, _, final) \<Rightarrow>
                          Some (head_groups @ replicate (8 - length head_groups - length tail_groups) 0
                                  @ tail_groups, final)))))"

definition parse_ip :: "string \<Rightarrow> ip_addr option" where
  "parse_ip s =
    (case read_ipv4 s of
       Some (octets, rest) \<Rightarrow> if rest = [] then Some (V4 octets) else None
     | None \<Rightarrow>
         (case read_ipv6 s of
            Some (groups, rest) \<Rightarrow> if rest = [] then Some (V6 groups) else None
          | None \<Rightarrow> None))"

section \<open>Printing\<close>

text \<open>
  Positional notation of an integer of at most 64 bits: 20 digits are enough for the radixes in use
  (8, 10 and 16), except that an octal text needs 22.
\<close>

primrec print_digits :: "nat \<Rightarrow> nat \<Rightarrow> nat \<Rightarrow> string" where
  "print_digits radix 0 n = []"
| "print_digits radix (Suc k) n =
    (if n < radix then [hex_digit n] else print_digits radix k (n div radix) @ [hex_digit (n mod radix)])"

definition decimal :: "nat \<Rightarrow> string" where
  "decimal n = print_digits 10 20 n"

definition hexadecimal :: "nat \<Rightarrow> string" where
  "hexadecimal n = print_digits 16 20 n"

definition octal :: "nat \<Rightarrow> string" where
  "octal n = print_digits 8 22 n"

text \<open>The first longest run of zero groups as start and length, scanned from the left.\<close>

fun longest_zeros :: "nat \<Rightarrow> nat \<times> nat \<Rightarrow> nat \<times> nat \<Rightarrow> nat list \<Rightarrow> nat \<times> nat" where
  "longest_zeros index best run [] = best"
| "longest_zeros index best run (g # gs) =
    (if g = 0 then
       let run' = (if snd run = 0 then (index, 1) else (fst run, snd run + 1));
           best' = (if snd run' > snd best then run' else best)
       in longest_zeros (index + 1) best' run' gs
     else longest_zeros (index + 1) best (0, 0) gs)"

definition print_v4 :: "nat list \<Rightarrow> string" where
  "print_v4 octets = join_with ''.'' (map decimal octets)"

definition print_groups :: "nat list \<Rightarrow> string" where
  "print_groups gs = join_with '':'' (map hexadecimal gs)"

definition print_v6 :: "nat list \<Rightarrow> string" where
  "print_v6 gs =
    (if take 6 gs = [0, 0, 0, 0, 0, 65535] then
       ''::ffff:'' @ print_v4 (concat (map (\<lambda>g. [g div 256, g mod 256]) (drop 6 gs)))
     else
       case longest_zeros 0 (0, 0) (0, 0) gs of
         (start, len) \<Rightarrow>
           if len > 1 then print_groups (take start gs) @ ''::'' @ print_groups (drop (start + len) gs)
           else print_groups gs)"

fun print_ip :: "ip_addr \<Rightarrow> string" where
  "print_ip (V4 octets) = print_v4 octets"
| "print_ip (V6 groups) = print_v6 groups"

section \<open>Order\<close>

fun lex_le :: "nat list \<Rightarrow> nat list \<Rightarrow> bool" where
  "lex_le [] ys = True"
| "lex_le (x # xs) [] = False"
| "lex_le (x # xs) (y # ys) = (x < y \<or> (x = y \<and> lex_le xs ys))"

fun ip_le :: "ip_addr \<Rightarrow> ip_addr \<Rightarrow> bool" where
  "ip_le (V4 a) (V4 b) = lex_le a b"
| "ip_le (V4 a) (V6 b) = True"
| "ip_le (V6 a) (V4 b) = False"
| "ip_le (V6 a) (V6 b) = lex_le a b"

end
