(* ===== verification/Requests.thy ===== *)
theory Requests
  imports Contracts Ip_Address
begin

text \<open>
  The requests of the privileged socket and their validation: plans and approvals of
  \<^verbatim>\<open>jw-contracts/src/operation.rs\<close>, the firewall requests of \<^verbatim>\<open>firewall.rs\<close>, the certificate requests
  and the command protocol of the certificate daemon of \<^verbatim>\<open>certificate.rs\<close>, and the envelope
  \<^verbatim>\<open>OpsRequest\<close>.  A validator returns the code of the first rule that is broken.
\<close>

section \<open>Shared rules\<close>

definition validate_key :: "string \<Rightarrow> (string, unit) result" where
  "validate_key value =
    validate_ascii_range value IDEMPOTENCY_KEY_MIN_BYTES IDEMPOTENCY_KEY_MAX_BYTES ''idempotency_key''"

definition validate_token :: "string \<Rightarrow> nat \<Rightarrow> nat \<Rightarrow> string \<Rightarrow> (string, unit) result" where
  "validate_token value minimum maximum code =
    (if length value < minimum \<or> length value > maximum \<or> \<not> list_all is_token_char value
     then Inl code else Inr ())"

section \<open>Nginx sites and services\<close>

record nginx_site_state_plan_request =
  np_schema_version :: nat
  np_operation_type :: string
  np_site_id :: string
  np_target_state :: nginx_site_state
  np_expected_available_digest :: string
  np_expected_enabled_state_digest :: string
  np_idempotency_key :: string

definition validate_nginx_plan :: "nginx_site_state_plan_request \<Rightarrow> (string, unit) result" where
  "validate_nginx_plan r =
    (if np_schema_version r \<noteq> OPERATION_SCHEMA_VERSION then Inl ''schema_version''
     else if np_operation_type r \<noteq> NGINX_SITE_STATE_OPERATION then Inl ''operation_type''
     else
       bindR (validate_identifier (np_site_id r) ''ngs_'' ''site_id'') (\<lambda>_.
       bindR (validate_digest (np_expected_available_digest r)) (\<lambda>_.
       bindR (validate_digest (np_expected_enabled_state_digest r)) (\<lambda>_.
       validate_key (np_idempotency_key r)))))"

record service_control_plan_request =
  scp_schema_version :: nat
  scp_operation_type :: string
  scp_service_id :: string
  scp_action :: managed_service_action
  scp_expected_state_digest :: string
  scp_idempotency_key :: string

definition validate_service_plan :: "service_control_plan_request \<Rightarrow> (string, unit) result" where
  "validate_service_plan r =
    (if scp_schema_version r \<noteq> OPERATION_SCHEMA_VERSION then Inl ''schema_version''
     else if scp_operation_type r \<noteq> SERVICE_CONTROL_OPERATION then Inl ''operation_type''
     else
       bindR (validate_service_identifier (scp_service_id r)) (\<lambda>_.
       bindR (validate_digest (scp_expected_state_digest r)) (\<lambda>_.
       validate_key (scp_idempotency_key r))))"

record impact_approval_request =
  ia_schema_version :: nat
  ia_plan_id :: string
  ia_plan_hash :: string
  ia_idempotency_key :: string
  ia_impact_confirmed :: bool

definition validate_approval_ids :: "string \<Rightarrow> string \<Rightarrow> string \<Rightarrow> (string, unit) result" where
  "validate_approval_ids plan_id plan_hash idempotency_key =
    bindR (validate_ascii_range plan_id 1 PLAN_ID_MAX_BYTES ''plan_id'') (\<lambda>_.
    bindR (validate_digest plan_hash) (\<lambda>_. validate_key idempotency_key))"

definition validate_service_approval :: "impact_approval_request \<Rightarrow> (string, unit) result" where
  "validate_service_approval r =
    (if ia_schema_version r \<noteq> OPERATION_SCHEMA_VERSION \<or> \<not> ia_impact_confirmed r then Inl ''approval''
     else validate_approval_ids (ia_plan_id r) (ia_plan_hash r) (ia_idempotency_key r))"

section \<open>Managed configuration\<close>

record managed_config_plan_request =
  mc_schema_version :: nat
  mc_operation_type :: string
  mc_resource_id :: string
  mc_expected_content_digest :: string
  mc_expected_metadata_digest :: string
  mc_proposed_content :: string
  mc_service_action :: service_action
  mc_idempotency_key :: string

definition validate_managed_plan :: "managed_config_plan_request \<Rightarrow> (string, unit) result" where
  "validate_managed_plan r =
    (if mc_schema_version r \<noteq> OPERATION_SCHEMA_VERSION then Inl ''schema_version''
     else if mc_operation_type r \<noteq> MANAGED_CONFIG_OPERATION then Inl ''operation_type''
     else
       bindR (validate_managed_config_resource_id (mc_resource_id r)) (\<lambda>_.
       bindR (validate_digest (mc_expected_content_digest r)) (\<lambda>_.
       bindR (validate_digest (mc_expected_metadata_digest r)) (\<lambda>_.
       if length (mc_proposed_content r) > MANAGED_CONFIG_MAX_BYTES then Inl ''size_limit''
       else if \<not> managed_config_bytes_supported (mc_proposed_content r) then Inl ''invalid_encoding''
       else if starts_with ''ngc_'' (mc_resource_id r) \<and> nginx_management_config (mc_proposed_content r)
       then Inl ''protected_content''
       else if mc_service_action r \<noteq> Reload \<and> mc_service_action r \<noteq> ValidateOnly
       then Inl ''unsupported_service_action''
       else validate_key (mc_idempotency_key r)))))"

record approval_intent =
  ai_validation_confirmed :: bool
  ai_service_action_confirmed :: bool

definition validate_intent :: "approval_intent \<Rightarrow> (string, unit) result" where
  "validate_intent i =
    (if ai_validation_confirmed i \<and> ai_service_action_confirmed i then Inr () else Inl ''approval_intent'')"

record managed_config_approval_request =
  ma_schema_version :: nat
  ma_plan_id :: string
  ma_plan_hash :: string
  ma_idempotency_key :: string
  ma_reauth_token :: "string option"
  ma_additional_auth_claim :: "string option"
  ma_approval_intent :: approval_intent

definition validate_managed_approval :: "managed_config_approval_request \<Rightarrow> (string, unit) result" where
  "validate_managed_approval r =
    (if ma_schema_version r \<noteq> OPERATION_SCHEMA_VERSION then Inl ''schema_version''
     else
       bindR (validate_approval_ids (ma_plan_id r) (ma_plan_hash r) (ma_idempotency_key r)) (\<lambda>_.
       bindR (case ma_reauth_token r of
                None \<Rightarrow> Inr ()
              | Some token \<Rightarrow> validate_ascii_range token 16 256 ''reauth_token'') (\<lambda>_.
       bindR (case ma_additional_auth_claim r of
                None \<Rightarrow> Inr ()
              | Some claim \<Rightarrow>
                  if ma_reauth_token r = None then Inl ''additional_auth_claim''
                  else validate_ascii_range claim 16 256 ''additional_auth_claim'') (\<lambda>_.
       validate_intent (ma_approval_intent r)))))"

record restore_plan_request =
  rs_schema_version :: nat
  rs_operation_type :: string
  rs_source_operation_id :: string
  rs_expected_content_digest :: string
  rs_expected_metadata_digest :: string
  rs_idempotency_key :: string

definition validate_restore_plan :: "restore_plan_request \<Rightarrow> (string, unit) result" where
  "validate_restore_plan r =
    (if rs_schema_version r \<noteq> OPERATION_SCHEMA_VERSION then Inl ''schema_version''
     else if rs_operation_type r \<noteq> MANAGED_CONFIG_RESTORE_OPERATION then Inl ''operation_type''
     else
       bindR (validate_ascii_range (rs_source_operation_id r) 1 OPERATION_ID_MAX_BYTES
                ''source_operation_id'') (\<lambda>_.
       bindR (validate_digest (rs_expected_content_digest r)) (\<lambda>_.
       bindR (validate_digest (rs_expected_metadata_digest r)) (\<lambda>_.
       validate_key (rs_idempotency_key r)))))"

section \<open>Approvals\<close>

record administrative_approval_request =
  aa_schema_version :: nat
  aa_plan_id :: string
  aa_plan_hash :: string
  aa_idempotency_key :: string

definition validate_administrative_approval :: "administrative_approval_request \<Rightarrow> (string, unit) result" where
  "validate_administrative_approval r =
    (if aa_schema_version r \<noteq> OPERATION_SCHEMA_VERSION then Inl ''schema_version''
     else validate_approval_ids (aa_plan_id r) (aa_plan_hash r) (aa_idempotency_key r))"

record operation_approval_request =
  oa_schema_version :: nat
  oa_plan_id :: string
  oa_plan_hash :: string
  oa_idempotency_key :: string
  oa_reauth_token :: string
  oa_additional_auth_claim :: "string option"

definition validate_operation_approval :: "operation_approval_request \<Rightarrow> (string, unit) result" where
  "validate_operation_approval r =
    (if oa_schema_version r \<noteq> OPERATION_SCHEMA_VERSION then Inl ''schema_version''
     else
       bindR (validate_approval_ids (oa_plan_id r) (oa_plan_hash r) (oa_idempotency_key r)) (\<lambda>_.
       bindR (validate_ascii_range (oa_reauth_token r) 16 256 ''reauth_token'') (\<lambda>_.
       case oa_additional_auth_claim r of
         None \<Rightarrow> Inr ()
       | Some claim \<Rightarrow> validate_ascii_range claim 16 256 ''additional_auth_claim'')))"

section \<open>Firewall rules\<close>

definition UFW_RULE_ID_PREFIX :: string where
  "UFW_RULE_ID_PREFIX = ''ufr_''"

definition UFW_PROTECTED_TCP_PORTS :: "nat list" where
  "UFW_PROTECTED_TCP_PORTS = [22, 443, 9443]"

record ufw_rule_plan_request =
  uq_schema_version :: nat
  uq_operation_type :: string
  uq_mutation :: ufw_rule_mutation
  uq_protocol :: "ufw_protocol option"
  uq_port :: "nat option"
  uq_source :: "string option"
  uq_rule_id :: "string option"
  uq_expected_state_digest :: string
  uq_idempotency_key :: string

fun parse_decimal :: "nat \<Rightarrow> string \<Rightarrow> nat option" where
  "parse_decimal acc [] = Some acc"
| "parse_decimal acc (c # cs) =
    (if is_ascii_digit c then parse_decimal (acc * 10 + (byte c - 48)) cs else None)"

text \<open>\<^verbatim>\<open>str::parse::<u8>\<close> on a text of digits.\<close>

definition parse_u8 :: "string \<Rightarrow> nat option" where
  "parse_u8 s =
    (if s = [] then None
     else case parse_decimal 0 s of None \<Rightarrow> None | Some n \<Rightarrow> if n \<le> 255 then Some n else None)"

definition split_source :: "string \<Rightarrow> string \<times> string option" where
  "split_source value =
    (case split_once (CHR ''/'') value of None \<Rightarrow> (value, None) | Some (a, p) \<Rightarrow> (a, Some p))"

fun is_ipv4 :: "ip_addr \<Rightarrow> bool" where
  "is_ipv4 (V4 _) = True"
| "is_ipv4 (V6 _) = False"

definition validate_source :: "string \<Rightarrow> (string, unit) result" where
  "validate_source value =
    (case split_source value of
       (address, prefix) \<Rightarrow>
         bindR (ok_or (parse_ip address) ''invalid_source'') (\<lambda>parsed.
         if print_ip parsed \<noteq> address then Inl ''invalid_source''
         else
           (case prefix of
              None \<Rightarrow> Inr ()
            | Some p \<Rightarrow>
                if p = [] \<or> (length p > 1 \<and> starts_with ''0'' p) \<or> \<not> list_all is_ascii_digit p
                then Inl ''invalid_source''
                else
                  bindR (ok_or (parse_u8 p) ''invalid_source'') (\<lambda>n.
                  if n > (if is_ipv4 parsed then 32 else 128) then Inl ''invalid_source'' else Inr ()))))"

definition valid_rule_id :: "string \<Rightarrow> bool" where
  "valid_rule_id value =
    (length value = length UFW_RULE_ID_PREFIX + 24 \<and> starts_with UFW_RULE_ID_PREFIX value
     \<and> list_all (\<lambda>c. is_ascii_alphanumeric c \<or> c = CHR ''_'') value)"

definition validate_ufw_plan :: "ufw_rule_plan_request \<Rightarrow> (string, unit) result" where
  "validate_ufw_plan r =
    (if uq_schema_version r \<noteq> OPERATION_SCHEMA_VERSION then Inl ''schema_version''
     else if uq_operation_type r \<noteq> UFW_RULE_OPERATION then Inl ''operation_type''
     else
       bindR (validate_digest (uq_expected_state_digest r)) (\<lambda>_.
       bindR (validate_key (uq_idempotency_key r)) (\<lambda>_.
       if uq_mutation r = Delete then
         if uq_protocol r \<noteq> None \<or> uq_port r \<noteq> None \<or> uq_source r \<noteq> None
            \<or> \<not> (case uq_rule_id r of None \<Rightarrow> False | Some i \<Rightarrow> valid_rule_id i)
         then Inl ''delete_shape'' else Inr ()
       else
         bindR (ok_or (uq_protocol r) ''protocol'') (\<lambda>protocol.
         bindR (ok_or (case uq_port r of None \<Rightarrow> None | Some p \<Rightarrow> if p > 0 then Some p else None) ''port'') (\<lambda>port.
         if uq_rule_id r \<noteq> None then Inl ''rule_id''
         else
           bindR (case uq_source r of None \<Rightarrow> Inr () | Some s \<Rightarrow> validate_source s) (\<lambda>_.
           if uq_mutation r = Deny \<and> protocol = Tcp \<and> port \<in> set UFW_PROTECTED_TCP_PORTS
           then Inl ''protected_management_rule'' else Inr ()))))))"

definition u16_be :: "nat \<Rightarrow> bytes" where
  "u16_be n = [char_of (n div 256), char_of (n mod 256)]"

definition generated_rule_id :: "(bytes \<Rightarrow> bytes) \<Rightarrow> ufw_rule_plan_request \<Rightarrow> string option" where
  "generated_rule_id H r =
    (if uq_mutation r = Delete then uq_rule_id r
     else
       case (uq_protocol r, uq_port r) of
         (Some protocol, Some port) \<Rightarrow>
           let source = (case uq_source r of None \<Rightarrow> ''any'' | Some s \<Rightarrow> s);
               digest = sha256_digest H (H (''jw-agent/ufw-rule/v1'' @ [NUL]
                   @ ufw_rule_mutation_value (uq_mutation r) @ [NUL] @ ufw_protocol_value protocol @ [NUL]
                   @ u16_be port @ [NUL] @ source));
               hex = trim_start_matches ''sha256:'' digest
           in if length hex < 24 then None else Some (UFW_RULE_ID_PREFIX @ take 24 hex)
       | _ \<Rightarrow> None)"

definition ufw_protected_tcp_port :: "nat \<Rightarrow> bool" where
  "ufw_protected_tcp_port port = (port = 22 \<or> port = 443 \<or> port = 9443)"

definition validate_ufw_approval :: "impact_approval_request \<Rightarrow> (string, unit) result" where
  "validate_ufw_approval r =
    (if ia_schema_version r \<noteq> OPERATION_SCHEMA_VERSION \<or> \<not> ia_impact_confirmed r then Inl ''approval''
     else validate_approval_ids (ia_plan_id r) (ia_plan_hash r) (ia_idempotency_key r))"

end
