(* ===== verification/Cert_Requests.thy ===== *)
theory Cert_Requests
  imports Requests Framing "HOL-Library.Char_ord" "HOL-Library.List_Lexorder"
begin

text \<open>
  Certificate requests (\<^verbatim>\<open>jw-contracts/src/certificate.rs\<close>): domain and address rules, plans and
  approvals, and the commands the operations daemon sends to the certificate daemon.  Rust compares
  strings bytewise, which is the lexicographic order of \<^typ>\<open>string\<close>.
\<close>

section \<open>Domains, mail addresses, address sets\<close>

definition CERTBOT_MAX_DOMAINS :: nat where
  "CERTBOT_MAX_DOMAINS = 5"

fun dedup :: "'a list \<Rightarrow> 'a list" where
  "dedup (x # y # zs) = (if x = y then dedup (y # zs) else x # dedup (y # zs))"
| "dedup xs = xs"

definition canonical_domains :: "string \<Rightarrow> string list \<Rightarrow> string list" where
  "canonical_domains primary alternatives =
    primary # dedup (sort (filter (\<lambda>d. d \<noteq> primary) alternatives))"

definition label_ok :: "string \<Rightarrow> bool" where
  "label_ok label =
    (label \<noteq> [] \<and> length label \<le> 63
     \<and> list_all (\<lambda>c. is_ascii_lowercase c \<or> is_ascii_digit c \<or> c = CHR ''-'') label
     \<and> is_ascii_alphanumeric (hd label) \<and> is_ascii_alphanumeric (last label))"

definition validate_domain :: "string \<Rightarrow> (string, unit) result" where
  "validate_domain domain =
    (if length domain < 4 \<or> length domain > 253 \<or> \<not> list_all is_ascii domain
        \<or> list_ex is_ascii_uppercase domain
     then Inl ''invalid_domain''
     else
       let labels = split_on (CHR ''.'') domain in
       if length labels < 2 \<or> \<not> list_ex is_ascii_alphabetic (last labels)
       then Inl ''invalid_domain''
       else if \<not> list_all label_ok labels then Inl ''invalid_domain''
       else Inr ())"

definition is_email_local_char :: "char \<Rightarrow> bool" where
  "is_email_local_char c =
    (is_ascii_alphanumeric c \<or> c \<in> set ''.!#$%&'' \<or> c = CHR 0x27 \<or> c \<in> set ''*+-/=?^_''
     \<or> c = CHR 0x60 \<or> c \<in> set ''{|}~'')"

definition validate_email :: "string \<Rightarrow> (string, unit) result" where
  "validate_email email =
    (if length email < 6 \<or> length email > 254 \<or> \<not> list_all is_ascii email then Inl ''invalid_email''
     else
       case split_once (CHR ''@'') email of
         None \<Rightarrow> Inl ''invalid_email''
       | Some (local, domain) \<Rightarrow>
           if local = [] \<or> length local > 64 \<or> CHR ''@'' \<in> set domain
              \<or> \<not> list_all is_email_local_char local
           then Inl ''invalid_email''
           else map_err (\<lambda>_. ''invalid_email'') (validate_domain domain))"

fun ascending_addresses :: "ip_addr option \<Rightarrow> string list \<Rightarrow> (string, unit) result" where
  "ascending_addresses previous [] = Inr ()"
| "ascending_addresses previous (a # as) =
    bindR (ok_or (parse_ip a) ''dns_addresses'') (\<lambda>parsed.
    if (case previous of None \<Rightarrow> False | Some v \<Rightarrow> ip_le parsed v) then Inl ''dns_addresses''
    else ascending_addresses (Some parsed) as)"

definition validate_ip_set :: "string list \<Rightarrow> (string, unit) result" where
  "validate_ip_set addresses =
    (if addresses = [] \<or> length addresses > 8 then Inl ''dns_addresses''
     else ascending_addresses None addresses)"

section \<open>Plans\<close>

record certbot_issue_plan_request =
  ci_schema_version :: nat
  ci_operation_type :: string
  ci_primary_domain :: string
  ci_alternative_domains :: "string list"
  ci_account_email :: string
  ci_environment :: certificate_environment
  ci_site_id :: string
  ci_expected_site_digest :: string
  ci_expected_inventory_digest :: string
  ci_tos_agreed :: bool
  ci_idempotency_key :: string

fun validate_each :: "('a \<Rightarrow> ('e, unit) result) \<Rightarrow> 'a list \<Rightarrow> ('e, unit) result" where
  "validate_each f [] = Inr ()"
| "validate_each f (x # xs) = bindR (f x) (\<lambda>_. validate_each f xs)"

definition validate_cert_key :: "string \<Rightarrow> (string, unit) result" where
  "validate_cert_key value =
    validate_token value IDEMPOTENCY_KEY_MIN_BYTES IDEMPOTENCY_KEY_MAX_BYTES ''idempotency_key''"

definition validate_site_token :: "string \<Rightarrow> (string, unit) result" where
  "validate_site_token site_id =
    bindR (validate_token site_id 12 64 ''site_id'') (\<lambda>_. require (starts_with ''ngs_'' site_id) ''site_id'')"

definition issue_domains :: "certbot_issue_plan_request \<Rightarrow> string list" where
  "issue_domains r = canonical_domains (ci_primary_domain r) (ci_alternative_domains r)"

definition validate_issue_request :: "certbot_issue_plan_request \<Rightarrow> (string, unit) result" where
  "validate_issue_request r =
    (if ci_schema_version r \<noteq> OPERATION_SCHEMA_VERSION then Inl ''schema_version''
     else if ci_operation_type r \<noteq> CERTBOT_ISSUE_OPERATION then Inl ''operation_type''
     else if \<not> ci_tos_agreed r then Inl ''tos_not_agreed''
     else
       bindR (validate_domain (ci_primary_domain r)) (\<lambda>_.
       if length (ci_alternative_domains r) \<ge> CERTBOT_MAX_DOMAINS then Inl ''domains''
       else
         let domains = issue_domains r in
         if length domains \<noteq> length (ci_alternative_domains r) + 1
            \<or> drop 1 domains \<noteq> ci_alternative_domains r
         then Inl ''domains''
         else
           bindR (validate_each validate_domain (ci_alternative_domains r)) (\<lambda>_.
           bindR (validate_email (ci_account_email r)) (\<lambda>_.
           bindR (validate_site_token (ci_site_id r)) (\<lambda>_.
           bindR (validate_digest (ci_expected_site_digest r)) (\<lambda>_.
           bindR (validate_digest (ci_expected_inventory_digest r)) (\<lambda>_.
           validate_cert_key (ci_idempotency_key r))))))))"

record preflight_evidence =
  pf_observed_at_unix_ms :: int
  pf_resolved_addresses :: "string list"
  pf_expected_addresses :: "string list"
  pf_local_port_80_reachable :: bool
  pf_local_port_443_reachable :: bool

definition validate_preflight :: "int \<Rightarrow> preflight_evidence \<Rightarrow> (string, unit) result" where
  "validate_preflight now_unix_ms p =
    (if pf_observed_at_unix_ms p > now_unix_ms
        \<or> sat_sub now_unix_ms (pf_observed_at_unix_ms p) > 60000
     then Inl ''preflight_stale''
     else
       bindR (validate_ip_set (pf_resolved_addresses p)) (\<lambda>_.
       bindR (validate_ip_set (pf_expected_addresses p)) (\<lambda>_.
       if pf_resolved_addresses p \<noteq> pf_expected_addresses p then Inl ''dns_mismatch''
       else if \<not> pf_local_port_80_reachable p then Inl ''challenge_unreachable''
       else Inr ())))"

record certbot_issue_plan_input =
  cin_request :: certbot_issue_plan_request
  cin_preflight :: preflight_evidence

definition validate_issue_input :: "int \<Rightarrow> certbot_issue_plan_input \<Rightarrow> (string, unit) result" where
  "validate_issue_input now_unix_ms i =
    bindR (validate_issue_request (cin_request i)) (\<lambda>_. validate_preflight now_unix_ms (cin_preflight i))"

record certbot_renew_test_plan_request =
  crt_schema_version :: nat
  crt_operation_type :: string
  crt_expected_inventory_digest :: string
  crt_idempotency_key :: string

definition validate_renew_plan :: "certbot_renew_test_plan_request \<Rightarrow> (string, unit) result" where
  "validate_renew_plan r =
    (if crt_schema_version r \<noteq> OPERATION_SCHEMA_VERSION then Inl ''schema_version''
     else if crt_operation_type r \<noteq> CERTBOT_RENEW_TEST_OPERATION then Inl ''operation_type''
     else
       bindR (validate_digest (crt_expected_inventory_digest r)) (\<lambda>_.
       validate_cert_key (crt_idempotency_key r)))"

record certbot_attach_plan_request =
  cat_schema_version :: nat
  cat_operation_type :: string
  cat_primary_domain :: string
  cat_site_id :: string
  cat_expected_site_digest :: string
  cat_expected_inventory_digest :: string
  cat_expected_certificate_fingerprint :: string
  cat_idempotency_key :: string

definition validate_attach_plan :: "certbot_attach_plan_request \<Rightarrow> (string, unit) result" where
  "validate_attach_plan r =
    (if cat_schema_version r \<noteq> OPERATION_SCHEMA_VERSION then Inl ''schema_version''
     else if cat_operation_type r \<noteq> CERTBOT_ATTACH_OPERATION then Inl ''operation_type''
     else
       bindR (validate_domain (cat_primary_domain r)) (\<lambda>_.
       bindR (validate_site_token (cat_site_id r)) (\<lambda>_.
       bindR (validate_digest (cat_expected_site_digest r)) (\<lambda>_.
       bindR (validate_digest (cat_expected_inventory_digest r)) (\<lambda>_.
       bindR (validate_digest (cat_expected_certificate_fingerprint r)) (\<lambda>_.
       validate_cert_key (cat_idempotency_key r)))))))"

section \<open>Approvals\<close>

record certbot_issue_approval_request = operation_approval_request +
  cia_external_effect_confirmed :: bool
  cia_local_attach_deferred_confirmed :: bool

definition validate_issue_approval :: "certbot_issue_approval_request \<Rightarrow> (string, unit) result" where
  "validate_issue_approval r =
    bindR (validate_operation_approval (operation_approval_request.truncate r)) (\<lambda>_.
    if \<not> cia_external_effect_confirmed r then Inl ''external_effect_confirmation''
    else if \<not> cia_local_attach_deferred_confirmed r then Inl ''local_attach_deferred_confirmation''
    else Inr ())"

record certbot_attach_approval_request = operation_approval_request +
  caa_config_replace_confirmed :: bool
  caa_service_reload_confirmed :: bool

definition validate_attach_approval :: "certbot_attach_approval_request \<Rightarrow> (string, unit) result" where
  "validate_attach_approval r =
    bindR (validate_operation_approval (operation_approval_request.truncate r)) (\<lambda>_.
    if \<not> caa_config_replace_confirmed r then Inl ''config_replace_confirmation''
    else if \<not> caa_service_reload_confirmed r then Inl ''service_reload_confirmation''
    else Inr ())"

record certbot_renew_test_approval_request = operation_approval_request +
  cra_external_effect_confirmed :: bool

definition validate_renew_approval :: "certbot_renew_test_approval_request \<Rightarrow> (string, unit) result" where
  "validate_renew_approval r =
    bindR (validate_operation_approval (operation_approval_request.truncate r)) (\<lambda>_.
    require (cra_external_effect_confirmed r) ''external_effect_confirmation'')"

section \<open>Commands of the certificate daemon\<close>

datatype certbot_command =
    Issue string "string list" string certificate_environment bool
  | RenewDryRun
  | VerifyLocalTls string string

fun ascending_domains :: "string option \<Rightarrow> string list \<Rightarrow> (string, unit) result" where
  "ascending_domains previous [] = Inr ()"
| "ascending_domains previous (d # ds) =
    bindR (validate_domain d) (\<lambda>_.
    if (case previous of None \<Rightarrow> False | Some v \<Rightarrow> d \<le> v) then Inl ''domains''
    else ascending_domains (Some d) ds)"

fun validate_certbot_command :: "certbot_command \<Rightarrow> (string, unit) result" where
  "validate_certbot_command (Issue primary_domain domains account_email environment tos_agreed) =
    (if \<not> tos_agreed then Inl ''tos_not_agreed''
     else
       bindR (validate_domain primary_domain) (\<lambda>_.
       if domains = [] \<or> length domains > CERTBOT_MAX_DOMAINS \<or> hd domains \<noteq> primary_domain
       then Inl ''domains''
       else
         bindR (ascending_domains None domains) (\<lambda>_.
         validate_email account_email)))"
| "validate_certbot_command RenewDryRun = Inr ()"
| "validate_certbot_command (VerifyLocalTls server_name expected_fingerprint) =
    bindR (validate_domain server_name) (\<lambda>_. validate_digest expected_fingerprint)"

record certbot_command_request =
  ccr_protocol_version :: nat
  ccr_request_id :: string
  ccr_deadline_unix_ms :: int
  ccr_command :: certbot_command

definition validate_certbot_request :: "int \<Rightarrow> certbot_command_request \<Rightarrow> (string, unit) result" where
  "validate_certbot_request now_unix_ms r =
    (if ccr_protocol_version r \<noteq> IPC_PROTOCOL_VERSION then Inl ''protocol_version''
     else
       bindR (validate_token (ccr_request_id r) 1 64 ''request_id'') (\<lambda>_.
       if ccr_deadline_unix_ms r \<le> now_unix_ms then Inl ''deadline_expired''
       else validate_certbot_command (ccr_command r)))"

datatype certbot_command_class = IssueStaging | IssueProduction | RenewDryRunClass | VerifyLocalTlsClass

record certbot_command_evidence =
  cce_command_class :: certbot_command_class
  cce_success :: bool
  cce_exit_code :: "int option"
  cce_timed_out :: bool
  cce_stdout_digest :: string
  cce_stdout_truncated :: bool
  cce_stderr_digest :: string
  cce_stderr_truncated :: bool

end
