(* ===== verification/Request_Rules.thy ===== *)
theory Request_Rules
  imports Cert_Requests
begin

text \<open>
  What the validators promise: the commands built from an accepted certificate plan, the canonical
  form of accepted firewall sources, and the identifiers of generated firewall rules.
\<close>

section \<open>Certificate plans and the commands built from them\<close>

lemma dedup_set [simp]: "set (dedup xs) = set xs"
  by (induction xs rule: dedup.induct) auto

lemma dedup_hd: "dedup (x # xs) \<noteq> [] \<and> hd (dedup (x # xs)) = x"
  by (induction "x # xs" arbitrary: x xs rule: dedup.induct) auto

lemma dedup_strict: "sorted xs \<Longrightarrow> sorted_wrt (<) (dedup xs)" for xs :: "'a::linorder list"
proof (induction xs rule: dedup.induct)
  case (1 x y zs)
  then show ?case by (auto simp: order.strict_iff_order)
qed auto

lemma validate_each_iff: "validate_each f xs = Inr () \<longleftrightarrow> (\<forall>x \<in> set xs. f x = Inr ())"
  by (induction xs) auto

lemma ascending_domains_iff:
  "ascending_domains prev ds = Inr () \<longleftrightarrow>
    (\<forall>d \<in> set ds. validate_domain d = Inr ()) \<and> sorted_wrt (<) ds
    \<and> (case prev of None \<Rightarrow> True | Some v \<Rightarrow> ds = [] \<or> v < hd ds)"
proof (induction ds arbitrary: prev)
  case (Cons d ds)
  have "sorted_wrt (<) (d # ds) \<longleftrightarrow> sorted_wrt (<) ds \<and> (ds = [] \<or> d < hd ds)"
    by (cases ds) (auto intro: less_trans)
  with Cons [of "Some d"] show ?case by (cases prev) (auto simp del: sorted_wrt.simps simp: not_le)
qed (auto split: option.splits)

text \<open>
  (C21) The certificate daemon does not accept every plan the contracts accept.  For an accepted
  issue plan, the command built from it passes the command validation exactly when there is no
  alternative domain or the primary domain sorts before the first one: the command validation wants
  all domains in ascending order, while plans put the primary domain first whatever its place.
\<close>

theorem issue_command_accepted_iff:
  assumes "validate_issue_request r = Inr ()"
  shows "validate_certbot_command
      (Issue (ci_primary_domain r) (issue_domains r) (ci_account_email r) (ci_environment r) True) = Inr ()
    \<longleftrightarrow> ci_alternative_domains r = [] \<or> ci_primary_domain r < hd (ci_alternative_domains r)"
proof -
  let ?alts = "ci_alternative_domains r" and ?p = "ci_primary_domain r"
  have domains: "issue_domains r = ?p # ?alts"
    and sizes: "length ?alts < CERTBOT_MAX_DOMAINS"
    and valid: "validate_domain ?p = Inr ()" "\<forall>d \<in> set ?alts. validate_domain d = Inr ()"
      "validate_email (ci_account_email r) = Inr ()"
    using assms
    by (auto simp: validate_issue_request_def Let_def validate_each_iff issue_domains_def canonical_domains_def
        split: if_splits)
  have "sorted_wrt (<) (dedup (sort (filter (\<lambda>d. d \<noteq> ?p) ?alts)))" by (rule dedup_strict) simp
  moreover have "dedup (sort (filter (\<lambda>d. d \<noteq> ?p) ?alts)) = ?alts"
    using domains by (simp add: issue_domains_def canonical_domains_def)
  ultimately have "sorted_wrt (<) ?alts" by simp
  then have "sorted_wrt (<) (?p # ?alts) \<longleftrightarrow> ?alts = [] \<or> ?p < hd ?alts"
    by (cases ?alts) (auto intro: less_trans)
  with sizes valid show ?thesis by (auto simp: domains ascending_domains_iff)
qed

definition sample_issue :: "string list \<Rightarrow> certbot_issue_plan_request" where
  "sample_issue alternatives =
    \<lparr> ci_schema_version = 1, ci_operation_type = CERTBOT_ISSUE_OPERATION,
      ci_primary_domain = ''www.example.org'', ci_alternative_domains = alternatives,
      ci_account_email = ''ops@example.org'', ci_environment = Staging,
      ci_site_id = ''ngs_0123456789'', ci_expected_site_digest = format_sha256 (replicate 32 NUL),
      ci_expected_inventory_digest = format_sha256 (replicate 32 NUL), ci_tos_agreed = True,
      ci_idempotency_key = ''0123456789abcdef'' \<rparr>"

lemma zero_digest_valid: "validate_digest (format_sha256 (replicate 32 NUL)) = Inr ()"
  using validate_digest_iff [of "format_sha256 (replicate 32 NUL)"] by auto

lemma sample_issue_accepted: "validate_issue_request (sample_issue [''example.org'']) = Inr ()"
proof -
  have "validate_domain ''www.example.org'' = Inr ()" "validate_domain ''example.org'' = Inr ()"
    "validate_email ''ops@example.org'' = Inr ()" "validate_site_token ''ngs_0123456789'' = Inr ()"
    "validate_cert_key ''0123456789abcdef'' = Inr ()"
    by code_simp+
  then show ?thesis
    using zero_digest_valid
    by (simp add: validate_issue_request_def sample_issue_def OPERATION_SCHEMA_VERSION_def
        CERTBOT_MAX_DOMAINS_def issue_domains_def canonical_domains_def Let_def)
qed

theorem issue_command_accepted_iff_witness:
  "validate_issue_request (sample_issue [''example.org'']) = Inr ()
   \<and> validate_certbot_command
      (Issue ''www.example.org'' (issue_domains (sample_issue [''example.org''])) ''ops@example.org'' Staging True) \<noteq> Inr ()"
proof -
  have "\<not> (''www.example.org'' < ''example.org'')" by code_simp
  then show ?thesis
    using issue_command_accepted_iff [OF sample_issue_accepted] sample_issue_accepted
    by (simp add: sample_issue_def)
qed

section \<open>Firewall sources\<close>

lemma split_once_Some: "split_once d s = Some (a, b) \<Longrightarrow> s = a @ d # b"
  by (induction s arbitrary: a b) (auto split: if_splits)

lemma split_source_join:
  "s = fst (split_source s) @ (case snd (split_source s) of None \<Rightarrow> [] | Some p \<Rightarrow> CHR ''/'' # p)"
  by (auto simp: split_source_def dest!: split_once_Some split: option.splits prod.splits)

lemma digit_bounds: "is_ascii_digit c \<Longrightarrow> byte c - 48 < 10 \<and> 48 \<le> byte c"
  by (auto simp: is_ascii_digit_def)

lemma parse_decimal_inj:
  "list_all is_ascii_digit p \<Longrightarrow> list_all is_ascii_digit q \<Longrightarrow> length p = length q \<Longrightarrow>
    parse_decimal a p = parse_decimal b q \<Longrightarrow> a = b \<and> p = q"
proof (induction p arbitrary: a b q)
  case (Cons c cs)
  then obtain d ds where q: "q = d # ds" by (cases q) auto
  have step: "a * 10 + (byte c - 48) = b * 10 + (byte d - 48)" "cs = ds"
    using Cons.IH [of ds "a * 10 + (byte c - 48)" "b * 10 + (byte d - 48)"] Cons.prems q by auto
  have small: "byte c - 48 < 10" "byte d - 48 < 10" and ge: "48 \<le> byte c" "48 \<le> byte d"
    using Cons.prems q digit_bounds by auto
  have ab: "a = b" using step(1) small by linarith
  with step(1) have "byte c - 48 = byte d - 48" by simp
  with ge have "byte c = byte d" by (metis le_add_diff_inverse)
  with ab step(2) q show ?case by simp
qed simp

lemma parse_decimal_bounds:
  "list_all is_ascii_digit p \<Longrightarrow>
    \<exists>n. parse_decimal a p = Some n \<and> a * 10 ^ length p \<le> n \<and> n < (a + 1) * 10 ^ length p"
proof (induction p arbitrary: a)
  case (Cons c cs)
  let ?b = "a * 10 + (byte c - 48)"
  have c: "is_ascii_digit c" "byte c - 48 < 10" using Cons.prems digit_bounds by auto
  obtain n where n: "parse_decimal ?b cs = Some n" "?b * 10 ^ length cs \<le> n" "n < (?b + 1) * 10 ^ length cs"
    using Cons.IH [of ?b] Cons.prems by auto
  have "a * 10 * 10 ^ length cs \<le> ?b * 10 ^ length cs" by (rule mult_le_mono1) simp
  moreover have "(?b + 1) * 10 ^ length cs \<le> (a + 1) * 10 * 10 ^ length cs" by (rule mult_le_mono1) (use c(2) in simp)
  ultimately show ?case using n c(1) by (auto simp: algebra_simps)
qed simp

definition plain_number :: "string \<Rightarrow> bool" where
  "plain_number p = (p \<noteq> [] \<and> list_all is_ascii_digit p \<and> \<not> (length p > 1 \<and> starts_with ''0'' p))"

lemma plain_number_size:
  assumes "plain_number p" "parse_decimal 0 p = Some n"
  shows "n < 10 ^ length p" "length p > 1 \<Longrightarrow> 10 ^ (length p - 1) \<le> n"
proof -
  obtain c cs where p: "p = c # cs" using assms(1) by (cases p) (auto simp: plain_number_def)
  then have digits: "is_ascii_digit c" "list_all is_ascii_digit cs" using assms(1) by (auto simp: plain_number_def)
  show "n < 10 ^ length p" using parse_decimal_bounds [of p 0] assms by (auto simp: plain_number_def)
  show "10 ^ (length p - 1) \<le> n" if "length p > 1"
  proof -
    have "c \<noteq> CHR ''0''" using assms(1) that p by (auto simp: plain_number_def starts_with_iff)
    then have "byte c \<noteq> 48" using byte_inject [of c "CHR ''0''"] by (simp add: byte_def)
    then have "1 \<le> byte c - 48" using digit_bounds [OF digits(1)] by auto
    then have "10 ^ length cs \<le> (byte c - 48) * 10 ^ length cs" using mult_le_mono1 [of 1] by simp
    moreover have "(byte c - 48) * 10 ^ length cs \<le> n"
      using parse_decimal_bounds [OF digits(2), of "byte c - 48"] assms(2) p digits(1) by auto
    ultimately have "10 ^ length cs \<le> n" by (rule order_trans)
    then show ?thesis by (simp add: p)
  qed
qed

lemma plain_number_shorter:
  assumes "plain_number p" "plain_number q" "parse_decimal 0 p = Some n" "parse_decimal 0 q = Some n"
  shows "length q \<le> length p"
proof (rule ccontr)
  assume "\<not> length q \<le> length p"
  then have len: "length p < length q" "length q > 1" using assms(1) by (cases p; auto simp: plain_number_def)+
  have "n < 10 ^ length p" by (rule plain_number_size(1) [OF assms(1,3)])
  also have "(10::nat) ^ length p \<le> 10 ^ (length q - 1)" using len(1) by (intro power_increasing) auto
  also have "\<dots> \<le> n" by (rule plain_number_size(2) [OF assms(2,4) len(2)])
  finally show False by simp
qed

lemma plain_number_inj:
  assumes "plain_number p" "plain_number q" "parse_u8 p = parse_u8 q" "parse_u8 p \<noteq> None"
  shows "p = q"
proof -
  obtain n where n: "parse_decimal 0 p = Some n" "parse_decimal 0 q = Some n"
    using assms by (auto simp: parse_u8_def plain_number_def split: option.splits if_splits)
  have "length p = length q"
    using plain_number_shorter [OF assms(1,2) n] plain_number_shorter [OF assms(2,1) n(2,1)] by simp
  with n assms(1,2) parse_decimal_inj [of p q 0 0] show ?thesis by (simp add: plain_number_def)
qed

lemma validate_source_parts:
  assumes "validate_source s = Inr ()"
  obtains ip where "parse_ip (fst (split_source s)) = Some ip" "print_ip ip = fst (split_source s)"
    "\<forall>p. snd (split_source s) = Some p \<longrightarrow> plain_number p \<and> parse_u8 p \<noteq> None"
proof -
  obtain a p where sp: "split_source s = (a, p)" by (cases "split_source s")
  then obtain ip where ip: "parse_ip a = Some ip" "print_ip ip = a"
    using assms by (auto simp: validate_source_def split: if_splits)
  have "plain_number q \<and> parse_u8 q \<noteq> None" if "p = Some q" for q
    using assms sp ip that by (auto simp: validate_source_def plain_number_def split: if_splits)
  with ip show ?thesis by (intro that [of ip]) (simp_all add: sp)
qed

lemma split_source_inj:
  assumes "fst (split_source s) = fst (split_source t)" "snd (split_source s) = snd (split_source t)"
  shows "s = t"
proof -
  let ?join = "\<lambda>x. fst x @ (case snd x of None \<Rightarrow> [] | Some p \<Rightarrow> CHR ''/'' # p)"
  have "s = ?join (split_source s)" by (rule split_source_join)
  also have "\<dots> = ?join (split_source t)" using assms by (simp only:)
  also have "\<dots> = t" by (rule split_source_join [symmetric])
  finally show ?thesis .
qed

text \<open>
  (C22) Accepted firewall sources are canonical: two accepted source texts with the same address and
  the same prefix length are the same text, so a rule has one spelling and one generated identifier.
\<close>

theorem accepted_sources_canonical:
  assumes "validate_source s = Inr ()" "validate_source t = Inr ()"
    and "parse_ip (fst (split_source s)) = parse_ip (fst (split_source t))"
    and "map_option parse_u8 (snd (split_source s)) = map_option parse_u8 (snd (split_source t))"
  shows "s = t"
proof -
  obtain ip where s: "parse_ip (fst (split_source s)) = Some ip" "print_ip ip = fst (split_source s)"
      "\<forall>p. snd (split_source s) = Some p \<longrightarrow> plain_number p \<and> parse_u8 p \<noteq> None"
    by (rule validate_source_parts [OF assms(1)])
  obtain ip' where t: "parse_ip (fst (split_source t)) = Some ip'" "print_ip ip' = fst (split_source t)"
      "\<forall>p. snd (split_source t) = Some p \<longrightarrow> plain_number p \<and> parse_u8 p \<noteq> None"
    by (rule validate_source_parts [OF assms(2)])
  have "ip = ip'" using s(1) t(1) assms(3) by simp
  then have "fst (split_source s) = fst (split_source t)" using s(2) t(2) by simp
  moreover have "snd (split_source s) = snd (split_source t)"
  proof (cases "snd (split_source s)")
    case (Some p)
    with assms(4) obtain q where q: "snd (split_source t) = Some q" "parse_u8 p = parse_u8 q"
      by (cases "snd (split_source t)") auto
    with Some s(3) t(3) have "p = q" by (intro plain_number_inj) auto
    with Some q(1) show ?thesis by simp
  qed (use assms(4) in simp)
  ultimately show ?thesis by (rule split_source_inj)
qed

lemma sample_source: "validate_source ''203.0.113.0/24'' = Inr ()"
  by code_simp

theorem accepted_sources_canonical_witness:
  "validate_source ''203.0.113.0/24'' = Inr () \<and> ''203.0.113.0/24'' = ''203.0.113.0/2'' @ ''4''"
proof -
  have "''203.0.113.0/2'' @ ''4'' = ''203.0.113.0/24''" by simp
  with sample_source have "validate_source (''203.0.113.0/2'' @ ''4'') = Inr ()" by (simp only:)
  from accepted_sources_canonical [OF sample_source this] sample_source show ?thesis by simp
qed

section \<open>Generated rule identifiers\<close>

lemma lower_hex_alphanumeric: "is_lower_hex c \<Longrightarrow> is_ascii_alphanumeric c"
  by (auto simp: is_lower_hex_def byte_class_defs)

lemma trim_digest:
  assumes "length bs = 32"
  shows "trim_start_matches ''sha256:'' (format_sha256 bs) = hex_bytes bs"
proof -
  have "strip_prefix ''sha256:'' (hex_bytes bs) = None"
  proof (cases "hex_bytes bs")
    case (Cons c cs)
    then have "is_lower_hex c" using hex_bytes_lower [of bs] by simp
    then have "c \<noteq> CHR ''s''" by (auto simp: is_lower_hex_def byte_class_defs byte_def)
    then show ?thesis using Cons by simp
  qed (use assms in simp)
  then show ?thesis
    by (subst trim_start_matches.simps) (simp add: format_sha256_def, subst trim_start_matches.simps, simp)
qed

text \<open>
  (C23) Every accepted request to allow or deny gets a rule identifier, and it has the shape that
  requests to delete a rule must name, so every rule the agent adds can be deleted by its identifier.
\<close>

theorem generated_rule_id_valid:
  assumes "sha256_sized H" "validate_ufw_plan r = Inr ()"
  shows "\<exists>i. generated_rule_id H r = Some i \<and> valid_rule_id i"
proof (cases "uq_mutation r = Delete")
  case True
  with assms(2) show ?thesis
    by (auto simp: validate_ufw_plan_def generated_rule_id_def split: if_splits option.splits)
next
  case False
  then obtain protocol port where pp: "uq_protocol r = Some protocol" "uq_port r = Some port"
    using assms(2) by (auto simp: validate_ufw_plan_def split: if_splits option.splits)
  define hex where "hex = hex_bytes (H (H (''jw-agent/ufw-rule/v1'' @ [NUL]
      @ ufw_rule_mutation_value (uq_mutation r) @ [NUL] @ ufw_protocol_value protocol @ [NUL]
      @ u16_be port @ [NUL] @ (case uq_source r of None \<Rightarrow> ''any'' | Some s \<Rightarrow> s))))"
  have hex: "length hex = 64" "list_all is_lower_hex hex"
    using assms(1) hex_bytes_lower by (simp_all add: hex_def sha256_sized_def)
  have "generated_rule_id H r = Some (UFW_RULE_ID_PREFIX @ take 24 hex)"
    using False pp assms(1) hex(1)
    by (simp add: generated_rule_id_def sha256_digest_def format_from_raw trim_digest sha256_sized_def hex_def Let_def)
  moreover have "valid_rule_id (UFW_RULE_ID_PREFIX @ take 24 hex)"
  proof -
    have "list_all is_lower_hex (take 24 hex)" using hex(2) by (auto simp: list_all_iff dest: in_set_takeD)
    then have "list_all (\<lambda>c. is_ascii_alphanumeric c \<or> c = CHR ''_'') (take 24 hex)"
      by (auto simp: list_all_iff lower_hex_alphanumeric)
    moreover have "list_all (\<lambda>c. is_ascii_alphanumeric c \<or> c = CHR ''_'') UFW_RULE_ID_PREFIX" by code_simp
    ultimately show ?thesis using hex(1) by (simp add: valid_rule_id_def starts_with_iff)
  qed
  ultimately show ?thesis by blast
qed

definition sample_ufw :: ufw_rule_plan_request where
  "sample_ufw =
    \<lparr> uq_schema_version = 1, uq_operation_type = UFW_RULE_OPERATION, uq_mutation = Deny,
      uq_protocol = Some Tcp, uq_port = Some 8080, uq_source = Some ''203.0.113.0/24'', uq_rule_id = None,
      uq_expected_state_digest = format_sha256 (replicate 32 NUL),
      uq_idempotency_key = ''0123456789abcdef'' \<rparr>"

theorem generated_rule_id_valid_witness:
  "\<exists>i. generated_rule_id (\<lambda>_. replicate 32 NUL) sample_ufw = Some i \<and> valid_rule_id i"
proof (rule generated_rule_id_valid)
  have "validate_key ''0123456789abcdef'' = Inr ()" by code_simp
  with sample_source show "validate_ufw_plan sample_ufw = Inr ()"
    using zero_digest_valid
    by (simp add: validate_ufw_plan_def sample_ufw_def OPERATION_SCHEMA_VERSION_def UFW_PROTECTED_TCP_PORTS_def)
qed (simp add: sha256_sized_def)

end
