(* ===== verification/Ops_Protocol.thy ===== *)
theory Ops_Protocol
  imports Cert_Requests
begin

text \<open>
  The envelope of the privileged socket, \<^verbatim>\<open>OpsRequest\<close> of \<^verbatim>\<open>jw-contracts/src/operation.rs\<close>: the
  variants of the body, the validation that runs before a request reaches the engine, and what an
  accepted request is known to satisfy.  A \<^verbatim>\<open>matches!\<close> on one variant with a literal field is a
  \<^theory_text>\<open>case\<close> expression that falls through for the other variants.
\<close>

datatype ops_request_body =
    Capabilities
  | CertificateInventory subject
  | PlanCertbotIssue subject certbot_issue_plan_input
  | ApproveCertbotIssue subject string string string bool bool
  | PlanCertbotRenewTest subject certbot_renew_test_plan_request
  | PlanCertbotAttach subject certbot_attach_plan_request
  | ApproveCertbotAttach subject string string string bool bool
  | ApproveCertbotRenewTest subject string string string bool
  | ReadManagedConfig subject string
  | PlanNginxSiteState subject nginx_site_state_plan_request
  | ApproveNginxSiteState subject string string string
  | PlanManagedConfig subject managed_config_plan_request
  | PlanManagedConfigRestore subject restore_plan_request
  | ApproveManagedConfig subject string string string approval_intent
  | PlanServiceControl subject service_control_plan_request
  | ApproveServiceControl subject string string string bool
  | ObserveUfw subject
  | PlanUfwRule subject ufw_rule_plan_request
  | ApproveUfwRule subject string string string bool
  | ExecuteOperation subject string
  | OperationReceipt subject string
  | RecentOperations subject

record ops_request =
  or_protocol_version :: nat
  or_request_id :: string
  or_deadline_unix_ms :: int
  or_body :: ops_request_body

text \<open>The confirmation checks that precede the rules of the single variants, in source order.\<close>

definition validate_confirmations :: "ops_request_body \<Rightarrow> (string, unit) result" where
  "validate_confirmations body =
    bindR (case body of
             ApproveCertbotRenewTest _ _ _ _ external_effect_confirmed \<Rightarrow>
               require external_effect_confirmed ''external_effect_confirmation''
           | _ \<Rightarrow> Inr ()) (\<lambda>_.
    bindR (case body of
             ApproveServiceControl _ _ _ _ impact_confirmed \<Rightarrow>
               require impact_confirmed ''impact_confirmation''
           | _ \<Rightarrow> Inr ()) (\<lambda>_.
    bindR (case body of
             ApproveUfwRule _ _ _ _ impact_confirmed \<Rightarrow>
               require impact_confirmed ''impact_confirmation''
           | _ \<Rightarrow> Inr ()) (\<lambda>_.
    bindR (case body of
             ApproveCertbotIssue _ _ _ _ external_effect_confirmed local_attach_deferred_confirmed \<Rightarrow>
               bindR (require external_effect_confirmed ''external_effect_confirmation'') (\<lambda>_.
               require local_attach_deferred_confirmed ''local_attach_deferred_confirmation'')
           | _ \<Rightarrow> Inr ()) (\<lambda>_.
    (case body of
       ApproveCertbotAttach _ _ _ _ config_replace_confirmed service_reload_confirmed \<Rightarrow>
         bindR (require config_replace_confirmed ''config_replace_confirmation'') (\<lambda>_.
         require service_reload_confirmed ''service_reload_confirmation'')
     | _ \<Rightarrow> Inr ())))))"

fun validate_body :: "int \<Rightarrow> ops_request_body \<Rightarrow> (string, unit) result" where
  "validate_body now Capabilities = Inr ()"
| "validate_body now (CertificateInventory _) = Inr ()"
| "validate_body now (ObserveUfw _) = Inr ()"
| "validate_body now (RecentOperations _) = Inr ()"
| "validate_body now (PlanCertbotIssue _ plan) = validate_issue_input now plan"
| "validate_body now (PlanCertbotRenewTest _ plan) = validate_renew_plan plan"
| "validate_body now (PlanCertbotAttach _ plan) = validate_attach_plan plan"
| "validate_body now (ReadManagedConfig _ resource_id) = validate_managed_config_resource_id resource_id"
| "validate_body now (PlanNginxSiteState _ plan) = validate_nginx_plan plan"
| "validate_body now (PlanManagedConfig _ plan) = validate_managed_plan plan"
| "validate_body now (PlanManagedConfigRestore _ plan) = validate_restore_plan plan"
| "validate_body now (PlanServiceControl _ plan) = validate_service_plan plan"
| "validate_body now (PlanUfwRule _ plan) = validate_ufw_plan plan"
| "validate_body now (ApproveNginxSiteState _ plan_id plan_hash key) =
    validate_approval_ids plan_id plan_hash key"
| "validate_body now (ApproveManagedConfig _ plan_id plan_hash key _) =
    validate_approval_ids plan_id plan_hash key"
| "validate_body now (ApproveServiceControl _ plan_id plan_hash key _) =
    validate_approval_ids plan_id plan_hash key"
| "validate_body now (ApproveUfwRule _ plan_id plan_hash key _) =
    validate_approval_ids plan_id plan_hash key"
| "validate_body now (ApproveCertbotRenewTest _ plan_id plan_hash key _) =
    validate_approval_ids plan_id plan_hash key"
| "validate_body now (ApproveCertbotIssue _ plan_id plan_hash key _ _) =
    validate_approval_ids plan_id plan_hash key"
| "validate_body now (ApproveCertbotAttach _ plan_id plan_hash key _ _) =
    validate_approval_ids plan_id plan_hash key"
| "validate_body now (ExecuteOperation _ operation_id) =
    validate_ascii_range operation_id 1 OPERATION_ID_MAX_BYTES ''operation_id''"
| "validate_body now (OperationReceipt _ operation_id) =
    validate_ascii_range operation_id 1 OPERATION_ID_MAX_BYTES ''operation_id''"

definition validate_ops_request :: "int \<Rightarrow> ops_request \<Rightarrow> (string, unit) result" where
  "validate_ops_request now_unix_ms r =
    (if or_protocol_version r \<noteq> IPC_PROTOCOL_VERSION then Inl ''protocol_version''
     else
       bindR (validate_ascii_range (or_request_id r) 1 64 ''request_id'') (\<lambda>_.
       if or_deadline_unix_ms r \<le> now_unix_ms then Inl ''deadline_expired''
       else
         bindR (validate_confirmations (or_body r)) (\<lambda>_.
         validate_body now_unix_ms (or_body r))))"

text \<open>
  The confirmations a body carries, the digest of the plan an approval names, and whether a body
  asks the engine to change the host.
\<close>

fun confirmations :: "ops_request_body \<Rightarrow> bool list" where
  "confirmations (ApproveCertbotIssue _ _ _ _ a b) = [a, b]"
| "confirmations (ApproveCertbotAttach _ _ _ _ a b) = [a, b]"
| "confirmations (ApproveCertbotRenewTest _ _ _ _ a) = [a]"
| "confirmations (ApproveServiceControl _ _ _ _ a) = [a]"
| "confirmations (ApproveUfwRule _ _ _ _ a) = [a]"
| "confirmations _ = []"

fun approved_plan :: "ops_request_body \<Rightarrow> (string \<times> string \<times> string) option" where
  "approved_plan (ApproveCertbotIssue _ i h k _ _) = Some (i, h, k)"
| "approved_plan (ApproveCertbotAttach _ i h k _ _) = Some (i, h, k)"
| "approved_plan (ApproveCertbotRenewTest _ i h k _) = Some (i, h, k)"
| "approved_plan (ApproveNginxSiteState _ i h k) = Some (i, h, k)"
| "approved_plan (ApproveManagedConfig _ i h k _) = Some (i, h, k)"
| "approved_plan (ApproveServiceControl _ i h k _) = Some (i, h, k)"
| "approved_plan (ApproveUfwRule _ i h k _) = Some (i, h, k)"
| "approved_plan _ = None"

section \<open>Facts\<close>

lemma validate_confirmations_iff: "validate_confirmations body = Inr () \<longleftrightarrow> list_all id (confirmations body)"
  by (cases body) (simp_all add: validate_confirmations_def)

lemma validate_body_approval:
  "approved_plan body = Some (i, h, k) \<Longrightarrow> validate_body now body = validate_approval_ids i h k"
  by (cases body) simp_all

lemma validate_ops_request_iff:
  "validate_ops_request now r = Inr () \<longleftrightarrow>
    or_protocol_version r = IPC_PROTOCOL_VERSION
    \<and> validate_ascii_range (or_request_id r) 1 64 ''request_id'' = Inr ()
    \<and> now < or_deadline_unix_ms r
    \<and> list_all id (confirmations (or_body r))
    \<and> validate_body now (or_body r) = Inr ()"
  by (auto simp: validate_ops_request_def validate_confirmations_iff)


definition sample_service_approval :: "bool \<Rightarrow> ops_request" where
  "sample_service_approval confirmed =
    \<lparr>or_protocol_version = 1, or_request_id = ''r1'', or_deadline_unix_ms = 11,
     or_body = ApproveServiceControl \<lparr>subj_uid = 1000, subj_username = ''op'', subj_role = Operator\<rparr> ''plan-1''
       (''sha256:'' @ replicate 64 (CHR ''a'')) (replicate 32 (CHR ''k'')) confirmed\<rparr>"


end
