(* ===== verification/Ledger_Model.thy ===== *)
theory Ledger_Model
  imports Contracts
begin

text \<open>
  The durable ledger of the privileged daemon (\<^verbatim>\<open>jw-opsd/src/ledger.rs\<close> and its submodules): the
  tables of the SQLite schema, the values the code loads out of them, and one definition per
  operation.

  A table is the list of its rows; a primary key or \<^verbatim>\<open>UNIQUE\<close> constraint is the check an insert
  makes.  A transaction either commits its new tables or leaves the tables as they were.  Storage
  can fail: the ledger state carries a list of pending outcomes (\<^verbatim>\<open>lg_faults\<close>) from which every
  access to SQLite and every write of the checkpoint file takes its own, \<^verbatim>\<open>True\<close> meaning that this
  access fails; the theorems hold for every such list.  \<^verbatim>\<open>serde_json\<close> is the record \<^verbatim>\<open>serde\<close> of
  per-type printers and parsers, the RFC 3339 formatter is a field of the environment, and the
  (localised) display texts are looked up in a catalogue.
\<close>

section \<open>Plan payloads\<close>

record managed_config_plan_payload =
  mp_proposal_relative_path :: string
  mp_proposal_digest :: string
  mp_basename :: "string option"
  mp_proposed_content_digest :: string
  mp_current_bytes :: nat
  mp_proposed_bytes :: nat
  mp_added_lines :: nat
  mp_removed_lines :: nat
  mp_diff_summary :: "string list"
  mp_service_action :: service_action

record certbot_renew_plan_payload =
  crp_inventory_digest :: string
  crp_timer_enabled :: bool
  crp_timer_active :: bool
  crp_certificate_count :: nat

record certbot_issue_plan_payload =
  cip_primary_domain :: string
  cip_domains :: "string list"
  cip_account_email_proposal_relative_path :: string
  cip_account_email_proposal_digest :: string
  cip_masked_account_email :: string
  cip_environment :: certificate_environment
  cip_site_id :: string
  cip_site_digest :: string
  cip_inventory_digest :: string
  cip_preflight_observed_at_ms :: int
  cip_resolved_addresses :: "string list"
  cip_local_port_80_reachable :: bool
  cip_local_port_443_reachable :: bool
  cip_staging_evidence_valid :: bool
  cip_staging_evidence_key :: string

record certbot_attach_plan_payload =
  cap_primary_domain :: string
  cap_site_id :: string
  cap_site_digest :: string
  cap_metadata_digest :: string
  cap_inventory_digest :: string
  cap_certificate_fingerprint :: string
  cap_sans :: "string list"
  cap_not_after :: string
  cap_current_certificate_path :: string
  cap_target_certificate_path :: string
  cap_proposed_content_digest :: string
  cap_timer_enabled :: bool
  cap_timer_active :: bool

record ufw_rule_spec =
  ur_mutation :: ufw_rule_mutation
  ur_protocol :: ufw_protocol
  ur_port :: nat
  ur_source :: string
  ur_rule_id :: string

record ufw_plan_payload =
  up_requested_mutation :: ufw_rule_mutation
  up_rule :: ufw_rule_spec
  up_delete_sequences :: "nat list"

section \<open>Loaded values\<close>

record stored_plan =
  sp_operation_type :: string
  sp_plan_id :: string
  sp_plan_hash :: string
  sp_actor :: subject
  sp_site_id :: string
  sp_display_name :: string
  sp_current_state :: nginx_site_state
  sp_target_state :: nginx_site_state
  sp_available_digest :: string
  sp_enabled_state_digest :: string
  sp_created_at_ms :: int
  sp_expires_at_ms :: int
  sp_idempotency_key :: string
  sp_request_digest :: string
  sp_resource_key :: string
  sp_assurance :: assurance_view
  sp_managed_config :: "managed_config_plan_payload option"
  sp_certbot_renew :: "certbot_renew_plan_payload option"
  sp_certbot_issue :: "certbot_issue_plan_payload option"
  sp_certbot_attach :: "certbot_attach_plan_payload option"
  sp_ufw_rule :: "ufw_plan_payload option"

definition plan_before_digest :: "stored_plan \<Rightarrow> string" where
  "plan_before_digest p =
    (if sp_operation_type p = MANAGED_CONFIG_OPERATION
        \<or> sp_operation_type p = MANAGED_CONFIG_RESTORE_OPERATION
        \<or> sp_operation_type p = CERTBOT_ATTACH_OPERATION
     then sp_available_digest p else sp_enabled_state_digest p)"

record snapshot_record =
  sn_relative_path :: string
  sn_digest :: string

record stored_operation =
  so_operation_id :: string
  so_plan :: stored_plan
  so_stage :: operation_stage
  so_before_digest :: string
  so_after_digest :: string
  so_rollback_result :: "string option"
  so_snapshot :: "snapshot_record option"

record stage_change =
  ch_expected :: "operation_stage list"
  ch_next :: operation_stage
  ch_result_code :: string
  ch_evidence_digest :: string
  ch_after_digest :: "string option"
  ch_rollback_result :: "string option"
  ch_now_ms :: int

record canonical_event =
  ce_schema_version :: nat
  ce_sequence :: int
  ce_previous_digest :: string
  ce_operation_id :: string
  ce_plan_id :: string
  ce_stage :: string
  ce_result_code :: string
  ce_recorded_at_ms :: int
  ce_evidence_digest :: string

record event_input =
  ei_operation_id :: string
  ei_plan_id :: string
  ei_stage :: operation_stage
  ei_result_code :: string
  ei_recorded_at_ms :: int
  ei_evidence_digest :: string

record checkpoint =
  cp_schema_version :: nat
  cp_sequence :: int
  cp_event_digest :: string

record diagnostic_evidence =
  de_schema_version :: nat
  de_validator_evidence_digest :: string
  de_diagnostics_digest :: string

record stored_diagnostics =
  sdg_json :: string
  sdg_digest :: string
  sdg_validator_evidence_digest :: string

section \<open>Rows and tables\<close>

record plan_row =
  pr_plan_id :: string
  pr_operation_type :: string
  pr_plan_hash :: string
  pr_actor_uid :: int
  pr_actor_username :: string
  pr_actor_role :: string
  pr_site_id :: string
  pr_display_name :: string
  pr_current_state :: string
  pr_target_state :: string
  pr_available_digest :: string
  pr_enabled_state_digest :: string
  pr_created_at_ms :: int
  pr_expires_at_ms :: int
  pr_idempotency_key :: string
  pr_request_digest :: string
  pr_resource_key :: string
  pr_assurance_json :: string
  pr_payload_json :: string
  pr_certificate_payload_json :: string
  pr_certificate_issue_payload_json :: string
  pr_certificate_attach_payload_json :: string
  pr_ufw_rule_payload_json :: string

record operation_row =
  or_operation_id :: string
  or_plan_id :: string
  or_stage :: string
  or_before_digest :: string
  or_after_digest :: string
  or_rollback_result :: "string option"
  or_snapshot_relative_path :: "string option"
  or_snapshot_digest :: "string option"
  or_created_at_ms :: int
  or_updated_at_ms :: int

record idempotency_row =
  ir_idempotency_key :: string
  ir_request_digest :: string
  ir_plan_id :: string
  ir_operation_id :: "string option"

record lock_row =
  lr_resource_key :: string
  lr_operation_id :: string
  lr_acquired_at_ms :: int

record event_row =
  ev_sequence :: int
  ev_operation_id :: string
  ev_plan_id :: string
  ev_stage :: string
  ev_result_code :: string
  ev_recorded_at_ms :: int
  ev_evidence_digest :: string
  ev_previous_digest :: string
  ev_event_digest :: string

record diagnostics_row =
  dr_sequence :: int
  dr_diagnostics_json :: string
  dr_diagnostics_digest :: string
  dr_validator_evidence_digest :: string

record command_row =
  cr_sequence :: int
  cr_command_json :: string

text \<open>\<^verbatim>\<open>t_pending\<close> is the \<^verbatim>\<open>metadata\<close> row \<^verbatim>\<open>checkpoint_required_sequence\<close>, read as an integer.\<close>

record tables =
  t_plans :: "plan_row list"
  t_operations :: "operation_row list"
  t_idempotency :: "idempotency_row list"
  t_locks :: "lock_row list"
  t_events :: "event_row list"
  t_diagnostics :: "diagnostics_row list"
  t_commands :: "command_row list"
  t_pending :: "int option"

section \<open>Files of the state directory and the schema version\<close>

datatype file_kind = RegularFile | DirectoryNode | SymlinkTo bool | OtherNode

text \<open>For a symbolic link the argument says whether it leads to a directory.\<close>

record file_node =
  fn_kind :: file_kind
  fn_uid :: nat
  fn_nlink :: nat
  fn_mode :: nat
  fn_content :: bytes

record state_files =
  sf_parent :: "file_node option"
  sf_database :: "file_node option"
  sf_wal :: "file_node option"
  sf_shm :: "file_node option"
  sf_checkpoint :: "file_node option"

record schema =
  sc_user_version :: int
  sc_objects :: "string list"

record ledger =
  lg_tables :: tables
  lg_schema :: schema
  lg_integrity :: string
  lg_files :: state_files
  lg_faults :: "bool list"

section \<open>Environment\<close>

record serde =
  ser_role :: "role \<Rightarrow> string"
  de_role :: "string \<Rightarrow> role option"
  ser_state :: "nginx_site_state \<Rightarrow> string"
  de_state :: "string \<Rightarrow> nginx_site_state option"
  ser_assurance :: "assurance_view \<Rightarrow> string"
  de_assurance :: "string \<Rightarrow> assurance_view option"
  ser_managed :: "managed_config_plan_payload option \<Rightarrow> string"
  de_managed :: "string \<Rightarrow> managed_config_plan_payload option option"
  ser_renew :: "certbot_renew_plan_payload option \<Rightarrow> string"
  de_renew :: "string \<Rightarrow> certbot_renew_plan_payload option option"
  ser_issue :: "certbot_issue_plan_payload option \<Rightarrow> string"
  de_issue :: "string \<Rightarrow> certbot_issue_plan_payload option option"
  ser_attach :: "certbot_attach_plan_payload option \<Rightarrow> string"
  de_attach :: "string \<Rightarrow> certbot_attach_plan_payload option option"
  ser_ufw :: "ufw_plan_payload option \<Rightarrow> string"
  de_ufw :: "string \<Rightarrow> ufw_plan_payload option option"
  ser_command :: "command_evidence_view \<Rightarrow> string"
  de_command :: "string \<Rightarrow> command_evidence_view option"
  ser_diagnostics :: "diagnostic_view list \<Rightarrow> string"
  de_diagnostics :: "string \<Rightarrow> diagnostic_view list option"
  ser_checkpoint :: "checkpoint \<Rightarrow> bytes"
  de_checkpoint :: "bytes \<Rightarrow> checkpoint option"
  ser_event :: "canonical_event \<Rightarrow> bytes"
  ser_diagnostic_evidence :: "diagnostic_evidence \<Rightarrow> bytes"

text \<open>
  \<^verbatim>\<open>le_enforce_root\<close> is \<^verbatim>\<open>OpsPaths::enforce_root_ownership\<close>, \<^verbatim>\<open>le_daemon_uid\<close> the user the daemon runs
  as, which owns the files it creates.
\<close>

record ledger_env =
  le_sha256 :: "bytes \<Rightarrow> bytes"
  le_serde :: serde
  le_rfc3339 :: "int \<Rightarrow> string option"
  le_texts :: "string \<Rightarrow> string list"
  le_enforce_root :: bool
  le_daemon_uid :: nat

text \<open>What the ledger relies on in \<^verbatim>\<open>serde_json\<close>: what is printed can be read back.\<close>

definition serde_ok :: "serde \<Rightarrow> bool" where
  "serde_ok sd =
    ((\<forall>v. de_role sd (ser_role sd v) = Some v) \<and> (\<forall>v. de_state sd (ser_state sd v) = Some v)
     \<and> (\<forall>v. de_assurance sd (ser_assurance sd v) = Some v)
     \<and> (\<forall>v. de_managed sd (ser_managed sd v) = Some v)
     \<and> (\<forall>v. de_renew sd (ser_renew sd v) = Some v) \<and> (\<forall>v. de_issue sd (ser_issue sd v) = Some v)
     \<and> (\<forall>v. de_attach sd (ser_attach sd v) = Some v) \<and> (\<forall>v. de_ufw sd (ser_ufw sd v) = Some v)
     \<and> (\<forall>v. de_command sd (ser_command sd v) = Some v)
     \<and> (\<forall>v. de_diagnostics sd (ser_diagnostics sd v) = Some v)
     \<and> (\<forall>v. de_checkpoint sd (ser_checkpoint sd v) = Some v))"

section \<open>Storage access\<close>

definition storage_access :: "(ledger, ops_error, unit) routine" where
  "storage_access = (\<lambda>l.
    case lg_faults l of
      [] \<Rightarrow> (Inr (), l)
    | f # fs \<Rightarrow> (if f then Inl (Storage ''storage'') else Inr (), l\<lparr>lg_faults := fs\<rparr>))"

definition transaction ::
    "(tables \<Rightarrow> (ops_error, 'a \<times> tables) result) \<Rightarrow> (ledger, ops_error, 'a) routine" where
  "transaction body = bindM storage_access (\<lambda>_ l.
    case body (lg_tables l) of
      Inl e \<Rightarrow> (Inl e, l)
    | Inr (x, t) \<Rightarrow> (Inr x, l\<lparr>lg_tables := t\<rparr>))"

definition query :: "(tables \<Rightarrow> (ops_error, 'a) result) \<Rightarrow> (ledger, ops_error, 'a) routine" where
  "query f = bindM storage_access (\<lambda>_. reading (\<lambda>l. f (lg_tables l)))"

definition no_rows :: ops_error where
  "no_rows = Storage ''Query returned no rows''"

definition unique_violation :: ops_error where
  "unique_violation = Storage ''UNIQUE constraint failed''"

definition GENESIS_DIGEST :: string where
  "GENESIS_DIGEST = ''sha256:'' @ replicate 64 (CHR ''0'')"

end
