(* ===== verification/Ledger_Ops.thy ===== *)
theory Ledger_Ops
  imports Ledger_Model
begin

text \<open>
  The operations of \<^verbatim>\<open>jw-opsd/src/ledger.rs\<close>, \<^verbatim>\<open>ledger/command_evidence.rs\<close> and
  \<^verbatim>\<open>ledger/diagnostics.rs\<close>, in the order the sources have them: reading rows, appending to the hash
  chain, the transactions that move an operation from stage to stage, the continuity check, and
  the checkpoint file.  A transaction body is a function on the tables that returns either an
  error or its value with the new tables.
\<close>

section \<open>Loading rows\<close>

definition parse_stage :: "string \<Rightarrow> (ops_error, operation_stage) result" where
  "parse_stage value =
    (if value = ''PLANNED'' then Inr Planned
     else if value = ''APPROVED'' then Inr Approved
     else if value = ''SNAPSHOTTED'' then Inr Snapshotted
     else if value = ''APPLYING'' then Inr Applying
     else if value = ''VALIDATING'' then Inr Validating
     else if value = ''RELOADING'' then Inr Reloading
     else if value = ''VERIFYING'' then Inr Verifying
     else if value = ''ROLLING_BACK'' then Inr RollingBack
     else if value = ''SUCCEEDED'' then Inr Succeeded
     else if value = ''ROLLED_BACK'' then Inr RolledBack
     else if value = ''RECOVERY_REQUIRED'' then Inr RecoveryRequired
     else if value = ''REJECTED'' then Inr Stage_Rejected
     else if value = ''EXPIRED'' then Inr Expired
     else if value = ''CANCELLED_BEFORE_APPLY'' then Inr CancelledBeforeApply
     else Inl ForensicLockdown)"

definition plan_of_row :: "serde \<Rightarrow> plan_row \<Rightarrow> (ops_error, stored_plan) result" where
  "plan_of_row sd row =
    bindR (if 0 \<le> pr_actor_uid row \<and> pr_actor_uid row \<le> 4294967295
           then Inr (nat (pr_actor_uid row)) else Inl ForensicLockdown) (\<lambda>uid.
    bindR (ok_or (de_role sd (pr_actor_role row)) ForensicLockdown) (\<lambda>rl.
    bindR (ok_or (de_state sd (pr_current_state row)) ForensicLockdown) (\<lambda>current_state.
    bindR (ok_or (de_state sd (pr_target_state row)) ForensicLockdown) (\<lambda>target_state.
    bindR (ok_or (de_assurance sd (pr_assurance_json row)) ForensicLockdown) (\<lambda>assurance.
    bindR (ok_or (de_managed sd (pr_payload_json row)) ForensicLockdown) (\<lambda>managed_config.
    bindR (ok_or (de_renew sd (pr_certificate_payload_json row)) ForensicLockdown) (\<lambda>certbot_renew.
    bindR (ok_or (de_issue sd (pr_certificate_issue_payload_json row)) ForensicLockdown) (\<lambda>certbot_issue.
    bindR (ok_or (de_attach sd (pr_certificate_attach_payload_json row)) ForensicLockdown) (\<lambda>certbot_attach.
    bindR (ok_or (de_ufw sd (pr_ufw_rule_payload_json row)) ForensicLockdown) (\<lambda>ufw_rule.
    Inr \<lparr> sp_operation_type = pr_operation_type row, sp_plan_id = pr_plan_id row,
          sp_plan_hash = pr_plan_hash row,
          sp_actor = \<lparr> subj_uid = uid, subj_username = pr_actor_username row, subj_role = rl \<rparr>,
          sp_site_id = pr_site_id row, sp_display_name = pr_display_name row,
          sp_current_state = current_state, sp_target_state = target_state,
          sp_available_digest = pr_available_digest row,
          sp_enabled_state_digest = pr_enabled_state_digest row,
          sp_created_at_ms = pr_created_at_ms row, sp_expires_at_ms = pr_expires_at_ms row,
          sp_idempotency_key = pr_idempotency_key row, sp_request_digest = pr_request_digest row,
          sp_resource_key = pr_resource_key row, sp_assurance = assurance,
          sp_managed_config = managed_config, sp_certbot_renew = certbot_renew,
          sp_certbot_issue = certbot_issue, sp_certbot_attach = certbot_attach,
          sp_ufw_rule = ufw_rule \<rparr>))))))))))"

definition row_of_plan :: "serde \<Rightarrow> stored_plan \<Rightarrow> plan_row" where
  "row_of_plan sd plan =
    \<lparr> pr_plan_id = sp_plan_id plan, pr_operation_type = sp_operation_type plan,
      pr_plan_hash = sp_plan_hash plan, pr_actor_uid = int (subj_uid (sp_actor plan)),
      pr_actor_username = subj_username (sp_actor plan),
      pr_actor_role = ser_role sd (subj_role (sp_actor plan)),
      pr_site_id = sp_site_id plan, pr_display_name = sp_display_name plan,
      pr_current_state = ser_state sd (sp_current_state plan),
      pr_target_state = ser_state sd (sp_target_state plan),
      pr_available_digest = sp_available_digest plan,
      pr_enabled_state_digest = sp_enabled_state_digest plan,
      pr_created_at_ms = sp_created_at_ms plan, pr_expires_at_ms = sp_expires_at_ms plan,
      pr_idempotency_key = sp_idempotency_key plan, pr_request_digest = sp_request_digest plan,
      pr_resource_key = sp_resource_key plan,
      pr_assurance_json = ser_assurance sd (sp_assurance plan),
      pr_payload_json = ser_managed sd (sp_managed_config plan),
      pr_certificate_payload_json = ser_renew sd (sp_certbot_renew plan),
      pr_certificate_issue_payload_json = ser_issue sd (sp_certbot_issue plan),
      pr_certificate_attach_payload_json = ser_attach sd (sp_certbot_attach plan),
      pr_ufw_rule_payload_json = ser_ufw sd (sp_ufw_rule plan) \<rparr>"

definition load_plan_from :: "ledger_env \<Rightarrow> string \<Rightarrow> tables \<Rightarrow> (ops_error, stored_plan) result" where
  "load_plan_from env plan_id t =
    bindR (ok_or (find (\<lambda>row. pr_plan_id row = plan_id) (t_plans t)) (Rejected ''plan_missing''))
      (plan_of_row (le_serde env))"

definition load_operation_from ::
    "ledger_env \<Rightarrow> string \<Rightarrow> tables \<Rightarrow> (ops_error, stored_operation) result" where
  "load_operation_from env operation_id t =
    bindR (ok_or (find (\<lambda>row. or_operation_id row = operation_id) (t_operations t))
             (Rejected ''operation_missing'')) (\<lambda>row.
    bindR (case (or_snapshot_relative_path row, or_snapshot_digest row) of
             (Some relative_path, Some digest) \<Rightarrow>
               Inr (Some \<lparr> sn_relative_path = relative_path, sn_digest = digest \<rparr>)
           | (None, None) \<Rightarrow> Inr None
           | _ \<Rightarrow> Inl ForensicLockdown) (\<lambda>snapshot.
    bindR (load_plan_from env (or_plan_id row) t) (\<lambda>plan.
    bindR (parse_stage (or_stage row)) (\<lambda>stage.
    Inr \<lparr> so_operation_id = operation_id, so_plan = plan, so_stage = stage,
          so_before_digest = or_before_digest row, so_after_digest = or_after_digest row,
          so_rollback_result = or_rollback_result row, so_snapshot = snapshot \<rparr>))))"

definition load_plan :: "ledger_env \<Rightarrow> string \<Rightarrow> (ledger, ops_error, stored_plan) routine" where
  "load_plan env plan_id = query (load_plan_from env plan_id)"

definition load_operation :: "ledger_env \<Rightarrow> string \<Rightarrow> (ledger, ops_error, stored_operation) routine" where
  "load_operation env operation_id = query (load_operation_from env operation_id)"

section \<open>Inserting rows\<close>

definition insert_plan :: "plan_row \<Rightarrow> tables \<Rightarrow> (ops_error, tables) result" where
  "insert_plan row t =
    (if list_ex (\<lambda>r. pr_plan_id r = pr_plan_id row \<or> pr_plan_hash r = pr_plan_hash row
          \<or> pr_idempotency_key r = pr_idempotency_key row) (t_plans t)
     then Inl unique_violation else Inr (t\<lparr>t_plans := t_plans t @ [row]\<rparr>))"

definition insert_idempotency :: "idempotency_row \<Rightarrow> tables \<Rightarrow> (ops_error, tables) result" where
  "insert_idempotency row t =
    (if list_ex (\<lambda>r. ir_idempotency_key r = ir_idempotency_key row) (t_idempotency t)
     then Inl unique_violation else Inr (t\<lparr>t_idempotency := t_idempotency t @ [row]\<rparr>))"

definition insert_operation :: "operation_row \<Rightarrow> tables \<Rightarrow> (ops_error, tables) result" where
  "insert_operation row t =
    (if list_ex (\<lambda>r. or_operation_id r = or_operation_id row \<or> or_plan_id r = or_plan_id row)
          (t_operations t)
     then Inl unique_violation else Inr (t\<lparr>t_operations := t_operations t @ [row]\<rparr>))"

definition insert_lock :: "lock_row \<Rightarrow> tables \<Rightarrow> (ops_error, tables) result" where
  "insert_lock row t =
    (if list_ex (\<lambda>r. lr_resource_key r = lr_resource_key row) (t_locks t)
     then Inl unique_violation else Inr (t\<lparr>t_locks := t_locks t @ [row]\<rparr>))"

definition insert_event :: "event_row \<Rightarrow> tables \<Rightarrow> (ops_error, tables) result" where
  "insert_event row t =
    (if list_ex (\<lambda>r. ev_sequence r = ev_sequence row \<or> ev_event_digest r = ev_event_digest row)
          (t_events t)
     then Inl unique_violation else Inr (t\<lparr>t_events := t_events t @ [row]\<rparr>))"

definition insert_diagnostics :: "diagnostics_row \<Rightarrow> tables \<Rightarrow> (ops_error, tables) result" where
  "insert_diagnostics row t =
    (if list_ex (\<lambda>r. dr_sequence r = dr_sequence row) (t_diagnostics t)
     then Inl unique_violation else Inr (t\<lparr>t_diagnostics := t_diagnostics t @ [row]\<rparr>))"

definition insert_command :: "command_row \<Rightarrow> tables \<Rightarrow> (ops_error, tables) result" where
  "insert_command row t =
    (if list_ex (\<lambda>r. cr_sequence r = cr_sequence row) (t_commands t)
     then Inl unique_violation else Inr (t\<lparr>t_commands := t_commands t @ [row]\<rparr>))"

section \<open>The hash chain\<close>

text \<open>\<^verbatim>\<open>SELECT ... ORDER BY sequence\<close>, and its last row for \<^verbatim>\<open>ORDER BY sequence DESC LIMIT 1\<close>.\<close>

definition events_in_order :: "tables \<Rightarrow> event_row list" where
  "events_in_order t = sort_key ev_sequence (t_events t)"

definition latest_event :: "tables \<Rightarrow> event_row option" where
  "latest_event t =
    (let evs = events_in_order t in if evs = [] then None else Some (last evs))"

definition event_of_row :: "event_row \<Rightarrow> string \<Rightarrow> canonical_event" where
  "event_of_row row previous =
    \<lparr> ce_schema_version = 1, ce_sequence = ev_sequence row, ce_previous_digest = previous,
      ce_operation_id = ev_operation_id row, ce_plan_id = ev_plan_id row, ce_stage = ev_stage row,
      ce_result_code = ev_result_code row, ce_recorded_at_ms = ev_recorded_at_ms row,
      ce_evidence_digest = ev_evidence_digest row \<rparr>"

definition append_event ::
    "ledger_env \<Rightarrow> event_input \<Rightarrow> tables \<Rightarrow> (ops_error, int \<times> tables) result" where
  "append_event env event t =
    (let (last_sequence, previous_digest) =
           (case latest_event t of
              Some row \<Rightarrow> (ev_sequence row, ev_event_digest row)
            | None \<Rightarrow> (0, GENESIS_DIGEST));
         sequence = sat_add last_sequence 1;
         stage_value = as_storage_value (ei_stage event);
         canonical = ser_event (le_serde env)
           \<lparr> ce_schema_version = 1, ce_sequence = sequence, ce_previous_digest = previous_digest,
             ce_operation_id = ei_operation_id event, ce_plan_id = ei_plan_id event,
             ce_stage = stage_value, ce_result_code = ei_result_code event,
             ce_recorded_at_ms = ei_recorded_at_ms event,
             ce_evidence_digest = ei_evidence_digest event \<rparr>
     in
     bindR (ledger_event_digest (le_sha256 env) previous_digest canonical) (\<lambda>digest.
     bindR (insert_event
              \<lparr> ev_sequence = sequence, ev_operation_id = ei_operation_id event,
                ev_plan_id = ei_plan_id event, ev_stage = stage_value,
                ev_result_code = ei_result_code event, ev_recorded_at_ms = ei_recorded_at_ms event,
                ev_evidence_digest = ei_evidence_digest event,
                ev_previous_digest = previous_digest, ev_event_digest = digest \<rparr> t) (\<lambda>t'.
     Inr (sequence, t'))))"

definition mark_checkpoint_if_needed :: "int \<Rightarrow> bool \<Rightarrow> tables \<Rightarrow> tables" where
  "mark_checkpoint_if_needed sequence terminal t =
    (if terminal \<or> sequence mod 128 = 0 then t\<lparr>t_pending := Some sequence\<rparr> else t)"

section \<open>Evidence attached to an event\<close>

definition command_evidence_digest :: "ledger_env \<Rightarrow> command_evidence_view \<Rightarrow> string" where
  "command_evidence_digest env command =
    canonical_digest (le_sha256 env) ''jw-agent/command-evidence/v1'' (ser_command (le_serde env) command)"

definition prepare_command_evidence ::
    "ledger_env \<Rightarrow> command_evidence_view \<Rightarrow> string \<Rightarrow> (ops_error, string) result" where
  "prepare_command_evidence env command expected_digest =
    (if \<not> is_ok (validate_command_shape command) \<or> command_evidence_digest env command \<noteq> expected_digest
     then Inl (Rejected ''invalid_command_evidence'')
     else Inr (ser_command (le_serde env) command))"

definition load_command_evidence ::
    "ledger_env \<Rightarrow> string option \<Rightarrow> string \<Rightarrow> string option \<Rightarrow>
     (ops_error, command_evidence_view option) result" where
  "load_command_evidence env command_json event_evidence_digest validator_evidence_digest =
    (case command_json of
       None \<Rightarrow> Inr None
     | Some json \<Rightarrow>
         bindR (ok_or (de_command (le_serde env) json) ForensicLockdown) (\<lambda>command.
         if \<not> is_ok (validate_command_shape command) then Inl ForensicLockdown
         else
           let expected = (case validator_evidence_digest of
                 Some value \<Rightarrow> value | None \<Rightarrow> event_evidence_digest) in
           if command_evidence_digest env command \<noteq> expected then Inl ForensicLockdown
           else Inr (Some command)))"

definition diagnostic_evidence_digest :: "ledger_env \<Rightarrow> string \<Rightarrow> string \<Rightarrow> string" where
  "diagnostic_evidence_digest env validator_digest diagnostics_digest =
    canonical_digest (le_sha256 env) ''jw-agent/managed-config-diagnostic-evidence/v1''
      (ser_diagnostic_evidence (le_serde env)
        \<lparr> de_schema_version = 1, de_validator_evidence_digest = validator_digest,
          de_diagnostics_digest = diagnostics_digest \<rparr>)"

definition diagnostics_shape_ok :: "diagnostic_view list \<Rightarrow> bool" where
  "diagnostics_shape_ok ds =
    (ds \<noteq> [] \<and> length ds \<le> DIAGNOSTIC_MAX_ENTRIES \<and> list_all (\<lambda>d. is_ok (validate_diagnostic_shape d)) ds)"

definition prepare_diagnostics ::
    "ledger_env \<Rightarrow> string \<Rightarrow> diagnostic_view list \<Rightarrow> (ops_error, stored_diagnostics \<times> string) result" where
  "prepare_diagnostics env validator_evidence_digest diagnostics =
    (if \<not> diagnostics_shape_ok diagnostics \<or> \<not> is_ok (validate_digest validator_evidence_digest)
     then Inl (Rejected ''invalid_diagnostic'')
     else
       let json = ser_diagnostics (le_serde env) diagnostics;
           digest = sha256_digest (le_sha256 env) json
       in Inr (\<lparr> sdg_json = json, sdg_digest = digest,
                 sdg_validator_evidence_digest = validator_evidence_digest \<rparr>,
               diagnostic_evidence_digest env validator_evidence_digest digest))"

definition load_diagnostics ::
    "ledger_env \<Rightarrow> diagnostics_row option \<Rightarrow> string \<Rightarrow> (ops_error, diagnostic_view list) result" where
  "load_diagnostics env row event_evidence_digest =
    (case row of
       None \<Rightarrow> Inr []
     | Some r \<Rightarrow>
         let json = dr_diagnostics_json r; digest = dr_diagnostics_digest r;
             validator_digest = dr_validator_evidence_digest r in
         if \<not> is_ok (validate_digest digest) \<or> \<not> is_ok (validate_digest validator_digest)
            \<or> sha256_digest (le_sha256 env) json \<noteq> digest
         then Inl ForensicLockdown
         else
           bindR (ok_or (de_diagnostics (le_serde env) json) ForensicLockdown) (\<lambda>diagnostics.
           if \<not> diagnostics_shape_ok diagnostics
              \<or> diagnostic_evidence_digest env validator_digest digest \<noteq> event_evidence_digest
           then Inl ForensicLockdown else Inr diagnostics))"

text \<open>The two left joins of the event queries.\<close>

definition command_at :: "tables \<Rightarrow> int \<Rightarrow> string option" where
  "command_at t sequence =
    map_option cr_command_json (find (\<lambda>r. cr_sequence r = sequence) (t_commands t))"

definition diagnostics_at :: "tables \<Rightarrow> int \<Rightarrow> diagnostics_row option" where
  "diagnostics_at t sequence = find (\<lambda>r. dr_sequence r = sequence) (t_diagnostics t)"

section \<open>The checkpoint file\<close>

definition validate_private_file ::
    "bool \<Rightarrow> bool \<Rightarrow> file_node option \<Rightarrow> (ops_error, unit) result" where
  "validate_private_file enforce_root_ownership missing_allowed node =
    (case node of
       None \<Rightarrow> if missing_allowed then Inr () else Inl ForensicLockdown
     | Some n \<Rightarrow>
         if fn_kind n \<noteq> RegularFile then Inl ForensicLockdown
         else if fn_nlink n \<noteq> 1 \<or> (enforce_root_ownership \<and> fn_uid n \<noteq> 0) then Inl ForensicLockdown
         else Inr ())"

definition set_checkpoint_file :: "file_node option \<Rightarrow> ledger \<Rightarrow> ledger" where
  "set_checkpoint_file n l = l\<lparr>lg_files := (lg_files l)\<lparr>sf_checkpoint := n\<rparr>\<rparr>"

definition checkpoint_node :: "ledger_env \<Rightarrow> checkpoint \<Rightarrow> file_node" where
  "checkpoint_node env cp =
    \<lparr> fn_kind = RegularFile, fn_uid = le_daemon_uid env, fn_nlink = 1, fn_mode = 384,
      fn_content = ser_checkpoint (le_serde env) cp \<rparr>"

text \<open>
  The first access stands for writing and syncing the temporary file and renaming it over the
  checkpoint, the second for syncing the directory afterwards.
\<close>

definition write_checkpoint :: "ledger_env \<Rightarrow> checkpoint \<Rightarrow> (ledger, ops_error, unit) routine" where
  "write_checkpoint env cp =
    bindM (reading (\<lambda>l. validate_private_file False True (sf_checkpoint (lg_files l)))) (\<lambda>_.
    bindM storage_access (\<lambda>_.
    bindM (modify (set_checkpoint_file (Some (checkpoint_node env cp)))) (\<lambda>_.
    storage_access)))"

definition clear_completed_checkpoint :: "int \<Rightarrow> (ledger, ops_error, unit) routine" where
  "clear_completed_checkpoint completed_sequence =
    transaction (\<lambda>t. Inr ((),
      if t_pending t = Some completed_sequence then t\<lparr>t_pending := None\<rparr> else t))"

definition complete_pending_checkpoint :: "ledger_env \<Rightarrow> (ledger, ops_error, unit) routine" where
  "complete_pending_checkpoint env =
    bindM (query (\<lambda>t. Inr (t_pending t))) (\<lambda>pending.
    case pending of
      None \<Rightarrow> ret ()
    | Some required_sequence \<Rightarrow>
        bindM (query (\<lambda>t. ok_or (latest_event t) no_rows)) (\<lambda>ev.
        if ev_sequence ev < required_sequence then fail ForensicLockdown
        else
          bindM (write_checkpoint env
                   \<lparr> cp_schema_version = 1, cp_sequence = ev_sequence ev,
                     cp_event_digest = ev_event_digest ev \<rparr>) (\<lambda>_.
          clear_completed_checkpoint required_sequence)))"

section \<open>Plans and operations\<close>

definition create_or_reuse_plan_body ::
    "ledger_env \<Rightarrow> stored_plan \<Rightarrow> tables \<Rightarrow> (ops_error, (stored_plan \<times> bool) \<times> tables) result" where
  "create_or_reuse_plan_body env plan t =
    (case find (\<lambda>r. ir_idempotency_key r = sp_idempotency_key plan) (t_idempotency t) of
       Some existing \<Rightarrow>
         if ir_request_digest existing \<noteq> sp_request_digest plan
         then Inl (Rejected ''idempotency_conflict'')
         else bindR (load_plan_from env (ir_plan_id existing) t) (\<lambda>p. Inr ((p, False), t))
     | None \<Rightarrow>
         bindR (insert_plan (row_of_plan (le_serde env) plan) t) (\<lambda>t1.
         bindR (insert_idempotency
                  \<lparr> ir_idempotency_key = sp_idempotency_key plan,
                    ir_request_digest = sp_request_digest plan,
                    ir_plan_id = sp_plan_id plan, ir_operation_id = None \<rparr> t1) (\<lambda>t2.
         bindR (append_event env
                  \<lparr> ei_operation_id = [], ei_plan_id = sp_plan_id plan, ei_stage = Planned,
                    ei_result_code = ''planned'', ei_recorded_at_ms = sp_created_at_ms plan,
                    ei_evidence_digest = sp_plan_hash plan \<rparr> t2) (\<lambda>(sequence, t3).
         Inr ((plan, True), mark_checkpoint_if_needed sequence False t3)))))"

definition create_or_reuse_plan ::
    "ledger_env \<Rightarrow> stored_plan \<Rightarrow> (ledger, ops_error, stored_plan) routine" where
  "create_or_reuse_plan env plan =
    bindM (transaction (create_or_reuse_plan_body env plan)) (\<lambda>(p, created).
    if created then bindM (complete_pending_checkpoint env) (\<lambda>_. ret p) else ret p)"

definition nginx_reload_key :: string where
  "nginx_reload_key = ''nginx/reload''"

definition takes_reload_lock :: "string \<Rightarrow> bool" where
  "takes_reload_lock operation_type =
    (operation_type \<noteq> CERTBOT_RENEW_TEST_OPERATION \<and> operation_type \<noteq> CERTBOT_ISSUE_OPERATION)"

definition begin_operation_body ::
    "ledger_env \<Rightarrow> string \<Rightarrow> string \<Rightarrow> string \<Rightarrow> string \<Rightarrow> subject \<Rightarrow> int \<Rightarrow> tables \<Rightarrow>
     (ops_error, stored_operation option \<times> tables) result" where
  "begin_operation_body env operation_id plan_id plan_hash idempotency_key actor now_ms t =
    bindR (load_plan_from env plan_id t) (\<lambda>plan.
    if sp_plan_hash plan \<noteq> plan_hash \<or> sp_idempotency_key plan \<noteq> idempotency_key
       \<or> sp_actor plan \<noteq> actor
    then Inl (Rejected ''approval_mismatch'')
    else if sp_expires_at_ms plan \<le> now_ms then Inl (Rejected ''plan_expired'')
    else
      (case find (\<lambda>r. or_plan_id r = plan_id) (t_operations t) of
         Some row \<Rightarrow>
           bindR (load_operation_from env (or_operation_id row) t) (\<lambda>op. Inr (Some op, t))
       | None \<Rightarrow>
           bindR (insert_operation
                    \<lparr> or_operation_id = operation_id, or_plan_id = plan_id,
                      or_stage = as_storage_value Approved,
                      or_before_digest = plan_before_digest plan,
                      or_after_digest = plan_before_digest plan, or_rollback_result = None,
                      or_snapshot_relative_path = None, or_snapshot_digest = None,
                      or_created_at_ms = now_ms, or_updated_at_ms = now_ms \<rparr> t) (\<lambda>t1.
           bindR (map_err (\<lambda>_. Rejected ''resource_busy'') (insert_lock
                    \<lparr> lr_resource_key = sp_resource_key plan, lr_operation_id = operation_id,
                      lr_acquired_at_ms = now_ms \<rparr> t1)) (\<lambda>t2.
           bindR (if takes_reload_lock (sp_operation_type plan)
                  then map_err (\<lambda>_. Rejected ''resource_busy'') (insert_lock
                         \<lparr> lr_resource_key = nginx_reload_key, lr_operation_id = operation_id,
                           lr_acquired_at_ms = now_ms \<rparr> t2)
                  else Inr t2) (\<lambda>t3.
           let t4 = t3\<lparr>t_idempotency := map (\<lambda>r. if ir_idempotency_key r = idempotency_key
                           then r\<lparr>ir_operation_id := Some operation_id\<rparr> else r) (t_idempotency t3)\<rparr> in
           bindR (append_event env
                    \<lparr> ei_operation_id = operation_id, ei_plan_id = plan_id, ei_stage = Approved,
                      ei_result_code = ''approved'', ei_recorded_at_ms = now_ms,
                      ei_evidence_digest = plan_hash \<rparr> t4) (\<lambda>(sequence, t5).
           Inr (None, mark_checkpoint_if_needed sequence False t5)))))))"

definition begin_operation ::
    "ledger_env \<Rightarrow> string \<Rightarrow> string \<Rightarrow> string \<Rightarrow> string \<Rightarrow> subject \<Rightarrow> int \<Rightarrow>
     (ledger, ops_error, stored_operation) routine" where
  "begin_operation env operation_id plan_id plan_hash idempotency_key actor now_ms =
    bindM (transaction
        (begin_operation_body env operation_id plan_id plan_hash idempotency_key actor now_ms)) (\<lambda>existing.
    case existing of
      Some op \<Rightarrow> ret op
    | None \<Rightarrow>
        bindM (complete_pending_checkpoint env) (\<lambda>_. load_operation env operation_id))"

definition update_operations ::
    "(operation_row \<Rightarrow> bool) \<Rightarrow> (operation_row \<Rightarrow> operation_row) \<Rightarrow> tables \<Rightarrow> tables" where
  "update_operations P f t =
    t\<lparr>t_operations := map (\<lambda>r. if P r then f r else r) (t_operations t)\<rparr>"

definition attach_snapshot_body ::
    "ledger_env \<Rightarrow> string \<Rightarrow> snapshot_record \<Rightarrow> int \<Rightarrow> tables \<Rightarrow> (ops_error, unit \<times> tables) result" where
  "attach_snapshot_body env operation_id snapshot now_ms t =
    (let P = (\<lambda>r. or_operation_id r = operation_id \<and> or_stage r = as_storage_value Approved);
         t1 = update_operations P (\<lambda>r. r\<lparr>or_stage := as_storage_value Snapshotted,
                or_snapshot_relative_path := Some (sn_relative_path snapshot),
                or_snapshot_digest := Some (sn_digest snapshot), or_updated_at_ms := now_ms\<rparr>) t
     in
     if length (filter P (t_operations t)) \<noteq> 1 then Inl no_rows
     else
       bindR (load_operation_from env operation_id t1) (\<lambda>operation.
       bindR (append_event env
                \<lparr> ei_operation_id = operation_id, ei_plan_id = sp_plan_id (so_plan operation),
                  ei_stage = Snapshotted, ei_result_code = ''snapshot_durable'',
                  ei_recorded_at_ms = now_ms, ei_evidence_digest = sn_digest snapshot \<rparr> t1)
         (\<lambda>(sequence, t2). Inr ((), mark_checkpoint_if_needed sequence False t2))))"

definition attach_snapshot ::
    "ledger_env \<Rightarrow> string \<Rightarrow> snapshot_record \<Rightarrow> int \<Rightarrow> (ledger, ops_error, stored_operation) routine" where
  "attach_snapshot env operation_id snapshot now_ms =
    bindM (transaction (attach_snapshot_body env operation_id snapshot now_ms)) (\<lambda>_.
    bindM (complete_pending_checkpoint env) (\<lambda>_. load_operation env operation_id))"

definition is_managed_config_type :: "string \<Rightarrow> bool" where
  "is_managed_config_type ty = (ty = MANAGED_CONFIG_OPERATION \<or> ty = MANAGED_CONFIG_RESTORE_OPERATION)"

definition transition_body ::
    "ledger_env \<Rightarrow> string \<Rightarrow> stage_change \<Rightarrow> stored_diagnostics option \<Rightarrow> string option \<Rightarrow> tables \<Rightarrow>
     (ops_error, unit \<times> tables) result" where
  "transition_body env operation_id change diagnostics command t =
    bindR (load_operation_from env operation_id t) (\<lambda>current.
    if diagnostics \<noteq> None \<and> \<not> is_managed_config_type (sp_operation_type (so_plan current))
    then Inl (Rejected ''diagnostic_operation'')
    else if so_stage current \<notin> set (ch_expected change) then Inl (Rejected ''stage_conflict'')
    else
      let after = (case ch_after_digest change of Some v \<Rightarrow> v | None \<Rightarrow> so_after_digest current);
          rollback = (case ch_rollback_result change of Some v \<Rightarrow> Some v
                      | None \<Rightarrow> so_rollback_result current);
          t1 = update_operations (\<lambda>r. or_operation_id r = operation_id)
                 (\<lambda>r. r\<lparr>or_stage := as_storage_value (ch_next change), or_after_digest := after,
                        or_rollback_result := rollback, or_updated_at_ms := ch_now_ms change\<rparr>) t
      in
      bindR (append_event env
               \<lparr> ei_operation_id = operation_id, ei_plan_id = sp_plan_id (so_plan current),
                 ei_stage = ch_next change, ei_result_code = ch_result_code change,
                 ei_recorded_at_ms = ch_now_ms change,
                 ei_evidence_digest = ch_evidence_digest change \<rparr> t1) (\<lambda>(sequence, t2).
      bindR (case diagnostics of
               None \<Rightarrow> Inr t2
             | Some d \<Rightarrow> insert_diagnostics
                 \<lparr> dr_sequence = sequence, dr_diagnostics_json = sdg_json d,
                   dr_diagnostics_digest = sdg_digest d,
                   dr_validator_evidence_digest = sdg_validator_evidence_digest d \<rparr> t2) (\<lambda>t3.
      bindR (case command of
               None \<Rightarrow> Inr t3
             | Some json \<Rightarrow> insert_command \<lparr> cr_sequence = sequence, cr_command_json = json \<rparr> t3) (\<lambda>t4.
      let t5 = (if is_terminal (ch_next change)
                then t4\<lparr>t_locks := filter (\<lambda>r. lr_operation_id r \<noteq> operation_id) (t_locks t4)\<rparr>
                else t4)
      in Inr ((), mark_checkpoint_if_needed sequence (is_terminal (ch_next change)) t5)))))"

definition transition_internal ::
    "ledger_env \<Rightarrow> string \<Rightarrow> stage_change \<Rightarrow> stored_diagnostics option \<Rightarrow> string option \<Rightarrow>
     (ledger, ops_error, stored_operation) routine" where
  "transition_internal env operation_id change diagnostics command =
    bindM (transaction (transition_body env operation_id change diagnostics command)) (\<lambda>_.
    bindM (complete_pending_checkpoint env) (\<lambda>_. load_operation env operation_id))"

definition transition ::
    "ledger_env \<Rightarrow> string \<Rightarrow> stage_change \<Rightarrow> (ledger, ops_error, stored_operation) routine" where
  "transition env operation_id change = transition_internal env operation_id change None None"

definition transition_with_command_evidence ::
    "ledger_env \<Rightarrow> string \<Rightarrow> stage_change \<Rightarrow> command_evidence_view \<Rightarrow>
     (ledger, ops_error, stored_operation) routine" where
  "transition_with_command_evidence env operation_id change command =
    bindM (liftR (prepare_command_evidence env command (ch_evidence_digest change))) (\<lambda>stored.
    transition_internal env operation_id change None (Some stored))"

definition transition_with_diagnostics ::
    "ledger_env \<Rightarrow> string \<Rightarrow> stage_change \<Rightarrow> diagnostic_view list \<Rightarrow>
     (ledger, ops_error, stored_operation) routine" where
  "transition_with_diagnostics env operation_id change diagnostics =
    (if diagnostics = [] then transition env operation_id change
     else
       bindM (liftR (prepare_diagnostics env (ch_evidence_digest change) diagnostics)) (\<lambda>(stored, combined).
       transition_internal env operation_id (change\<lparr>ch_evidence_digest := combined\<rparr>) (Some stored) None))"

definition transition_with_diagnostics_and_command ::
    "ledger_env \<Rightarrow> string \<Rightarrow> stage_change \<Rightarrow> diagnostic_view list \<Rightarrow> command_evidence_view \<Rightarrow>
     (ledger, ops_error, stored_operation) routine" where
  "transition_with_diagnostics_and_command env operation_id change diagnostics command =
    (if diagnostics = [] then transition_with_command_evidence env operation_id change command
     else
       bindM (liftR (prepare_command_evidence env command (ch_evidence_digest change))) (\<lambda>stored_command.
       bindM (liftR (prepare_diagnostics env (ch_evidence_digest change) diagnostics)) (\<lambda>(stored, combined).
       transition_internal env operation_id (change\<lparr>ch_evidence_digest := combined\<rparr>) (Some stored)
         (Some stored_command))))"

end
