(* ===== verification/Ledger_Open.thy ===== *)
theory Ledger_Open
  imports Ledger_Ops
begin

text \<open>
  Opening the ledger (\<^verbatim>\<open>Ledger::open\<close>: state directory, schema migration, continuity and checkpoint
  checks) and the read-only queries of \<^verbatim>\<open>jw-opsd/src/ledger.rs\<close>, \<^verbatim>\<open>ledger/activity.rs\<close> and
  \<^verbatim>\<open>ledger/operation_views.rs\<close>: incomplete operations, expired proposals, receipts.
\<close>

section \<open>Continuity\<close>

text \<open>The loop over the ordered events: expected sequence, previous digest, remaining rows.\<close>

fun validate_events ::
    "ledger_env \<Rightarrow> tables \<Rightarrow> int \<Rightarrow> string \<Rightarrow> event_row list \<Rightarrow> (ops_error, int) result" where
  "validate_events env t expected_sequence previous [] = Inr expected_sequence"
| "validate_events env t expected_sequence previous (row # rows) =
    (if ev_sequence row \<noteq> expected_sequence \<or> ev_previous_digest row \<noteq> previous
     then Inl ForensicLockdown
     else
       bindR (ledger_event_digest (le_sha256 env) previous
                (ser_event (le_serde env) (event_of_row row previous))) (\<lambda>expected_digest.
       if ev_event_digest row \<noteq> expected_digest then Inl ForensicLockdown
       else
         bindR (load_command_evidence env (command_at t (ev_sequence row)) (ev_evidence_digest row)
                  (map_option dr_validator_evidence_digest (diagnostics_at t (ev_sequence row)))) (\<lambda>_.
         bindR (load_diagnostics env (diagnostics_at t (ev_sequence row)) (ev_evidence_digest row)) (\<lambda>_.
         validate_events env t (sat_add expected_sequence 1) (ev_event_digest row) rows))))"

definition terminal_storage_values :: "string list" where
  "terminal_storage_values =
    [''SUCCEEDED'', ''ROLLED_BACK'', ''RECOVERY_REQUIRED'', ''REJECTED'', ''EXPIRED'',
     ''CANCELLED_BEFORE_APPLY'']"

text \<open>\<^verbatim>\<open>SELECT MAX(sequence)\<close> over the terminal events, with no row counted as 0.\<close>

definition terminal_sequence :: "tables \<Rightarrow> int" where
  "terminal_sequence t =
    (case filter (\<lambda>r. ev_stage r \<in> set terminal_storage_values) (t_events t) of
       [] \<Rightarrow> 0
     | r # rs \<Rightarrow> fold (\<lambda>x m. max (ev_sequence x) m) rs (ev_sequence r))"

definition required_sequence :: "tables \<Rightarrow> int \<Rightarrow> int" where
  "required_sequence t latest_sequence =
    max (terminal_sequence t) (sat_sub latest_sequence (latest_sequence mod 128))"

definition validate_checkpoint ::
    "ledger_env \<Rightarrow> int \<Rightarrow> tables \<Rightarrow> state_files \<Rightarrow> (ops_error, unit) result" where
  "validate_checkpoint env latest_sequence t files =
    bindR (validate_private_file (le_enforce_root env) True (sf_checkpoint files)) (\<lambda>_.
    let required = required_sequence t latest_sequence;
        pending_covers = (case t_pending t of None \<Rightarrow> False | Some s \<Rightarrow> s \<ge> required)
    in
    if (case t_pending t of None \<Rightarrow> False | Some s \<Rightarrow> s \<le> 0 \<or> s > latest_sequence)
    then Inl ForensicLockdown
    else
      (case sf_checkpoint files of
         None \<Rightarrow> require (required = 0 \<or> pending_covers) ForensicLockdown
       | Some node \<Rightarrow>
           bindR (ok_or (de_checkpoint (le_serde env) (fn_content node)) ForensicLockdown) (\<lambda>cp.
           if cp_schema_version cp \<noteq> 1 \<or> cp_sequence cp > latest_sequence
              \<or> (cp_sequence cp < required \<and> \<not> pending_covers)
           then Inl ForensicLockdown
           else
             (case find (\<lambda>r. ev_sequence r = cp_sequence cp) (t_events t) of
                Some r \<Rightarrow> require (ev_event_digest r = cp_event_digest cp) ForensicLockdown
              | None \<Rightarrow> Inl ForensicLockdown))))"

definition validate_continuity :: "ledger_env \<Rightarrow> (ledger, ops_error, unit) routine" where
  "validate_continuity env =
    bindM storage_access (\<lambda>_.
    reading (\<lambda>l.
      if lg_integrity l \<noteq> ''ok'' then Inl ForensicLockdown
      else
        bindR (validate_events env (lg_tables l) 1 GENESIS_DIGEST (events_in_order (lg_tables l))) (\<lambda>next_sequence.
        validate_checkpoint env (sat_sub next_sequence 1) (lg_tables l) (lg_files l))))"

section \<open>Schema migration\<close>

text \<open>
  One migration script and the version update after it.  The scripts add a column or a table and
  fail when it is there already; script and version update are separate statements.
\<close>

definition run_migration :: "string \<Rightarrow> int \<Rightarrow> (ledger, ops_error, unit) routine" where
  "run_migration object version =
    bindM storage_access (\<lambda>_.
    bindM (reading (\<lambda>l. require (object \<notin> set (sc_objects (lg_schema l)))
             (Storage ''duplicate schema object''))) (\<lambda>_.
    bindM (modify (\<lambda>l. l\<lparr>lg_schema := (lg_schema l)\<lparr>sc_objects := sc_objects (lg_schema l) @ [object]\<rparr>\<rparr>)) (\<lambda>_.
    bindM storage_access (\<lambda>_.
    modify (\<lambda>l. l\<lparr>lg_schema := (lg_schema l)\<lparr>sc_user_version := version\<rparr>\<rparr>)))))"

definition migration_2 :: string where "migration_2 = ''plans.payload_json''"
definition migration_3 :: string where "migration_3 = ''plans.certificate_payload_json''"
definition migration_4 :: string where "migration_4 = ''plans.certificate_issue_payload_json''"
definition migration_5 :: string where "migration_5 = ''plans.certificate_attach_payload_json''"
definition migration_6 :: string where "migration_6 = ''plans.ufw_rule_payload_json''"
definition migration_7 :: string where "migration_7 = ''managed_config_diagnostics''"
definition migration_8 :: string where "migration_8 = ''operation_command_evidence''"

fun run_migrations :: "(string \<times> int) list \<Rightarrow> (ledger, ops_error, unit) routine" where
  "run_migrations [] = ret ()"
| "run_migrations ((object, version) # rest) =
    bindM (run_migration object version) (\<lambda>_. run_migrations rest)"

definition column_migrations :: "(string \<times> int) list" where
  "column_migrations =
    [(migration_2, 2), (migration_3, 3), (migration_4, 4), (migration_5, 5), (migration_6, 6)]"

definition set_version :: "int \<Rightarrow> (ledger, ops_error, unit) routine" where
  "set_version v = bindM storage_access (\<lambda>_.
    modify (\<lambda>l. l\<lparr>lg_schema := (lg_schema l)\<lparr>sc_user_version := v\<rparr>\<rparr>))"

definition migrate :: "(ledger, ops_error, unit) routine" where
  "migrate =
    bindM storage_access (\<lambda>_.
    bindM (reading (\<lambda>l. Inr (sc_user_version (lg_schema l)))) (\<lambda>version.
    bindM (if version = 0 then bindM (set_version 1) (\<lambda>_. run_migrations column_migrations)
           else if 1 \<le> version \<and> version \<le> 5
             then run_migrations (drop (nat (version - 1)) column_migrations)
           else if 6 \<le> version \<and> version \<le> 8 then ret ()
           else fail ForensicLockdown) (\<lambda>_.
    bindM (reading (\<lambda>l. Inr (sc_user_version (lg_schema l)))) (\<lambda>current.
    bindM (if current = 6 then bindM (run_migration migration_7 7) (\<lambda>_. ret 7) else ret current) (\<lambda>current.
    bindM (if current = 7 then bindM (run_migration migration_8 8) (\<lambda>_. ret 8) else ret current) (\<lambda>current.
    if current \<noteq> 8 then fail ForensicLockdown else ret ()))))))"

section \<open>Opening\<close>

definition new_file :: "ledger_env \<Rightarrow> file_node" where
  "new_file env =
    \<lparr> fn_kind = RegularFile, fn_uid = le_daemon_uid env, fn_nlink = 1, fn_mode = 420, fn_content = [] \<rparr>"

definition update_files :: "(state_files \<Rightarrow> state_files) \<Rightarrow> (ledger, ops_error, unit) routine" where
  "update_files f = modify (\<lambda>l. l\<lparr>lg_files := f (lg_files l)\<rparr>)"

definition check_state_files :: "ledger_env \<Rightarrow> state_files \<Rightarrow> (ops_error, unit) result" where
  "check_state_files env fs =
    bindR (validate_private_file (le_enforce_root env) True (sf_database fs)) (\<lambda>_.
    bindR (validate_private_file (le_enforce_root env) True (sf_wal fs)) (\<lambda>_.
    bindR (validate_private_file (le_enforce_root env) True (sf_shm fs)) (\<lambda>_.
    validate_private_file (le_enforce_root env) True (sf_checkpoint fs))))"

definition prepare_state :: "ledger_env \<Rightarrow> (ledger, ops_error, unit) routine" where
  "prepare_state env =
    bindM storage_access (\<lambda>_.
    bindM (reading (\<lambda>l. Inr (sf_parent (lg_files l)))) (\<lambda>before.
    bindM (case before of
             None \<Rightarrow> update_files (\<lambda>fs. fs\<lparr>sf_parent := Some
               \<lparr> fn_kind = DirectoryNode, fn_uid = le_daemon_uid env, fn_nlink = 2, fn_mode = 493,
                 fn_content = [] \<rparr>\<rparr>)
           | Some n \<Rightarrow>
               (case fn_kind n of
                  DirectoryNode \<Rightarrow> ret ()
                | SymlinkTo True \<Rightarrow> ret ()
                | _ \<Rightarrow> fail (Storage ''File exists''))) (\<lambda>_.
    bindM (reading (\<lambda>l. ok_or (sf_parent (lg_files l)) ForensicLockdown)) (\<lambda>parent.
    bindM (liftR (require (fn_kind parent = DirectoryNode) ForensicLockdown)) (\<lambda>_.
    bindM (liftR (require (\<not> (le_enforce_root env \<and> fn_uid parent \<noteq> 0)) ForensicLockdown)) (\<lambda>_.
    bindM storage_access (\<lambda>_.
    bindM (update_files (\<lambda>fs. fs\<lparr>sf_parent := Some (parent\<lparr>fn_mode := 448\<rparr>)\<rparr>)) (\<lambda>_.
    reading (\<lambda>l. check_state_files env (lg_files l))))))))))"

text \<open>Opening the connection in WAL mode creates the database file and its two sidecars.\<close>

definition sqlite_open :: "ledger_env \<Rightarrow> (ledger, ops_error, unit) routine" where
  "sqlite_open env =
    (let create = (\<lambda>n. case n of None \<Rightarrow> Some (new_file env) | Some f \<Rightarrow> Some f) in
     bindM storage_access (\<lambda>_.
     update_files (\<lambda>fs. fs\<lparr>sf_database := create (sf_database fs), sf_wal := create (sf_wal fs),
       sf_shm := create (sf_shm fs)\<rparr>)))"

definition secure_file ::
    "ledger_env \<Rightarrow> (state_files \<Rightarrow> file_node option) \<Rightarrow> (file_node option \<Rightarrow> state_files \<Rightarrow> state_files) \<Rightarrow>
     (ledger, ops_error, unit) routine" where
  "secure_file env get put =
    bindM storage_access (\<lambda>_.
    bindM (update_files (\<lambda>fs. put (map_option (\<lambda>n. n\<lparr>fn_mode := 384\<rparr>) (get fs)) fs)) (\<lambda>_.
    reading (\<lambda>l. validate_private_file (le_enforce_root env) False (get (lg_files l)))))"

definition secure_database_files :: "ledger_env \<Rightarrow> (ledger, ops_error, unit) routine" where
  "secure_database_files env =
    bindM (secure_file env sf_database (\<lambda>n fs. fs\<lparr>sf_database := n\<rparr>)) (\<lambda>_.
    bindM (reading (\<lambda>l. Inr (lg_files l))) (\<lambda>fs.
    bindM (if sf_wal fs \<noteq> None then secure_file env sf_wal (\<lambda>n fs. fs\<lparr>sf_wal := n\<rparr>) else ret ()) (\<lambda>_.
    if sf_shm fs \<noteq> None then secure_file env sf_shm (\<lambda>n fs. fs\<lparr>sf_shm := n\<rparr>) else ret ())))"

definition open_ledger_file :: "ledger_env \<Rightarrow> (ledger, ops_error, unit) routine" where
  "open_ledger_file env =
    bindM (prepare_state env) (\<lambda>_.
    bindM (sqlite_open env) (\<lambda>_.
    bindM migrate (\<lambda>_.
    bindM (secure_database_files env) (\<lambda>_.
    bindM (validate_continuity env) (\<lambda>_.
    complete_pending_checkpoint env)))))"

section \<open>Queries\<close>

fun load_each :: "('b \<Rightarrow> (ops_error, 'a) result) \<Rightarrow> 'b list \<Rightarrow> (ops_error, 'a list) result" where
  "load_each f [] = Inr []"
| "load_each f (x # xs) = bindR (f x) (\<lambda>y. bindR (load_each f xs) (\<lambda>ys. Inr (y # ys)))"

text \<open>\<^verbatim>\<open>ORDER BY\<close> an integer column, then a text column compared bytewise.\<close>

fun text_less_eq :: "string \<Rightarrow> string \<Rightarrow> bool" where
  "text_less_eq [] _ = True"
| "text_less_eq (_ # _) [] = False"
| "text_less_eq (a # as) (b # bs) =
    (byte a < byte b \<or> (byte a = byte b \<and> text_less_eq as bs))"

fun insert_by :: "('a \<Rightarrow> 'a \<Rightarrow> bool) \<Rightarrow> 'a \<Rightarrow> 'a list \<Rightarrow> 'a list" where
  "insert_by le x [] = [x]"
| "insert_by le x (y # ys) = (if le x y then x # y # ys else y # insert_by le x ys)"

definition order_by :: "('a \<Rightarrow> int) \<Rightarrow> ('a \<Rightarrow> string) \<Rightarrow> 'a list \<Rightarrow> 'a list" where
  "order_by k s xs =
    foldr (insert_by (\<lambda>a b. k a < k b \<or> (k a = k b \<and> text_less_eq (s a) (s b)))) xs []"

definition incomplete_rows :: "tables \<Rightarrow> operation_row list" where
  "incomplete_rows t =
    order_by or_created_at_ms or_operation_id
      (filter (\<lambda>r. or_stage r \<notin> set terminal_storage_values) (t_operations t))"

definition incomplete_operations :: "ledger_env \<Rightarrow> (ledger, ops_error, stored_operation list) routine" where
  "incomplete_operations env =
    query (\<lambda>t. load_each (\<lambda>r. load_operation_from env (or_operation_id r) t) (incomplete_rows t))"

definition expired_unexecuted_proposal_plans ::
    "ledger_env \<Rightarrow> int \<Rightarrow> (ledger, ops_error, stored_plan list) routine" where
  "expired_unexecuted_proposal_plans env now_ms =
    query (\<lambda>t. load_each (\<lambda>r. load_plan_from env (pr_plan_id r) t)
      (order_by pr_expires_at_ms pr_plan_id
        (filter (\<lambda>r. pr_operation_type r \<in> {MANAGED_CONFIG_OPERATION, MANAGED_CONFIG_RESTORE_OPERATION,
                       CERTBOT_ISSUE_OPERATION}
             \<and> pr_expires_at_ms r \<le> now_ms
             \<and> \<not> list_ex (\<lambda>opr. or_plan_id opr = pr_plan_id r) (t_operations t)) (t_plans t))))"

definition has_recent_staging_evidence ::
    "ledger_env \<Rightarrow> string \<Rightarrow> int \<Rightarrow> (ledger, ops_error, bool) routine" where
  "has_recent_staging_evidence env evidence_key not_before_ms =
    query (\<lambda>t.
      let rows = [p. opr \<leftarrow> rev (order_by or_updated_at_ms or_operation_id (t_operations t)),
                     or_stage opr = as_storage_value Succeeded, or_updated_at_ms opr \<ge> not_before_ms,
                     p \<leftarrow> t_plans t, pr_plan_id p = or_plan_id opr,
                     pr_operation_type p = CERTBOT_ISSUE_OPERATION] in
      fold (\<lambda>row acc. bindR acc (\<lambda>found.
              if found then Inr True
              else bindR (ok_or (de_issue (le_serde env) (pr_certificate_issue_payload_json row))
                            ForensicLockdown) (\<lambda>payload.
                Inr (case payload of None \<Rightarrow> False
                     | Some v \<Rightarrow> cip_environment v = Staging \<and> cip_staging_evidence_key v = evidence_key))))
        rows (Inr False))"

record stage_evidence_view =
  se_sequence :: nat
  se_stage :: operation_stage
  se_recorded_at :: string
  se_result_code :: string
  se_evidence_digest :: string
  se_command :: "command_evidence_view option"
  se_diagnostics :: "diagnostic_view list"

record receipt_view =
  rv_operation_type :: string
  rv_operation_id :: string
  rv_display_name :: string
  rv_recorded_at :: string
  rv_plan_id :: string
  rv_plan_hash :: string
  rv_actor :: subject
  rv_terminal_state :: operation_stage
  rv_before_digest :: string
  rv_after_digest :: string
  rv_stages :: "stage_evidence_view list"
  rv_assurance :: assurance_view
  rv_rollback_result :: "string option"
  rv_recovery_path :: "string list"
  rv_resource_id :: "string option"
  rv_restore_available :: bool

definition format_time :: "ledger_env \<Rightarrow> int \<Rightarrow> (ops_error, string) result" where
  "format_time env milliseconds = ok_or (le_rfc3339 env milliseconds) (Storage ''time'')"

definition managed_recovery_key :: "string \<Rightarrow> string option" where
  "managed_recovery_key resource_id =
    (if list_ex (\<lambda>p. starts_with p resource_id) [''ngc_'', ''ngf_'', ''ngm_'', ''ngd_'']
     then Some ''NGINX_MANAGED_CONFIG_RECOVERY_PATH''
     else if list_ex (\<lambda>p. starts_with p resource_id) [''apf_'', ''apm_'', ''app_'', ''apc_'', ''aps_'']
     then Some ''APACHE_MANAGED_CONFIG_RECOVERY_PATH''
     else if starts_with ''php_'' resource_id then Some ''PHP_FPM_MANAGED_CONFIG_RECOVERY_PATH''
     else None)"

definition recovery_path_for :: "ledger_env \<Rightarrow> stored_plan \<Rightarrow> string list" where
  "recovery_path_for env plan =
    (let ty = sp_operation_type plan in
     if is_managed_config_type ty then
       (case managed_recovery_key (sp_site_id plan) of None \<Rightarrow> [] | Some k \<Rightarrow> le_texts env k)
     else if ty = SERVICE_CONTROL_OPERATION then le_texts env ''SERVICE_CONTROL_RECOVERY_PATH''
     else if ty = UFW_RULE_OPERATION then le_texts env ''UFW_RECOVERY_PATH''
     else if ty = CERTBOT_ISSUE_OPERATION then le_texts env ''CERTBOT_ISSUE_RECOVERY_PATH''
     else if ty = CERTBOT_RENEW_TEST_OPERATION then le_texts env ''CERTBOT_RENEW_RECOVERY_PATH''
     else if ty = CERTBOT_ATTACH_OPERATION then le_texts env ''CERTBOT_ATTACH_RECOVERY_PATH''
     else le_texts env ''NGINX_RECOVERY_PATH'')"

definition stage_evidence ::
    "ledger_env \<Rightarrow> tables \<Rightarrow> event_row \<Rightarrow> (ops_error, stage_evidence_view) result" where
  "stage_evidence env t row =
    (let diag = diagnostics_at t (ev_sequence row) in
     bindR (load_command_evidence env (command_at t (ev_sequence row)) (ev_evidence_digest row)
              (map_option dr_validator_evidence_digest diag)) (\<lambda>command.
     bindR (load_diagnostics env diag (ev_evidence_digest row)) (\<lambda>diagnostics.
     bindR (require (0 \<le> ev_sequence row) ForensicLockdown) (\<lambda>_.
     bindR (parse_stage (ev_stage row)) (\<lambda>stage.
     bindR (format_time env (ev_recorded_at_ms row)) (\<lambda>recorded_at.
     Inr \<lparr> se_sequence = nat (ev_sequence row), se_stage = stage, se_recorded_at = recorded_at,
           se_result_code = ev_result_code row, se_evidence_digest = ev_evidence_digest row,
           se_command = command, se_diagnostics = diagnostics \<rparr>))))))"

definition receipt_from :: "ledger_env \<Rightarrow> string \<Rightarrow> tables \<Rightarrow> (ops_error, receipt_view) result" where
  "receipt_from env operation_id t =
    bindR (load_operation_from env operation_id t) (\<lambda>operation.
    bindR (load_each (stage_evidence env t)
             (filter (\<lambda>r. ev_operation_id r = operation_id) (events_in_order t))) (\<lambda>stages.
    bindR (if stages = [] then Inl ForensicLockdown else Inr (se_recorded_at (last stages))) (\<lambda>recorded_at.
    let plan = so_plan operation; managed = is_managed_config_type (sp_operation_type plan) in
    Inr \<lparr> rv_operation_type = sp_operation_type plan, rv_operation_id = so_operation_id operation,
          rv_display_name = sp_display_name plan, rv_recorded_at = recorded_at,
          rv_plan_id = sp_plan_id plan, rv_plan_hash = sp_plan_hash plan, rv_actor = sp_actor plan,
          rv_terminal_state = so_stage operation, rv_before_digest = so_before_digest operation,
          rv_after_digest = so_after_digest operation, rv_stages = stages,
          rv_assurance = sp_assurance plan, rv_rollback_result = so_rollback_result operation,
          rv_recovery_path = (if so_stage operation = RecoveryRequired
                              then recovery_path_for env plan else []),
          rv_resource_id = (if managed then Some (sp_site_id plan) else None),
          rv_restore_available =
            (managed \<and> so_stage operation = Succeeded \<and> so_snapshot operation \<noteq> None) \<rparr>)))"

definition receipt :: "ledger_env \<Rightarrow> string \<Rightarrow> (ledger, ops_error, receipt_view) routine" where
  "receipt env operation_id = query (receipt_from env operation_id)"

definition recent_receipts ::
    "ledger_env \<Rightarrow> nat \<Rightarrow> nat \<Rightarrow> (ledger, ops_error, receipt_view list) routine" where
  "recent_receipts env actor_uid limit =
    query (\<lambda>t. load_each (\<lambda>r. receipt_from env (or_operation_id r) t)
      (take limit (rev (order_by or_updated_at_ms or_operation_id
        (filter (\<lambda>r. list_ex (\<lambda>p. pr_plan_id p = or_plan_id r \<and> pr_actor_uid p = int actor_uid)
                  (t_plans t)) (t_operations t))))))"

end
