(* ===== verification/Filesystem.thy ===== *)
theory Filesystem
  imports Prelude
begin

text \<open>
  The part of the operating system's file interface that the privileged daemon uses: absolute
  paths, path resolution through symbolic links, and one routine per system call.

  A filesystem is the list of its nodes with their absolute paths, in the order in which
  \<^verbatim>\<open>read_dir\<close> lists them.  Every call can fail: it takes its outcome from \<^verbatim>\<open>fs_faults\<close>, where
  \<^verbatim>\<open>Some n\<close> is a failure, for a write after \<^verbatim>\<open>n\<close> bytes have reached the file.  A call that fails
  has no other effect.  An open file is represented by the path it was found at, since
  no other process renames the daemon's files while a request runs.
\<close>

section \<open>Nodes\<close>

type_synonym path = "string list"

datatype io_error = NotFound | OtherIo

text \<open>A link holds whether its target is absolute and the components of the target.\<close>

datatype node = FileNode bytes | DirNode | LinkNode bool path | SpecialNode

record inode =
  nd_node :: node
  nd_uid :: nat
  nd_gid :: nat
  nd_nlink :: nat
  nd_mode :: nat

record filesystem =
  fs_nodes :: "(path \<times> inode) list"
  fs_blocks_available :: nat
  fs_fragment_size :: nat
  fs_uid :: nat
  fs_gid :: nat
  fs_new_dir_mode :: nat
  fs_new_file_mode :: nat
  fs_faults :: "nat option list"

definition root_inode :: inode where
  "root_inode = \<lparr> nd_node = DirNode, nd_uid = 0, nd_gid = 0, nd_nlink = 1, nd_mode = 493 \<rparr>"

definition node_at :: "filesystem \<Rightarrow> path \<Rightarrow> inode option" where
  "node_at fs p = (if p = [] then Some root_inode else map_of (fs_nodes fs) p)"

fun put_entry :: "path \<Rightarrow> inode \<Rightarrow> (path \<times> inode) list \<Rightarrow> (path \<times> inode) list" where
  "put_entry p n [] = [(p, n)]"
| "put_entry p n (e # es) = (if fst e = p then (p, n) # es else e # put_entry p n es)"

definition put_node :: "path \<Rightarrow> inode \<Rightarrow> filesystem \<Rightarrow> filesystem" where
  "put_node p n fs = fs\<lparr>fs_nodes := put_entry p n (fs_nodes fs)\<rparr>"

definition drop_node :: "path \<Rightarrow> filesystem \<Rightarrow> filesystem" where
  "drop_node p fs = fs\<lparr>fs_nodes := filter (\<lambda>e. fst e \<noteq> p) (fs_nodes fs)\<rparr>"

definition children :: "filesystem \<Rightarrow> path \<Rightarrow> string list" where
  "children fs dir =
    map (\<lambda>e. last (fst e)) (filter (\<lambda>e. fst e \<noteq> [] \<and> butlast (fst e) = dir) (fs_nodes fs))"

definition is_file :: "inode \<Rightarrow> bool" where
  "is_file n = (case nd_node n of FileNode _ \<Rightarrow> True | _ \<Rightarrow> False)"

definition is_symlink :: "inode \<Rightarrow> bool" where
  "is_symlink n = (case nd_node n of LinkNode _ _ \<Rightarrow> True | _ \<Rightarrow> False)"

definition is_dir :: "inode \<Rightarrow> bool" where
  "is_dir n = (nd_node n = DirNode)"

definition node_content :: "inode \<Rightarrow> bytes" where
  "node_content n = (case nd_node n of FileNode c \<Rightarrow> c | _ \<Rightarrow> [])"

section \<open>Path resolution\<close>

text \<open>
  \<^verbatim>\<open>walk links look follow base todo\<close> resolves the components \<^verbatim>\<open>todo\<close> from the directory \<^verbatim>\<open>base\<close>.
  At most \<^verbatim>\<open>links\<close> links are followed, a link in the last component only if \<^verbatim>\<open>follow\<close>.  The last
  component need not exist.
\<close>

fun walk :: "nat \<Rightarrow> (path \<Rightarrow> inode option) \<Rightarrow> bool \<Rightarrow> path \<Rightarrow> path \<Rightarrow> (io_error, path) result" where
  "walk links look follow base [] = Inr base"
| "walk links look follow base (c # cs) =
    (if c = ''.'' then walk links look follow base cs
     else if c = ''..'' then walk links look follow (butlast base) cs
     else
       case look (base @ [c]) of
         None \<Rightarrow> if cs = [] then Inr (base @ [c]) else Inl NotFound
       | Some n \<Rightarrow>
           (case nd_node n of
              DirNode \<Rightarrow> walk links look follow (base @ [c]) cs
            | LinkNode absolute target \<Rightarrow>
                if cs = [] \<and> \<not> follow then Inr (base @ [c])
                else (case links of
                        0 \<Rightarrow> Inl OtherIo
                      | Suc l \<Rightarrow> walk l look follow (if absolute then [] else base) (target @ cs))
            | _ \<Rightarrow> if cs = [] then Inr (base @ [c]) else Inl OtherIo))"

definition MAX_LINKS :: nat where
  "MAX_LINKS = 40"

definition resolve :: "bool \<Rightarrow> path \<Rightarrow> filesystem \<Rightarrow> (io_error, path) result" where
  "resolve follow p fs = walk MAX_LINKS (node_at fs) follow [] p"

definition locate :: "bool \<Rightarrow> path \<Rightarrow> filesystem \<Rightarrow> (io_error, path \<times> inode) result" where
  "locate follow p fs =
    bindR (resolve follow p fs) (\<lambda>q. bindR (ok_or (node_at fs q) NotFound) (\<lambda>n. Inr (q, n)))"

section \<open>System calls\<close>

type_synonym 'a io = "(filesystem, io_error, 'a) routine"

definition io_access :: "unit io" where
  "io_access = (\<lambda>fs.
    case fs_faults fs of
      [] \<Rightarrow> (Inr (), fs)
    | f # rest \<Rightarrow> (case f of None \<Rightarrow> Inr () | Some _ \<Rightarrow> Inl OtherIo, fs\<lparr>fs_faults := rest\<rparr>))"

definition io_read :: "(filesystem \<Rightarrow> (io_error, 'a) result) \<Rightarrow> 'a io" where
  "io_read f = bindM io_access (\<lambda>_. reading f)"

definition io_write :: "(filesystem \<Rightarrow> (io_error, filesystem) result) \<Rightarrow> unit io" where
  "io_write f = bindM io_access (\<lambda>_ fs.
    case f fs of Inl e \<Rightarrow> (Inl e, fs) | Inr fs' \<Rightarrow> (Inr (), fs'))"

definition symlink_metadata :: "path \<Rightarrow> inode io" where
  "symlink_metadata p = io_read (\<lambda>fs. bindR (locate False p fs) (\<lambda>(q, n). Inr n))"

definition path_metadata :: "path \<Rightarrow> inode io" where
  "path_metadata p = io_read (\<lambda>fs. bindR (locate True p fs) (\<lambda>(q, n). Inr n))"

definition read_link :: "path \<Rightarrow> (bool \<times> path) io" where
  "read_link p = io_read (\<lambda>fs. bindR (locate False p fs) (\<lambda>(q, n).
    case nd_node n of LinkNode absolute target \<Rightarrow> Inr (absolute, target) | _ \<Rightarrow> Inl OtherIo))"

definition canonicalize :: "path \<Rightarrow> path io" where
  "canonicalize p = io_read (\<lambda>fs. bindR (locate True p fs) (\<lambda>(q, n). Inr q))"

text \<open>\<^verbatim>\<open>File::open\<close> for reading, and the calls on the open file.\<close>

definition open_file :: "path \<Rightarrow> path io" where
  "open_file p = io_read (\<lambda>fs. bindR (locate True p fs) (\<lambda>(q, n). Inr q))"

definition file_metadata :: "path \<Rightarrow> inode io" where
  "file_metadata q = io_read (\<lambda>fs. ok_or (node_at fs q) OtherIo)"

definition read_to_end :: "path \<Rightarrow> bytes io" where
  "read_to_end q = io_read (\<lambda>fs.
    case node_at fs q of
      None \<Rightarrow> Inl OtherIo
    | Some n \<Rightarrow> (case nd_node n of FileNode c \<Rightarrow> Inr c | _ \<Rightarrow> Inl OtherIo))"

definition sync_all :: "path \<Rightarrow> unit io" where
  "sync_all q = io_read (\<lambda>fs. Inr ())"

text \<open>\<^verbatim>\<open>openat2\<close> of one component with links and escapes from the directory refused.\<close>

definition openat_beneath :: "path \<Rightarrow> string \<Rightarrow> path io" where
  "openat_beneath dir name = io_read (\<lambda>fs.
    case node_at fs (dir @ [name]) of
      None \<Rightarrow> Inl NotFound
    | Some n \<Rightarrow> if is_symlink n then Inl OtherIo else Inr (dir @ [name]))"

definition read_dir :: "path \<Rightarrow> string list io" where
  "read_dir p = io_read (\<lambda>fs. bindR (locate True p fs) (\<lambda>(q, n).
    if is_dir n then Inr (children fs q) else Inl OtherIo))"

text \<open>Advancing the directory iterator is an access of its own.\<close>

definition next_entry :: "unit io" where
  "next_entry = io_access"

definition new_inode :: "node \<Rightarrow> nat \<Rightarrow> filesystem \<Rightarrow> inode" where
  "new_inode k mode fs =
    \<lparr> nd_node = k, nd_uid = fs_uid fs, nd_gid = fs_gid fs, nd_nlink = 1, nd_mode = mode \<rparr>"

definition add_node :: "path \<Rightarrow> inode \<Rightarrow> filesystem \<Rightarrow> (io_error, filesystem) result" where
  "add_node q n fs = (case node_at fs q of None \<Rightarrow> Inr (put_node q n fs) | Some _ \<Rightarrow> Inl OtherIo)"

definition create_dir :: "path \<Rightarrow> unit io" where
  "create_dir p = io_write (\<lambda>fs. bindR (resolve False p fs) (\<lambda>q.
    add_node q (new_inode DirNode (fs_new_dir_mode fs) fs) fs))"

definition create_new :: "path \<Rightarrow> path io" where
  "create_new p =
    bindM (io_write (\<lambda>fs. bindR (resolve False p fs) (\<lambda>q.
             add_node q (new_inode (FileNode []) (fs_new_file_mode fs) fs) fs))) (\<lambda>_.
    reading (\<lambda>fs. resolve False p fs))"

definition change_node :: "path \<Rightarrow> (inode \<Rightarrow> inode) \<Rightarrow> filesystem \<Rightarrow> (io_error, filesystem) result" where
  "change_node q f fs =
    (case node_at fs q of None \<Rightarrow> Inl OtherIo | Some n \<Rightarrow> Inr (put_node q (f n) fs))"

definition set_permissions :: "path \<Rightarrow> nat \<Rightarrow> unit io" where
  "set_permissions p mode = io_write (\<lambda>fs. bindR (locate True p fs) (\<lambda>(q, n).
    Inr (put_node q (n\<lparr>nd_mode := mode\<rparr>) fs)))"

definition fchmod :: "path \<Rightarrow> nat \<Rightarrow> unit io" where
  "fchmod q mode = io_write (change_node q (\<lambda>n. n\<lparr>nd_mode := mode\<rparr>))"

definition fchown :: "path \<Rightarrow> nat \<Rightarrow> nat \<Rightarrow> unit io" where
  "fchown q uid gid = io_write (change_node q (\<lambda>n. n\<lparr>nd_uid := uid, nd_gid := gid\<rparr>))"

definition append_bytes :: "path \<Rightarrow> bytes \<Rightarrow> filesystem \<Rightarrow> (io_error, filesystem) result" where
  "append_bytes q bs fs = change_node q (\<lambda>n. n\<lparr>nd_node := FileNode (node_content n @ bs)\<rparr>) fs"

definition write_all :: "path \<Rightarrow> bytes \<Rightarrow> unit io" where
  "write_all q bs = (\<lambda>fs.
    case fs_faults fs of
      Some n # rest \<Rightarrow>
        (Inl OtherIo, (case append_bytes q (take n bs) fs of Inl _ \<Rightarrow> fs | Inr fs' \<Rightarrow> fs')\<lparr>fs_faults := rest\<rparr>)
    | _ \<Rightarrow> io_write (append_bytes q bs) fs)"

definition remove_file :: "path \<Rightarrow> unit io" where
  "remove_file p = io_write (\<lambda>fs. bindR (locate False p fs) (\<lambda>(q, n).
    if is_dir n then Inl OtherIo else Inr (drop_node q fs)))"

definition remove_dir :: "path \<Rightarrow> unit io" where
  "remove_dir p = io_write (\<lambda>fs. bindR (locate False p fs) (\<lambda>(q, n).
    if \<not> is_dir n \<or> children fs q \<noteq> [] then Inl OtherIo else Inr (drop_node q fs)))"

definition rename :: "path \<Rightarrow> path \<Rightarrow> unit io" where
  "rename source destination = io_write (\<lambda>fs. bindR (locate False source fs) (\<lambda>(q, n).
    bindR (resolve False destination fs) (\<lambda>d.
    case node_at fs d of
      Some m \<Rightarrow> if is_dir m then Inl OtherIo else Inr (put_node d n (drop_node q fs))
    | None \<Rightarrow> Inr (put_node d n (drop_node q fs)))))"

definition symlinkat :: "path \<Rightarrow> path \<Rightarrow> string \<Rightarrow> unit io" where
  "symlinkat target dir name = io_write (\<lambda>fs.
    add_node (dir @ [name]) (new_inode (LinkNode False target) 511 fs) fs)"

definition unlinkat :: "path \<Rightarrow> string \<Rightarrow> unit io" where
  "unlinkat dir name = io_write (\<lambda>fs.
    case node_at fs (dir @ [name]) of
      None \<Rightarrow> Inl NotFound
    | Some n \<Rightarrow> if is_dir n then Inl OtherIo else Inr (drop_node (dir @ [name]) fs))"

text \<open>The free bytes of the device, with the saturating product of \<^verbatim>\<open>u64\<close>.\<close>

definition u64_max :: nat where
  "u64_max = 18446744073709551615"

definition statvfs_free :: "path \<Rightarrow> nat io" where
  "statvfs_free p = io_read (\<lambda>fs. bindR (locate True p fs) (\<lambda>_.
    Inr (min u64_max (fs_blocks_available fs * fs_fragment_size fs))))"

text \<open>\<^verbatim>\<open>std::fs::create_dir_all\<close>, on the components in reverse order.\<close>

definition path_is_dir :: "path \<Rightarrow> bool io" where
  "path_is_dir p = attempt (path_metadata p) (\<lambda>r. ret (case r of Inl _ \<Rightarrow> False | Inr n \<Rightarrow> is_dir n))"

text \<open>\<^verbatim>\<open>Path::is_file\<close>.\<close>

definition path_is_file :: "path \<Rightarrow> (filesystem, 'e, bool) routine" where
  "path_is_file p = attempt (path_metadata p) (\<lambda>r. ret (case r of Inl _ \<Rightarrow> False | Inr n \<Rightarrow> is_file n))"

definition path_exists :: "path \<Rightarrow> bool io" where
  "path_exists p = attempt (path_metadata p) (\<lambda>r. ret (is_ok r))"

definition create_unless_dir :: "path \<Rightarrow> unit io" where
  "create_unless_dir p = attempt (create_dir p) (\<lambda>r.
    case r of
      Inr u \<Rightarrow> ret ()
    | Inl e \<Rightarrow> bindM (path_is_dir p) (\<lambda>d. if d then ret () else fail e))"

fun create_dir_all_rev :: "string list \<Rightarrow> unit io" where
  "create_dir_all_rev [] = ret ()"
| "create_dir_all_rev (c # cs) = attempt (create_dir (rev (c # cs))) (\<lambda>r.
    case r of
      Inr u \<Rightarrow> ret ()
    | Inl NotFound \<Rightarrow>
        bindM (create_dir_all_rev cs) (\<lambda>_. create_unless_dir (rev (c # cs)))
    | Inl OtherIo \<Rightarrow>
        bindM (path_is_dir (rev (c # cs))) (\<lambda>d. if d then ret () else fail OtherIo))"

definition create_dir_all :: "path \<Rightarrow> unit io" where
  "create_dir_all p = create_dir_all_rev (rev p)"

section \<open>Facts\<close>

lemma map_of_put_entry: "map_of (put_entry p n es) = (map_of es)(p \<mapsto> n)"
  by (induction es) (auto simp: fun_eq_iff)

lemma map_of_drop: "map_of (filter (\<lambda>e. fst e \<noteq> p) es) q = (if q = p then None else map_of es q)"
  by (induction es) auto

lemma node_at_put [simp]:
  "node_at (put_node p n fs) q = (if q = p \<and> q \<noteq> [] then Some n else node_at fs q)"
  by (simp add: node_at_def put_node_def map_of_put_entry)

lemma node_at_drop [simp]:
  "node_at (drop_node p fs) q = (if q = p \<and> q \<noteq> [] then None else node_at fs q)"
  by (simp add: node_at_def drop_node_def map_of_drop)

lemma node_at_faults [simp]: "node_at (fs\<lparr>fs_faults := f\<rparr>) p = node_at fs p"
  by (simp add: node_at_def)

lemma resolve_faults [simp]:
  "resolve follow p (fs\<lparr>fs_faults := f\<rparr>) = resolve follow p fs"
  "locate follow p (fs\<lparr>fs_faults := f\<rparr>) = locate follow p fs"
  "children (fs\<lparr>fs_faults := f\<rparr>) p = children fs p"
proof -
  have "node_at (fs\<lparr>fs_faults := f\<rparr>) = node_at fs" by (simp add: fun_eq_iff)
  then show "resolve follow p (fs\<lparr>fs_faults := f\<rparr>) = resolve follow p fs"
    "locate follow p (fs\<lparr>fs_faults := f\<rparr>) = locate follow p fs"
    by (simp_all add: resolve_def locate_def)
qed (simp add: children_def)

text \<open>Running against failing calls: what a call reads, what it writes, and that faults are its only cause of an unspecific error.\<close>

definition may_fail :: "filesystem \<Rightarrow> bool" where
  "may_fail fs = (\<exists>n. Some n \<in> set (fs_faults fs))"

lemma wp_io_accessI:
  assumes "\<And>f. set f \<subseteq> set (fs_faults fs) \<Longrightarrow> Q () (fs\<lparr>fs_faults := f\<rparr>)"
    and "\<And>f. may_fail fs \<Longrightarrow> set f \<subseteq> set (fs_faults fs) \<Longrightarrow> E OtherIo (fs\<lparr>fs_faults := f\<rparr>)"
  shows "wp io_access Q E fs"
proof (cases "fs_faults fs")
  case Nil
  then show ?thesis using assms(1) [of "[]"] by (cases fs) (simp add: wp_def io_access_def)
next
  case (Cons x xs)
  then show ?thesis
    using assms(1) [of xs] assms(2) [of xs]
    by (cases x) (auto simp: wp_def io_access_def may_fail_def)
qed

lemma wp_io_readI:
  assumes "\<And>x f. r fs = Inr x \<Longrightarrow> set f \<subseteq> set (fs_faults fs) \<Longrightarrow> Q x (fs\<lparr>fs_faults := f\<rparr>)"
    and "\<And>e f. r fs = Inl e \<or> e = OtherIo \<and> may_fail fs \<Longrightarrow> set f \<subseteq> set (fs_faults fs) \<Longrightarrow>
      E e (fs\<lparr>fs_faults := f\<rparr>)"
    and "\<And>f. r (fs\<lparr>fs_faults := f\<rparr>) = r fs"
  shows "wp (io_read r) Q E fs"
  unfolding io_read_def wp_bindM wp_reading
  by (rule wp_io_accessI) (use assms in \<open>auto split: sum.splits\<close>)

lemma wp_io_writeI:
  assumes "\<And>x f. w (fs\<lparr>fs_faults := f\<rparr>) = Inr x \<Longrightarrow> set f \<subseteq> set (fs_faults fs) \<Longrightarrow> Q () x"
    and "\<And>e f. w (fs\<lparr>fs_faults := f\<rparr>) = Inl e \<or> e = OtherIo \<and> may_fail fs \<Longrightarrow> set f \<subseteq> set (fs_faults fs) \<Longrightarrow>
      E e (fs\<lparr>fs_faults := f\<rparr>)"
  shows "wp (io_write w) Q E fs"
  unfolding io_write_def wp_bindM
  by (rule wp_io_accessI) (use assms in \<open>auto simp: wp_def split: sum.splits\<close>)

text \<open>Calls that only read leave every node as it is.\<close>

definition same_nodes :: "filesystem \<Rightarrow> filesystem \<Rightarrow> bool" where
  "same_nodes fs fs' = (\<exists>f. set f \<subseteq> set (fs_faults fs) \<and> fs' = fs\<lparr>fs_faults := f\<rparr>)"

interpretation nodes_rel: step_relation same_nodes
proof
  show "same_nodes fs fs" for fs by (auto simp: same_nodes_def intro!: exI [of _ "fs_faults fs"])
  show "same_nodes a c" if "same_nodes a b" "same_nodes b c" for a b c
  proof -
    from that obtain f g where "set f \<subseteq> set (fs_faults a)" "set g \<subseteq> set f" "c = a\<lparr>fs_faults := g\<rparr>"
      by (auto simp: same_nodes_def)
    then show ?thesis unfolding same_nodes_def by (intro exI [of _ g]) auto
  qed
qed

lemma same_nodes_view:
  "same_nodes fs fs' \<Longrightarrow> node_at fs' = node_at fs"
  "same_nodes fs fs' \<Longrightarrow> resolve follow p fs' = resolve follow p fs"
  "same_nodes fs fs' \<Longrightarrow> locate follow p fs' = locate follow p fs"
  "same_nodes fs fs' \<Longrightarrow> children fs' p = children fs p"
  "same_nodes fs fs' \<Longrightarrow> may_fail fs' \<Longrightarrow> may_fail fs"
  by (auto simp: same_nodes_def fun_eq_iff may_fail_def)

lemma moves_nodes_read: "moves same_nodes (io_read r)"
  unfolding moves_wp io_read_def wp_bindM wp_reading
  by (intro allI wp_io_accessI) (auto simp: same_nodes_def split: sum.splits)

lemma moves_nodes_access: "moves same_nodes io_access"
  unfolding moves_wp by (intro allI wp_io_accessI) (auto simp: same_nodes_def)

lemmas nodes_calls =
  symlink_metadata_def path_metadata_def read_link_def canonicalize_def open_file_def file_metadata_def
  read_to_end_def sync_all_def openat_beneath_def read_dir_def next_entry_def statvfs_free_def

lemmas nodes_rules = moves_intros nodes_rel.moves_rules moves_nodes_read moves_nodes_access

lemma moves_nodes_calls:
  "moves same_nodes (symlink_metadata p)" "moves same_nodes (path_metadata p)" "moves same_nodes (read_link p)"
  "moves same_nodes (canonicalize p)" "moves same_nodes (open_file p)" "moves same_nodes (file_metadata p)"
  "moves same_nodes (read_to_end p)" "moves same_nodes (sync_all p)" "moves same_nodes (openat_beneath p n)"
  "moves same_nodes (read_dir p)" "moves same_nodes next_entry" "moves same_nodes (statvfs_free p)"
  by (simp_all add: nodes_calls moves_nodes_read moves_nodes_access)

end
