(* ===== verification/Runner.thy ===== *)
theory Runner
  imports Ledger_Model Requests Filesystem
begin

text \<open>
  The command runner of the privileged daemon, \<^verbatim>\<open>jw-opsd/src/runner.rs\<close>: the fixed table of
  commands, the evidence kept of a run, the bounded reading of the output pipes, the bounded wait for
  the child, and \<^verbatim>\<open>FixedCommandRunner\<close>.

  The operating system answers through a \<^verbatim>\<open>process\<close> record: whether the child could be spawned, what
  the successive polls of its status return and at which time, and what the reads of its two pipes
  return.  The engine uses a runner only through the trait \<^verbatim>\<open>OperationRunner\<close>, a record of its three
  operations; the locale \<^verbatim>\<open>command_source\<close> states what the engine relies on, and the fixed runner is
  shown to provide it.
\<close>

section \<open>Commands\<close>

datatype command_class =
    NginxConfigTest | NginxReload | NginxStart | NginxStop | NginxRestart | NginxActive
  | ApacheConfigTest | ApacheReload | ApacheStart | ApacheStop | ApacheRestart | ApacheActive
  | JwEdgeActive | JwEdgeReady
  | PhpFpm83ConfigTest | PhpFpm83Reload | PhpFpm83Start | PhpFpm83Stop | PhpFpm83Restart | PhpFpm83Active
  | CertbotTimerEnabled | CertbotTimerActive
  | UfwStatus | UfwRuleAdd | UfwRuleDelete

fun command_class_str :: "command_class \<Rightarrow> string" where
  "command_class_str NginxConfigTest = ''nginx_config_test''"
| "command_class_str NginxReload = ''nginx_reload''"
| "command_class_str NginxStart = ''nginx_start''"
| "command_class_str NginxStop = ''nginx_stop''"
| "command_class_str NginxRestart = ''nginx_restart''"
| "command_class_str NginxActive = ''nginx_active''"
| "command_class_str ApacheConfigTest = ''apache_config_test''"
| "command_class_str ApacheReload = ''apache_reload''"
| "command_class_str ApacheStart = ''apache_start''"
| "command_class_str ApacheStop = ''apache_stop''"
| "command_class_str ApacheRestart = ''apache_restart''"
| "command_class_str ApacheActive = ''apache_active''"
| "command_class_str JwEdgeActive = ''jw_edge_active''"
| "command_class_str JwEdgeReady = ''jw_edge_ready''"
| "command_class_str PhpFpm83ConfigTest = ''php_fpm_83_config_test''"
| "command_class_str PhpFpm83Reload = ''php_fpm_83_reload''"
| "command_class_str PhpFpm83Start = ''php_fpm_83_start''"
| "command_class_str PhpFpm83Stop = ''php_fpm_83_stop''"
| "command_class_str PhpFpm83Restart = ''php_fpm_83_restart''"
| "command_class_str PhpFpm83Active = ''php_fpm_83_active''"
| "command_class_str CertbotTimerEnabled = ''certbot_timer_enabled''"
| "command_class_str CertbotTimerActive = ''certbot_timer_active''"
| "command_class_str UfwStatus = ''ufw_status''"
| "command_class_str UfwRuleAdd = ''ufw_rule_add''"
| "command_class_str UfwRuleDelete = ''ufw_rule_delete''"

fun executable_and_args :: "command_class \<Rightarrow> string \<times> string list" where
  "executable_and_args NginxConfigTest = (''/usr/sbin/nginx'', [''-t''])"
| "executable_and_args NginxReload = (''/usr/bin/systemctl'', [''reload'', ''nginx.service''])"
| "executable_and_args NginxStart = (''/usr/bin/systemctl'', [''start'', ''nginx.service''])"
| "executable_and_args NginxStop = (''/usr/bin/systemctl'', [''stop'', ''nginx.service''])"
| "executable_and_args NginxRestart = (''/usr/bin/systemctl'', [''restart'', ''nginx.service''])"
| "executable_and_args NginxActive = (''/usr/bin/systemctl'', [''is-active'', ''--quiet'', ''nginx.service''])"
| "executable_and_args ApacheConfigTest = (''/usr/sbin/apache2ctl'', [''configtest''])"
| "executable_and_args ApacheReload = (''/usr/bin/systemctl'', [''reload'', ''apache2.service''])"
| "executable_and_args ApacheStart = (''/usr/bin/systemctl'', [''start'', ''apache2.service''])"
| "executable_and_args ApacheStop = (''/usr/bin/systemctl'', [''stop'', ''apache2.service''])"
| "executable_and_args ApacheRestart = (''/usr/bin/systemctl'', [''restart'', ''apache2.service''])"
| "executable_and_args ApacheActive = (''/usr/bin/systemctl'', [''is-active'', ''--quiet'', ''apache2.service''])"
| "executable_and_args JwEdgeActive = (''/usr/bin/systemctl'', [''is-active'', ''--quiet'', ''jw-edge.service''])"
| "executable_and_args JwEdgeReady = (''/usr/bin/test'', [''-f'', ''/run/jw-agent-edge/ready''])"
| "executable_and_args PhpFpm83ConfigTest = (''/usr/sbin/php-fpm8.3'', [''-t''])"
| "executable_and_args PhpFpm83Reload = (''/usr/bin/systemctl'', [''reload'', ''php8.3-fpm.service''])"
| "executable_and_args PhpFpm83Start = (''/usr/bin/systemctl'', [''start'', ''php8.3-fpm.service''])"
| "executable_and_args PhpFpm83Stop = (''/usr/bin/systemctl'', [''stop'', ''php8.3-fpm.service''])"
| "executable_and_args PhpFpm83Restart = (''/usr/bin/systemctl'', [''restart'', ''php8.3-fpm.service''])"
| "executable_and_args PhpFpm83Active = (''/usr/bin/systemctl'', [''is-active'', ''--quiet'', ''php8.3-fpm.service''])"
| "executable_and_args CertbotTimerEnabled = (''/usr/bin/systemctl'', [''is-enabled'', ''--quiet'', ''certbot.timer''])"
| "executable_and_args CertbotTimerActive = (''/usr/bin/systemctl'', [''is-active'', ''--quiet'', ''certbot.timer''])"
| "executable_and_args UfwStatus = (''/usr/bin/false'', [])"
| "executable_and_args UfwRuleAdd = (''/usr/bin/false'', [])"
| "executable_and_args UfwRuleDelete = (''/usr/bin/false'', [])"

section \<open>Evidence\<close>

record stream_evidence =
  st_digest :: string
  st_captured :: bytes
  st_truncated :: bool

record command_evidence =
  ce_class :: command_class
  ce_success :: bool
  ce_exit_code :: "int option"
  ce_timed_out :: bool
  ce_stdout :: stream_evidence
  ce_stderr :: stream_evidence

section \<open>Reading a pipe\<close>

text \<open>
  A pipe is the list of what successive \<^verbatim>\<open>read\<close> calls return; an empty chunk, or the end of the list, is
  the end of the stream.  The loop keeps the bytes hashed so far, the captured prefix and the number of
  bytes seen, which saturates at the width of \<^verbatim>\<open>usize\<close>.
\<close>

type_synonym pipe = "(string + bytes) list"

fun read_loop ::
    "nat \<Rightarrow> pipe \<Rightarrow> bytes \<Rightarrow> bytes \<Rightarrow> nat \<Rightarrow> (string, bytes \<times> bytes \<times> nat) result" where
  "read_loop cap [] hashed captured seen = Inr (hashed, captured, seen)"
| "read_loop cap (Inl e # rest) hashed captured seen = Inl e"
| "read_loop cap (Inr chunk # rest) hashed captured seen =
    (if chunk = [] then Inr (hashed, captured, seen)
     else
       read_loop cap rest (hashed @ chunk)
         (if length captured < cap
          then captured @ take (min (cap - length captured) (length chunk)) chunk
          else captured)
         (min u64_max (seen + length chunk)))"

definition read_bounded :: "(bytes \<Rightarrow> bytes) \<Rightarrow> nat \<Rightarrow> pipe \<Rightarrow> (string, stream_evidence) result" where
  "read_bounded H cap reader =
    bindR (read_loop cap reader [] [] 0) (\<lambda>(hashed, captured, seen).
    Inr \<lparr> st_digest = format_sha256 (H hashed), st_captured = captured, st_truncated = seen > cap \<rparr>)"

section \<open>Waiting for the child\<close>

record exit_status =
  es_code :: "int option"

definition exit_success :: "exit_status \<Rightarrow> bool" where
  "exit_success s = (es_code s = Some 0)"

text \<open>
  \<^verbatim>\<open>ps_poll n\<close> is what the \<^verbatim>\<open>n\<close>-th \<^verbatim>\<open>try_wait\<close> returns and \<^verbatim>\<open>ps_clock n\<close> the milliseconds elapsed when it
  does; \<^verbatim>\<open>ps_grace\<close> and \<^verbatim>\<open>ps_grace_clock\<close> are the same for the polls after the termination signal, and
  \<^verbatim>\<open>ps_wait\<close> is the blocking wait after the kill.
\<close>

record process =
  ps_spawned :: "(string, unit) result"
  ps_pid :: nat
  ps_poll :: "nat \<Rightarrow> (string, exit_status option) result"
  ps_clock :: "nat \<Rightarrow> nat"
  ps_grace :: "nat \<Rightarrow> (string, exit_status option) result"
  ps_grace_clock :: "nat \<Rightarrow> nat"
  ps_wait :: "(string, exit_status) result"
  ps_stdout :: pipe
  ps_stderr :: pipe

partial_function (option) grace_loop :: "process \<Rightarrow> nat \<Rightarrow> (ops_error, unit) result option" where
  "grace_loop p n =
    (if ps_grace_clock p n < 2000
     then (case ps_grace p n of
             Inl e \<Rightarrow> Some (Inl (Command e))
           | Inr (Some _) \<Rightarrow> Some (Inr ())
           | Inr None \<Rightarrow> grace_loop p (Suc n))
     else Some (Inr ()))"

definition terminate_process_group :: "process \<Rightarrow> (ops_error, unit) result option" where
  "terminate_process_group p =
    (if ps_pid p > 2147483647 then Some (Inl (Command ''child pid overflow'')) else grace_loop p 0)"

partial_function (option) wait_loop ::
    "process \<Rightarrow> nat \<Rightarrow> nat \<Rightarrow> (ops_error, exit_status option \<times> bool) result option" where
  "wait_loop p timeout n =
    (case ps_poll p n of
       Inl e \<Rightarrow> Some (Inl (Command e))
     | Inr (Some status) \<Rightarrow> Some (Inr (Some status, False))
     | Inr None \<Rightarrow>
         if ps_clock p n < timeout then wait_loop p timeout (Suc n)
         else (case terminate_process_group p of
                 None \<Rightarrow> None
               | Some (Inl e) \<Rightarrow> Some (Inl e)
               | Some (Inr _) \<Rightarrow>
                   Some (case ps_wait p of
                           Inl e \<Rightarrow> Inl (Command e)
                         | Inr status \<Rightarrow> Inr (Some status, True))))"

definition wait_bounded ::
    "process \<Rightarrow> nat \<Rightarrow> (ops_error, exit_status option \<times> bool) result option" where
  "wait_bounded p timeout = wait_loop p timeout 0"

section \<open>Running a registered command\<close>

definition execute_registered ::
    "(bytes \<Rightarrow> bytes) \<Rightarrow> command_class \<Rightarrow> process \<Rightarrow> nat \<Rightarrow> nat \<Rightarrow>
     (ops_error, command_evidence) result option" where
  "execute_registered H class p timeout output_cap_bytes =
    (case ps_spawned p of
       Inl e \<Rightarrow> Some (Inl (Command e))
     | Inr _ \<Rightarrow>
         map_option (\<lambda>waited.
           bindR waited (\<lambda>(status, timed_out).
           bindR (map_err Command (read_bounded H output_cap_bytes (ps_stdout p))) (\<lambda>stdout.
           bindR (map_err Command (read_bounded H output_cap_bytes (ps_stderr p))) (\<lambda>stderr.
           Inr \<lparr> ce_class = class,
                 ce_success = (case status of None \<Rightarrow> False | Some s \<Rightarrow> exit_success s) \<and> \<not> timed_out,
                 ce_exit_code = (case status of None \<Rightarrow> None | Some s \<Rightarrow> es_code s),
                 ce_timed_out = timed_out, ce_stdout = stdout, ce_stderr = stderr \<rparr>))))
         (wait_bounded p timeout))"

text \<open>The system gives the process that an executable with its arguments becomes.\<close>

type_synonym spawner = "string \<Rightarrow> string list \<Rightarrow> process"

definition fixed_run ::
    "(bytes \<Rightarrow> bytes) \<Rightarrow> nat \<Rightarrow> nat \<Rightarrow> spawner \<Rightarrow> command_class \<Rightarrow>
     (ops_error, command_evidence) result option" where
  "fixed_run H timeout output_cap_bytes spawn class =
    (if class \<in> {UfwStatus, UfwRuleAdd, UfwRuleDelete}
     then Some (Inl (Rejected ''typed_ufw_command_required''))
     else
       (case executable_and_args class of
          (executable, arguments) \<Rightarrow>
            execute_registered H class (spawn executable arguments) timeout output_cap_bytes))"

text \<open>The firewall commands, which carry their arguments.\<close>

datatype ufw_command = UfwStatusCommand | UfwAdd ufw_rule_spec | UfwDelete nat

definition UFW_COMMENT_PREFIX :: string where
  "UFW_COMMENT_PREFIX = ''jw-agent:''"

fun registered_arguments :: "ufw_command \<Rightarrow> command_class \<times> string list" where
  "registered_arguments UfwStatusCommand = (UfwStatus, [''status'', ''numbered''])"
| "registered_arguments (UfwAdd rule) =
    (UfwRuleAdd,
     [ufw_rule_mutation_value (ur_mutation rule), ''from'', ur_source rule, ''to'', ''any'', ''port'',
      decimal (ur_port rule), ''proto'', ufw_protocol_value (ur_protocol rule), ''comment'',
      UFW_COMMENT_PREFIX @ ur_rule_id rule])"
| "registered_arguments (UfwDelete sequence) =
    (UfwRuleDelete, [''--force'', ''delete'', decimal sequence])"

definition fixed_run_ufw ::
    "(bytes \<Rightarrow> bytes) \<Rightarrow> nat \<Rightarrow> nat \<Rightarrow> spawner \<Rightarrow> ufw_command \<Rightarrow>
     (ops_error, command_evidence) result option" where
  "fixed_run_ufw H timeout output_cap_bytes spawn command =
    (case registered_arguments command of
       (class, arguments) \<Rightarrow>
         execute_registered H class (spawn ''/usr/sbin/ufw'' arguments) timeout output_cap_bytes)"

definition EDGE_READY_RESPONSE :: bytes where
  "EDGE_READY_RESPONSE = ''JW-EDGE-READY-V1'' @ [char_of (10 :: nat)]"

text \<open>A connection: refused, one whose read timeout cannot be set, or one that yields bytes.\<close>

datatype connection = Refused | NoTimeout string | Stream bytes

definition probe_edge_readiness :: "connection \<Rightarrow> (ops_error, bool) result" where
  "probe_edge_readiness c =
    (case c of
       Refused \<Rightarrow> Inr False
     | NoTimeout e \<Rightarrow> Inl (Command e)
     | Stream s \<Rightarrow>
         if length s < length EDGE_READY_RESPONSE then Inr False
         else Inr (take (length EDGE_READY_RESPONSE) s = EDGE_READY_RESPONSE))"

section \<open>Views and digests of evidence\<close>

text \<open>From \<^verbatim>\<open>jw-opsd/src/engine/command_evidence.rs\<close>.\<close>

definition evidence_view_of :: "command_evidence \<Rightarrow> command_evidence_view" where
  "evidence_view_of e =
    \<lparr> cv_class = command_class_str (ce_class e), cv_success = ce_success e, cv_exit_code = ce_exit_code e,
      cv_timed_out = ce_timed_out e, cv_stdout_digest = st_digest (ce_stdout e),
      cv_stdout_truncated = st_truncated (ce_stdout e), cv_stderr_digest = st_digest (ce_stderr e),
      cv_stderr_truncated = st_truncated (ce_stderr e) \<rparr>"

definition failed_evidence :: "(bytes \<Rightarrow> bytes) \<Rightarrow> command_class \<Rightarrow> command_evidence" where
  "failed_evidence H class =
    (let empty = \<lparr> st_digest = sha256_digest H [], st_captured = [], st_truncated = False \<rparr> in
     \<lparr> ce_class = class, ce_success = False, ce_exit_code = None, ce_timed_out = False,
       ce_stdout = empty, ce_stderr = empty \<rparr>)"

section \<open>Facts\<close>

text \<open>What a reader sees of a pipe: its bytes up to the end of the stream, or the first error.\<close>

fun stream_bytes :: "pipe \<Rightarrow> (string, bytes) result" where
  "stream_bytes [] = Inr []"
| "stream_bytes (Inl e # rest) = Inl e"
| "stream_bytes (Inr chunk # rest) =
    (if chunk = [] then Inr [] else bindR (stream_bytes rest) (\<lambda>s. Inr (chunk @ s)))"

lemma capture_step:
  "captured = take cap hashed \<Longrightarrow>
    (if length captured < cap
     then captured @ take (min (cap - length captured) (length chunk)) chunk else captured)
    = take cap (hashed @ chunk)"
  by (cases "cap \<le> length hashed") (auto simp: min_def)

lemma read_loop_spec:
  "captured = take cap hashed \<Longrightarrow> seen = min u64_max (length hashed) \<Longrightarrow>
    read_loop cap pipe hashed captured seen =
      bindR (stream_bytes pipe) (\<lambda>s.
      Inr (hashed @ s, take cap (hashed @ s), min u64_max (length (hashed @ s))))"
proof (induction cap pipe hashed captured seen rule: read_loop.induct)
  case (3 cap chunk rest hashed captured seen)
  show ?case
  proof (cases "chunk = []")
    case False
    have "min u64_max (seen + length chunk) = min u64_max (length (hashed @ chunk))"
      using "3.prems"(2) by (auto simp: min_def)
    then show ?thesis
      using "3.IH" [OF False capture_step [OF "3.prems"(1)]] False
      by (cases "stream_bytes rest") (simp_all add: capture_step [OF "3.prems"(1)])
  qed (use "3.prems" in simp)
qed simp_all

text \<open>
  Bounded capture (C25): however the operating system cuts the output of a command into reads, the
  evidence holds the digest of the whole output, the first bytes of it up to the cap, and the
  truncation mark exactly when more than that was written; a failing read fails the capture.
\<close>

theorem read_bounded_spec:
  "read_bounded H cap pipe =
    bindR (stream_bytes pipe) (\<lambda>s.
    Inr \<lparr> st_digest = format_sha256 (H s), st_captured = take cap s,
          st_truncated = cap < min u64_max (length s) \<rparr>)"
  unfolding read_bounded_def
  by (subst read_loop_spec) (auto simp: bindR_def split: sum.splits)

lemma clock_grows:
  "\<forall>n. c n + 25 \<le> c (Suc n) \<Longrightarrow> 25 * k \<le> c (n + k)" for c :: "nat \<Rightarrow> nat"
proof (induction k)
  case (Suc k)
  then have "25 * k \<le> c (n + k)" "c (n + k) + 25 \<le> c (Suc (n + k))" by auto
  then show ?case by simp
qed simp

lemma grace_loop_returns:
  assumes "\<forall>n. ps_grace_clock p n + 25 \<le> ps_grace_clock p (Suc n)"
  shows "\<exists>r. grace_loop p n = Some r"
proof (induction "2000 - ps_grace_clock p n" arbitrary: n rule: less_induct)
  case less
  show ?case
  proof (cases "ps_grace_clock p n < 2000")
    case True
    moreover have "ps_grace_clock p n + 25 \<le> ps_grace_clock p (Suc n)" using assms by blast
    ultimately have "2000 - ps_grace_clock p (Suc n) < 2000 - ps_grace_clock p n" by linarith
    then have "\<exists>r. grace_loop p (Suc n) = Some r" by (rule less)
    then show ?thesis
      by (subst grace_loop.simps) (auto split: sum.splits option.splits)
  qed (subst grace_loop.simps, simp)
qed

definition wait_outcome :: "process \<Rightarrow> nat \<Rightarrow> (ops_error, exit_status option \<times> bool) result \<Rightarrow> bool" where
  "wait_outcome p timeout r =
    (case r of
       Inl e \<Rightarrow> True
     | Inr (status, timed_out) \<Rightarrow>
         status \<noteq> None
         \<and> (if timed_out
            then \<exists>n. timeout \<le> ps_clock p n \<and> (\<forall>m \<le> n. ps_poll p m = Inr None)
            else \<exists>n. ps_poll p n = Inr status
                   \<and> (\<forall>m < n. ps_poll p m = Inr None \<and> ps_clock p m < timeout)))"

lemma wait_loop_returns:
  assumes clock: "\<forall>n. ps_clock p n + 25 \<le> ps_clock p (Suc n)"
    and grace: "\<forall>n. ps_grace_clock p n + 25 \<le> ps_grace_clock p (Suc n)"
    and before: "\<forall>m < n. ps_poll p m = Inr None \<and> ps_clock p m < timeout"
  shows "\<exists>r. wait_loop p timeout n = Some r \<and> wait_outcome p timeout r"
  using before
proof (induction "timeout - ps_clock p n" arbitrary: n rule: less_induct)
  case less
  show ?case
  proof (cases "ps_poll p n = Inr None \<and> ps_clock p n < timeout")
    case True
    moreover have "ps_clock p n + 25 \<le> ps_clock p (Suc n)" using clock by blast
    ultimately have "timeout - ps_clock p (Suc n) < timeout - ps_clock p n" by linarith
    moreover have "\<forall>m < Suc n. ps_poll p m = Inr None \<and> ps_clock p m < timeout"
      using less.prems True by (simp add: less_Suc_eq)
    ultimately show ?thesis
      using less.hyps [of "Suc n"] True by (subst wait_loop.simps) simp
  next
    case False
    obtain g where "terminate_process_group p = Some g"
      using grace_loop_returns [OF grace, of 0]
      by (cases "ps_pid p > 2147483647") (auto simp: terminate_process_group_def)
    moreover have "wait_outcome p timeout (Inr (Some status, True))"
      if "ps_poll p n = Inr None" "\<not> ps_clock p n < timeout" for status
    proof -
      have "\<forall>m \<le> n. ps_poll p m = Inr None" using less.prems that(1) by (auto simp: le_less)
      then show ?thesis using that(2) by (auto simp: wait_outcome_def not_less)
    qed
    moreover have "wait_outcome p timeout (Inr (Some status, False))" if "ps_poll p n = Inr (Some status)" for status
      using less.prems that by (auto simp: wait_outcome_def)
    moreover have "wait_outcome p timeout (Inl e)" for e by (simp add: wait_outcome_def)
    ultimately show ?thesis
      using False by (subst wait_loop.simps) (simp split: sum.splits option.splits)
  qed
qed


definition stuck_process :: process where
  "stuck_process =
    \<lparr> ps_spawned = Inr (), ps_pid = 77, ps_poll = (\<lambda>_. Inr None), ps_clock = (\<lambda>n. 25 * n),
      ps_grace = (\<lambda>_. Inr None), ps_grace_clock = (\<lambda>n. 25 * n), ps_wait = Inr \<lparr> es_code = None \<rparr>,
      ps_stdout = [Inr ''out''], ps_stderr = [] \<rparr>"


subsection \<open>The contract of a runner\<close>

definition command_evidence_ok :: "(bytes \<Rightarrow> bytes) \<Rightarrow> command_class \<Rightarrow> command_evidence \<Rightarrow> bool" where
  "command_evidence_ok H class e =
    (ce_class e = class
     \<and> (ce_success e \<longrightarrow> \<not> ce_timed_out e \<and> ce_exit_code e = Some 0)
     \<and> (\<exists>out. st_digest (ce_stdout e) = sha256_digest H out)
     \<and> (\<exists>err. st_digest (ce_stderr e) = sha256_digest H err))"

lemma class_str_ok:
  "command_class_str c \<noteq> []" "length (command_class_str c) \<le> 64"
  "list_all (\<lambda>b. is_ascii_lowercase b \<or> is_ascii_digit b \<or> b = CHR ''_'') (command_class_str c)"
  by (cases c; simp add: byte_class_defs byte_def)+

locale command_source =
  fixes H :: "bytes \<Rightarrow> bytes" and yields :: "command_class \<Rightarrow> command_evidence \<Rightarrow> bool"
  assumes yields_ok: "yields class e \<Longrightarrow> command_evidence_ok H class e"
begin

lemma view_well_formed:
  assumes "sha256_sized H" and "yields class e"
  shows "validate_command_shape (evidence_view_of e) = Inr ()"
proof -
  have "command_evidence_ok H class e" using assms(2) by (rule yields_ok)
  then show ?thesis
    using assms(1) class_str_ok [of "ce_class e"] sha256_digest_valid [OF assms(1)]
    by (auto simp: validate_command_shape_def evidence_view_of_def command_evidence_ok_def not_less)
qed

end

lemma execute_registered_ok:
  assumes "execute_registered H class p timeout cap = Some (Inr e)"
  shows "command_evidence_ok H class e"
  using assms
  by (auto simp: execute_registered_def read_bounded_def command_evidence_ok_def exit_success_def sha256_digest_def
      format_from_raw
      split: sum.splits option.splits)

interpretation fixed: command_source H "\<lambda>class e. fixed_run H timeout cap spawn class = Some (Inr e)"
  for H timeout cap spawn
  by unfold_locales
    (auto simp: fixed_run_def execute_registered_ok split: prod.splits if_splits)

interpretation fixed_ufw: command_source H
    "\<lambda>class e. \<exists>command. fst (registered_arguments command) = class
       \<and> fixed_run_ufw H timeout cap spawn command = Some (Inr e)"
  for H timeout cap spawn
proof
  fix cls e
  assume "\<exists>command. fst (registered_arguments command) = cls
    \<and> fixed_run_ufw H timeout cap spawn command = Some (Inr e)"
  then obtain command where "fst (registered_arguments command) = cls"
    and "fixed_run_ufw H timeout cap spawn command = Some (Inr e)" by blast
  then show "command_evidence_ok H cls e"
    by (cases "registered_arguments command") (auto simp: fixed_run_ufw_def execute_registered_ok)
qed

text \<open>
  Evidence is recordable (C27): whatever a registered command does, the evidence the fixed runner
  returns for it passes the check the ledger applies before it stores command evidence.  The command
  class is the one that was asked for, and success means exit code zero and no timeout.
\<close>

theorem fixed_run_evidence:
  assumes "sha256_sized H" and "fixed_run H timeout cap spawn class = Some (Inr e)"
  shows "validate_command_shape (evidence_view_of e) = Inr ()
    \<and> ce_class e = class \<and> (ce_success e \<longrightarrow> ce_exit_code e = Some 0 \<and> \<not> ce_timed_out e)"
  using fixed.view_well_formed [OF assms] fixed.yields_ok [OF assms(2)] by (simp add: command_evidence_ok_def)

definition quiet_process :: process where
  "quiet_process =
    stuck_process\<lparr>ps_poll := (\<lambda>n. if n < 2 then Inr None else Inr (Some \<lparr> es_code = Some 0 \<rparr>))\<rparr>"

lemma quiet_process_fields:
  "ps_spawned quiet_process = Inr ()" "ps_stdout quiet_process = [Inr ''out'']" "ps_stderr quiet_process = []"
  by (simp_all add: quiet_process_def stuck_process_def)

definition quiet_evidence :: command_evidence where
  "quiet_evidence =
    \<lparr> ce_class = NginxConfigTest, ce_success = True, ce_exit_code = Some 0, ce_timed_out = False,
      ce_stdout = \<lparr> st_digest = format_sha256 (replicate 32 NUL), st_captured = ''ou'', st_truncated = True \<rparr>,
      ce_stderr = \<lparr> st_digest = format_sha256 (replicate 32 NUL), st_captured = [], st_truncated = False \<rparr> \<rparr>"

definition flat_digest :: "bytes \<Rightarrow> bytes" where
  "flat_digest bs = replicate 32 NUL"

lemma quiet_process_run:
  "fixed_run flat_digest 15000 2 (\<lambda>_ _. quiet_process) NginxConfigTest = Some (Inr quiet_evidence)"
proof -
  have "wait_loop quiet_process 15000 (Suc (Suc 0)) = Some (Inr (Some \<lparr> es_code = Some 0 \<rparr>, False))"
    by (subst wait_loop.simps) (simp add: quiet_process_def)
  then have "wait_loop quiet_process 15000 (Suc 0) = Some (Inr (Some \<lparr> es_code = Some 0 \<rparr>, False))"
    by (subst wait_loop.simps) (simp add: quiet_process_def stuck_process_def)
  then have "wait_bounded quiet_process 15000 = Some (Inr (Some \<lparr> es_code = Some 0 \<rparr>, False))"
    unfolding wait_bounded_def
    by (subst wait_loop.simps) (simp add: quiet_process_def stuck_process_def)
  then show ?thesis
    using quiet_process_fields
    by (simp add: fixed_run_def execute_registered_def read_bounded_def exit_success_def u64_max_def
        quiet_evidence_def flat_digest_def)
qed

theorem fixed_run_evidence_witness:
  "validate_command_shape (evidence_view_of quiet_evidence) = Inr ()
    \<and> ce_class quiet_evidence = NginxConfigTest \<and> ce_exit_code quiet_evidence = Some 0"
proof -
  have "sha256_sized flat_digest" by (simp add: sha256_sized_def flat_digest_def)
  moreover have "ce_success quiet_evidence" by (simp add: quiet_evidence_def)
  ultimately show ?thesis using fixed_run_evidence [OF _ quiet_process_run] by simp
qed

end
