(* ===== verification/Ops_Documents.thy ===== *)
theory Ops_Documents
  imports Ledger_Open Runner Cert_Requests
begin

text \<open>
  The documents the engine serialises: the snapshots of \<^verbatim>\<open>jw-opsd/src/snapshot.rs\<close>, the values whose
  digests identify requests and plans (\<^verbatim>\<open>engine.rs\<close>, \<^verbatim>\<open>engine/ufw_operation.rs\<close>, \<^verbatim>\<open>certificate.rs\<close>), and
  the views of the firewall and of the certificates they contain.  \<^verbatim>\<open>serde_json\<close> is the record \<^verbatim>\<open>ops_codec\<close>.
\<close>

section \<open>Snapshots\<close>

record nginx_link_snapshot =
  nl_schema_version :: nat
  nl_site_id :: string
  nl_basename :: string
  nl_enabled :: bool
  nl_available_digest :: string
  nl_enabled_state_digest :: string

record managed_config_snapshot =
  ms_schema_version :: nat
  ms_resource_id :: string
  ms_basename :: string
  ms_content :: string
  ms_content_digest :: string
  ms_metadata_digest :: string
  ms_mode :: nat
  ms_uid :: nat
  ms_gid :: nat

record service_state_snapshot =
  ss_schema_version :: nat
  ss_service_id :: string
  ss_unit_name :: string
  ss_active :: bool
  ss_state_digest :: string

record certificate_inventory_snapshot =
  ci_schema_version :: nat
  ci_inventory_digest :: string
  ci_timer_enabled :: bool
  ci_timer_active :: bool
  ci_certificate_count :: nat

record ufw_rule_view =
  uv_sequence :: nat
  uv_rule_id :: "string option"
  uv_action :: string
  uv_protocol :: "ufw_protocol option"
  uv_port :: "nat option"
  uv_source :: string
  uv_destination :: string
  uv_ipv6 :: bool
  uv_owned :: bool
  uv_protected :: bool
  uv_summary :: string

record ufw_snapshot =
  us_schema_version :: nat
  us_state_digest :: string
  us_rules :: "ufw_rule_view list"

section \<open>Requests and plans\<close>

text \<open>\<^verbatim>\<open>PlanRequestDigest\<close> and its variants for the other requests differ in the type of the request only.\<close>

record 'r plan_request_digest =
  pd_operation_type :: string
  pd_actor :: subject
  pd_request :: 'r

record plan_hash_material =
  ph_schema_version :: nat
  ph_operation_type :: string
  ph_plan_id :: string
  ph_created_at_ms :: int
  ph_expires_at_ms :: int
  ph_actor :: subject
  ph_site_id :: string
  ph_display_name :: string
  ph_current_state :: nginx_site_state
  ph_target_state :: nginx_site_state
  ph_available_digest :: string
  ph_enabled_state_digest :: string
  ph_resource_key :: string
  ph_impact :: "string list"
  ph_recovery_path :: "string list"
  ph_assurance :: assurance_view

record managed_plan_hash_material =
  mh_schema_version :: nat
  mh_operation_type :: string
  mh_plan_id :: string
  mh_created_at_ms :: int
  mh_expires_at_ms :: int
  mh_actor :: subject
  mh_resource_id :: string
  mh_display_name :: string
  mh_current_content_digest :: string
  mh_metadata_digest :: string
  mh_proposed_content_digest :: string
  mh_service_action :: string
  mh_current_bytes :: nat
  mh_proposed_bytes :: nat
  mh_added_lines :: nat
  mh_removed_lines :: nat
  mh_diff_summary :: "string list"
  mh_resource_key :: string
  mh_impact :: "string list"
  mh_recovery_path :: "string list"
  mh_assurance :: assurance_view

record ufw_plan_hash_material =
  uh_schema_version :: nat
  uh_operation_type :: string
  uh_plan_id :: string
  uh_created_at_ms :: int
  uh_expires_at_ms :: int
  uh_actor :: subject
  uh_expected_state_digest :: string
  uh_resource_key :: string
  uh_payload :: ufw_plan_payload
  uh_assurance :: assurance_view

record certbot_renew_plan_hash_material =
  rh_schema_version :: nat
  rh_operation_type :: string
  rh_plan_id :: string
  rh_created_at_ms :: int
  rh_expires_at_ms :: int
  rh_actor :: subject
  rh_inventory_digest :: string
  rh_timer_enabled :: bool
  rh_timer_active :: bool
  rh_certificate_count :: nat
  rh_resource_key :: string
  rh_assurance :: assurance_view

record certbot_issue_plan_hash_material =
  ih_schema_version :: nat
  ih_operation_type :: string
  ih_plan_id :: string
  ih_created_at_ms :: int
  ih_expires_at_ms :: int
  ih_actor :: subject
  ih_primary_domain :: string
  ih_domains :: "string list"
  ih_account_email_digest :: string
  ih_masked_account_email :: string
  ih_environment :: certificate_environment
  ih_site_id :: string
  ih_site_digest :: string
  ih_inventory_digest :: string
  ih_preflight_observed_at_ms :: int
  ih_resolved_addresses :: "string list"
  ih_local_port_80_reachable :: bool
  ih_local_port_443_reachable :: bool
  ih_staging_evidence_valid :: bool
  ih_staging_evidence_key :: string
  ih_resource_key :: string
  ih_assurance :: assurance_view

record certbot_attach_plan_hash_material =
  ah_schema_version :: nat
  ah_operation_type :: string
  ah_plan_id :: string
  ah_created_at_ms :: int
  ah_expires_at_ms :: int
  ah_actor :: subject
  ah_primary_domain :: string
  ah_site_id :: string
  ah_site_digest :: string
  ah_metadata_digest :: string
  ah_inventory_digest :: string
  ah_certificate_fingerprint :: string
  ah_sans :: "string list"
  ah_not_after :: string
  ah_current_certificate_path :: string
  ah_target_certificate_path :: string
  ah_proposed_content_digest :: string
  ah_timer_enabled :: bool
  ah_timer_active :: bool
  ah_resource_key :: string
  ah_assurance :: assurance_view

record certificate_summary_view =
  cs_primary_domain :: string
  cs_sans :: "string list"
  cs_not_after :: string
  cs_fingerprint_sha256 :: string
  cs_certificate_path :: string
  cs_private_key_present :: bool
  cs_renewal_config_present :: bool
  cs_webroot_managed :: bool

record inventory_digest_material =
  id_certbot_installed :: bool
  id_timer_enabled :: bool
  id_timer_active :: bool
  id_certificates :: "certificate_summary_view list"
  id_problems :: "string list"

record certbot_staging_evidence_material =
  sm_domains :: "string list"
  sm_site_digest :: string
  sm_resolved_addresses :: "string list"

section \<open>Codec\<close>

record ops_codec =
  oc_ser_nginx_snapshot :: "nginx_link_snapshot \<Rightarrow> bytes"
  oc_de_nginx_snapshot :: "bytes \<Rightarrow> nginx_link_snapshot option"
  oc_ser_managed_snapshot :: "managed_config_snapshot \<Rightarrow> bytes"
  oc_de_managed_snapshot :: "bytes \<Rightarrow> managed_config_snapshot option"
  oc_ser_service_snapshot :: "service_state_snapshot \<Rightarrow> bytes"
  oc_de_service_snapshot :: "bytes \<Rightarrow> service_state_snapshot option"
  oc_ser_nginx_request :: "nginx_site_state_plan_request plan_request_digest \<Rightarrow> bytes"
  oc_ser_service_request :: "service_control_plan_request plan_request_digest \<Rightarrow> bytes"
  oc_ser_plan :: "plan_hash_material \<Rightarrow> bytes"
  oc_ser_managed_request :: "managed_config_plan_request plan_request_digest \<Rightarrow> bytes"
  oc_ser_restore_request :: "restore_plan_request plan_request_digest \<Rightarrow> bytes"
  oc_ser_managed_plan :: "managed_plan_hash_material \<Rightarrow> bytes"
  oc_ser_ufw_request :: "ufw_rule_plan_request plan_request_digest \<Rightarrow> bytes"
  oc_ser_ufw_plan :: "ufw_plan_hash_material \<Rightarrow> bytes"
  oc_ser_ufw_snapshot :: "ufw_snapshot \<Rightarrow> bytes"
  oc_de_ufw_snapshot :: "bytes \<Rightarrow> ufw_snapshot option"
  oc_ser_digests :: "string list \<Rightarrow> bytes"
  oc_ser_certificate_snapshot :: "certificate_inventory_snapshot \<Rightarrow> bytes"
  oc_de_certificate_snapshot :: "bytes \<Rightarrow> certificate_inventory_snapshot option"
  oc_ser_issue_request :: "certbot_issue_plan_input plan_request_digest \<Rightarrow> bytes"
  oc_ser_renew_request :: "certbot_renew_test_plan_request plan_request_digest \<Rightarrow> bytes"
  oc_ser_attach_request :: "certbot_attach_plan_request plan_request_digest \<Rightarrow> bytes"
  oc_ser_issue_plan :: "certbot_issue_plan_hash_material \<Rightarrow> bytes"
  oc_ser_renew_plan :: "certbot_renew_plan_hash_material \<Rightarrow> bytes"
  oc_ser_attach_plan :: "certbot_attach_plan_hash_material \<Rightarrow> bytes"
  oc_ser_inventory :: "inventory_digest_material \<Rightarrow> bytes"
  oc_ser_staging :: "certbot_staging_evidence_material \<Rightarrow> bytes"
  oc_ser_certbot_evidence :: "certbot_command_evidence \<Rightarrow> bytes"

text \<open>What the engine relies on in \<^verbatim>\<open>serde_json\<close>: a snapshot document is read back as it was printed.\<close>

definition codec_ok :: "ops_codec \<Rightarrow> bool" where
  "codec_ok c =
    ((\<forall>v. oc_de_nginx_snapshot c (oc_ser_nginx_snapshot c v) = Some v)
     \<and> (\<forall>v. oc_de_managed_snapshot c (oc_ser_managed_snapshot c v) = Some v)
     \<and> (\<forall>v. oc_de_service_snapshot c (oc_ser_service_snapshot c v) = Some v)
     \<and> (\<forall>v. oc_de_ufw_snapshot c (oc_ser_ufw_snapshot c v) = Some v)
     \<and> (\<forall>v. oc_de_certificate_snapshot c (oc_ser_certificate_snapshot c v) = Some v))"

end
