(* ===== verification/Ops_Env.thy ===== *)
theory Ops_Env
  imports Ops_Documents
begin

text \<open>
  The surroundings of the engine: its configuration (\<^verbatim>\<open>jw-opsd/src/config.rs\<close>) and the state a request
  works on.

  The state \<^verbatim>\<open>world\<close> is the ledger, the files, the lockdown flag of the service, the bytes the system's
  random source will return, and the state of the host outside the daemon, which only a runner reads or
  changes.  Base64 is a function of the environment.
\<close>

section \<open>Configuration\<close>

record ops_paths =
  pa_database :: path
  pa_snapshots :: path
  pa_proposals :: path
  pa_checkpoint :: path
  pa_nginx_main :: path
  pa_nginx_conf_d :: path
  pa_nginx_available :: path
  pa_nginx_enabled :: path
  pa_apache_main :: path
  pa_apache_ports :: path
  pa_apache_conf_available :: path
  pa_apache_conf_enabled :: path
  pa_apache_sites_available :: path
  pa_apache_sites_enabled :: path
  pa_php_fpm_ini :: path
  pa_php_fpm_global :: path
  pa_php_fpm_pool_www :: path
  pa_php_fpm_pool_dir :: path
  pa_letsencrypt_live :: path
  pa_letsencrypt_archive :: path
  pa_letsencrypt_renewal :: path
  pa_acme_webroot :: path
  pa_certbot_executable :: path
  pa_ufw_executable :: path
  pa_enforce_root_ownership :: bool

definition default_paths :: ops_paths where
  "default_paths =
    (let state = [''var'', ''lib'', ''jw-agent'', ''opsd''] in
     \<lparr> pa_database = state @ [''opsd.sqlite3''],
       pa_snapshots = state @ [''snapshots''],
       pa_proposals = state @ [''proposals''],
       pa_checkpoint = state @ [''ledger.checkpoint''],
       pa_nginx_main = [''etc'', ''nginx'', ''nginx.conf''],
       pa_nginx_conf_d = [''etc'', ''nginx'', ''conf.d''],
       pa_nginx_available = [''etc'', ''nginx'', ''sites-available''],
       pa_nginx_enabled = [''etc'', ''nginx'', ''sites-enabled''],
       pa_apache_main = [''etc'', ''apache2'', ''apache2.conf''],
       pa_apache_ports = [''etc'', ''apache2'', ''ports.conf''],
       pa_apache_conf_available = [''etc'', ''apache2'', ''conf-available''],
       pa_apache_conf_enabled = [''etc'', ''apache2'', ''conf-enabled''],
       pa_apache_sites_available = [''etc'', ''apache2'', ''sites-available''],
       pa_apache_sites_enabled = [''etc'', ''apache2'', ''sites-enabled''],
       pa_php_fpm_ini = [''etc'', ''php'', ''8.3'', ''fpm'', ''php.ini''],
       pa_php_fpm_global = [''etc'', ''php'', ''8.3'', ''fpm'', ''php-fpm.conf''],
       pa_php_fpm_pool_www = [''etc'', ''php'', ''8.3'', ''fpm'', ''pool.d'', ''www.conf''],
       pa_php_fpm_pool_dir = [''etc'', ''php'', ''8.3'', ''fpm'', ''pool.d''],
       pa_letsencrypt_live = [''etc'', ''letsencrypt'', ''live''],
       pa_letsencrypt_archive = [''etc'', ''letsencrypt'', ''archive''],
       pa_letsencrypt_renewal = [''etc'', ''letsencrypt'', ''renewal''],
       pa_acme_webroot = [''var'', ''lib'', ''jw-agent'', ''acme-webroot''],
       pa_certbot_executable = [''usr'', ''bin'', ''certbot''],
       pa_ufw_executable = [''usr'', ''sbin'', ''ufw''],
       pa_enforce_root_ownership = True \<rparr>)"

text \<open>Durations are in milliseconds.\<close>

record ops_policy =
  po_plan_ttl_ms :: nat
  po_command_timeout_ms :: nat
  po_output_cap_bytes :: nat
  po_snapshot_min_free_bytes :: nat

definition default_policy :: ops_policy where
  "default_policy =
    \<lparr> po_plan_ttl_ms = 10 * 60 * 1000, po_command_timeout_ms = 15 * 1000,
      po_output_cap_bytes = 64 * 1024, po_snapshot_min_free_bytes = 4 * 1024 * 1024 \<rparr>"

section \<open>World\<close>

record 'h world =
  w_ledger :: ledger
  w_fs :: filesystem
  w_lockdown :: bool
  w_entropy :: "bytes option list"
  w_host :: 'h

text \<open>
  The trait \<^verbatim>\<open>OperationRunner\<close>.  A command reads the files and works on the host; the registered
  commands do not write the files the daemon manages.
\<close>

record 'h operation_runner =
  rn_run :: "command_class \<Rightarrow> filesystem \<Rightarrow> 'h \<Rightarrow> (ops_error, command_evidence) result \<times> 'h"
  rn_run_ufw :: "ufw_command \<Rightarrow> 'h \<Rightarrow> (ops_error, command_evidence) result \<times> 'h"
  rn_management_edge_ready :: "filesystem \<Rightarrow> 'h \<Rightarrow> (ops_error, bool) result \<times> 'h"

text \<open>
  The trait \<^verbatim>\<open>CertbotRunner\<close>, and the \<^verbatim>\<open>openssl\<close> process that prints a certificate.  Commands of the
  certificate daemon may write the certificates and their renewal configuration.
\<close>

datatype openssl_run = NotSpawned string | StillRunning | Finished bool "bytes list"

record 'h certificate_tools =
  ct_run_certbot :: "certbot_command \<Rightarrow> int \<Rightarrow> filesystem \<Rightarrow> 'h \<Rightarrow>
    (ops_error, certbot_command_evidence) result \<times> filesystem \<times> 'h"
  ct_openssl :: "path \<Rightarrow> filesystem \<Rightarrow> openssl_run"

record 'h ops_env =
  oe_ledger :: ledger_env
  oe_paths :: ops_paths
  oe_policy :: ops_policy
  oe_codec :: ops_codec
  oe_base64 :: "bytes \<Rightarrow> string"
  oe_runner :: "'h operation_runner"
  oe_certificates :: "'h certificate_tools"

type_synonym ('h, 'a) engine = "('h world, ops_error, 'a) routine"

text \<open>The ledger sees the ownership rule of the configured paths.\<close>

definition ledger_env_of :: "'h ops_env \<Rightarrow> ledger_env" where
  "ledger_env_of env = (oe_ledger env)\<lparr>le_enforce_root := pa_enforce_root_ownership (oe_paths env)\<rparr>"

abbreviation env_sha256 :: "'h ops_env \<Rightarrow> bytes \<Rightarrow> bytes" where
  "env_sha256 env \<equiv> le_sha256 (oe_ledger env)"

abbreviation env_texts :: "'h ops_env \<Rightarrow> string \<Rightarrow> string list" where
  "env_texts env \<equiv> le_texts (oe_ledger env)"

definition on_ledger :: "(ledger, ops_error, 'a) routine \<Rightarrow> ('h, 'a) engine" where
  "on_ledger m = within w_ledger (\<lambda>l w. w\<lparr>w_ledger := l\<rparr>) m"

definition on_files :: "(filesystem, ops_error, 'a) routine \<Rightarrow> ('h, 'a) engine" where
  "on_files m = within w_fs (\<lambda>fs w. w\<lparr>w_fs := fs\<rparr>) m"

definition run_command :: "'h ops_env \<Rightarrow> command_class \<Rightarrow> ('h, command_evidence) engine" where
  "run_command env class = (\<lambda>w.
    case rn_run (oe_runner env) class (w_fs w) (w_host w) of (r, h) \<Rightarrow> (r, w\<lparr>w_host := h\<rparr>))"

definition run_ufw_command :: "'h ops_env \<Rightarrow> ufw_command \<Rightarrow> ('h, command_evidence) engine" where
  "run_ufw_command env command = (\<lambda>w.
    case rn_run_ufw (oe_runner env) command (w_host w) of (r, h) \<Rightarrow> (r, w\<lparr>w_host := h\<rparr>))"

definition management_edge_ready :: "'h ops_env \<Rightarrow> ('h, bool) engine" where
  "management_edge_ready env = (\<lambda>w.
    case rn_management_edge_ready (oe_runner env) (w_fs w) (w_host w) of (r, h) \<Rightarrow> (r, w\<lparr>w_host := h\<rparr>))"

definition run_certbot :: "'h ops_env \<Rightarrow> certbot_command \<Rightarrow> int \<Rightarrow> ('h, certbot_command_evidence) engine" where
  "run_certbot env command now_ms = (\<lambda>w.
    case ct_run_certbot (oe_certificates env) command now_ms (w_fs w) (w_host w) of
      (r, fs, h) \<Rightarrow> (r, w\<lparr>w_fs := fs, w_host := h\<rparr>))"

text \<open>\<^verbatim>\<open>getrandom::fill\<close>: the next bytes of the random source, or a failure.\<close>

definition getrandom :: "nat \<Rightarrow> ('h, bytes) engine" where
  "getrandom n = (\<lambda>w.
    case w_entropy w of
      Some bs # rest \<Rightarrow>
        (if length bs = n then Inr bs else Inl (Storage ''getrandom''), w\<lparr>w_entropy := rest\<rparr>)
    | None # rest \<Rightarrow> (Inl (Storage ''getrandom''), w\<lparr>w_entropy := rest\<rparr>)
    | [] \<Rightarrow> (Inl (Storage ''getrandom''), w))"

text \<open>The error of a file operation as the daemon reports it.\<close>

definition fs_error :: "io_error \<Rightarrow> ops_error" where
  "fs_error e = Filesystem ''io''"

abbreviation fs_io :: "'a io \<Rightarrow> (filesystem, ops_error, 'a) routine" where
  "fs_io m \<equiv> on_err fs_error m"

abbreviation reject_io :: "string \<Rightarrow> 'a io \<Rightarrow> (filesystem, ops_error, 'a) routine" where
  "reject_io code m \<equiv> on_err (\<lambda>_. Rejected code) m"

text \<open>\<^verbatim>\<open>let _cleanup = call\<close>: the result of the call is dropped.\<close>

definition discard :: "('s, 'e, 'a) routine \<Rightarrow> ('s, 'f, unit) routine" where
  "discard m = attempt m (\<lambda>_. ret ())"

section \<open>Facts\<close>

lemma moves_on_ledger [moves_intros]:
  "moves R m \<Longrightarrow> moves (\<lambda>w w'. R (w_ledger w) (w_ledger w')) (on_ledger m)"
  by (simp add: moves_def on_ledger_def within_def split: prod.splits) (metis snd_conv)

lemma moves_on_files [moves_intros]:
  "moves R m \<Longrightarrow> moves (\<lambda>w w'. R (w_fs w) (w_fs w')) (on_files m)"
  by (simp add: moves_def on_files_def within_def split: prod.splits) (metis snd_conv)

lemma command_world:
  "w_ledger (snd (run_command env c w)) = w_ledger w" "w_fs (snd (run_command env c w)) = w_fs w"
  "w_ledger (snd (run_ufw_command env u w)) = w_ledger w" "w_fs (snd (run_ufw_command env u w)) = w_fs w"
  "w_ledger (snd (management_edge_ready env w)) = w_ledger w" "w_fs (snd (management_edge_ready env w)) = w_fs w"
  "w_ledger (snd (getrandom n w)) = w_ledger w" "w_fs (snd (getrandom n w)) = w_fs w"
  by (simp_all add: run_command_def run_ufw_command_def management_edge_ready_def getrandom_def
      split: prod.splits list.splits option.splits)

end
