(* ===== verification/Snapshots.thy ===== *)
theory Snapshots
  imports Ops_Env
begin

text \<open>
  Snapshots of \<^verbatim>\<open>jw-opsd/src/snapshot.rs\<close>: the state an operation may have to restore is written to a
  private directory before anything is changed, and read back when a rollback needs it.  A relative path
  is the text \<^verbatim>\<open>operation/file\<close>; joining it to the root appends its components.
\<close>

definition join_relative :: "path \<Rightarrow> string \<Rightarrow> path" where
  "join_relative root relative = root @ split_on (CHR ''/'') relative"

definition set_mode :: "path \<Rightarrow> nat \<Rightarrow> (filesystem, ops_error, unit) routine" where
  "set_mode p mode = fs_io (set_permissions p mode)"

definition set_file_mode :: "path \<Rightarrow> nat \<Rightarrow> (filesystem, ops_error, unit) routine" where
  "set_file_mode handle mode = fs_io (fchmod handle mode)"

text \<open>\<^verbatim>\<open>mode & 0o077\<close>: the bits for the group and for others.\<close>

definition foreign_bits :: "nat \<Rightarrow> nat" where
  "foreign_bits mode = mode mod 64"

definition validate_private_directory :: "path \<Rightarrow> bool \<Rightarrow> (filesystem, ops_error, unit) routine" where
  "validate_private_directory p enforce_root_ownership =
    bindM (on_err (\<lambda>_. ForensicLockdown) (symlink_metadata p)) (\<lambda>metadata.
    if \<not> is_dir metadata \<or> is_symlink metadata then fail ForensicLockdown
    else if (enforce_root_ownership \<and> nd_uid metadata \<noteq> 0) \<or> foreign_bits (nd_mode metadata) \<noteq> 0
    then fail ForensicLockdown
    else ret ())"

definition prepare_private_root :: "path \<Rightarrow> bool \<Rightarrow> (filesystem, ops_error, unit) routine" where
  "prepare_private_root p enforce_root_ownership =
    bindM (if p = [] then ret () else fs_io (create_dir_all (butlast p))) (\<lambda>_.
    bindM (attempt (symlink_metadata p) (\<lambda>r.
             case r of
               Inr metadata \<Rightarrow>
                 if is_dir metadata \<and> \<not> is_symlink metadata then ret ()
                 else fail (Rejected ''snapshot_root_rejected'')
             | Inl NotFound \<Rightarrow> fs_io (create_dir p)
             | Inl OtherIo \<Rightarrow> fail (fs_error OtherIo))) (\<lambda>_.
    bindM (set_mode p 448) (\<lambda>_.
    validate_private_directory p enforce_root_ownership)))"

definition require_capacity :: "path \<Rightarrow> nat \<Rightarrow> (filesystem, ops_error, unit) routine" where
  "require_capacity p minimum_free_bytes =
    bindM (fs_io (statvfs_free p)) (\<lambda>free.
    if free < minimum_free_bytes then fail (Rejected ''snapshot_space_insufficient'') else ret ())"

section \<open>Writing and reading\<close>

definition write_snapshot_bytes ::
    "'h ops_env \<Rightarrow> string \<Rightarrow> string \<Rightarrow> bytes \<Rightarrow> (filesystem, ops_error, snapshot_record) routine" where
  "write_snapshot_bytes env operation_id filename bytes =
    (let paths = oe_paths env; enforce = pa_enforce_root_ownership paths; root = pa_snapshots paths;
         operation_directory = join_relative root operation_id;
         relative_path = operation_id @ ''/'' @ filename;
         snapshot_path = join_relative root relative_path
     in
     bindM (prepare_private_root root enforce) (\<lambda>_.
     bindM (require_capacity root (po_snapshot_min_free_bytes (oe_policy env))) (\<lambda>_.
     bindM (fs_io (create_dir operation_directory)) (\<lambda>_.
     bindM (set_mode operation_directory 448) (\<lambda>_.
     bindM (validate_private_directory operation_directory enforce) (\<lambda>_.
     bindM (fs_io (create_new snapshot_path)) (\<lambda>handle.
     bindM (set_file_mode handle 384) (\<lambda>_.
     bindM (fs_io (write_all handle bytes)) (\<lambda>_.
     bindM (fs_io (sync_all handle)) (\<lambda>_.
     let digest = sha256_digest (env_sha256 env) bytes in
     bindM (fs_io (bindM (open_file snapshot_path) read_to_end)) (\<lambda>read_back.
     if sha256_digest (env_sha256 env) read_back \<noteq> digest
     then fail (Rejected ''snapshot_read_back_mismatch'')
     else
       bindM (fs_io (bindM (open_file operation_directory) sync_all)) (\<lambda>_.
       bindM (fs_io (bindM (open_file root) sync_all)) (\<lambda>_.
       ret \<lparr> sn_relative_path = relative_path, sn_digest = digest \<rparr>)))))))))))))"

definition read_snapshot_bytes ::
    "'h ops_env \<Rightarrow> snapshot_record \<Rightarrow> nat \<Rightarrow> (filesystem, ops_error, bytes) routine" where
  "read_snapshot_bytes env record max_bytes =
    (let paths = oe_paths env; enforce = pa_enforce_root_ownership paths; relative = sn_relative_path record in
     if starts_with ''/'' relative
        \<or> list_ex (\<lambda>component. component \<in> {[], ''.'', ''..''}) (split_on (CHR ''/'') relative)
     then fail (Rejected ''snapshot_path_rejected'')
     else
       let p = join_relative (pa_snapshots paths) relative in
       bindM (validate_private_directory (pa_snapshots paths) enforce) (\<lambda>_.
       bindM (validate_private_directory (butlast p) enforce) (\<lambda>_.
       bindM (fs_io (symlink_metadata p)) (\<lambda>metadata.
       if \<not> is_file metadata \<or> is_symlink metadata \<or> length (node_content metadata) > max_bytes
       then fail (Rejected ''snapshot_file_rejected'')
       else if nd_nlink metadata \<noteq> 1 \<or> (enforce \<and> nd_uid metadata \<noteq> 0)
               \<or> foreign_bits (nd_mode metadata) \<noteq> 0
       then fail ForensicLockdown
       else
         bindM (fs_io (bindM (open_file p) read_to_end)) (\<lambda>bytes.
         if sha256_digest (env_sha256 env) bytes \<noteq> sn_digest record then fail ForensicLockdown
         else ret bytes)))))"

definition write_nginx_snapshot ::
    "'h ops_env \<Rightarrow> string \<Rightarrow> nginx_link_snapshot \<Rightarrow> (filesystem, ops_error, snapshot_record) routine" where
  "write_nginx_snapshot env operation_id snapshot =
    write_snapshot_bytes env operation_id ''nginx-link.json'' (oc_ser_nginx_snapshot (oe_codec env) snapshot)"

definition write_managed_config_snapshot ::
    "'h ops_env \<Rightarrow> string \<Rightarrow> managed_config_snapshot \<Rightarrow> (filesystem, ops_error, snapshot_record) routine" where
  "write_managed_config_snapshot env operation_id snapshot =
    write_snapshot_bytes env operation_id ''managed-config.json''
      (oc_ser_managed_snapshot (oe_codec env) snapshot)"

definition write_service_state_snapshot ::
    "'h ops_env \<Rightarrow> string \<Rightarrow> service_state_snapshot \<Rightarrow> (filesystem, ops_error, snapshot_record) routine" where
  "write_service_state_snapshot env operation_id snapshot =
    write_snapshot_bytes env operation_id ''service-state.json''
      (oc_ser_service_snapshot (oe_codec env) snapshot)"

definition write_ufw_snapshot ::
    "'h ops_env \<Rightarrow> string \<Rightarrow> ufw_snapshot \<Rightarrow> (filesystem, ops_error, snapshot_record) routine" where
  "write_ufw_snapshot env operation_id snapshot =
    write_snapshot_bytes env operation_id ''ufw-rules.json'' (oc_ser_ufw_snapshot (oe_codec env) snapshot)"

definition write_certificate_inventory_snapshot ::
    "'h ops_env \<Rightarrow> string \<Rightarrow> certificate_inventory_snapshot \<Rightarrow> (filesystem, ops_error, snapshot_record) routine" where
  "write_certificate_inventory_snapshot env operation_id snapshot =
    write_snapshot_bytes env operation_id ''certificate-inventory.json''
      (oc_ser_certificate_snapshot (oe_codec env) snapshot)"

definition read_document ::
    "(bytes \<Rightarrow> 'a option) \<Rightarrow> (filesystem, ops_error, bytes) routine \<Rightarrow> (filesystem, ops_error, 'a) routine" where
  "read_document de m = bindM m (\<lambda>bytes. liftR (ok_or (de bytes) (Filesystem ''json'')))"

definition read_nginx_snapshot ::
    "'h ops_env \<Rightarrow> snapshot_record \<Rightarrow> (filesystem, ops_error, nginx_link_snapshot) routine" where
  "read_nginx_snapshot env record =
    read_document (oc_de_nginx_snapshot (oe_codec env)) (read_snapshot_bytes env record (64 * 1024))"

definition read_managed_config_snapshot ::
    "'h ops_env \<Rightarrow> snapshot_record \<Rightarrow> (filesystem, ops_error, managed_config_snapshot) routine" where
  "read_managed_config_snapshot env record =
    read_document (oc_de_managed_snapshot (oe_codec env)) (read_snapshot_bytes env record (2 * 1024 * 1024))"

definition read_service_state_snapshot ::
    "'h ops_env \<Rightarrow> snapshot_record \<Rightarrow> (filesystem, ops_error, service_state_snapshot) routine" where
  "read_service_state_snapshot env record =
    read_document (oc_de_service_snapshot (oe_codec env)) (read_snapshot_bytes env record (64 * 1024))"

definition read_ufw_snapshot ::
    "'h ops_env \<Rightarrow> snapshot_record \<Rightarrow> (filesystem, ops_error, ufw_snapshot) routine" where
  "read_ufw_snapshot env record =
    read_document (oc_de_ufw_snapshot (oe_codec env)) (read_snapshot_bytes env record (256 * 1024))"

definition read_certificate_inventory_snapshot ::
    "'h ops_env \<Rightarrow> snapshot_record \<Rightarrow> (filesystem, ops_error, certificate_inventory_snapshot) routine" where
  "read_certificate_inventory_snapshot env record =
    read_document (oc_de_certificate_snapshot (oe_codec env)) (read_snapshot_bytes env record (64 * 1024))"

end
