(* ===== verification/Nginx_Sites.thy ===== *)
theory Nginx_Sites
  imports Ops_Env
begin

text \<open>
  Nginx sites of \<^verbatim>\<open>jw-opsd/src/nginx.rs\<close>: a site is a regular file of \<^verbatim>\<open>sites-available\<close>, and it is enabled
  when \<^verbatim>\<open>sites-enabled\<close> holds a link of the same name that resolves to it.  The model follows the Linux
  variants of the functions.
\<close>

definition AVAILABLE_FILE_MAX_BYTES :: nat where
  "AVAILABLE_FILE_MAX_BYTES = 1024 * 1024"

definition MANAGEMENT_SITE :: string where
  "MANAGEMENT_SITE = ''jw-agent-management.conf''"

record nginx_site =
  ns_site_id :: string
  ns_basename :: string
  ns_available_digest :: string
  ns_enabled_state_digest :: string
  ns_state :: nginx_site_state
  ns_protected :: bool

definition validate_root :: "path \<Rightarrow> bool \<Rightarrow> (filesystem, ops_error, unit) routine" where
  "validate_root root enforce_root_ownership =
    bindM (reject_io ''unsupported_nginx_layout'' (symlink_metadata root)) (\<lambda>metadata.
    if \<not> is_dir metadata \<or> is_symlink metadata then fail (Rejected ''path_policy_violation'')
    else if enforce_root_ownership \<and> nd_uid metadata \<noteq> 0 then fail (Rejected ''path_owner_violation'')
    else ret ())"

definition validate_available_metadata :: "inode \<Rightarrow> bool \<Rightarrow> (ops_error, unit) result" where
  "validate_available_metadata metadata enforce_root_ownership =
    (if \<not> is_file metadata then Inl (Rejected ''available_not_regular'')
     else if nd_nlink metadata \<noteq> 1 then Inl (Rejected ''available_hardlink_rejected'')
     else if enforce_root_ownership \<and> nd_uid metadata \<noteq> 0 then Inl (Rejected ''path_owner_violation'')
     else Inr ())"

definition safe_basename :: "string \<Rightarrow> (ops_error, string) result" where
  "safe_basename value =
    (if \<not> utf8_valid value then Inl (Rejected ''site_name_not_utf8'')
     else if value = [] \<or> length value > 255 \<or> value \<in> {''.'', ''..''}
             \<or> CHR ''/'' \<in> set value \<or> NUL \<in> set value
     then Inl (Rejected ''site_name_rejected'')
     else Inr value)"

definition open_available_linux :: "path \<Rightarrow> string \<Rightarrow> (filesystem, ops_error, path) routine" where
  "open_available_linux root basename =
    bindM (fs_io (open_file root)) (\<lambda>directory.
    reject_io ''path_policy_violation'' (openat_beneath directory basename))"

definition read_available_content ::
    "ops_paths \<Rightarrow> string \<Rightarrow> (filesystem, ops_error, bytes \<times> inode \<times> bool) routine" where
  "read_available_content paths basename =
    bindM (open_available_linux (pa_nginx_available paths) basename) (\<lambda>handle.
    bindM (fs_io (file_metadata handle)) (\<lambda>metadata.
    if length (node_content metadata) > AVAILABLE_FILE_MAX_BYTES
    then fail (Rejected ''available_file_too_large'')
    else
      bindM (fs_io (read_to_end handle)) (\<lambda>bytes.
      ret (bytes, metadata, nginx_management_config bytes))))"

definition read_enabled ::
    "ops_paths \<Rightarrow> string \<Rightarrow> path \<Rightarrow> (filesystem, ops_error, bool) routine" where
  "read_enabled paths basename available =
    (let link = pa_nginx_enabled paths @ [basename] in
     attempt (symlink_metadata link) (\<lambda>r.
     case r of
       Inl NotFound \<Rightarrow> ret False
     | Inl OtherIo \<Rightarrow> fail (fs_error OtherIo)
     | Inr metadata \<Rightarrow>
         if \<not> is_symlink metadata then fail (Rejected ''enabled_entry_not_symlink'')
         else
           bindM (reject_io ''enabled_link_unresolvable'' (canonicalize link)) (\<lambda>resolved_link.
           bindM (reject_io ''available_unresolvable'' (canonicalize available)) (\<lambda>resolved_available.
           if resolved_link = resolved_available then ret True
           else fail (Rejected ''enabled_link_outside_source'')))))"

text \<open>The loop of \<^verbatim>\<open>discover_site\<close> over the entries of the directory.\<close>

fun discover_in ::
    "'h ops_env \<Rightarrow> string \<Rightarrow> string list \<Rightarrow> (filesystem, ops_error, nginx_site) routine" where
  "discover_in env requested [] = fail (Rejected ''site_missing'')"
| "discover_in env requested (name # names) =
    (let paths = oe_paths env; H = env_sha256 env in
     bindM (fs_io next_entry) (\<lambda>_.
     bindM (liftR (safe_basename name)) (\<lambda>basename.
     if nginx_internal_temporary_name basename then discover_in env requested names
     else
       let candidate_id = nginx_site_id H (oe_base64 env) NGINX_LAYOUT_ID basename in
       if candidate_id \<noteq> requested then discover_in env requested names
       else
         bindM (read_available_content paths basename) (\<lambda>(bytes, metadata, management_config).
         bindM (liftR (validate_available_metadata metadata (pa_enforce_root_ownership paths))) (\<lambda>_.
         bindM (read_enabled paths basename (pa_nginx_available paths @ [name])) (\<lambda>enabled.
         ret \<lparr> ns_site_id = candidate_id, ns_basename = basename,
               ns_available_digest = sha256_digest H bytes,
               ns_enabled_state_digest = nginx_enabled_state_digest H enabled,
               ns_state = (if enabled then Enabled else Disabled),
               ns_protected = (basename = MANAGEMENT_SITE \<or> management_config) \<rparr>))))))"

definition discover_site :: "'h ops_env \<Rightarrow> string \<Rightarrow> (filesystem, ops_error, nginx_site) routine" where
  "discover_site env requested_site_id =
    (let paths = oe_paths env in
     bindM (validate_root (pa_nginx_available paths) (pa_enforce_root_ownership paths)) (\<lambda>_.
     bindM (validate_root (pa_nginx_enabled paths) (pa_enforce_root_ownership paths)) (\<lambda>_.
     bindM (fs_io (read_dir (pa_nginx_available paths))) (\<lambda>entries.
     discover_in env requested_site_id entries))))"

definition set_enabled_linux ::
    "ops_paths \<Rightarrow> string \<Rightarrow> bool \<Rightarrow> (filesystem, ops_error, unit) routine" where
  "set_enabled_linux paths basename enabled =
    bindM (fs_io (open_file (pa_nginx_enabled paths))) (\<lambda>directory.
    if enabled
    then reject_io ''link_create_failed'' (symlinkat [''..'', ''sites-available'', basename] directory basename)
    else reject_io ''link_remove_failed'' (unlinkat directory basename))"

definition set_enabled ::
    "ops_paths \<Rightarrow> nginx_site \<Rightarrow> bool \<Rightarrow> (filesystem, ops_error, unit) routine" where
  "set_enabled paths site enabled =
    (let available_path = pa_nginx_available paths @ [ns_basename site] in
     bindM (read_enabled paths (ns_basename site) available_path) (\<lambda>currently_enabled.
     if currently_enabled = enabled then ret ()
     else
       bindM (set_enabled_linux paths (ns_basename site) enabled) (\<lambda>_.
       bindM (fs_io (bindM (open_file (pa_nginx_enabled paths)) sync_all)) (\<lambda>_.
       bindM (read_enabled paths (ns_basename site) available_path) (\<lambda>after.
       if after = enabled then ret () else fail (Rejected ''read_back_failed''))))))"

end
