(* ===== verification/Proposals.thy ===== *)
theory Proposals
  imports Snapshots Nginx_Sites
begin

text \<open>
  Proposed file contents, which are kept in private files from planning to execution, and the temporary
  files an interrupted replacement leaves behind: \<^verbatim>\<open>jw-opsd/src/managed_config/proposal.rs\<close>,
  \<^verbatim>\<open>cleanup.rs\<close> and the path rule of \<^verbatim>\<open>text.rs\<close>.
\<close>

record proposal_record =
  pp_relative_path :: string
  pp_digest :: string

definition validate_relative_path :: "string \<Rightarrow> (ops_error, unit) result" where
  "validate_relative_path value =
    (if starts_with ''/'' value
        \<or> list_ex (\<lambda>component. component \<in> {[], ''.'', ''..''}) (split_on (CHR ''/'') value)
     then Inl (Rejected ''proposal_path_rejected'') else Inr ())"

definition write_proposal ::
    "'h ops_env \<Rightarrow> string \<Rightarrow> bytes \<Rightarrow> (filesystem, ops_error, proposal_record) routine" where
  "write_proposal env plan_id content =
    (let paths = oe_paths env; enforce = pa_enforce_root_ownership paths; root = pa_proposals paths;
         plan_directory = join_relative root plan_id;
         relative_path = plan_id @ ''/content'';
         path = join_relative root relative_path
     in
     if length content > MANAGED_CONFIG_MAX_BYTES then fail (Rejected ''size_limit'')
     else if \<not> managed_config_bytes_supported content then fail (Rejected ''invalid_encoding'')
     else
       bindM (prepare_private_root root enforce) (\<lambda>_.
       bindM (require_capacity root (po_snapshot_min_free_bytes (oe_policy env))) (\<lambda>_.
       bindM (fs_io (create_dir plan_directory)) (\<lambda>_.
       bindM (set_mode plan_directory 448) (\<lambda>_.
       bindM (validate_private_directory plan_directory enforce) (\<lambda>_.
       bindM (fs_io (create_new path)) (\<lambda>handle.
       bindM (set_file_mode handle 384) (\<lambda>_.
       bindM (fs_io (write_all handle content)) (\<lambda>_.
       bindM (fs_io (sync_all handle)) (\<lambda>_.
       bindM (fs_io (bindM (open_file plan_directory) sync_all)) (\<lambda>_.
       bindM (fs_io (bindM (open_file root) sync_all)) (\<lambda>_.
       ret \<lparr> pp_relative_path = relative_path,
             pp_digest = sha256_digest (env_sha256 env) content \<rparr>))))))))))))"

definition read_proposal ::
    "'h ops_env \<Rightarrow> proposal_record \<Rightarrow> (filesystem, ops_error, string) routine" where
  "read_proposal env record =
    (let paths = oe_paths env; enforce = pa_enforce_root_ownership paths in
     bindM (liftR (validate_relative_path (pp_relative_path record))) (\<lambda>_.
     bindM (prepare_private_root (pa_proposals paths) enforce) (\<lambda>_.
     let path = join_relative (pa_proposals paths) (pp_relative_path record) in
     bindM (validate_private_directory (butlast path) enforce) (\<lambda>_.
     bindM (fs_io (symlink_metadata path)) (\<lambda>metadata.
     if \<not> is_file metadata \<or> is_symlink metadata
        \<or> length (node_content metadata) > MANAGED_CONFIG_MAX_BYTES
     then fail (Rejected ''proposal_file_rejected'')
     else if nd_nlink metadata \<noteq> 1 \<or> (enforce \<and> nd_uid metadata \<noteq> 0)
             \<or> foreign_bits (nd_mode metadata) \<noteq> 0
     then fail ForensicLockdown
     else
       bindM (fs_io (bindM (open_file path) read_to_end)) (\<lambda>bytes.
       if sha256_digest (env_sha256 env) bytes \<noteq> pp_digest record
          \<or> \<not> managed_config_bytes_supported bytes
       then fail ForensicLockdown
       else if utf8_valid bytes then ret bytes else fail ForensicLockdown))))))"

definition remove_proposal ::
    "'h ops_env \<Rightarrow> proposal_record \<Rightarrow> (filesystem, ops_error, unit) routine" where
  "remove_proposal env record =
    bindM (liftR (validate_relative_path (pp_relative_path record))) (\<lambda>_.
    let path = join_relative (pa_proposals (oe_paths env)) (pp_relative_path record) in
    bindM (fs_io (remove_file path)) (\<lambda>_.
    bindM (fs_io (bindM (open_file (butlast path)) sync_all)) (\<lambda>_.
    bindM (fs_io (remove_dir (butlast path))) (\<lambda>_.
    fs_io (bindM (open_file (pa_proposals (oe_paths env))) sync_all)))))"

section \<open>Temporary files\<close>

text \<open>The loop over the entries; the result says whether a file was removed.\<close>

fun remove_temporaries ::
    "path \<Rightarrow> bool \<Rightarrow> string list \<Rightarrow> bool \<Rightarrow> (filesystem, ops_error, bool) routine" where
  "remove_temporaries root enforce [] removed = ret removed"
| "remove_temporaries root enforce (name # names) removed =
    bindM (fs_io next_entry) (\<lambda>_.
    if \<not> utf8_valid name then remove_temporaries root enforce names removed
    else if \<not> nginx_internal_temporary_name name then remove_temporaries root enforce names removed
    else
      bindM (fs_io (symlink_metadata (root @ [name]))) (\<lambda>metadata.
      if \<not> is_file metadata \<or> is_symlink metadata then fail ForensicLockdown
      else if nd_nlink metadata \<noteq> 1 \<or> (enforce \<and> nd_uid metadata \<noteq> 0) then fail ForensicLockdown
      else
        bindM (fs_io (remove_file (root @ [name]))) (\<lambda>_.
        remove_temporaries root enforce names True)))"

definition cleanup_temporaries_in_root :: "path \<Rightarrow> bool \<Rightarrow> (filesystem, ops_error, unit) routine" where
  "cleanup_temporaries_in_root root enforce =
    bindM (fs_io (path_exists root)) (\<lambda>exists.
    if \<not> exists then ret ()
    else
      bindM (validate_root root enforce) (\<lambda>_.
      bindM (fs_io (read_dir root)) (\<lambda>entries.
      bindM (remove_temporaries root enforce entries False) (\<lambda>removed.
      if removed then fs_io (bindM (open_file root) sync_all) else ret ()))))"

definition cleanup_parent_temporaries :: "path \<Rightarrow> bool \<Rightarrow> (filesystem, ops_error, unit) routine" where
  "cleanup_parent_temporaries path enforce =
    (if path = [] then fail (Rejected ''unsupported_layout'')
     else cleanup_temporaries_in_root (butlast path) enforce)"

definition cleanup_internal_temporaries :: "'h ops_env \<Rightarrow> (filesystem, ops_error, unit) routine" where
  "cleanup_internal_temporaries env =
    (let paths = oe_paths env; enforce = pa_enforce_root_ownership paths in
     bindM (cleanup_temporaries_in_root (pa_nginx_available paths) enforce) (\<lambda>_.
     bindM (cleanup_temporaries_in_root (pa_nginx_conf_d paths) enforce) (\<lambda>_.
     bindM (cleanup_parent_temporaries (pa_nginx_main paths) enforce) (\<lambda>_.
     bindM (cleanup_parent_temporaries (pa_apache_main paths) enforce) (\<lambda>_.
     bindM (cleanup_parent_temporaries (pa_apache_ports paths) enforce) (\<lambda>_.
     bindM (cleanup_temporaries_in_root (pa_apache_conf_available paths) enforce) (\<lambda>_.
     bindM (cleanup_temporaries_in_root (pa_apache_sites_available paths) enforce) (\<lambda>_.
     bindM (if pa_php_fpm_ini paths = [] then ret ()
            else cleanup_temporaries_in_root (butlast (pa_php_fpm_ini paths)) enforce) (\<lambda>_.
     cleanup_temporaries_in_root (pa_php_fpm_pool_dir paths) enforce)))))))))"

end
