(* ===== verification/Engine_Base.thy ===== *)
theory Engine_Base
  imports Proposals
begin

text \<open>
  The parts of \<^verbatim>\<open>jw-opsd/src/engine.rs\<close> that every operation of the engine shares: opening the ledger,
  the lockdown flag, the operator check, random identifiers, digests of plans and evidence, and the
  removal of proposals.
\<close>

section \<open>Access and identifiers\<close>

definition open_ledger :: "'h ops_env \<Rightarrow> ('h, unit) engine" where
  "open_ledger env =
    attempt (on_ledger (open_ledger_file (ledger_env_of env))) (\<lambda>r.
    case r of
      Inr _ \<Rightarrow> ret ()
    | Inl ForensicLockdown \<Rightarrow>
        bindM (modify (\<lambda>w. w\<lparr>w_lockdown := True\<rparr>)) (\<lambda>_. fail ForensicLockdown)
    | Inl e \<Rightarrow> fail e)"

definition require_write_available :: "('h, unit) engine" where
  "require_write_available = reading (\<lambda>w. if w_lockdown w then Inl ForensicLockdown else Inr ())"

definition require_operator :: "subject \<Rightarrow> (ops_error, unit) result" where
  "require_operator actor =
    (if subj_role actor = Admin \<or> subj_role actor = Operator then Inr () else Inl (Rejected ''role_denied''))"

definition random_id :: "string \<Rightarrow> ('h, string) engine" where
  "random_id prefix = bindM (getrandom 16) (\<lambda>bytes. ret (prefix @ ''_'' @ hex_bytes bytes))"

text \<open>\<^verbatim>\<open>i64::try_from(plan_ttl.as_millis())\<close> and the saturating end of the plan's validity.\<close>

definition plan_ttl_ms :: "'h ops_env \<Rightarrow> (ops_error, int) result" where
  "plan_ttl_ms env =
    (let ttl = int (po_plan_ttl_ms (oe_policy env)) in
     if ttl \<le> i64_max then Inr ttl else Inl (Storage ''plan ttl overflow''))"

definition digest_of :: "'h ops_env \<Rightarrow> bytes \<Rightarrow> string" where
  "digest_of env bytes = sha256_digest (env_sha256 env) bytes"

definition command_digest :: "'h ops_env \<Rightarrow> command_evidence \<Rightarrow> string" where
  "command_digest env e = command_evidence_digest (ledger_env_of env) (evidence_view_of e)"

definition request_digest_of :: "'h ops_env \<Rightarrow> bytes \<Rightarrow> string" where
  "request_digest_of env = canonical_digest (env_sha256 env) ''jw-agent/operation-request/v1''"

definition plan_hash_of :: "'h ops_env \<Rightarrow> bytes \<Rightarrow> string" where
  "plan_hash_of env = canonical_digest (env_sha256 env) ''jw-agent/operation-plan/v1''"

section \<open>Calls on the ledger\<close>

text \<open>The literal of \<^verbatim>\<open>struct Transition\<close>.\<close>

definition stage_step ::
    "operation_stage list \<Rightarrow> operation_stage \<Rightarrow> string \<Rightarrow> string \<Rightarrow> string option \<Rightarrow> string option \<Rightarrow> int \<Rightarrow>
     stage_change" where
  "stage_step expected next result_code evidence_digest after_digest rollback_result now_ms =
    \<lparr> ch_expected = expected, ch_next = next, ch_result_code = result_code,
      ch_evidence_digest = evidence_digest, ch_after_digest = after_digest,
      ch_rollback_result = rollback_result, ch_now_ms = now_ms \<rparr>"

definition do_transition ::
    "'h ops_env \<Rightarrow> string \<Rightarrow> stage_change \<Rightarrow> ('h, stored_operation) engine" where
  "do_transition env operation_id change = on_ledger (transition (ledger_env_of env) operation_id change)"

definition do_load :: "'h ops_env \<Rightarrow> string \<Rightarrow> ('h, stored_operation) engine" where
  "do_load env operation_id = on_ledger (load_operation (ledger_env_of env) operation_id)"

definition do_receipt :: "'h ops_env \<Rightarrow> string \<Rightarrow> ('h, receipt_view) engine" where
  "do_receipt env operation_id = on_ledger (receipt (ledger_env_of env) operation_id)"

text \<open>A transition to a terminal stage, followed by the receipt.\<close>

definition finish ::
    "'h ops_env \<Rightarrow> string \<Rightarrow> stage_change \<Rightarrow> ('h, receipt_view) engine" where
  "finish env operation_id change =
    bindM (do_transition env operation_id change) (\<lambda>terminal. do_receipt env (so_operation_id terminal))"

section \<open>Proposals\<close>

definition remove_plan_proposal :: "'h ops_env \<Rightarrow> stored_plan \<Rightarrow> ('h, unit) engine" where
  "remove_plan_proposal env plan =
    bindM (case sp_managed_config plan of
             None \<Rightarrow> ret ()
           | Some payload \<Rightarrow>
               discard (on_files (remove_proposal env
                 \<lparr> pp_relative_path = mp_proposal_relative_path payload,
                   pp_digest = mp_proposal_digest payload \<rparr>))) (\<lambda>_.
    case sp_certbot_issue plan of
      None \<Rightarrow> ret ()
    | Some payload \<Rightarrow>
        discard (on_files (remove_proposal env
          \<lparr> pp_relative_path = cip_account_email_proposal_relative_path payload,
            pp_digest = cip_account_email_proposal_digest payload \<rparr>)))"

definition remove_operation_proposal :: "'h ops_env \<Rightarrow> stored_operation \<Rightarrow> ('h, unit) engine" where
  "remove_operation_proposal env operation = remove_plan_proposal env (so_plan operation)"

text \<open>The end of a rollback that could not be verified.\<close>

definition recovery_required ::
    "'h ops_env \<Rightarrow> string \<Rightarrow> string \<Rightarrow> int \<Rightarrow> ('h, receipt_view) engine" where
  "recovery_required env operation_id reason now_ms =
    bindM (do_transition env operation_id
             (stage_step [RollingBack] RecoveryRequired reason (digest_of env reason) None (Some ''failed'') now_ms))
      (\<lambda>terminal.
    bindM (do_receipt env (so_operation_id terminal)) (\<lambda>receipt.
    bindM (remove_operation_proposal env terminal) (\<lambda>_. ret receipt)))"

end
