(* ===== verification/Engine_Nginx.thy ===== *)
theory Engine_Nginx
  imports Engine_Base
begin

text \<open>
  The Nginx site operation of \<^verbatim>\<open>jw-opsd/src/engine.rs\<close>: planning, approval, execution with its
  snapshot, apply, validation, reload and verification phases, and the rollback.  The body of
  \<^verbatim>\<open>execute_operation\<close> for this operation is cut into one definition per phase, in source order.
\<close>

section \<open>Planning and approval\<close>

definition nginx_assurance :: "'h ops_env \<Rightarrow> assurance_view" where
  "nginx_assurance env =
    \<lparr> av_level = G2ReversibleConfig, av_rollback_support = AutomaticBounded, av_operation_available = True,
      av_scope = env_texts env ''nginx_assurance.scope'',
      av_excluded_effects = env_texts env ''nginx_assurance.excluded_effects'',
      av_apply_verifier = env_texts env ''nginx_assurance.apply_verifier'',
      av_rollback_verifier = env_texts env ''nginx_assurance.rollback_verifier'',
      av_reason = None \<rparr>"

definition nginx_plan_hash :: "'h ops_env \<Rightarrow> stored_plan \<Rightarrow> string" where
  "nginx_plan_hash env plan =
    plan_hash_of env (oc_ser_plan (oe_codec env)
      \<lparr> ph_schema_version = 1, ph_operation_type = NGINX_SITE_STATE_OPERATION,
        ph_plan_id = sp_plan_id plan, ph_created_at_ms = sp_created_at_ms plan,
        ph_expires_at_ms = sp_expires_at_ms plan, ph_actor = sp_actor plan,
        ph_site_id = sp_site_id plan, ph_display_name = sp_display_name plan,
        ph_current_state = sp_current_state plan, ph_target_state = sp_target_state plan,
        ph_available_digest = sp_available_digest plan,
        ph_enabled_state_digest = sp_enabled_state_digest plan,
        ph_resource_key = sp_resource_key plan, ph_impact = env_texts env ''NGINX_IMPACT'',
        ph_recovery_path = env_texts env ''NGINX_RECOVERY_PATH'', ph_assurance = sp_assurance plan \<rparr>)"

record nginx_plan_view =
  nv_operation_type :: string
  nv_plan_id :: string
  nv_plan_hash :: string
  nv_created_at :: string
  nv_expires_at :: string
  nv_actor :: subject
  nv_site_id :: string
  nv_display_name :: string
  nv_current_state :: nginx_site_state
  nv_target_state :: nginx_site_state
  nv_available_digest :: string
  nv_enabled_state_digest :: string
  nv_impact :: "string list"
  nv_recovery_path :: "string list"
  nv_assurance :: assurance_view

definition plan_view :: "'h ops_env \<Rightarrow> stored_plan \<Rightarrow> (ops_error, nginx_plan_view) result" where
  "plan_view env plan =
    (if sp_operation_type plan \<noteq> NGINX_SITE_STATE_OPERATION then Inl (Rejected ''operation_type'')
     else
       bindR (format_time (ledger_env_of env) (sp_created_at_ms plan)) (\<lambda>created_at.
       bindR (format_time (ledger_env_of env) (sp_expires_at_ms plan)) (\<lambda>expires_at.
       Inr \<lparr> nv_operation_type = NGINX_SITE_STATE_OPERATION, nv_plan_id = sp_plan_id plan,
             nv_plan_hash = sp_plan_hash plan, nv_created_at = created_at, nv_expires_at = expires_at,
             nv_actor = sp_actor plan, nv_site_id = sp_site_id plan,
             nv_display_name = sp_display_name plan, nv_current_state = sp_current_state plan,
             nv_target_state = sp_target_state plan, nv_available_digest = sp_available_digest plan,
             nv_enabled_state_digest = sp_enabled_state_digest plan,
             nv_impact = env_texts env ''NGINX_IMPACT'',
             nv_recovery_path = env_texts env ''NGINX_RECOVERY_PATH'',
             nv_assurance = sp_assurance plan \<rparr>)))"

definition plan_nginx ::
    "'h ops_env \<Rightarrow> subject \<Rightarrow> nginx_site_state_plan_request \<Rightarrow> int \<Rightarrow> ('h, nginx_plan_view) engine" where
  "plan_nginx env actor request now_ms =
    bindM (liftR (map_err Rejected (validate_nginx_plan request))) (\<lambda>_.
    bindM (on_files (discover_site env (np_site_id request))) (\<lambda>site.
    if ns_protected site then fail (Rejected ''protected_resource'')
    else if ns_available_digest site \<noteq> np_expected_available_digest request
            \<or> ns_enabled_state_digest site \<noteq> np_expected_enabled_state_digest request
    then fail (Rejected ''precondition_changed'')
    else
      bindM (random_id ''plan'') (\<lambda>plan_id.
      bindM (liftR (plan_ttl_ms env)) (\<lambda>ttl_ms.
      let plan =
        \<lparr> sp_operation_type = NGINX_SITE_STATE_OPERATION, sp_plan_id = plan_id, sp_plan_hash = [],
          sp_actor = actor, sp_site_id = ns_site_id site, sp_display_name = ns_basename site,
          sp_current_state = ns_state site, sp_target_state = np_target_state request,
          sp_available_digest = ns_available_digest site,
          sp_enabled_state_digest = ns_enabled_state_digest site,
          sp_created_at_ms = now_ms, sp_expires_at_ms = sat_add now_ms ttl_ms,
          sp_idempotency_key = np_idempotency_key request,
          sp_request_digest = request_digest_of env (oc_ser_nginx_request (oe_codec env)
            \<lparr> pd_operation_type = NGINX_SITE_STATE_OPERATION, pd_actor = actor, pd_request = request \<rparr>),
          sp_resource_key = ''nginx/site/'' @ ns_site_id site, sp_assurance = nginx_assurance env,
          sp_managed_config = None, sp_certbot_renew = None, sp_certbot_issue = None,
          sp_certbot_attach = None, sp_ufw_rule = None \<rparr>;
        plan = plan\<lparr>sp_plan_hash := nginx_plan_hash env plan\<rparr> in
      bindM (open_ledger env) (\<lambda>_.
      bindM (on_ledger (create_or_reuse_plan (ledger_env_of env) plan)) (\<lambda>stored.
      liftR (plan_view env stored)))))))"

text \<open>The approvals of the single operations differ in the operation type they expect.\<close>

definition approve_plan ::
    "'h ops_env \<Rightarrow> string \<Rightarrow> subject \<Rightarrow> string \<Rightarrow> string \<Rightarrow> string \<Rightarrow> int \<Rightarrow> ('h, receipt_view) engine" where
  "approve_plan env operation_type actor plan_id plan_hash idempotency_key now_ms =
    bindM (open_ledger env) (\<lambda>_.
    bindM (on_ledger (load_plan (ledger_env_of env) plan_id)) (\<lambda>plan.
    if sp_operation_type plan \<noteq> operation_type then fail (Rejected ''approval_mismatch'')
    else
      bindM (random_id ''op'') (\<lambda>operation_id.
      bindM (on_ledger (begin_operation (ledger_env_of env) operation_id plan_id plan_hash
               idempotency_key actor now_ms)) (\<lambda>operation.
      do_receipt env (so_operation_id operation)))))"

definition approve_nginx ::
    "'h ops_env \<Rightarrow> subject \<Rightarrow> string \<Rightarrow> string \<Rightarrow> string \<Rightarrow> int \<Rightarrow> ('h, receipt_view) engine" where
  "approve_nginx env = approve_plan env NGINX_SITE_STATE_OPERATION"

section \<open>Rollback\<close>

definition rollback_stages :: "operation_stage list" where
  "rollback_stages = [Applying, Validating, Reloading, Verifying, RollingBack]"

definition enter_rollback ::
    "'h ops_env \<Rightarrow> operation_stage list \<Rightarrow> string \<Rightarrow> string \<Rightarrow> string \<Rightarrow> int \<Rightarrow> ('h, stored_operation) engine" where
  "enter_rollback env expected operation_id cause cause_evidence_digest now_ms =
    bindM (do_load env operation_id) (\<lambda>operation.
    if so_stage operation = RollingBack then ret operation
    else do_transition env operation_id
           (stage_step expected RollingBack cause cause_evidence_digest None None now_ms))"

text \<open>The commands of a rollback: a step that is skipped counts as failed.\<close>

definition rollback_commands ::
    "'h ops_env \<Rightarrow> ('h, command_evidence \<times> command_evidence \<times> command_evidence) engine" where
  "rollback_commands env =
    bindM (run_command env NginxConfigTest) (\<lambda>config.
    bindM (if ce_success config then run_command env NginxReload
           else ret (failed_evidence (env_sha256 env) NginxReload)) (\<lambda>reload.
    bindM (if ce_success reload then run_command env NginxActive
           else ret (failed_evidence (env_sha256 env) NginxActive)) (\<lambda>active.
    ret (config, reload, active))))"

definition rollback_verify ::
    "'h ops_env \<Rightarrow> string \<Rightarrow> nginx_link_snapshot \<Rightarrow>
     command_evidence \<times> command_evidence \<times> command_evidence \<Rightarrow> int \<Rightarrow> ('h, receipt_view) engine" where
  "rollback_verify env operation_id snapshot evidence now_ms =
    (case evidence of (config, reload, active) \<Rightarrow>
      attempt (on_files (discover_site env (nl_site_id snapshot))) (\<lambda>restored.
      let verified =
        (case restored of
           Inl _ \<Rightarrow> False
         | Inr site \<Rightarrow> ns_available_digest site = nl_available_digest snapshot
             \<and> ns_enabled_state_digest site = nl_enabled_state_digest snapshot)
        \<and> ce_success config \<and> ce_success reload \<and> ce_success active in
      if \<not> verified then recovery_required env operation_id ''rollback_verify_failed'' now_ms
      else
        bindM (do_transition env operation_id
                 (stage_step [RollingBack] RolledBack ''rollback_verified'' (command_digest env active)
                    (Some (nl_enabled_state_digest snapshot)) (Some ''verified'') now_ms)) (\<lambda>terminal.
        bindM (do_receipt env (so_operation_id terminal)) (\<lambda>receipt.
        bindM (remove_operation_proposal env terminal) (\<lambda>_. ret receipt)))))"

text \<open>The link is put back as the snapshot has it, and the commands and a read-back follow.\<close>

definition rollback_restore ::
    "'h ops_env \<Rightarrow> string \<Rightarrow> nginx_link_snapshot \<Rightarrow> int \<Rightarrow> ('h, receipt_view) engine" where
  "rollback_restore env operation_id snapshot now_ms =
    attempt (on_files (discover_site env (nl_site_id snapshot))) (\<lambda>r.
    case r of
      Inl e \<Rightarrow> recovery_required env operation_id (ops_error_code e) now_ms
    | Inr current \<Rightarrow>
        attempt (on_files (set_enabled (oe_paths env) current (nl_enabled snapshot))) (\<lambda>r.
        case r of
          Inl _ \<Rightarrow> recovery_required env operation_id ''rollback_link_failed'' now_ms
        | Inr _ \<Rightarrow>
            attempt (rollback_commands env) (\<lambda>r.
            case r of
              Inl e \<Rightarrow> recovery_required env operation_id (ops_error_code e) now_ms
            | Inr evidence \<Rightarrow> rollback_verify env operation_id snapshot evidence now_ms)))"

definition rollback ::
    "'h ops_env \<Rightarrow> string \<Rightarrow> string \<Rightarrow> string \<Rightarrow> int \<Rightarrow> ('h, receipt_view) engine" where
  "rollback env operation_id cause cause_evidence_digest now_ms =
    bindM (enter_rollback env rollback_stages operation_id cause cause_evidence_digest now_ms) (\<lambda>rolling.
    case so_snapshot rolling of
      None \<Rightarrow> recovery_required env operation_id ''snapshot_missing'' now_ms
    | Some record \<Rightarrow>
        attempt (on_files (read_nginx_snapshot env record)) (\<lambda>r.
        case r of
          Inl e \<Rightarrow> recovery_required env operation_id (ops_error_code e) now_ms
        | Inr snapshot \<Rightarrow> rollback_restore env operation_id snapshot now_ms))"

section \<open>Execution\<close>

definition validate_precondition :: "'h ops_env \<Rightarrow> stored_operation \<Rightarrow> ('h, nginx_site) engine" where
  "validate_precondition env operation =
    (let plan = so_plan operation in
     bindM (on_files (discover_site env (sp_site_id plan))) (\<lambda>site.
     if ns_protected site then fail (Rejected ''protected_resource'')
     else if ns_available_digest site \<noteq> sp_available_digest plan
             \<or> ns_enabled_state_digest site \<noteq> sp_enabled_state_digest plan
             \<or> ns_state site \<noteq> sp_current_state plan
     then fail (Rejected ''precondition_changed'')
     else ret site))"

definition cancel_noop ::
    "'h ops_env \<Rightarrow> stored_operation \<Rightarrow> string \<Rightarrow> string \<Rightarrow> int \<Rightarrow> ('h, receipt_view) engine" where
  "cancel_noop env operation result_code evidence_digest now_ms =
    finish env (so_operation_id operation)
      (stage_step [Verifying] CancelledBeforeApply result_code evidence_digest None None now_ms)"

definition finish_noop :: "'h ops_env \<Rightarrow> stored_operation \<Rightarrow> int \<Rightarrow> ('h, receipt_view) engine" where
  "finish_noop env operation now_ms =
    bindM (do_transition env (so_operation_id operation)
             (stage_step [Snapshotted] Verifying ''no_change_required''
                (sp_enabled_state_digest (so_plan operation)) None None now_ms)) (\<lambda>_.
    attempt (run_command env NginxConfigTest) (\<lambda>r.
    case r of
      Inl e \<Rightarrow>
        cancel_noop env operation (ops_error_code e) (digest_of env (ops_error_code e)) now_ms
    | Inr config \<Rightarrow>
        attempt (run_command env NginxActive) (\<lambda>r.
        case r of
          Inl e \<Rightarrow>
            cancel_noop env operation (ops_error_code e) (digest_of env (ops_error_code e)) now_ms
        | Inr active \<Rightarrow>
            if \<not> ce_success config \<or> \<not> ce_success active
            then cancel_noop env operation ''preexisting_validation_failed'' (command_digest env active) now_ms
            else
              finish env (so_operation_id operation)
                (stage_step [Verifying] Succeeded ''verified_noop'' (command_digest env active)
                   (Some (sp_enabled_state_digest (so_plan operation))) None now_ms))))"

text \<open>The phases from the last to the first.\<close>

definition verify_nginx ::
    "'h ops_env \<Rightarrow> stored_operation \<Rightarrow> int \<Rightarrow> ('h, receipt_view) engine" where
  "verify_nginx env snapshotted now_ms =
    (let operation_id = so_operation_id snapshotted; plan = so_plan snapshotted in
     attempt (on_files (discover_site env (sp_site_id plan))) (\<lambda>r.
     case r of
       Inl e \<Rightarrow> rollback env operation_id ''read_back_unavailable'' (digest_of env (ops_error_code e)) now_ms
     | Inr after \<Rightarrow>
         attempt (run_command env NginxActive) (\<lambda>r.
         case r of
           Inl e \<Rightarrow> rollback env operation_id ''nginx_active_unavailable'' (digest_of env (ops_error_code e)) now_ms
         | Inr active \<Rightarrow>
             if ns_state after \<noteq> sp_target_state plan
                \<or> ns_available_digest after \<noteq> sp_available_digest plan
                \<or> \<not> ce_success active
             then rollback env operation_id ''read_back_failed'' (command_digest env active) now_ms
             else
               finish env operation_id
                 (stage_step [Verifying] Succeeded ''verified'' (command_digest env active)
                    (Some (ns_enabled_state_digest after)) None now_ms))))"

definition reload_nginx ::
    "'h ops_env \<Rightarrow> stored_operation \<Rightarrow> int \<Rightarrow> ('h, receipt_view) engine" where
  "reload_nginx env snapshotted now_ms =
    (let operation_id = so_operation_id snapshotted in
     attempt (run_command env NginxReload) (\<lambda>r.
     case r of
       Inl e \<Rightarrow> rollback env operation_id ''nginx_reload_unavailable'' (digest_of env (ops_error_code e)) now_ms
     | Inr reload \<Rightarrow>
         if \<not> ce_success reload
         then rollback env operation_id ''nginx_reload_failed'' (command_digest env reload) now_ms
         else
           bindM (do_transition env operation_id
                    (stage_step [Reloading] Verifying ''nginx_reloaded'' (command_digest env reload)
                       None None now_ms)) (\<lambda>_.
           verify_nginx env snapshotted now_ms)))"

definition test_nginx ::
    "'h ops_env \<Rightarrow> stored_operation \<Rightarrow> int \<Rightarrow> ('h, receipt_view) engine" where
  "test_nginx env snapshotted now_ms =
    (let operation_id = so_operation_id snapshotted in
     attempt (run_command env NginxConfigTest) (\<lambda>r.
     case r of
       Inl e \<Rightarrow>
         rollback env operation_id ''nginx_config_test_unavailable'' (digest_of env (ops_error_code e)) now_ms
     | Inr config_test \<Rightarrow>
         if \<not> ce_success config_test
         then rollback env operation_id ''nginx_config_test_failed'' (command_digest env config_test) now_ms
         else
           bindM (do_transition env operation_id
                    (stage_step [Validating] Reloading ''nginx_config_valid'' (command_digest env config_test)
                       None None now_ms)) (\<lambda>_.
           reload_nginx env snapshotted now_ms)))"

definition apply_nginx ::
    "'h ops_env \<Rightarrow> stored_operation \<Rightarrow> nginx_site \<Rightarrow> int \<Rightarrow> ('h, receipt_view) engine" where
  "apply_nginx env snapshotted preflight now_ms =
    (let operation_id = so_operation_id snapshotted;
         enable = (sp_target_state (so_plan snapshotted) = Enabled) in
     bindM (do_transition env operation_id
              (stage_step [Snapshotted] Applying ''apply_started'' (ns_enabled_state_digest preflight)
                 None None now_ms)) (\<lambda>_.
     attempt (on_files (set_enabled (oe_paths env) preflight enable)) (\<lambda>r.
     case r of
       Inl e \<Rightarrow> rollback env operation_id (ops_error_code e) (digest_of env (ops_error_code e)) now_ms
     | Inr _ \<Rightarrow>
         bindM (do_transition env operation_id
                  (stage_step [Applying] Validating ''link_applied''
                     (nginx_enabled_state_digest (env_sha256 env) enable) None None now_ms)) (\<lambda>_.
         test_nginx env snapshotted now_ms))))"

definition cancel_before_apply ::
    "'h ops_env \<Rightarrow> string \<Rightarrow> ops_error \<Rightarrow> int \<Rightarrow> ('h, receipt_view) engine" where
  "cancel_before_apply env operation_id e now_ms =
    finish env operation_id
      (stage_step [Approved] CancelledBeforeApply (ops_error_code e) (digest_of env (ops_error_code e))
         None None now_ms)"

definition execute_nginx ::
    "'h ops_env \<Rightarrow> stored_operation \<Rightarrow> int \<Rightarrow> ('h, receipt_view) engine" where
  "execute_nginx env operation now_ms =
    (let operation_id = so_operation_id operation in
     attempt (validate_precondition env operation) (\<lambda>r.
     case r of
       Inl e \<Rightarrow> cancel_before_apply env operation_id e now_ms
     | Inr preflight \<Rightarrow>
         attempt (on_files (write_nginx_snapshot env operation_id
           \<lparr> nl_schema_version = 1, nl_site_id = ns_site_id preflight, nl_basename = ns_basename preflight,
             nl_enabled = (ns_state preflight = Enabled),
             nl_available_digest = ns_available_digest preflight,
             nl_enabled_state_digest = ns_enabled_state_digest preflight \<rparr>)) (\<lambda>r.
         case r of
           Inl e \<Rightarrow> cancel_before_apply env operation_id e now_ms
         | Inr record \<Rightarrow>
             bindM (on_ledger (attach_snapshot (ledger_env_of env) operation_id record now_ms)) (\<lambda>snapshotted.
             if sp_current_state (so_plan snapshotted) = sp_target_state (so_plan snapshotted)
             then finish_noop env snapshotted now_ms
             else apply_nginx env snapshotted preflight now_ms))))"

end
