(* ===== verification/Service_Control.thy ===== *)
theory Service_Control
  imports Ops_Env
begin

text \<open>
  The registered systemd services of \<^verbatim>\<open>jw-opsd/src/service_control.rs\<close>: the commands of each service and
  the encoding of a requested action as a digest in the stored plan.
\<close>

datatype registered_service = SvcNginx | SvcApache | SvcPhpFpm83

fun unit_name :: "registered_service \<Rightarrow> string" where
  "unit_name SvcNginx = ''nginx.service''"
| "unit_name SvcApache = ''apache2.service''"
| "unit_name SvcPhpFpm83 = ''php8.3-fpm.service''"

fun service_display_name :: "registered_service \<Rightarrow> string" where
  "service_display_name SvcNginx = ''Nginx''"
| "service_display_name SvcApache = ''Apache HTTP Server''"
| "service_display_name SvcPhpFpm83 = ''PHP 8.3 FPM''"

fun active_command :: "registered_service \<Rightarrow> command_class" where
  "active_command SvcNginx = NginxActive"
| "active_command SvcApache = ApacheActive"
| "active_command SvcPhpFpm83 = PhpFpm83Active"

fun action_command :: "registered_service \<Rightarrow> managed_service_action \<Rightarrow> command_class" where
  "action_command SvcNginx SvcStart = NginxStart"
| "action_command SvcNginx SvcStop = NginxStop"
| "action_command SvcNginx SvcRestart = NginxRestart"
| "action_command SvcNginx SvcReload = NginxReload"
| "action_command SvcApache SvcStart = ApacheStart"
| "action_command SvcApache SvcStop = ApacheStop"
| "action_command SvcApache SvcRestart = ApacheRestart"
| "action_command SvcApache SvcReload = ApacheReload"
| "action_command SvcPhpFpm83 SvcStart = PhpFpm83Start"
| "action_command SvcPhpFpm83 SvcStop = PhpFpm83Stop"
| "action_command SvcPhpFpm83 SvcRestart = PhpFpm83Restart"
| "action_command SvcPhpFpm83 SvcReload = PhpFpm83Reload"

fun restore_command :: "registered_service \<Rightarrow> bool \<Rightarrow> command_class" where
  "restore_command SvcNginx True = NginxStart"
| "restore_command SvcNginx False = NginxStop"
| "restore_command SvcApache True = ApacheStart"
| "restore_command SvcApache False = ApacheStop"
| "restore_command SvcPhpFpm83 True = PhpFpm83Start"
| "restore_command SvcPhpFpm83 False = PhpFpm83Stop"

definition find_registered_service ::
    "(bytes \<Rightarrow> bytes) \<Rightarrow> string \<Rightarrow> (ops_error, registered_service) result" where
  "find_registered_service H service_identifier =
    ok_or (find (\<lambda>service. service_id H (unit_name service) = service_identifier)
             [SvcNginx, SvcApache, SvcPhpFpm83])
      (Rejected ''service_not_managed'')"

definition service_action_digest :: "(bytes \<Rightarrow> bytes) \<Rightarrow> managed_service_action \<Rightarrow> string" where
  "service_action_digest H action = sha256_digest H (managed_service_action_value action)"

definition service_action_from_digest ::
    "(bytes \<Rightarrow> bytes) \<Rightarrow> string \<Rightarrow> (ops_error, managed_service_action) result" where
  "service_action_from_digest H value =
    ok_or (find (\<lambda>action. service_action_digest H action = value) [SvcStart, SvcStop, SvcRestart, SvcReload])
      ForensicLockdown"

definition expected_active :: "managed_service_action \<Rightarrow> bool" where
  "expected_active action = (action \<noteq> SvcStop)"

text \<open>The Korean texts of the view are the entries of the text table named after the function.\<close>

definition service_control_assurance :: "'h ops_env \<Rightarrow> registered_service \<Rightarrow> assurance_view" where
  "service_control_assurance env service =
    \<lparr> av_level = G2ReversibleConfig, av_rollback_support = AutomaticBounded, av_operation_available = True,
      av_scope = map (\<lambda>suffix. unit_name service @ suffix) (env_texts env ''service_control_assurance.scope''),
      av_excluded_effects = env_texts env ''service_control_assurance.excluded_effects'',
      av_apply_verifier = env_texts env ''service_control_assurance.apply_verifier'',
      av_rollback_verifier = env_texts env ''service_control_assurance.rollback_verifier'',
      av_reason = None \<rparr>"

section \<open>Facts\<close>

lemma find_registered_service_Inr:
  "find_registered_service H i = Inr s \<Longrightarrow> service_id H (unit_name s) = i"
  by (auto simp: find_registered_service_def split: if_splits)

lemma service_action_from_digest_Inr:
  "service_action_from_digest H v = Inr a \<Longrightarrow> service_action_digest H a = v"
  by (auto simp: service_action_from_digest_def split: if_splits)

lemma service_action_roundtrip:
  assumes "inj_on H (managed_service_action_value ` UNIV)" and "sha256_sized H"
  shows "service_action_from_digest H (service_action_digest H a) = Inr a"
proof -
  have "service_action_digest H b = service_action_digest H a \<longleftrightarrow> b = a" for b
  proof -
    have "service_action_digest H b = service_action_digest H a \<longleftrightarrow>
        H (managed_service_action_value b) = H (managed_service_action_value a)"
      by (simp add: service_action_digest_def sha256_digest_def format_from_raw)
    also have "\<dots> \<longleftrightarrow> managed_service_action_value b = managed_service_action_value a"
      using assms(1) by (auto simp: inj_on_def)
    also have "\<dots> \<longleftrightarrow> b = a" by (cases a; cases b) simp_all
    finally show ?thesis .
  qed
  then show ?thesis by (cases a) (simp_all add: service_action_from_digest_def)
qed

end
