(* ===== verification/Engine_Service.thy ===== *)
theory Engine_Service
  imports Engine_Nginx Service_Control
begin

text \<open>
  The service control operation of \<^verbatim>\<open>jw-opsd/src/engine/service_operation.rs\<close>: planning, approval,
  execution and rollback.  The stored plan keeps the requested action as a digest and the active state
  in the fields of the Nginx operation.
\<close>

section \<open>Planning and approval\<close>

definition service_control_plan_hash :: "'h ops_env \<Rightarrow> stored_plan \<Rightarrow> string" where
  "service_control_plan_hash env plan =
    plan_hash_of env (oc_ser_plan (oe_codec env)
      \<lparr> ph_schema_version = 1, ph_operation_type = SERVICE_CONTROL_OPERATION,
        ph_plan_id = sp_plan_id plan, ph_created_at_ms = sp_created_at_ms plan,
        ph_expires_at_ms = sp_expires_at_ms plan, ph_actor = sp_actor plan,
        ph_site_id = sp_site_id plan, ph_display_name = sp_display_name plan,
        ph_current_state = sp_current_state plan, ph_target_state = sp_target_state plan,
        ph_available_digest = sp_available_digest plan,
        ph_enabled_state_digest = sp_enabled_state_digest plan,
        ph_resource_key = sp_resource_key plan, ph_impact = env_texts env ''SERVICE_CONTROL_IMPACT'',
        ph_recovery_path = env_texts env ''SERVICE_CONTROL_RECOVERY_PATH'',
        ph_assurance = sp_assurance plan \<rparr>)"

record service_plan_view =
  sv_operation_type :: string
  sv_plan_id :: string
  sv_plan_hash :: string
  sv_created_at :: string
  sv_expires_at :: string
  sv_actor :: subject
  sv_service_id :: string
  sv_unit_name :: string
  sv_display_name :: string
  sv_current_active :: bool
  sv_action :: managed_service_action
  sv_expected_state_digest :: string
  sv_impact :: "string list"
  sv_recovery_path :: "string list"
  sv_assurance :: assurance_view

definition service_control_plan_view ::
    "'h ops_env \<Rightarrow> stored_plan \<Rightarrow> (ops_error, service_plan_view) result" where
  "service_control_plan_view env plan =
    (if sp_operation_type plan \<noteq> SERVICE_CONTROL_OPERATION then Inl (Rejected ''operation_type'')
     else
       bindR (find_registered_service (env_sha256 env) (sp_site_id plan)) (\<lambda>service.
       bindR (format_time (ledger_env_of env) (sp_created_at_ms plan)) (\<lambda>created_at.
       bindR (format_time (ledger_env_of env) (sp_expires_at_ms plan)) (\<lambda>expires_at.
       bindR (service_action_from_digest (env_sha256 env) (sp_available_digest plan)) (\<lambda>action.
       Inr \<lparr> sv_operation_type = sp_operation_type plan, sv_plan_id = sp_plan_id plan,
             sv_plan_hash = sp_plan_hash plan, sv_created_at = created_at, sv_expires_at = expires_at,
             sv_actor = sp_actor plan, sv_service_id = sp_site_id plan, sv_unit_name = unit_name service,
             sv_display_name = sp_display_name plan,
             sv_current_active = (sp_current_state plan = Enabled), sv_action = action,
             sv_expected_state_digest = sp_enabled_state_digest plan,
             sv_impact = env_texts env ''SERVICE_CONTROL_IMPACT'',
             sv_recovery_path = env_texts env ''SERVICE_CONTROL_RECOVERY_PATH'',
             sv_assurance = sp_assurance plan \<rparr>)))))"

definition state_of_active :: "bool \<Rightarrow> nginx_site_state" where
  "state_of_active active = (if active then Enabled else Disabled)"

definition plan_service_control ::
    "'h ops_env \<Rightarrow> subject \<Rightarrow> service_control_plan_request \<Rightarrow> int \<Rightarrow> ('h, service_plan_view) engine" where
  "plan_service_control env actor request now_ms =
    (let H = env_sha256 env in
     bindM (liftR (map_err Rejected (validate_service_plan request))) (\<lambda>_.
     bindM (liftR (find_registered_service H (scp_service_id request))) (\<lambda>service.
     bindM (run_command env (active_command service)) (\<lambda>active_evidence.
     let active = ce_success active_evidence;
         current_digest = service_state_digest H (unit_name service) active in
     if current_digest \<noteq> scp_expected_state_digest request then fail (Rejected ''precondition_changed'')
     else if scp_action request = SvcStart \<and> active then fail (Rejected ''service_already_active'')
     else if scp_action request \<noteq> SvcStart \<and> \<not> active then fail (Rejected ''service_inactive'')
     else
       bindM (if service = SvcNginx \<and> scp_action request = SvcStop
              then bindM (management_edge_ready env) (\<lambda>ready.
                   if \<not> ready then fail (Rejected ''management_ingress_dependency'') else ret ())
              else ret ()) (\<lambda>_.
       bindM (liftR (plan_ttl_ms env)) (\<lambda>ttl_ms.
       bindM (random_id ''plan'') (\<lambda>plan_id.
       let plan =
         \<lparr> sp_operation_type = SERVICE_CONTROL_OPERATION, sp_plan_id = plan_id, sp_plan_hash = [],
           sp_actor = actor, sp_site_id = scp_service_id request,
           sp_display_name = service_display_name service,
           sp_current_state = state_of_active active,
           sp_target_state = state_of_active (expected_active (scp_action request)),
           sp_available_digest = service_action_digest H (scp_action request),
           sp_enabled_state_digest = current_digest,
           sp_created_at_ms = now_ms, sp_expires_at_ms = sat_add now_ms ttl_ms,
           sp_idempotency_key = scp_idempotency_key request,
           sp_request_digest = request_digest_of env (oc_ser_service_request (oe_codec env)
             \<lparr> pd_operation_type = SERVICE_CONTROL_OPERATION, pd_actor = actor, pd_request = request \<rparr>),
           sp_resource_key = ''service/'' @ unit_name service,
           sp_assurance = service_control_assurance env service,
           sp_managed_config = None, sp_certbot_renew = None, sp_certbot_issue = None,
           sp_certbot_attach = None, sp_ufw_rule = None \<rparr>;
         plan = plan\<lparr>sp_plan_hash := service_control_plan_hash env plan\<rparr> in
       bindM (open_ledger env) (\<lambda>_.
       bindM (on_ledger (create_or_reuse_plan (ledger_env_of env) plan)) (\<lambda>stored.
       liftR (service_control_plan_view env stored))))))))))"

definition approve_service_control ::
    "'h ops_env \<Rightarrow> subject \<Rightarrow> string \<Rightarrow> string \<Rightarrow> string \<Rightarrow> int \<Rightarrow> ('h, receipt_view) engine" where
  "approve_service_control env = approve_plan env SERVICE_CONTROL_OPERATION"

section \<open>Rollback\<close>

definition service_restored ::
    "'h ops_env \<Rightarrow> registered_service \<Rightarrow> bool \<Rightarrow> ('h, bool) engine" where
  "service_restored env service active =
    attempt (run_command env (restore_command service active)) (\<lambda>restore.
    case restore of
      Inl _ \<Rightarrow> ret False
    | Inr evidence \<Rightarrow>
        if \<not> ce_success evidence then ret False
        else
          attempt (run_command env (active_command service)) (\<lambda>r.
          ret (case r of Inl _ \<Rightarrow> False | Inr evidence \<Rightarrow> ce_success evidence = active)))"

definition rollback_service_control ::
    "'h ops_env \<Rightarrow> string \<Rightarrow> string \<Rightarrow> string \<Rightarrow> int \<Rightarrow> ('h, receipt_view) engine" where
  "rollback_service_control env operation_id failure_code failure_digest now_ms =
    (let H = env_sha256 env in
     bindM (enter_rollback env [Applying, Verifying] operation_id failure_code failure_digest now_ms) (\<lambda>rolling.
     bindM (liftR (ok_or (so_snapshot rolling) ForensicLockdown)) (\<lambda>record.
     bindM (on_files (read_service_state_snapshot env record)) (\<lambda>snapshot.
     bindM (liftR (find_registered_service H (ss_service_id snapshot))) (\<lambda>service.
     if ss_unit_name snapshot \<noteq> unit_name service
        \<or> ss_state_digest snapshot \<noteq> service_state_digest H (unit_name service) (ss_active snapshot)
     then fail ForensicLockdown
     else
       bindM (service_restored env service (ss_active snapshot)) (\<lambda>verified.
       let after_digest = service_state_digest H (unit_name service) (ss_active snapshot) in
       finish env operation_id
         (stage_step [RollingBack] (if verified then RolledBack else RecoveryRequired)
            (if verified then ''service_state_restored'' else ''service_restore_failed'')
            after_digest (Some after_digest)
            (Some (if verified then ''restored'' else ''manual_recovery_required'')) now_ms)))))))"

section \<open>Execution\<close>

definition verify_service ::
    "'h ops_env \<Rightarrow> registered_service \<Rightarrow> managed_service_action \<Rightarrow> string \<Rightarrow> int \<Rightarrow> ('h, receipt_view) engine" where
  "verify_service env service action operation_id now_ms =
    bindM (run_command env (active_command service)) (\<lambda>active_evidence.
    let after_active = ce_success active_evidence;
        after_digest = service_state_digest (env_sha256 env) (unit_name service) after_active in
    if after_active \<noteq> expected_active action
    then rollback_service_control env operation_id ''service_state_verification_failed''
           (command_digest env active_evidence) now_ms
    else
      finish env operation_id
        (stage_step [Verifying] Succeeded ''service_state_verified'' (command_digest env active_evidence)
           (Some after_digest) None now_ms))"

definition apply_service ::
    "'h ops_env \<Rightarrow> registered_service \<Rightarrow> managed_service_action \<Rightarrow> string \<Rightarrow> int \<Rightarrow> ('h, receipt_view) engine" where
  "apply_service env service action operation_id now_ms =
    bindM (do_transition env operation_id
             (stage_step [Snapshotted] Applying ''service_action_started''
                (service_action_digest (env_sha256 env) action) None None now_ms)) (\<lambda>_.
    attempt (run_command env (action_command service action)) (\<lambda>r.
    case r of
      Inl e \<Rightarrow>
        rollback_service_control env operation_id (ops_error_code e) (digest_of env (ops_error_code e)) now_ms
    | Inr action_evidence \<Rightarrow>
        if \<not> ce_success action_evidence
        then rollback_service_control env operation_id ''service_action_failed''
               (command_digest env action_evidence) now_ms
        else
          bindM (do_transition env operation_id
                   (stage_step [Applying] Verifying ''service_action_completed''
                      (command_digest env action_evidence) None None now_ms)) (\<lambda>_.
          verify_service env service action operation_id now_ms)))"

definition start_service_control ::
    "'h ops_env \<Rightarrow> stored_operation \<Rightarrow> registered_service \<Rightarrow> managed_service_action \<Rightarrow> int \<Rightarrow>
     ('h, receipt_view) engine" where
  "start_service_control env operation service action now_ms =
    (let H = env_sha256 env; operation_id = so_operation_id operation; plan = so_plan operation in
     bindM (run_command env (active_command service)) (\<lambda>evidence.
     let before_active = ce_success evidence;
         before_digest = service_state_digest H (unit_name service) before_active in
     if before_digest \<noteq> sp_enabled_state_digest plan
        \<or> before_active \<noteq> (sp_current_state plan = Enabled)
     then finish env operation_id
            (stage_step [Approved] CancelledBeforeApply ''precondition_changed'' before_digest None None now_ms)
     else
       attempt (on_files (write_service_state_snapshot env operation_id
         \<lparr> ss_schema_version = 1, ss_service_id = sp_site_id plan, ss_unit_name = unit_name service,
           ss_active = before_active, ss_state_digest = before_digest \<rparr>)) (\<lambda>r.
       case r of
         Inl e \<Rightarrow> cancel_before_apply env operation_id e now_ms
       | Inr record \<Rightarrow>
           bindM (on_ledger (attach_snapshot (ledger_env_of env) operation_id record now_ms)) (\<lambda>snapshotted.
           apply_service env service action (so_operation_id snapshotted) now_ms))))"

definition execute_service_control ::
    "'h ops_env \<Rightarrow> stored_operation \<Rightarrow> int \<Rightarrow> ('h, receipt_view) engine" where
  "execute_service_control env operation now_ms =
    (let H = env_sha256 env; operation_id = so_operation_id operation; plan = so_plan operation in
     bindM (liftR (find_registered_service H (sp_site_id plan))) (\<lambda>service.
     bindM (liftR (service_action_from_digest H (sp_available_digest plan))) (\<lambda>action.
     bindM (if service = SvcNginx \<and> action = SvcStop then management_edge_ready env else ret True) (\<lambda>ready.
     if \<not> ready
     then finish env operation_id
            (stage_step [Approved] CancelledBeforeApply ''management_ingress_dependency''
               (digest_of env ''management_ingress_dependency'') None None now_ms)
     else start_service_control env operation service action now_ms))))"

end
