(* ===== verification/Text_Ops.thy ===== *)
theory Text_Ops
  imports Contracts
begin

text \<open>
  The string functions of the Rust standard library that the diagnostics and the configuration
  editor use, on the bytes of the texts: characters, lines, trimming, searching and numbers.
\<close>

section \<open>Characters\<close>

text \<open>
  \<^verbatim>\<open>utf8_step bs\<close> looks at the first character of a non-empty text: whether it is well formed, and how
  many bytes it takes; of an ill-formed one, the bytes that could have started a character.
\<close>

definition second_ok :: "char \<Rightarrow> char \<Rightarrow> bool" where
  "second_ok a b =
    (is_cont b \<and> (byte a = 224 \<longrightarrow> 160 \<le> byte b) \<and> (byte a = 237 \<longrightarrow> byte b \<le> 159)
     \<and> (byte a = 240 \<longrightarrow> 144 \<le> byte b) \<and> (byte a = 244 \<longrightarrow> byte b \<le> 143))"

fun utf8_step :: "bytes \<Rightarrow> bool \<times> nat" where
  "utf8_step [] = (False, 1)"
| "utf8_step (a # rest) =
    (if byte a < 128 then (True, 1)
     else if 194 \<le> byte a \<and> byte a \<le> 223 then
       (case rest of b # _ \<Rightarrow> if is_cont b then (True, 2) else (False, 1) | [] \<Rightarrow> (False, 1))
     else if 224 \<le> byte a \<and> byte a \<le> 239 then
       (case rest of
          b # r \<Rightarrow>
            if \<not> second_ok a b then (False, 1)
            else (case r of c # _ \<Rightarrow> if is_cont c then (True, 3) else (False, 2) | [] \<Rightarrow> (False, 2))
        | [] \<Rightarrow> (False, 1))
     else if 240 \<le> byte a \<and> byte a \<le> 244 then
       (case rest of
          b # r \<Rightarrow>
            if \<not> second_ok a b then (False, 1)
            else (case r of
                    c # q \<Rightarrow>
                      if \<not> is_cont c then (False, 2)
                      else (case q of d # _ \<Rightarrow> if is_cont d then (True, 4) else (False, 3) | [] \<Rightarrow> (False, 3))
                  | [] \<Rightarrow> (False, 2))
        | [] \<Rightarrow> (False, 1))
     else (False, 1))"

lemma utf8_step_pos: "0 < snd (utf8_step bs)"
  by (cases bs) (auto split: list.splits)

text \<open>\<^verbatim>\<open>str::chars\<close>, each character as its bytes.\<close>

function utf8_chars :: "bytes \<Rightarrow> bytes list" where
  "utf8_chars bs =
    (if bs = [] then []
     else let n = snd (utf8_step bs) in take n bs # utf8_chars (drop n bs))"
  by pat_completeness auto
termination
  by (relation "measure length") (auto simp: utf8_step_pos)

definition REPLACEMENT :: bytes where
  "REPLACEMENT = [CHR 0xEF, CHR 0xBF, CHR 0xBD]"

text \<open>\<^verbatim>\<open>String::from_utf8_lossy\<close>.\<close>

function from_utf8_lossy :: "bytes \<Rightarrow> string" where
  "from_utf8_lossy bs =
    (if bs = [] then []
     else case utf8_step bs of (ok, n) \<Rightarrow>
       (if ok then take n bs else REPLACEMENT) @ from_utf8_lossy (drop n bs))"
  by pat_completeness auto
termination
proof (relation "measure length", simp, goal_cases)
  case (1 bs ok n)
  then show ?case using utf8_step_pos [of bs] by (metis diff_less in_measure length_drop length_greater_0_conv snd_conv)
qed

declare utf8_chars.simps [simp del] from_utf8_lossy.simps [simp del]

text \<open>\<^verbatim>\<open>char::is_whitespace\<close>.\<close>

definition is_whitespace :: "bytes \<Rightarrow> bool" where
  "is_whitespace c =
    (case map byte c of
       [a] \<Rightarrow> (9 \<le> a \<and> a \<le> 13) \<or> a = 32
     | [a, b] \<Rightarrow> a = 194 \<and> (b = 133 \<or> b = 160)
     | [a, b, d] \<Rightarrow>
         (a = 225 \<and> b = 154 \<and> d = 128)
         \<or> (a = 226 \<and> b = 128 \<and> ((128 \<le> d \<and> d \<le> 138) \<or> d = 168 \<or> d = 169 \<or> d = 175))
         \<or> (a = 226 \<and> b = 129 \<and> d = 159)
         \<or> (a = 227 \<and> b = 128 \<and> d = 128)
     | _ \<Rightarrow> False)"

definition trim :: "string \<Rightarrow> string" where
  "trim s = concat (rev (dropWhile is_whitespace (rev (dropWhile is_whitespace (utf8_chars s)))))"

definition ascii_lower :: "char \<Rightarrow> char" where
  "ascii_lower c = (if is_ascii_uppercase c then char_of (byte c + 32) else c)"

definition to_ascii_lowercase :: "string \<Rightarrow> string" where
  "to_ascii_lowercase s = map ascii_lower s"

section \<open>Lines\<close>

text \<open>\<^verbatim>\<open>str::lines\<close>: a line that ends in a line feed also loses a carriage return before it.\<close>

definition strip_return :: "string \<Rightarrow> string" where
  "strip_return s = (case strip_suffix [CHR 0x0D] s of Some t \<Rightarrow> t | None \<Rightarrow> s)"

definition text_lines :: "string \<Rightarrow> string list" where
  "text_lines s =
    (let segments = split_on (CHR 0x0A) s in
     map strip_return (butlast segments) @ (if last segments = [] then [] else [last segments]))"

section \<open>Searching\<close>

definition contains :: "string \<Rightarrow> string \<Rightarrow> bool" where
  "contains s pattern = contains_window pattern s"

definition ends_with :: "string \<Rightarrow> string \<Rightarrow> bool" where
  "ends_with s suffix = (strip_suffix suffix s \<noteq> None)"

fun split_once_str :: "string \<Rightarrow> string \<Rightarrow> (string \<times> string) option" where
  "split_once_str pattern [] = (if pattern = [] then Some ([], []) else None)"
| "split_once_str pattern (c # cs) =
    (case strip_prefix pattern (c # cs) of
       Some rest \<Rightarrow> Some ([], rest)
     | None \<Rightarrow> map_option (\<lambda>(a, b). (c # a, b)) (split_once_str pattern cs))"

fun rsplit_once_str :: "string \<Rightarrow> string \<Rightarrow> (string \<times> string) option" where
  "rsplit_once_str pattern [] = (if pattern = [] then Some ([], []) else None)"
| "rsplit_once_str pattern (c # cs) =
    (case rsplit_once_str pattern cs of
       Some (a, b) \<Rightarrow> Some (c # a, b)
     | None \<Rightarrow> map_option (\<lambda>rest. ([], rest)) (strip_prefix pattern (c # cs)))"

section \<open>Numbers\<close>

definition u32_max :: nat where
  "u32_max = 4294967295"

fun decimal_value :: "nat \<Rightarrow> string \<Rightarrow> nat option" where
  "decimal_value acc [] = Some acc"
| "decimal_value acc (c # cs) =
    (if is_ascii_digit c then decimal_value (acc * 10 + (byte c - 48)) cs else None)"

text \<open>\<^verbatim>\<open>str::parse::<u32>\<close>, which accepts a plus sign before the digits.\<close>

definition parse_u32 :: "string \<Rightarrow> nat option" where
  "parse_u32 s =
    (let digits = (case s of c # cs \<Rightarrow> if c = CHR ''+'' then cs else s | [] \<Rightarrow> []) in
     if digits = [] then None
     else case decimal_value 0 digits of None \<Rightarrow> None | Some n \<Rightarrow> if n \<le> u32_max then Some n else None)"

definition parse_positive :: "string \<Rightarrow> nat option" where
  "parse_positive s = (case parse_u32 s of Some n \<Rightarrow> if n > 0 then Some n else None | None \<Rightarrow> None)"

section \<open>Facts\<close>

lemma split_once_str_append:
  "split_once_str pattern s = Some (a, b) \<Longrightarrow> s = a @ pattern @ b"
  by (induction s arbitrary: a b) (auto split: option.splits if_splits)

end
