(* ===== verification/Ufw.thy ===== *)
theory Ufw
  imports Text_Ops Snapshots
begin

text \<open>
  The firewall inventory of \<^verbatim>\<open>jw-opsd/src/ufw.rs\<close>: the output of \<^verbatim>\<open>ufw status numbered\<close> is parsed into
  rules, and the rules the daemon may touch are those it marked with its own comment.
\<close>

section \<open>Texts\<close>

definition u16_max :: nat where
  "u16_max = 65535"

text \<open>\<^verbatim>\<open>str::parse::<u16>\<close>.\<close>

definition parse_u16 :: "string \<Rightarrow> nat option" where
  "parse_u16 s = (case parse_u32 s of Some n \<Rightarrow> if n \<le> u16_max then Some n else None | None \<Rightarrow> None)"

text \<open>\<^verbatim>\<open>str::split_whitespace\<close>: the runs of characters between whitespace.\<close>

fun word_runs :: "bytes list \<Rightarrow> bytes list" where
  "word_runs [] = [[]]"
| "word_runs (c # cs) =
    (if is_whitespace c then [] # word_runs cs
     else case word_runs cs of [] \<Rightarrow> [c] | w # ws \<Rightarrow> (c @ w) # ws)"

definition split_whitespace :: "string \<Rightarrow> string list" where
  "split_whitespace s = filter (\<lambda>w. w \<noteq> []) (word_runs (utf8_chars s))"

fun position :: "('a \<Rightarrow> bool) \<Rightarrow> 'a list \<Rightarrow> nat option" where
  "position P [] = None"
| "position P (x # xs) = (if P x then Some 0 else map_option Suc (position P xs))"

text \<open>
  \<^verbatim>\<open>str::get(a..b)\<close>: the range has to lie within the text and both ends have to be the start of a
  character.
\<close>

definition is_char_boundary :: "string \<Rightarrow> nat \<Rightarrow> bool" where
  "is_char_boundary s i = (i = 0 \<or> i = length s \<or> (i < length s \<and> \<not> is_cont (s ! i)))"

definition str_get :: "string \<Rightarrow> nat \<Rightarrow> nat \<Rightarrow> string option" where
  "str_get s a b =
    (if a \<le> b \<and> b \<le> length s \<and> is_char_boundary s a \<and> is_char_boundary s b
     then Some (take (b - a) (drop a s)) else None)"

section \<open>Views\<close>

datatype ufw_status = UfwActive | UfwInactive | UfwNotInstalled | UfwUnsupportedPlatform | UfwUnavailable

record ufw_view =
  vw_observed_at :: string
  vw_status :: ufw_status
  vw_default_incoming :: "string option"
  vw_default_outgoing :: "string option"
  vw_rules :: "ufw_rule_view list"
  vw_state_digest :: string
  vw_truncated :: bool
  vw_mutation_available :: bool
  vw_blocked_reason :: "string option"
  vw_assurance :: assurance_view

definition UFW_RULE_MAX_ENTRIES :: nat where
  "UFW_RULE_MAX_ENTRIES = 256"

definition ufw_assurance :: "'h ops_env \<Rightarrow> bool \<Rightarrow> string option \<Rightarrow> assurance_view" where
  "ufw_assurance env operation_available reason =
    \<lparr> av_level = G2ReversibleConfig, av_rollback_support = AutomaticBounded,
      av_operation_available = operation_available,
      av_scope = env_texts env ''ufw_assurance.scope'',
      av_excluded_effects = env_texts env ''ufw_assurance.excluded_effects'',
      av_apply_verifier = env_texts env ''ufw_assurance.apply_verifier'',
      av_rollback_verifier = env_texts env ''ufw_assurance.rollback_verifier'',
      av_reason = reason \<rparr>"

section \<open>Parsing\<close>

definition parse_target :: "string \<Rightarrow> nat option \<times> ufw_protocol option" where
  "parse_target value =
    (case split_once_str ''/'' value of
       None \<Rightarrow> (parse_u16 value, None)
     | Some (port, protocol) \<Rightarrow>
         (parse_u16 port,
          if protocol = ''tcp'' then Some Tcp else if protocol = ''udp'' then Some Udp else None))"

definition normalized_source :: "string \<Rightarrow> string" where
  "normalized_source value =
    (if starts_with ''Anywhere'' value \<or> value = ''any'' then ''any''
     else case strip_suffix '' (v6)'' value of Some s \<Rightarrow> s | None \<Rightarrow> value)"

text \<open>The identifier the daemon left in the comment of a rule.\<close>

definition comment_rule_id :: "string \<Rightarrow> string option" where
  "comment_rule_id comment =
    (case List.map_filter (strip_prefix UFW_COMMENT_PREFIX) (split_whitespace comment) of
       [] \<Rightarrow> None
     | value # _ \<Rightarrow> if starts_with ''ufr_'' value \<and> length value = 28 then Some value else None)"

definition parse_columns :: "nat \<Rightarrow> string \<Rightarrow> string option \<Rightarrow> ufw_rule_view option" where
  "parse_columns sequence columns comment =
    (let tokens = split_whitespace columns in
     case position (\<lambda>token. token \<in> set [''ALLOW'', ''DENY'', ''REJECT'', ''LIMIT'']) tokens of
       None \<Rightarrow> None
     | Some action_index \<Rightarrow>
         let target = (case tokens of [] \<Rightarrow> ''any'' | token # _ \<Rightarrow> token);
             action = to_ascii_lowercase (tokens ! action_index);
             directed = (Suc action_index < length tokens
               \<and> tokens ! Suc action_index \<in> set [''IN'', ''OUT'', ''FWD'']);
             parts = drop (Suc action_index + (if directed then 1 else 0)) tokens;
             source = (if parts = [] then ''any'' else join_with '' '' parts);
             (port, protocol) = parse_target target;
             rule_id = (case comment of None \<Rightarrow> None | Some value \<Rightarrow> comment_rule_id value) in
         Some \<lparr> uv_sequence = sequence, uv_rule_id = rule_id, uv_action = action,
                uv_protocol = protocol, uv_port = port, uv_source = source, uv_destination = target,
                uv_ipv6 = contains columns ''(v6)'', uv_owned = (rule_id \<noteq> None),
                uv_protected = (protocol = Some Tcp
                  \<and> (case port of None \<Rightarrow> False | Some n \<Rightarrow> ufw_protected_tcp_port n)),
                uv_summary = action @ '' '' @ target @ [CHR '' '', CHR 0xC2, CHR 0xB7, CHR '' ''] @ source \<rparr>)"

definition parse_numbered_rule :: "string \<Rightarrow> ufw_rule_view option" where
  "parse_numbered_rule line =
    (let trimmed = trim line in
     case position (\<lambda>c. c = CHR '']'') trimmed of
       None \<Rightarrow> None
     | Some closing \<Rightarrow>
         (case str_get trimmed 1 closing of
            None \<Rightarrow> None
          | Some number \<Rightarrow>
              (case parse_u16 (trim number) of
                 None \<Rightarrow> None
               | Some sequence \<Rightarrow>
                   let body = trim (drop (Suc closing) trimmed) in
                   case split_once_str ''#'' body of
                     None \<Rightarrow> parse_columns sequence body None
                   | Some (columns, comment) \<Rightarrow>
                       parse_columns sequence (trim columns) (Some (trim comment)))))"

definition parse_ufw_status :: "'h ops_env \<Rightarrow> command_evidence \<Rightarrow> string \<Rightarrow> ufw_view" where
  "parse_ufw_status env evidence observed_at =
    (let output = text_lines (from_utf8_lossy (st_captured (ce_stdout evidence)));
         status =
           (if \<exists>line \<in> set output. trim line = ''Status: active'' then UfwActive
            else if \<exists>line \<in> set output. trim line = ''Status: inactive'' then UfwInactive
            else UfwUnavailable);
         rules = List.map_filter parse_numbered_rule output;
         truncated = (length rules > UFW_RULE_MAX_ENTRIES \<or> st_truncated (ce_stdout evidence));
         mutation_available = (status = UfwActive \<and> ce_success evidence \<and> \<not> truncated);
         blocked_reason =
           (if status = UfwInactive then Some ''ufw_inactive''
            else if \<not> ce_success evidence \<or> status = UfwUnavailable then Some ''ufw_unavailable''
            else if truncated then Some ''rule_inventory_truncated''
            else None) in
     \<lparr> vw_observed_at = observed_at, vw_status = status, vw_default_incoming = None,
       vw_default_outgoing = None, vw_rules = take UFW_RULE_MAX_ENTRIES rules,
       vw_state_digest = sha256_digest (env_sha256 env) (st_captured (ce_stdout evidence)),
       vw_truncated = truncated, vw_mutation_available = mutation_available,
       vw_blocked_reason = blocked_reason,
       vw_assurance = ufw_assurance env mutation_available blocked_reason \<rparr>)"

definition observe_ufw :: "'h ops_env \<Rightarrow> string \<Rightarrow> ('h, ufw_view) engine" where
  "observe_ufw env observed_at =
    bindM (run_ufw_command env UfwStatusCommand) (\<lambda>evidence.
    ret (parse_ufw_status env evidence observed_at))"

section \<open>Rules of the daemon\<close>

definition matching_owned_rule :: "ufw_view \<Rightarrow> string \<Rightarrow> ufw_rule_view option" where
  "matching_owned_rule view rule_id =
    List.find (\<lambda>rule. uv_owned rule \<and> uv_rule_id rule = Some rule_id) (vw_rules view)"

definition rule_matches_spec :: "ufw_rule_view \<Rightarrow> ufw_rule_spec \<Rightarrow> bool" where
  "rule_matches_spec rule spec =
    (uv_owned rule \<and> uv_rule_id rule = Some (ur_rule_id spec) \<and> uv_protocol rule = Some (ur_protocol spec)
     \<and> uv_port rule = Some (ur_port spec)
     \<and> normalized_source (uv_source rule) = normalized_source (ur_source spec)
     \<and> to_ascii_lowercase (uv_action rule)
        = to_ascii_lowercase (ufw_rule_mutation_value (ur_mutation spec)))"

end
