(* ===== verification/Engine_Ufw.thy ===== *)
theory Engine_Ufw
  imports Ufw Engine_Nginx
begin

text \<open>
  The firewall operation of \<^verbatim>\<open>jw-opsd/src/engine/ufw_operation.rs\<close>: inventory, planning, approval,
  execution and rollback of one rule the daemon owns.
\<close>

section \<open>Inventory\<close>

definition not_installed :: "'h ops_env \<Rightarrow> string \<Rightarrow> ufw_view" where
  "not_installed env observed_at =
    \<lparr> vw_observed_at = observed_at, vw_status = UfwNotInstalled, vw_default_incoming = None,
      vw_default_outgoing = None, vw_rules = [],
      vw_state_digest = digest_of env ''jw-agent/ufw/not-installed/v1'',
      vw_truncated = False, vw_mutation_available = False,
      vw_blocked_reason = Some ''ufw_not_installed'',
      vw_assurance = ufw_assurance env False (Some ''ufw_not_installed'') \<rparr>"

definition ufw_inventory :: "'h ops_env \<Rightarrow> int \<Rightarrow> ('h, ufw_view) engine" where
  "ufw_inventory env now_ms =
    bindM (liftR (format_time (ledger_env_of env) now_ms)) (\<lambda>observed_at.
    bindM (if pa_enforce_root_ownership (oe_paths env)
           then on_files (path_is_file (pa_ufw_executable (oe_paths env))) else ret True) (\<lambda>installed.
    if \<not> installed then ret (not_installed env observed_at) else observe_ufw env observed_at))"

section \<open>Planning and approval\<close>

definition rules_with_id :: "string \<Rightarrow> ufw_rule_view list \<Rightarrow> ufw_rule_view list" where
  "rules_with_id rule_id rules = filter (\<lambda>rule. uv_rule_id rule = Some rule_id) rules"

text \<open>\<^verbatim>\<open>sort_unstable_by\<close> with the order reversed.\<close>

definition descending :: "nat list \<Rightarrow> nat list" where
  "descending ns = rev (sort ns)"

definition resolve_deletion ::
    "string \<Rightarrow> ufw_view \<Rightarrow> (ops_error, ufw_rule_spec \<times> nat list) result" where
  "resolve_deletion rule_id inventory =
    (let matches = rules_with_id rule_id (vw_rules inventory) in
     case matches of
       [] \<Rightarrow> Inl (Rejected ''rule_missing'')
     | first # _ \<Rightarrow>
         if \<exists>rule \<in> set matches. \<not> uv_owned rule then Inl (Rejected ''rule_not_owned'')
         else if \<exists>rule \<in> set matches. uv_protected rule then Inl (Rejected ''protected_management_rule'')
         else
           bindR (if uv_action first = ''allow'' then Inr Allow
                  else if uv_action first = ''deny'' then Inr Deny
                  else Inl (Rejected ''unsupported_rule'')) (\<lambda>mutation.
           bindR (ok_or (uv_protocol first) (Rejected ''unsupported_rule'')) (\<lambda>protocol.
           bindR (ok_or (uv_port first) (Rejected ''unsupported_rule'')) (\<lambda>port.
           let source = normalized_source (uv_source first) in
           if \<exists>rule \<in> set matches. uv_action rule \<noteq> uv_action first \<or> uv_protocol rule \<noteq> Some protocol
                \<or> uv_port rule \<noteq> Some port \<or> normalized_source (uv_source rule) \<noteq> source
           then Inl (Rejected ''rule_identity_conflict'')
           else
             Inr (\<lparr> ur_mutation = mutation, ur_protocol = protocol, ur_port = port, ur_source = source,
                    ur_rule_id = rule_id \<rparr>,
                  descending (map uv_sequence matches))))))"

definition resolve_rule ::
    "(bytes \<Rightarrow> bytes) \<Rightarrow> ufw_rule_plan_request \<Rightarrow> ufw_view \<Rightarrow> (ops_error, ufw_rule_spec \<times> nat list) result" where
  "resolve_rule H request inventory =
    (if uq_mutation request = Delete
     then bindR (ok_or (uq_rule_id request) (Rejected ''rule_id'')) (\<lambda>rule_id.
          resolve_deletion rule_id inventory)
     else
       bindR (ok_or (generated_rule_id H request) (Rejected ''rule_id'')) (\<lambda>rule_id.
       if matching_owned_rule inventory rule_id \<noteq> None then Inl (Rejected ''rule_exists'')
       else
         bindR (ok_or (uq_protocol request) (Rejected ''protocol'')) (\<lambda>protocol.
         bindR (ok_or (uq_port request) (Rejected ''port'')) (\<lambda>port.
         Inr (\<lparr> ur_mutation = uq_mutation request, ur_protocol = protocol, ur_port = port,
                ur_source = (case uq_source request of None \<Rightarrow> ''any'' | Some source \<Rightarrow> source),
                ur_rule_id = rule_id \<rparr>, [])))))"

definition ufw_plan_hash :: "'h ops_env \<Rightarrow> stored_plan \<Rightarrow> (ops_error, string) result" where
  "ufw_plan_hash env plan =
    bindR (ok_or (sp_ufw_rule plan) ForensicLockdown) (\<lambda>payload.
    Inr (plan_hash_of env (oc_ser_ufw_plan (oe_codec env)
      \<lparr> uh_schema_version = 1, uh_operation_type = UFW_RULE_OPERATION, uh_plan_id = sp_plan_id plan,
        uh_created_at_ms = sp_created_at_ms plan, uh_expires_at_ms = sp_expires_at_ms plan,
        uh_actor = sp_actor plan, uh_expected_state_digest = sp_enabled_state_digest plan,
        uh_resource_key = sp_resource_key plan, uh_payload = payload,
        uh_assurance = sp_assurance plan \<rparr>)))"

record ufw_rule_plan_view =
  uw_operation_type :: string
  uw_plan_id :: string
  uw_plan_hash :: string
  uw_created_at :: string
  uw_expires_at :: string
  uw_actor :: subject
  uw_mutation :: ufw_rule_mutation
  uw_rule_id :: string
  uw_protocol :: ufw_protocol
  uw_port :: nat
  uw_source :: string
  uw_expected_state_digest :: string
  uw_impact :: "string list"
  uw_recovery_path :: "string list"
  uw_assurance :: assurance_view

definition ufw_plan_view :: "'h ops_env \<Rightarrow> stored_plan \<Rightarrow> (ops_error, ufw_rule_plan_view) result" where
  "ufw_plan_view env plan =
    (if sp_operation_type plan \<noteq> UFW_RULE_OPERATION then Inl (Rejected ''operation_type'')
     else
       bindR (ok_or (sp_ufw_rule plan) ForensicLockdown) (\<lambda>payload.
       bindR (format_time (ledger_env_of env) (sp_created_at_ms plan)) (\<lambda>created_at.
       bindR (format_time (ledger_env_of env) (sp_expires_at_ms plan)) (\<lambda>expires_at.
       Inr \<lparr> uw_operation_type = sp_operation_type plan, uw_plan_id = sp_plan_id plan,
             uw_plan_hash = sp_plan_hash plan, uw_created_at = created_at, uw_expires_at = expires_at,
             uw_actor = sp_actor plan, uw_mutation = up_requested_mutation payload,
             uw_rule_id = ur_rule_id (up_rule payload), uw_protocol = ur_protocol (up_rule payload),
             uw_port = ur_port (up_rule payload), uw_source = ur_source (up_rule payload),
             uw_expected_state_digest = sp_enabled_state_digest plan,
             uw_impact = env_texts env ''UFW_IMPACT'', uw_recovery_path = env_texts env ''UFW_RECOVERY_PATH'',
             uw_assurance = sp_assurance plan \<rparr>))))"

definition plan_ufw_rule ::
    "'h ops_env \<Rightarrow> subject \<Rightarrow> ufw_rule_plan_request \<Rightarrow> int \<Rightarrow> ('h, ufw_rule_plan_view) engine" where
  "plan_ufw_rule env actor request now_ms =
    bindM (liftR (map_err Rejected (validate_ufw_plan request))) (\<lambda>_.
    bindM (ufw_inventory env now_ms) (\<lambda>inventory.
    if vw_status inventory \<noteq> UfwActive \<or> \<not> vw_mutation_available inventory then fail (Rejected ''ufw_inactive'')
    else if vw_state_digest inventory \<noteq> uq_expected_state_digest request
    then fail (Rejected ''precondition_changed'')
    else
      bindM (liftR (resolve_rule (env_sha256 env) request inventory)) (\<lambda>(rule, sequences).
      bindM (liftR (plan_ttl_ms env)) (\<lambda>ttl_ms.
      bindM (random_id ''plan'') (\<lambda>plan_id.
      let plan =
        \<lparr> sp_operation_type = UFW_RULE_OPERATION, sp_plan_id = plan_id, sp_plan_hash = [],
          sp_actor = actor, sp_site_id = ur_rule_id rule,
          sp_display_name = ''UFW '' @ ufw_rule_mutation_value (uq_mutation request) @ '' ''
            @ decimal (ur_port rule) @ ''/'' @ ufw_protocol_value (ur_protocol rule),
          sp_current_state = Enabled, sp_target_state = Enabled,
          sp_available_digest = vw_state_digest inventory,
          sp_enabled_state_digest = vw_state_digest inventory,
          sp_created_at_ms = now_ms, sp_expires_at_ms = sat_add now_ms ttl_ms,
          sp_idempotency_key = uq_idempotency_key request,
          sp_request_digest = request_digest_of env (oc_ser_ufw_request (oe_codec env)
            \<lparr> pd_operation_type = UFW_RULE_OPERATION, pd_actor = actor, pd_request = request \<rparr>),
          sp_resource_key = ''ufw/rules'', sp_assurance = ufw_assurance env True None,
          sp_managed_config = None, sp_certbot_renew = None, sp_certbot_issue = None,
          sp_certbot_attach = None,
          sp_ufw_rule = Some \<lparr> up_requested_mutation = uq_mutation request, up_rule = rule,
            up_delete_sequences = sequences \<rparr> \<rparr> in
      bindM (liftR (ufw_plan_hash env plan)) (\<lambda>plan_hash.
      bindM (open_ledger env) (\<lambda>_.
      bindM (on_ledger (create_or_reuse_plan (ledger_env_of env) (plan\<lparr>sp_plan_hash := plan_hash\<rparr>))) (\<lambda>stored.
      liftR (ufw_plan_view env stored)))))))))"

definition approve_ufw_rule ::
    "'h ops_env \<Rightarrow> subject \<Rightarrow> string \<Rightarrow> string \<Rightarrow> string \<Rightarrow> int \<Rightarrow> ('h, receipt_view) engine" where
  "approve_ufw_rule env actor plan_id plan_hash idempotency_key now_ms =
    bindM (open_ledger env) (\<lambda>_.
    bindM (on_ledger (load_plan (ledger_env_of env) plan_id)) (\<lambda>plan.
    if sp_operation_type plan \<noteq> UFW_RULE_OPERATION \<or> sp_ufw_rule plan = None
    then fail (Rejected ''approval_mismatch'')
    else
      bindM (random_id ''op'') (\<lambda>operation_id.
      bindM (on_ledger (begin_operation (ledger_env_of env) operation_id plan_id plan_hash
               idempotency_key actor now_ms)) (\<lambda>operation.
      do_receipt env (so_operation_id operation)))))"

section \<open>Commands\<close>

definition validate_resolved_rule :: "ufw_plan_payload \<Rightarrow> ufw_view \<Rightarrow> (ops_error, unit) result" where
  "validate_resolved_rule payload inventory =
    (if up_requested_mutation payload = Delete
     then
       let current = rules_with_id (ur_rule_id (up_rule payload)) (vw_rules inventory) in
       if length current \<noteq> length (up_delete_sequences payload)
          \<or> (\<exists>rule \<in> set current. \<not> rule_matches_spec rule (up_rule payload) \<or> uv_protected rule)
       then Inl (Rejected ''precondition_changed'') else Inr ()
     else if matching_owned_rule inventory (ur_rule_id (up_rule payload)) \<noteq> None
     then Inl (Rejected ''rule_exists'') else Inr ())"

fun run_deletions :: "'h ops_env \<Rightarrow> nat list \<Rightarrow> string list \<Rightarrow> ('h, string list) engine" where
  "run_deletions env [] digests = ret digests"
| "run_deletions env (sequence # sequences) digests =
    bindM (run_ufw_command env (UfwDelete sequence)) (\<lambda>evidence.
    if \<not> ce_success evidence then fail (Rejected ''rule_apply_failed'')
    else run_deletions env sequences (digests @ [command_digest env evidence]))"

definition delete_sequences :: "'h ops_env \<Rightarrow> nat list \<Rightarrow> ('h, string) engine" where
  "delete_sequences env sequences =
    bindM (run_deletions env sequences []) (\<lambda>digests.
    ret (canonical_digest (env_sha256 env) ''jw-agent/ufw-command-evidence/v1''
      (oc_ser_digests (oe_codec env) digests)))"

definition apply_payload :: "'h ops_env \<Rightarrow> ufw_plan_payload \<Rightarrow> ('h, string) engine" where
  "apply_payload env payload =
    (if up_requested_mutation payload = Delete then delete_sequences env (up_delete_sequences payload)
     else
       bindM (run_ufw_command env (UfwAdd (up_rule payload))) (\<lambda>evidence.
       if \<not> ce_success evidence then fail (Rejected ''rule_apply_failed'')
       else ret (command_digest env evidence)))"

definition effect_verified :: "ufw_plan_payload \<Rightarrow> ufw_view \<Rightarrow> bool" where
  "effect_verified payload inventory =
    (let matches = rules_with_id (ur_rule_id (up_rule payload)) (vw_rules inventory) in
     if up_requested_mutation payload = Delete then matches = []
     else matches \<noteq> [] \<and> (\<forall>rule \<in> set matches. rule_matches_spec rule (up_rule payload)))"

definition restore_product_effect ::
    "'h ops_env \<Rightarrow> ufw_plan_payload \<Rightarrow> ufw_rule_view list \<Rightarrow> ('h, unit) engine" where
  "restore_product_effect env payload original =
    bindM (run_ufw_command env UfwStatusCommand) (\<lambda>current_evidence.
    let current = parse_ufw_status env current_evidence [];
        sequences = descending (map uv_sequence
          (rules_with_id (ur_rule_id (up_rule payload)) (vw_rules current))) in
    bindM (if sequences \<noteq> [] then bindM (delete_sequences env sequences) (\<lambda>_. ret ()) else ret ()) (\<lambda>_.
    if original \<noteq> []
    then
      bindM (run_ufw_command env (UfwAdd (up_rule payload))) (\<lambda>evidence.
      if \<not> ce_success evidence then fail (Rejected ''rule_rollback_failed'') else ret ())
    else ret ()))"

definition rollback_verified :: "ufw_plan_payload \<Rightarrow> ufw_view \<Rightarrow> ufw_rule_view list \<Rightarrow> bool" where
  "rollback_verified payload inventory original =
    (let current = rules_with_id (ur_rule_id (up_rule payload)) (vw_rules inventory) in
     if original = [] then current = []
     else length current = length original
       \<and> (\<forall>rule \<in> set current. rule_matches_spec rule (up_rule payload)))"

section \<open>Rollback\<close>

definition ufw_rollback_stages :: "operation_stage list" where
  "ufw_rollback_stages = [Applying, Verifying, Validating, Reloading]"

definition rollback_ufw_rule ::
    "'h ops_env \<Rightarrow> string \<Rightarrow> string \<Rightarrow> string \<Rightarrow> int \<Rightarrow> ('h, receipt_view) engine" where
  "rollback_ufw_rule env operation_id failure_code failure_digest now_ms =
    bindM (enter_rollback env ufw_rollback_stages operation_id failure_code failure_digest now_ms) (\<lambda>rolling.
    bindM (liftR (ok_or (sp_ufw_rule (so_plan rolling)) ForensicLockdown)) (\<lambda>payload.
    bindM (liftR (ok_or (so_snapshot rolling) ForensicLockdown)) (\<lambda>record.
    bindM (on_files (read_ufw_snapshot env record)) (\<lambda>snapshot.
    let original = rules_with_id (ur_rule_id (up_rule payload)) (us_rules snapshot) in
    attempt (bindM (restore_product_effect env payload original) (\<lambda>_. ufw_inventory env now_ms)) (\<lambda>r.
    let restored = (case r of Inl _ \<Rightarrow> False | Inr view \<Rightarrow> rollback_verified payload view original) in
    attempt (ufw_inventory env now_ms) (\<lambda>r.
    let after = (case r of Inl _ \<Rightarrow> digest_of env ''ufw_read_back_failed'' | Inr view \<Rightarrow> vw_state_digest view) in
    finish env operation_id
      (stage_step [RollingBack] (if restored then RolledBack else RecoveryRequired)
         (if restored then ''ufw_rule_restored'' else ''rule_rollback_failed'') after (Some after)
         (Some (if restored then ''restored'' else ''manual_recovery_required'')) now_ms)))))))"

section \<open>Execution\<close>

definition verify_ufw :: "'h ops_env \<Rightarrow> string \<Rightarrow> ufw_plan_payload \<Rightarrow> int \<Rightarrow> ('h, receipt_view) engine" where
  "verify_ufw env operation_id payload now_ms =
    bindM (ufw_inventory env now_ms) (\<lambda>after.
    if \<not> effect_verified payload after
    then rollback_ufw_rule env operation_id ''rule_verify_failed'' (vw_state_digest after) now_ms
    else
      finish env operation_id
        (stage_step [Verifying] Succeeded ''ufw_rule_verified'' (vw_state_digest after)
           (Some (vw_state_digest after)) None now_ms))"

definition apply_ufw ::
    "'h ops_env \<Rightarrow> string \<Rightarrow> ufw_plan_payload \<Rightarrow> snapshot_record \<Rightarrow> int \<Rightarrow> ('h, receipt_view) engine" where
  "apply_ufw env operation_id payload record now_ms =
    bindM (do_transition env operation_id
             (stage_step [Snapshotted] Applying ''ufw_rule_apply_started'' (sn_digest record)
                None None now_ms)) (\<lambda>_.
    attempt (apply_payload env payload) (\<lambda>r.
    case r of
      Inl e \<Rightarrow>
        rollback_ufw_rule env operation_id (ops_error_code e) (digest_of env (ops_error_code e)) now_ms
    | Inr apply_digest \<Rightarrow>
        bindM (do_transition env operation_id
                 (stage_step [Applying] Verifying ''ufw_rule_applied'' apply_digest None None now_ms)) (\<lambda>_.
        verify_ufw env operation_id payload now_ms)))"

definition execute_ufw_rule ::
    "'h ops_env \<Rightarrow> stored_operation \<Rightarrow> int \<Rightarrow> ('h, receipt_view) engine" where
  "execute_ufw_rule env operation now_ms =
    (let operation_id = so_operation_id operation in
     bindM (liftR (ok_or (sp_ufw_rule (so_plan operation)) ForensicLockdown)) (\<lambda>payload.
     bindM (ufw_inventory env now_ms) (\<lambda>before.
     if vw_status before \<noteq> UfwActive
        \<or> vw_state_digest before \<noteq> sp_enabled_state_digest (so_plan operation)
     then
       finish env operation_id
         (stage_step [Approved] CancelledBeforeApply ''precondition_changed'' (vw_state_digest before)
            None None now_ms)
     else
       bindM (liftR (validate_resolved_rule payload before)) (\<lambda>_.
       attempt (on_files (write_ufw_snapshot env operation_id
         \<lparr> us_schema_version = 1, us_state_digest = vw_state_digest before,
           us_rules = vw_rules before \<rparr>)) (\<lambda>r.
       case r of
         Inl e \<Rightarrow> cancel_before_apply env operation_id e now_ms
       | Inr record \<Rightarrow>
           bindM (on_ledger (attach_snapshot (ledger_env_of env) operation_id record now_ms)) (\<lambda>_.
           apply_ufw env operation_id payload record now_ms))))))"

end
