(* ===== verification/Config_Text.thy ===== *)
theory Config_Text
  imports Text_Ops Digests Ip_Address
begin

text \<open>
  What the configuration editor does with texts: the difference between the current and the proposed
  content that a plan shows (\<^verbatim>\<open>managed_config/text.rs\<close>), and the check of a proposed PHP configuration
  against the directives the current one knows (\<^verbatim>\<open>php_fpm_diagnostic.rs\<close>).
\<close>

section \<open>Differences\<close>

record diff_stats_view =
  ds_added_lines :: nat
  ds_removed_lines :: nat
  ds_summary :: "string list"

definition common_prefix :: "string list \<Rightarrow> string list \<Rightarrow> nat" where
  "common_prefix before after = length (takeWhile (\<lambda>(left, right). left = right) (zip before after))"

definition common_suffix :: "string list \<Rightarrow> string list \<Rightarrow> nat \<Rightarrow> nat" where
  "common_suffix before after prefix =
    (let max_suffix = min (length before - prefix) (length after - prefix) in
     length (takeWhile (\<lambda>offset. before ! (length before - (1 + offset)) = after ! (length after - (1 + offset)))
       [0..<max_suffix]))"

text \<open>\<^verbatim>\<open>&lines[prefix..lines.len() - suffix]\<close>.\<close>

definition line_range :: "string list \<Rightarrow> nat \<Rightarrow> nat \<Rightarrow> string list" where
  "line_range ls prefix suffix = take (length ls - suffix - prefix) (drop prefix ls)"

definition ELLIPSIS :: string where
  "ELLIPSIS = [CHR 0xE2, CHR 0x80, CHR 0xA6]"

definition bounded_line :: "string \<Rightarrow> string" where
  "bounded_line value =
    concat (take 160 (utf8_chars value)) @ (if length (utf8_chars value) > 160 then ELLIPSIS else [])"

definition saturating_u32 :: "nat \<Rightarrow> nat" where
  "saturating_u32 n = (if n \<le> u32_max then n else u32_max)"

definition diff_stats :: "string \<Rightarrow> string \<Rightarrow> diff_stats_view" where
  "diff_stats current proposed =
    (let before = text_lines current; after = text_lines proposed;
         prefix = common_prefix before after; suffix = common_suffix before after prefix;
         removed = line_range before prefix suffix; added = line_range after prefix suffix;
         summary = map (\<lambda>line. ''-'' @ bounded_line line) (take 20 removed)
           @ map (\<lambda>line. ''+'' @ bounded_line line) (take 20 added);
         summary = (if length removed + length added > length summary
                    then summary @ [ELLIPSIS @ '' diff preview truncated''] else summary)
     in \<lparr> ds_added_lines = saturating_u32 (length added), ds_removed_lines = saturating_u32 (length removed),
          ds_summary = summary \<rparr>)"

definition changed_candidate_lines :: "string \<Rightarrow> string \<Rightarrow> nat list" where
  "changed_candidate_lines current proposed =
    (let before = text_lines current; after = text_lines proposed;
         prefix = common_prefix before after; suffix = common_suffix before after prefix;
         changed_end = length after - suffix
     in take 128 (filter (\<lambda>n. n \<le> u32_max) (map (\<lambda>index. index + 1) [prefix..<changed_end])))"

section \<open>PHP directives\<close>

definition valid_ini_key :: "string \<Rightarrow> bool" where
  "valid_ini_key value =
    (value \<noteq> [] \<and> list_all (\<lambda>b. is_ascii_alphanumeric b \<or> b \<in> {CHR ''_'', CHR ''.'', CHR ''-''}) value)"

definition valid_fpm_key :: "string \<Rightarrow> bool" where
  "valid_fpm_key value =
    (value \<noteq> [] \<and>
     list_all (\<lambda>b. is_ascii_alphanumeric b
       \<or> b \<in> {CHR ''_'', CHR ''.'', CHR ''-'', CHR ''['', CHR '']'', CHR ''$''}) value)"

definition known_ini_key :: "(string \<Rightarrow> bool) \<Rightarrow> string \<Rightarrow> string option" where
  "known_ini_key valid_key line =
    (let trimmed = trim line in
     if trimmed = [] \<or> starts_with ''#'' trimmed \<or> starts_with ''['' trimmed then None
     else
       let candidate = (case strip_prefix '';'' trimmed of Some value \<Rightarrow> trim value | None \<Rightarrow> trimmed) in
       case split_once (CHR ''='') candidate of
         None \<Rightarrow> None
       | Some (raw_key, _) \<Rightarrow>
           let key = to_ascii_lowercase (trim raw_key) in
           if valid_key key then Some key else None)"

text \<open>The check of one line of the proposed content; lines are numbered from one.\<close>

definition check_ini_line :: "(string \<Rightarrow> bool) \<Rightarrow> string list \<Rightarrow> nat \<Rightarrow> string \<Rightarrow> (string, unit) result" where
  "check_ini_line valid_key known number line =
    (let trimmed = trim line in
     if trimmed = [] \<or> starts_with '';'' trimmed \<or> starts_with ''#'' trimmed then Inr ()
     else if starts_with ''['' trimmed \<and> ends_with trimmed '']'' then Inr ()
     else case split_once (CHR ''='') trimmed of
       None \<Rightarrow> Inl (''ignored_directive_line_'' @ decimal number)
     | Some (raw_key, _) \<Rightarrow>
         let key = to_ascii_lowercase (trim raw_key) in
         if \<not> valid_key key then Inl (''invalid_directive_line_'' @ decimal number)
         else if key \<notin> set known then Inl (''unknown_directive_line_'' @ decimal number)
         else Inr ())"

fun check_ini_lines :: "(string \<Rightarrow> bool) \<Rightarrow> string list \<Rightarrow> nat \<Rightarrow> string list \<Rightarrow> (string, unit) result" where
  "check_ini_lines valid_key known index [] = Inr ()"
| "check_ini_lines valid_key known index (line # lines) =
    bindR (check_ini_line valid_key known (index + 1) line) (\<lambda>_.
    check_ini_lines valid_key known (index + 1) lines)"

definition validate_ini_candidate :: "(string \<Rightarrow> bool) \<Rightarrow> string \<Rightarrow> string \<Rightarrow> (string, unit) result" where
  "validate_ini_candidate valid_key current proposed =
    (if trim proposed = [] then Inl ''empty_config''
     else
       let known = List.map_filter (known_ini_key valid_key) (text_lines current) in
       if known = [] then Inl ''directive_inventory_unavailable''
       else check_ini_lines valid_key known 0 (text_lines proposed))"

definition validate_php_ini_candidate :: "string \<Rightarrow> string \<Rightarrow> (string, unit) result" where
  "validate_php_ini_candidate = validate_ini_candidate valid_ini_key"

definition validate_php_fpm_candidate :: "string \<Rightarrow> string \<Rightarrow> (string, unit) result" where
  "validate_php_fpm_candidate = validate_ini_candidate valid_fpm_key"

section \<open>The difference is an edit\<close>

lemma common_prefix_take: "take (common_prefix before after) before = take (common_prefix before after) after"
proof (induction before arbitrary: after)
  case (Cons b bs)
  then show ?case by (cases after) (auto simp: common_prefix_def)
qed (simp add: common_prefix_def)

lemma common_prefix_le: "common_prefix before after \<le> min (length before) (length after)"
  unfolding common_prefix_def using length_takeWhile_le [of _ "zip before after"] by simp

lemma takeWhile_upt:
  assumes "i < length (takeWhile P [0..<n])"
  shows "P i \<and> i < n"
proof -
  have "i < n" using assms length_takeWhile_le [of P "[0..<n]"] by simp
  moreover have "takeWhile P [0..<n] ! i = i" using takeWhile_nth [OF assms] \<open>i < n\<close> by simp
  ultimately show ?thesis using nth_mem [OF assms] set_takeWhileD by metis
qed

lemma common_suffix_le:
  "common_suffix before after prefix \<le> min (length before - prefix) (length after - prefix)"
  unfolding common_suffix_def Let_def
  using length_takeWhile_le [of _ "[0..<min (length before - prefix) (length after - prefix)]"] by simp

lemma common_suffix_drop:
  assumes "s = common_suffix before after prefix"
  shows "drop (length before - s) before = drop (length after - s) after"
proof (rule nth_equalityI)
  have le: "s \<le> length before" "s \<le> length after" using common_suffix_le [of before after prefix] assms by auto
  then show "length (drop (length before - s) before) = length (drop (length after - s) after)" by simp
  fix i assume "i < length (drop (length before - s) before)"
  then have i: "i < s" using le by simp
  have "s - 1 - i < length (takeWhile (\<lambda>j. before ! (length before - (1 + j)) = after ! (length after - (1 + j)))
      [0..<min (length before - prefix) (length after - prefix)])"
    using i assms unfolding common_suffix_def Let_def by linarith
  from takeWhile_upt [OF this]
  have "before ! (length before - (1 + (s - 1 - i))) = after ! (length after - (1 + (s - 1 - i)))" by (rule conjunct1)
  moreover have "length before - (1 + (s - 1 - i)) = length before - s + i" "length after - (1 + (s - 1 - i)) = length after - s + i"
    using i le by auto
  ultimately show "drop (length before - s) before ! i = drop (length after - s) after ! i" using i le by simp
qed

lemma line_range_parts:
  assumes "p + s \<le> length ls"
  shows "ls = take p ls @ line_range ls p s @ drop (length ls - s) ls"
proof -
  have "length ls - s - p + p = length ls - s" using assms by linarith
  then have tail: "drop (length ls - s) ls = drop (length ls - s - p) (drop p ls)" by (simp only: drop_drop)
  have "line_range ls p s @ drop (length ls - s) ls = drop p ls"
    unfolding line_range_def tail by (rule append_take_drop_id)
  then show ?thesis by (simp only: append_take_drop_id)
qed

lemma diff_bounds:
  assumes "p = common_prefix before after" "s = common_suffix before after p"
  shows "p + s \<le> length before" "p + s \<le> length after"
  using assms common_prefix_le [of before after] common_suffix_le [of before after p] by auto


end
