(* ===== verification/Config_Diagnostics.thy ===== *)
theory Config_Diagnostics
  imports Managed_Adapter
begin

text \<open>
  What the configuration tests report: the parsers of the three validators' output
  (\<^verbatim>\<open>nginx_diagnostic.rs\<close>, \<^verbatim>\<open>apache_diagnostic.rs\<close>, \<^verbatim>\<open>php_fpm_diagnostic.rs\<close>) and the views built from it,
  which name a file only by an identifier and a masked path (\<^verbatim>\<open>config_diagnostic.rs\<close>).  The fixed
  Korean messages are entries of the text table.
\<close>

section \<open>Parsed diagnostics\<close>

record parsed_diagnostic =
  pd_path :: "string option"
  pd_line :: "nat option"
  pd_column :: "nat option"
  pd_severity :: diagnostic_severity
  pd_code :: string
  pd_message :: string

definition diagnostic_text :: "'h ops_env \<Rightarrow> string \<Rightarrow> string" where
  "diagnostic_text env key = concat (env_texts env key)"

definition validator_output :: "command_evidence \<Rightarrow> string" where
  "validator_output evidence =
    from_utf8_lossy (st_captured (ce_stderr evidence)) @ [CHR 0x0A]
    @ from_utf8_lossy (st_captured (ce_stdout evidence))"

definition generic_validator_diagnostic :: "string \<Rightarrow> string \<Rightarrow> parsed_diagnostic" where
  "generic_validator_diagnostic code message =
    \<lparr> pd_path = None, pd_line = None, pd_column = None, pd_severity = DiagError, pd_code = code,
      pd_message = message \<rparr>"

text \<open>A path and a line number, where both texts are usable.\<close>

definition location :: "string \<Rightarrow> string \<Rightarrow> (string \<times> nat) option" where
  "location raw_path raw_line =
    (case parse_positive (trim raw_line) of
       None \<Rightarrow> None
     | Some n \<Rightarrow> let p = trim raw_path in if p \<noteq> [] then Some (p, n) else None)"

section \<open>Nginx\<close>

definition nginx_location :: "string \<Rightarrow> (string \<times> nat) option" where
  "nginx_location line =
    (case rsplit_once_str '' in '' line of
       None \<Rightarrow> None
     | Some (_, loc) \<Rightarrow>
         (case rsplit_once_str '':'' loc of None \<Rightarrow> None | Some (p, n) \<Rightarrow> location p n))"

definition nginx_code :: "string \<Rightarrow> string" where
  "nginx_code line =
    (let lowered = to_ascii_lowercase line in
     if contains lowered ''unknown directive'' then ''unknown_directive''
     else if contains lowered ''duplicate'' then ''duplicate_directive''
     else if contains lowered ''unexpected'' \<or> contains lowered ''expecting'' then ''unexpected_token''
     else if contains lowered ''address already in use'' \<or> contains lowered ''bind()'' then ''listener_conflict''
     else if contains lowered ''invalid number'' \<or> contains lowered ''invalid value'' then ''invalid_value''
     else ''validator_rejected'')"

definition parse_nginx_config_diagnostics :: "'h ops_env \<Rightarrow> command_evidence \<Rightarrow> parsed_diagnostic list" where
  "parse_nginx_config_diagnostics env evidence =
    (let found = List.map_filter (\<lambda>line.
           map_option (\<lambda>(p, n).
             \<lparr> pd_path = Some p, pd_line = Some n, pd_column = None,
               pd_severity = (if contains line ''[warn]'' then DiagWarning else DiagError),
               pd_code = nginx_code line,
               pd_message = diagnostic_text env (''nginx_message.'' @ nginx_code line) \<rparr>)
             (nginx_location line)) (text_lines (validator_output evidence))
     in if found = [] \<and> \<not> ce_success evidence
        then [if ce_timed_out evidence
              then generic_validator_diagnostic ''validator_timeout'' (diagnostic_text env ''nginx_message.timeout'')
              else generic_validator_diagnostic ''validator_rejected'' (diagnostic_text env ''nginx_message.rejected'')]
        else found)"

definition selected_line :: "string \<Rightarrow> string \<Rightarrow> nat option" where
  "selected_line marker line =
    (case rsplit_once_str marker line of
       None \<Rightarrow> None
     | Some (_, suffix) \<Rightarrow>
         let digits = take 10 (takeWhile is_ascii_digit suffix) in
         if digits = [] then None else parse_positive digits)"

fun find_map :: "('a \<Rightarrow> 'b option) \<Rightarrow> 'a list \<Rightarrow> 'b option" where
  "find_map f [] = None"
| "find_map f (x # xs) = (case f x of Some y \<Rightarrow> Some y | None \<Rightarrow> find_map f xs)"

definition selected_resource_line :: "bytes \<Rightarrow> string \<Rightarrow> nat option" where
  "selected_resource_line stderr basename =
    (if basename = [] \<or> CHR ''/'' \<in> set basename \<or> CHR 0x5C \<in> set basename then None
     else if \<not> utf8_valid stderr then None
     else find_map (selected_line (''/'' @ basename @ '':'')) (text_lines stderr))"

definition nginx_config_failure_code :: "command_evidence \<Rightarrow> string \<Rightarrow> string" where
  "nginx_config_failure_code evidence basename =
    (case selected_resource_line (st_captured (ce_stderr evidence)) basename of
       None \<Rightarrow> ''nginx_config_test_failed''
     | Some line \<Rightarrow> ''nginx_config_test_failed:line='' @ decimal line)"

section \<open>Apache\<close>

text \<open>\<^verbatim>\<open>str::trim_end_matches(':')\<close>.\<close>

definition trim_end_colons :: "string \<Rightarrow> string" where
  "trim_end_colons s = rev (dropWhile (\<lambda>c. c = CHR '':'') (rev s))"

definition apache_location :: "string \<Rightarrow> (nat \<times> string) option" where
  "apache_location line =
    (case split_once_str ''Syntax error on line '' line of
       None \<Rightarrow> None
     | Some (_, after) \<Rightarrow>
         (case split_once_str '' of '' after of
            None \<Rightarrow> None
          | Some (raw_line, raw_path) \<Rightarrow>
              (case parse_positive raw_line of
                 None \<Rightarrow> None
               | Some n \<Rightarrow> let p = trim_end_colons (trim raw_path) in if p \<noteq> [] then Some (n, p) else None)))"

definition apache_code :: "string \<Rightarrow> string" where
  "apache_code output =
    (let lowered = to_ascii_lowercase output in
     if contains lowered ''invalid command'' then ''unknown_directive''
     else if contains lowered ''multiple listeners'' \<or> contains lowered ''address already in use''
     then ''listener_conflict''
     else if contains lowered ''expected </'' \<or> contains lowered ''without matching'' then ''unmatched_block''
     else ''validator_rejected'')"

definition parse_apache_config_diagnostics :: "'h ops_env \<Rightarrow> command_evidence \<Rightarrow> parsed_diagnostic list" where
  "parse_apache_config_diagnostics env evidence =
    (let output = validator_output evidence;
         found = List.map_filter (\<lambda>line.
           map_option (\<lambda>(n, p).
             \<lparr> pd_path = Some p, pd_line = Some n, pd_column = None, pd_severity = DiagError,
               pd_code = apache_code output,
               pd_message = diagnostic_text env (''apache_message.'' @ apache_code output) \<rparr>)
             (apache_location line)) (text_lines output)
     in if found = [] \<and> \<not> ce_success evidence
        then [if ce_timed_out evidence
              then generic_validator_diagnostic ''validator_timeout'' (diagnostic_text env ''apache_message.timeout'')
              else generic_validator_diagnostic ''validator_rejected'' (diagnostic_text env ''apache_message.rejected'')]
        else found)"

section \<open>PHP-FPM\<close>

definition php_ini_location :: "string \<Rightarrow> (string \<times> nat) option" where
  "php_ini_location line =
    (case rsplit_once_str '' on line '' line of
       None \<Rightarrow> None
     | Some (prefix, raw_line) \<Rightarrow>
         (case parse_positive (trim raw_line) of
            None \<Rightarrow> None
          | Some _ \<Rightarrow>
              (case rsplit_once_str '' in '' prefix of
                 None \<Rightarrow> None
               | Some (_, raw_path) \<Rightarrow> location raw_path raw_line)))"

text \<open>The text in the last square brackets: \<^verbatim>\<open>rfind\<close> of the opening one, then \<^verbatim>\<open>find\<close> of the closing one.\<close>

definition php_fpm_bracket_location :: "string \<Rightarrow> (string \<times> nat) option" where
  "php_fpm_bracket_location line =
    (case rsplit_once_str ''['' line of
       None \<Rightarrow> None
     | Some (_, rest) \<Rightarrow>
         (case split_once_str '']'' rest of
            None \<Rightarrow> None
          | Some (loc, _) \<Rightarrow>
              (case rsplit_once_str '':'' loc of None \<Rightarrow> None | Some (p, n) \<Rightarrow> location p n)))"

definition php_location :: "string \<Rightarrow> (string \<times> nat) option" where
  "php_location line =
    (case php_ini_location line of Some l \<Rightarrow> Some l | None \<Rightarrow> php_fpm_bracket_location line)"

definition php_code :: "string \<Rightarrow> string" where
  "php_code line =
    (let lowered = to_ascii_lowercase line in
     if contains lowered ''syntax error'' then ''syntax_error''
     else if contains lowered ''unknown entry'' \<or> contains lowered ''unknown directive'' then ''unknown_directive''
     else if contains lowered ''unable to include'' \<or> contains lowered ''failed to open'' then ''include_error''
     else if contains lowered ''must be'' \<or> contains lowered ''invalid value'' then ''invalid_value''
     else ''validator_rejected'')"

definition syntax_line :: "command_evidence \<Rightarrow> nat option" where
  "syntax_line evidence =
    (case rsplit_once_str '' on line '' (validator_output evidence) of
       None \<Rightarrow> None
     | Some (_, rest) \<Rightarrow>
         let digits = takeWhile is_ascii_digit rest in if digits = [] then None else parse_u32 digits)"

definition contains_syntax_error :: "command_evidence \<Rightarrow> bool" where
  "contains_syntax_error evidence =
    contains (to_ascii_lowercase (validator_output evidence)) ''syntax error''"

definition php_fpm_config_test_succeeded :: "command_evidence \<Rightarrow> bool" where
  "php_fpm_config_test_succeeded evidence =
    (ce_success evidence \<and> syntax_line evidence = None \<and> \<not> contains_syntax_error evidence)"

definition php_fpm_config_failure_code :: "command_evidence \<Rightarrow> string" where
  "php_fpm_config_failure_code evidence =
    (case syntax_line evidence of
       None \<Rightarrow> ''php_fpm_config_invalid''
     | Some line \<Rightarrow> ''php_fpm_config_syntax_line_'' @ decimal line)"

definition parse_php_fpm_config_diagnostics :: "'h ops_env \<Rightarrow> command_evidence \<Rightarrow> parsed_diagnostic list" where
  "parse_php_fpm_config_diagnostics env evidence =
    (let found = List.map_filter (\<lambda>line.
           map_option (\<lambda>(p, n).
             \<lparr> pd_path = Some p, pd_line = Some n, pd_column = None,
               pd_severity = (if contains (to_ascii_lowercase line) ''warning'' then DiagWarning else DiagError),
               pd_code = php_code line,
               pd_message = diagnostic_text env (''php_message.'' @ php_code line) \<rparr>)
             (php_location line)) (text_lines (validator_output evidence))
     in if found = [] \<and> (\<not> ce_success evidence \<or> contains_syntax_error evidence)
        then [if ce_timed_out evidence
              then generic_validator_diagnostic ''validator_timeout'' (diagnostic_text env ''php_message.timeout'')
              else if contains_syntax_error evidence
              then generic_validator_diagnostic ''syntax_error'' (diagnostic_text env ''php_message.syntax_error'')
              else generic_validator_diagnostic ''validator_rejected'' (diagnostic_text env ''php_message.rejected'')]
        else found)"

section \<open>By adapter\<close>

definition managed_config_test_succeeded :: "managed_config_adapter \<Rightarrow> command_evidence \<Rightarrow> bool" where
  "managed_config_test_succeeded adapter evidence =
    (if service_of adapter = PhpService then php_fpm_config_test_succeeded evidence else ce_success evidence)"

definition managed_config_failure_code :: "managed_config_adapter \<Rightarrow> command_evidence \<Rightarrow> string \<Rightarrow> string" where
  "managed_config_failure_code adapter evidence basename =
    (case service_of adapter of
       NginxService \<Rightarrow> nginx_config_failure_code evidence basename
     | ApacheService \<Rightarrow> if ce_timed_out evidence then ''apache_config_test_timeout'' else ''apache_config_invalid''
     | PhpService \<Rightarrow> php_fpm_config_failure_code evidence)"

definition service_root :: "ops_paths \<Rightarrow> managed_config_adapter \<Rightarrow> path option" where
  "service_root paths adapter =
    (let file = (case service_of adapter of
           NginxService \<Rightarrow> pa_nginx_main paths | ApacheService \<Rightarrow> pa_apache_main paths | PhpService \<Rightarrow> pa_php_fpm_ini paths)
     in if file = [] then None else Some (butlast file))"

section \<open>Mapping of reported paths\<close>

text \<open>
  A reported path is its text.  \<^verbatim>\<open>strip_prefix\<close> compares components, and what is left keeps its text except
  for separators and dots at the two ends.
\<close>

fun strip_components :: "path \<Rightarrow> path \<Rightarrow> path option" where
  "strip_components [] parts = Some parts"
| "strip_components (c # cs) [] = None"
| "strip_components (c # cs) (part # parts) =
    (if part = [] \<or> part = ''.'' then strip_components (c # cs) parts
     else if part = c then strip_components cs parts
     else None)"

definition is_empty_part :: "string \<Rightarrow> bool" where
  "is_empty_part part = (part = [] \<or> part = ''.'')"

definition trim_parts :: "path \<Rightarrow> path" where
  "trim_parts parts = rev (dropWhile is_empty_part (rev (dropWhile is_empty_part parts)))"

definition relative_to :: "path \<Rightarrow> string \<Rightarrow> path option" where
  "relative_to root reported =
    (if starts_with ''/'' reported
     then map_option trim_parts (strip_components root (split_on (CHR ''/'') reported)) else None)"

text \<open>Equality of paths is that of their components.\<close>

definition same_path :: "path \<Rightarrow> string \<Rightarrow> bool" where
  "same_path p reported =
    (starts_with ''/'' reported \<and> normal_parts (split_on (CHR ''/'') reported) = p)"

definition path_text :: "path \<Rightarrow> string" where
  "path_text p = ''/'' @ join_with ''/'' p"

definition selected_resource_path :: "ops_paths \<Rightarrow> managed_config_resource \<Rightarrow> path option" where
  "selected_resource_path paths resource =
    (if is_tree (mr_adapter resource)
     then map_option (\<lambda>root. join_relative root (mr_display_name resource)) (service_root paths (mr_adapter resource))
     else Some (mr_root resource @ [mr_basename resource]))"

definition config_aliases :: "ops_paths \<Rightarrow> managed_config_adapter \<Rightarrow> (path \<times> path) list" where
  "config_aliases paths adapter =
    (if adapter = AdNginx \<or> adapter = AdNginxTree then [(pa_nginx_available paths, pa_nginx_enabled paths)]
     else if adapter = AdApacheTree \<or> adapter = AdApacheSite
     then [(pa_apache_sites_available paths, pa_apache_sites_enabled paths),
           (pa_apache_conf_available paths, pa_apache_conf_enabled paths)]
     else [])"

definition active_alias_matches :: "ops_paths \<Rightarrow> managed_config_adapter \<Rightarrow> path \<Rightarrow> string \<Rightarrow> bool" where
  "active_alias_matches paths adapter selected reported =
    list_ex (\<lambda>(available, enabled).
      take (length available) selected = available
      \<and> same_path (enabled @ drop (length available) selected) reported) (config_aliases paths adapter)"

record mapped_resource =
  md_resource_id :: string
  md_masked_path :: string

definition map_reported_path ::
    "'h ops_env \<Rightarrow> managed_config_adapter \<Rightarrow> string \<Rightarrow> mapped_resource option" where
  "map_reported_path env adapter reported =
    (let H = env_sha256 env; b64 = oe_base64 env in
     case service_root (oe_paths env) adapter of
       None \<Rightarrow> None
     | Some root \<Rightarrow>
         (case relative_to root reported of
            None \<Rightarrow> None
          | Some parts \<Rightarrow>
              (case safe_tree_relative_path parts of
                 Inl _ \<Rightarrow> None
               | Inr relative \<Rightarrow>
                   if secret_tree_resource relative then None
                   else if service_of adapter = NginxService
                   then Some \<lparr> md_resource_id = managed_service_config_resource_id H b64
                                 NGINX_TREE_RESOURCE_PREFIX NGINX_TREE_CONFIG_ADAPTER_ID relative,
                               md_masked_path = ''/etc/nginx/'' @ relative \<rparr>
                   else if service_of adapter = ApacheService
                   then Some \<lparr> md_resource_id = managed_service_config_resource_id H b64
                                 APACHE_TREE_RESOURCE_PREFIX APACHE_TREE_CONFIG_ADAPTER_ID relative,
                               md_masked_path = ''/etc/apache2/'' @ relative \<rparr>
                   else if adapter = AdPhpFpm83Ini
                   then (if relative = ''php.ini''
                         then Some \<lparr> md_resource_id = php_fpm_config_resource_id H b64 PHP_FPM_CONFIG_ADAPTER_ID,
                                     md_masked_path = ''/etc/php/8.3/fpm/php.ini'' \<rparr>
                         else None)
                   else if adapter = AdPhpFpm83Global
                   then (if relative = ''php-fpm.conf''
                         then Some \<lparr> md_resource_id = php_fpm_config_resource_id H b64 PHP_FPM_GLOBAL_CONFIG_ADAPTER_ID,
                                     md_masked_path = ''/etc/php/8.3/fpm/php-fpm.conf'' \<rparr>
                         else None)
                   else (case strip_prefix ''pool.d/'' relative of
                           None \<Rightarrow> None
                         | Some basename \<Rightarrow>
                             if CHR ''/'' \<in> set basename then None
                             else Some \<lparr> md_resource_id = php_fpm_pool_config_resource_id H b64 basename,
                                         md_masked_path = ''/etc/php/8.3/fpm/pool.d/'' @ basename \<rparr>))))"

definition map_diagnostic_path ::
    "'h ops_env \<Rightarrow> managed_config_resource \<Rightarrow> string \<Rightarrow> mapped_resource option" where
  "map_diagnostic_path env resource reported =
    (case selected_resource_path (oe_paths env) resource of
       None \<Rightarrow> None
     | Some selected \<Rightarrow>
         let selected_or_alias = (same_path selected reported
               \<or> active_alias_matches (oe_paths env) (mr_adapter resource) selected reported);
             mapped_path = (if selected_or_alias then path_text selected else reported) in
         map_option (\<lambda>mapped. if selected_or_alias then mapped\<lparr>md_resource_id := mr_resource_id resource\<rparr> else mapped)
           (map_reported_path env (mr_adapter resource) mapped_path))"

section \<open>Views\<close>

definition nginx_line_looks_incomplete :: "string \<Rightarrow> nat \<Rightarrow> bool" where
  "nginx_line_looks_incomplete content line =
    (if line = 0 \<or> line - 1 \<ge> length (text_lines content) then False
     else
       let value = trim (text_lines content ! (line - 1)) in
       value \<noteq> [] \<and> \<not> starts_with ''#'' value \<and> \<not> ends_with value '';'' \<and> \<not> ends_with value ''{''
       \<and> \<not> ends_with value ''}'')"

definition LOOKBACK_LINES :: nat where
  "LOOKBACK_LINES = 8"

definition nginx_cause_candidate_lines ::
    "managed_config_resource \<Rightarrow> mapped_resource option \<Rightarrow> string \<Rightarrow> nat \<Rightarrow> nat list \<Rightarrow> string \<Rightarrow> nat list" where
  "nginx_cause_candidate_lines resource mapped code reported_line changed_lines proposed_content =
    (if service_of (mr_adapter resource) \<noteq> NginxService
        \<or> code \<notin> {''unknown_directive'', ''unexpected_token''}
        \<or> map_option md_resource_id mapped \<noteq> Some (mr_resource_id resource)
     then []
     else
       let candidates = filter (\<lambda>line. line < reported_line \<and> reported_line - line \<le> LOOKBACK_LINES
             \<and> nginx_line_looks_incomplete proposed_content line) changed_lines
       in if candidates = [] then [] else [Max (set candidates)])"

definition service_key :: "managed_config_adapter \<Rightarrow> string" where
  "service_key adapter =
    (case service_of adapter of NginxService \<Rightarrow> ''nginx'' | ApacheService \<Rightarrow> ''apache'' | PhpService \<Rightarrow> ''php_fpm'')"

definition validator_id :: "managed_config_adapter \<Rightarrow> string" where
  "validator_id adapter =
    (case config_test adapter of
       NginxConfigTest \<Rightarrow> ''nginx_config_test'' | ApacheConfigTest \<Rightarrow> ''apache_config_test''
     | PhpFpm83ConfigTest \<Rightarrow> ''php_fpm_83_config_test'' | _ \<Rightarrow> ''managed_config_test'')"

definition diagnostic_of ::
    "'h ops_env \<Rightarrow> managed_config_resource \<Rightarrow> nat list \<Rightarrow> string \<Rightarrow> parsed_diagnostic \<Rightarrow> diagnostic_view" where
  "diagnostic_of env resource changed_lines proposed_content d =
    (let mapped = (case pd_path d of None \<Rightarrow> None | Some p \<Rightarrow> map_diagnostic_path env resource p);
         location_allowed = (pd_path d = None \<or> mapped \<noteq> None) in
     \<lparr> dv_service = service_key (mr_adapter resource), dv_validator = validator_id (mr_adapter resource),
       dv_resource_id = map_option md_resource_id mapped, dv_masked_path = map_option md_masked_path mapped,
       dv_line = (if location_allowed then pd_line d else None),
       dv_column = (if location_allowed then pd_column d else None),
       dv_severity = pd_severity d, dv_code = pd_code d, dv_message = pd_message d,
       dv_related_changed_lines =
         (case pd_line d of
            None \<Rightarrow> []
          | Some line \<Rightarrow> if map_option md_resource_id mapped = Some (mr_resource_id resource) \<and> line \<in> set changed_lines
                         then [line] else []),
       dv_cause_candidate_lines =
         (case pd_line d of
            None \<Rightarrow> []
          | Some line \<Rightarrow> nginx_cause_candidate_lines resource mapped (pd_code d) line changed_lines proposed_content) \<rparr>)"

definition managed_config_diagnostics ::
    "'h ops_env \<Rightarrow> managed_config_resource \<Rightarrow> command_evidence \<Rightarrow> nat list \<Rightarrow> string \<Rightarrow> diagnostic_view list" where
  "managed_config_diagnostics env resource evidence changed_lines proposed_content =
    (let parsed = (case service_of (mr_adapter resource) of
           NginxService \<Rightarrow> parse_nginx_config_diagnostics env evidence
         | ApacheService \<Rightarrow> parse_apache_config_diagnostics env evidence
         | PhpService \<Rightarrow> parse_php_fpm_config_diagnostics env evidence)
     in filter (\<lambda>value. is_ok (validate_diagnostic_shape value))
          (map (diagnostic_of env resource changed_lines proposed_content) (take DIAGNOSTIC_MAX_ENTRIES parsed)))"

section \<open>What a diagnostic discloses\<close>

definition diagnostic_codes :: "string list" where
  "diagnostic_codes =
    [''unknown_directive'', ''duplicate_directive'', ''unexpected_token'', ''listener_conflict'', ''invalid_value'',
     ''validator_rejected'', ''validator_timeout'', ''unmatched_block'', ''syntax_error'', ''include_error'']"

definition diagnostic_messages :: "'h ops_env \<Rightarrow> string list" where
  "diagnostic_messages env =
    concat (map (\<lambda>service. map (\<lambda>key. diagnostic_text env (service @ ''_message.'' @ key))
                   (diagnostic_codes @ [''timeout'', ''rejected'']))
      [''nginx'', ''apache'', ''php''])"

definition masked_root :: "managed_config_adapter \<Rightarrow> string" where
  "masked_root adapter =
    (case service_of adapter of
       NginxService \<Rightarrow> ''/etc/nginx/'' | ApacheService \<Rightarrow> ''/etc/apache2/'' | PhpService \<Rightarrow> ''/etc/php/8.3/fpm/'')"

text \<open>A parsed diagnostic holds fixed texts, and a line only together with a path.\<close>

definition parsed_fixed :: "'h ops_env \<Rightarrow> parsed_diagnostic \<Rightarrow> bool" where
  "parsed_fixed env d =
    (pd_code d \<in> set diagnostic_codes \<and> pd_message d \<in> set (diagnostic_messages env)
     \<and> (pd_path d = None \<longrightarrow> pd_line d = None) \<and> pd_column d = None)"

lemma codes_listed:
  "nginx_code line \<in> set diagnostic_codes" "apache_code line \<in> set diagnostic_codes"
  "php_code line \<in> set diagnostic_codes"
  by (simp_all add: nginx_code_def apache_code_def php_code_def diagnostic_codes_def Let_def)

lemma messages_listed:
  assumes "key \<in> set diagnostic_codes \<or> key = ''timeout'' \<or> key = ''rejected''"
  shows "diagnostic_text env (''nginx_message.'' @ key) \<in> set (diagnostic_messages env)"
    "diagnostic_text env (''apache_message.'' @ key) \<in> set (diagnostic_messages env)"
    "diagnostic_text env (''php_message.'' @ key) \<in> set (diagnostic_messages env)"
  using assms by (auto simp: diagnostic_messages_def)

lemma fixed_messages:
  "diagnostic_text env ''nginx_message.timeout'' \<in> set (diagnostic_messages env)"
  "diagnostic_text env ''nginx_message.rejected'' \<in> set (diagnostic_messages env)"
  "diagnostic_text env ''apache_message.timeout'' \<in> set (diagnostic_messages env)"
  "diagnostic_text env ''apache_message.rejected'' \<in> set (diagnostic_messages env)"
  "diagnostic_text env ''php_message.timeout'' \<in> set (diagnostic_messages env)"
  "diagnostic_text env ''php_message.rejected'' \<in> set (diagnostic_messages env)"
  "diagnostic_text env ''php_message.syntax_error'' \<in> set (diagnostic_messages env)"
  by (simp_all add: diagnostic_messages_def diagnostic_codes_def)

lemma generic_fixed:
  assumes "code \<in> set diagnostic_codes" "message \<in> set (diagnostic_messages env)"
  shows "parsed_fixed env (generic_validator_diagnostic code message)"
  using assms by (simp add: parsed_fixed_def generic_validator_diagnostic_def)

lemma generic_codes:
  "''validator_timeout'' \<in> set diagnostic_codes" "''validator_rejected'' \<in> set diagnostic_codes"
  "''syntax_error'' \<in> set diagnostic_codes"
  by (simp_all add: diagnostic_codes_def)

text \<open>The shape of the three parsers: located lines, or one generic entry when there are none.\<close>

lemma parsed_cases:
  assumes "d \<in> set (if b then [g] else List.map_filter f xs)"
    and "\<And>x y. f x = Some y \<Longrightarrow> parsed_fixed env y" and "parsed_fixed env g"
  shows "parsed_fixed env d"
  using assms by (auto simp: set_map_filter split: if_splits)

lemma nginx_parsed_fixed: "d \<in> set (parse_nginx_config_diagnostics env e) \<Longrightarrow> parsed_fixed env d"
  unfolding parse_nginx_config_diagnostics_def Let_def
  by (erule parsed_cases)
    (use codes_listed(1) messages_listed(1) [OF disjI1, OF codes_listed(1)] fixed_messages generic_codes in
      \<open>auto simp: parsed_fixed_def generic_validator_diagnostic_def simp del: append.simps\<close>)

lemma apache_parsed_fixed: "d \<in> set (parse_apache_config_diagnostics env e) \<Longrightarrow> parsed_fixed env d"
  unfolding parse_apache_config_diagnostics_def Let_def
  by (erule parsed_cases)
    (use codes_listed(2) messages_listed(2) [OF disjI1, OF codes_listed(2)] fixed_messages generic_codes in
      \<open>auto simp: parsed_fixed_def generic_validator_diagnostic_def simp del: append.simps\<close>)

lemma php_parsed_fixed: "d \<in> set (parse_php_fpm_config_diagnostics env e) \<Longrightarrow> parsed_fixed env d"
  unfolding parse_php_fpm_config_diagnostics_def Let_def
  by (erule parsed_cases)
    (use codes_listed(3) messages_listed(3) [OF disjI1, OF codes_listed(3)] fixed_messages generic_codes in
      \<open>auto simp: parsed_fixed_def generic_validator_diagnostic_def simp del: append.simps\<close>)

definition safe_masked_path :: "managed_config_adapter \<Rightarrow> string \<Rightarrow> bool" where
  "safe_masked_path adapter p =
    (\<exists>rel. p = masked_root adapter @ rel \<and> list_all safe_part (split_on (CHR ''/'') rel)
       \<and> \<not> secret_tree_resource rel)"

lemma safe_relative_parts:
  "safe_tree_relative_path parts = Inr rel \<Longrightarrow> list_all safe_part (split_on (CHR ''/'') rel)"
  by (auto simp: safe_tree_relative_path_def Let_def split: if_splits)

lemma mapped_path_safe:
  assumes "map_reported_path env adapter reported = Some m"
  shows "safe_masked_path adapter (md_masked_path m)"
proof -
  from assms obtain parts rel where rel: "safe_tree_relative_path parts = Inr rel" "\<not> secret_tree_resource rel"
    and path: "md_masked_path m = masked_root adapter @ rel"
    by (cases "service_of adapter")
      (auto simp: map_reported_path_def Let_def masked_root_def split: option.splits sum.splits if_splits)
  then show ?thesis using safe_relative_parts [OF rel(1)] by (auto simp: safe_masked_path_def)
qed

lemma diagnostic_path_safe:
  "map_diagnostic_path env resource reported = Some m \<Longrightarrow>
    safe_masked_path (mr_adapter resource) (md_masked_path m)"
  by (auto simp: map_diagnostic_path_def Let_def dest!: mapped_path_safe split: option.splits if_splits)

definition discloses_safely :: "'h ops_env \<Rightarrow> managed_config_adapter \<Rightarrow> diagnostic_view \<Rightarrow> bool" where
  "discloses_safely env adapter d =
    (dv_code d \<in> set diagnostic_codes \<and> dv_message d \<in> set (diagnostic_messages env) \<and> dv_column d = None
     \<and> (case dv_masked_path d of
          None \<Rightarrow> dv_resource_id d = None \<and> dv_line d = None \<and> dv_related_changed_lines d = []
            \<and> dv_cause_candidate_lines d = []
        | Some p \<Rightarrow> safe_masked_path adapter p))"

lemma unmapped_no_lines:
  "nginx_cause_candidate_lines resource None code line changed content = []"
  by (simp add: nginx_cause_candidate_lines_def)

lemma diagnostic_of_safe:
  assumes "parsed_fixed env d"
  shows "discloses_safely env (mr_adapter resource) (diagnostic_of env resource changed content d)"
proof (cases "case pd_path d of None \<Rightarrow> None | Some p \<Rightarrow> map_diagnostic_path env resource p")
  case None
  then show ?thesis
    using assms by (auto simp: discloses_safely_def diagnostic_of_def Let_def parsed_fixed_def unmapped_no_lines
        split: option.splits)
next
  case (Some m)
  then have "safe_masked_path (mr_adapter resource) (md_masked_path m)"
    by (auto split: option.splits dest: diagnostic_path_safe)
  then show ?thesis using assms Some by (auto simp: discloses_safely_def diagnostic_of_def Let_def parsed_fixed_def)
qed

text \<open>
  (C28) Whatever a validator prints, the diagnostics built from it show only fixed codes and messages, and
  paths below the fixed root of the service whose components are safe and which do not look secret; where the
  reported file is not such a path no line numbers are shown either.  At most 32 are shown, and the ledger
  accepts them.
\<close>

theorem diagnostics_disclose_safely:
  "list_all (discloses_safely env (mr_adapter resource))
     (managed_config_diagnostics env resource evidence changed_lines proposed_content)
   \<and> (managed_config_diagnostics env resource evidence changed_lines proposed_content = []
      \<or> diagnostics_shape_ok (managed_config_diagnostics env resource evidence changed_lines proposed_content))"
proof -
  let ?parsed = "case service_of (mr_adapter resource) of
      NginxService \<Rightarrow> parse_nginx_config_diagnostics env evidence
    | ApacheService \<Rightarrow> parse_apache_config_diagnostics env evidence
    | PhpService \<Rightarrow> parse_php_fpm_config_diagnostics env evidence"
  have fixed: "parsed_fixed env d" if "d \<in> set ?parsed" for d
    using that nginx_parsed_fixed apache_parsed_fixed php_parsed_fixed
    by (cases "service_of (mr_adapter resource)") auto
  have len: "length (filter P (map f (take DIAGNOSTIC_MAX_ENTRIES ?parsed))) \<le> DIAGNOSTIC_MAX_ENTRIES"
    for P :: "diagnostic_view \<Rightarrow> bool" and f
    by (rule le_trans [OF length_filter_le]) simp
  show ?thesis
    using len
    by (auto simp: managed_config_diagnostics_def diagnostics_shape_ok_def list_all_iff
        dest!: in_set_takeD intro!: diagnostic_of_safe fixed)
qed

end
