(* ===== verification/Managed_Config.thy ===== *)
theory Managed_Config
  imports Config_Diagnostics Engine_Base
begin

text \<open>
  The files of the configuration editor (\<^verbatim>\<open>managed_config.rs\<close>, \<^verbatim>\<open>managed_config/tree.rs\<close>): finding the
  file that a resource identifier names, and replacing its content through a temporary file and a
  rename.  Linux variants of the functions.
\<close>

section \<open>Reading a file\<close>

definition config_resource ::
    "'h ops_env \<Rightarrow> managed_config_adapter \<Rightarrow> string \<Rightarrow> string \<Rightarrow> string \<Rightarrow> path \<Rightarrow> bytes \<Rightarrow> inode \<Rightarrow>
     managed_config_resource" where
  "config_resource env adapter resource_id basename display_name root content metadata =
    \<lparr> mr_adapter = adapter, mr_resource_id = resource_id, mr_basename = basename,
      mr_display_name = display_name, mr_root = root, mr_content = content,
      mr_content_digest = sha256_digest (env_sha256 env) content,
      mr_metadata_digest = managed_metadata_digest (env_sha256 env) (metadata_mode metadata) (nd_uid metadata)
        (nd_gid metadata),
      mr_mode = metadata_mode metadata, mr_uid = nd_uid metadata, mr_gid = nd_gid metadata \<rparr>"

text \<open>
  The metadata checks, the size limit, the bytes and their encoding, as
  \<^verbatim>\<open>read_regular_managed_config\<close> and \<^verbatim>\<open>discover_php_fpm_managed_config\<close> spell them out.
\<close>

definition read_config_bytes ::
    "'h ops_env \<Rightarrow> path \<Rightarrow> nat \<Rightarrow> (filesystem, ops_error, bytes \<times> inode) routine" where
  "read_config_bytes env p maximum =
    (let enforce = pa_enforce_root_ownership (oe_paths env) in
     bindM (reject_io ''resource_missing'' (symlink_metadata p)) (\<lambda>metadata.
     bindM (liftR (validate_available_metadata metadata enforce)) (\<lambda>_.
     bindM (liftR (validate_managed_metadata metadata enforce)) (\<lambda>_.
     if length (node_content metadata) > maximum then fail (Rejected ''size_limit'')
     else
       bindM (fs_io (bindM (open_file p) read_to_end)) (\<lambda>bytes.
       if \<not> managed_config_bytes_supported bytes then fail (Rejected ''invalid_encoding'')
       else if \<not> utf8_valid bytes then fail (Rejected ''invalid_encoding'')
       else ret (bytes, metadata))))))"

definition read_regular_managed_config ::
    "'h ops_env \<Rightarrow> managed_config_adapter \<Rightarrow> path \<Rightarrow> string \<Rightarrow> string \<Rightarrow> string \<Rightarrow>
     (filesystem, ops_error, managed_config_resource) routine" where
  "read_regular_managed_config env adapter root basename display_name resource_id =
    bindM (validate_root root (pa_enforce_root_ownership (oe_paths env))) (\<lambda>_.
    bindM (read_config_bytes env (root @ [basename]) (maximum_bytes adapter)) (\<lambda>(bytes, metadata).
    ret (config_resource env adapter resource_id basename display_name root bytes metadata)))"

section \<open>Discovery by adapter\<close>

fun discover_nginx_in ::
    "'h ops_env \<Rightarrow> string \<Rightarrow> string list \<Rightarrow> (filesystem, ops_error, managed_config_resource) routine" where
  "discover_nginx_in env requested [] = fail (Rejected ''resource_missing'')"
| "discover_nginx_in env requested (name # names) =
    (let paths = oe_paths env; H = env_sha256 env; enforce = pa_enforce_root_ownership paths in
     bindM (fs_io next_entry) (\<lambda>_.
     bindM (liftR (safe_basename name)) (\<lambda>basename.
     if nginx_internal_temporary_name basename then discover_nginx_in env requested names
     else
       let resource_id = nginx_config_resource_id H (oe_base64 env) NGINX_CONFIG_ADAPTER_ID basename in
       if resource_id \<noteq> requested then discover_nginx_in env requested names
       else
         bindM (read_available_content paths basename) (\<lambda>(bytes, metadata, is_protected).
         bindM (liftR (validate_available_metadata metadata enforce)) (\<lambda>_.
         bindM (liftR (validate_managed_metadata metadata enforce)) (\<lambda>_.
         if is_protected then fail (Rejected ''protected_resource'')
         else
           bindM (discover_site env (nginx_site_id H (oe_base64 env) NGINX_LAYOUT_ID basename)) (\<lambda>site.
           if ns_state site \<noteq> Enabled then fail (Rejected ''resource_not_active'')
           else if length bytes > NGINX_MANAGED_CONFIG_MAX_BYTES then fail (Rejected ''size_limit'')
           else if \<not> managed_config_bytes_supported bytes \<or> \<not> utf8_valid bytes
           then fail (Rejected ''invalid_encoding'')
           else ret (config_resource env AdNginx resource_id basename basename (pa_nginx_available paths)
                  bytes metadata))))))))"

definition discover_nginx_managed_config ::
    "'h ops_env \<Rightarrow> string \<Rightarrow> (filesystem, ops_error, managed_config_resource) routine" where
  "discover_nginx_managed_config env requested =
    (let paths = oe_paths env in
     bindM (validate_root (pa_nginx_available paths) (pa_enforce_root_ownership paths)) (\<lambda>_.
     bindM (fs_io (read_dir (pa_nginx_available paths))) (\<lambda>entries.
     discover_nginx_in env requested entries)))"

definition discover_exact_managed_config ::
    "'h ops_env \<Rightarrow> managed_config_adapter \<Rightarrow> path \<Rightarrow> string \<Rightarrow> string \<Rightarrow> string \<Rightarrow> string \<Rightarrow>
     (filesystem, ops_error, managed_config_resource) routine" where
  "discover_exact_managed_config env adapter p basename display_name requested prefix =
    (let expected = managed_service_config_resource_id (env_sha256 env) (oe_base64 env) prefix
           (adapter_id adapter) basename in
     if requested \<noteq> expected then fail (Rejected ''resource_missing'')
     else if p = [] then fail (Rejected ''unsupported_layout'')
     else read_regular_managed_config env adapter (butlast p) basename display_name expected)"

definition require_enabled_link ::
    "path \<Rightarrow> path \<Rightarrow> string \<Rightarrow> bool \<Rightarrow> (filesystem, ops_error, unit) routine" where
  "require_enabled_link available_root enabled_root basename enforce =
    (let link = enabled_root @ [basename] in
     bindM (validate_root enabled_root enforce) (\<lambda>_.
     bindM (reject_io ''resource_not_active'' (symlink_metadata link)) (\<lambda>metadata.
     if \<not> is_symlink metadata then fail (Rejected ''enabled_entry_not_symlink'')
     else
       bindM (fs_io (read_link link)) (\<lambda>target.
       if available_root = [] \<or> \<not> utf8_valid (last available_root) then fail (Rejected ''unsupported_layout'')
       else if target \<noteq> (True, available_root @ [basename])
               \<and> target \<noteq> (False, [''..'', last available_root, basename])
       then fail (Rejected ''enabled_target_mismatch'')
       else ret ()))))"

definition SEPARATOR :: string where
  "SEPARATOR = [CHR '' '', CHR 0xC2, CHR 0xB7, CHR '' '']"

fun discover_directory_in ::
    "'h ops_env \<Rightarrow> managed_config_adapter \<Rightarrow> path \<Rightarrow> path option \<Rightarrow> string \<Rightarrow> string \<Rightarrow> string \<Rightarrow> string list \<Rightarrow>
     (filesystem, ops_error, managed_config_resource) routine" where
  "discover_directory_in env adapter root enabled_root display_prefix requested prefix [] =
    fail (Rejected ''resource_missing'')"
| "discover_directory_in env adapter root enabled_root display_prefix requested prefix (name # names) =
    bindM (fs_io next_entry) (\<lambda>_.
    bindM (liftR (safe_basename name)) (\<lambda>basename.
    if nginx_internal_temporary_name basename \<or> \<not> ends_with basename ''.conf''
    then discover_directory_in env adapter root enabled_root display_prefix requested prefix names
    else
      let resource_id = managed_service_config_resource_id (env_sha256 env) (oe_base64 env) prefix
            (adapter_id adapter) basename in
      if resource_id \<noteq> requested
      then discover_directory_in env adapter root enabled_root display_prefix requested prefix names
      else
        bindM (case enabled_root of
                 None \<Rightarrow> ret ()
               | Some enabled \<Rightarrow>
                   require_enabled_link root enabled basename (pa_enforce_root_ownership (oe_paths env))) (\<lambda>_.
        read_regular_managed_config env adapter root basename (display_prefix @ SEPARATOR @ basename) resource_id)))"

definition discover_directory_managed_config ::
    "'h ops_env \<Rightarrow> managed_config_adapter \<Rightarrow> path \<Rightarrow> path option \<Rightarrow> string \<Rightarrow> string \<Rightarrow> string \<Rightarrow>
     (filesystem, ops_error, managed_config_resource) routine" where
  "discover_directory_managed_config env adapter root enabled_root display_prefix requested prefix =
    bindM (validate_root root (pa_enforce_root_ownership (oe_paths env))) (\<lambda>_.
    bindM (fs_io (read_dir root)) (\<lambda>entries.
    discover_directory_in env adapter root enabled_root display_prefix requested prefix entries))"

fun discover_pool_in ::
    "'h ops_env \<Rightarrow> string \<Rightarrow> string list \<Rightarrow> (filesystem, ops_error, managed_config_resource) routine" where
  "discover_pool_in env requested [] = fail (Rejected ''resource_missing'')"
| "discover_pool_in env requested (name # names) =
    bindM (fs_io next_entry) (\<lambda>_.
    bindM (liftR (safe_basename name)) (\<lambda>basename.
    if nginx_internal_temporary_name basename \<or> \<not> ends_with basename ''.conf''
    then discover_pool_in env requested names
    else
      let resource_id = php_fpm_pool_config_resource_id (env_sha256 env) (oe_base64 env) basename in
      if resource_id \<noteq> requested then discover_pool_in env requested names
      else read_regular_managed_config env AdPhpFpm83Pool (pa_php_fpm_pool_dir (oe_paths env)) basename
             (''PHP 8.3 FPM'' @ SEPARATOR @ basename @ '' pool'') resource_id))"

definition discover_php_fpm_pool_config ::
    "'h ops_env \<Rightarrow> string \<Rightarrow> (filesystem, ops_error, managed_config_resource) routine" where
  "discover_php_fpm_pool_config env requested =
    (let paths = oe_paths env in
     bindM (validate_root (pa_php_fpm_pool_dir paths) (pa_enforce_root_ownership paths)) (\<lambda>_.
     bindM (fs_io (read_dir (pa_php_fpm_pool_dir paths))) (\<lambda>entries. discover_pool_in env requested entries)))"

definition discover_php_fpm_managed_config ::
    "'h ops_env \<Rightarrow> managed_config_adapter \<Rightarrow> path \<Rightarrow> string \<Rightarrow> string \<Rightarrow>
     (filesystem, ops_error, managed_config_resource) routine" where
  "discover_php_fpm_managed_config env adapter p basename display_name =
    (if p = [] then fail (Rejected ''unsupported_layout'')
     else
       bindM (on_err (\<lambda>_. Rejected ''unsupported_layout'')
                (validate_root (butlast p) (pa_enforce_root_ownership (oe_paths env)))) (\<lambda>_.
       bindM (read_config_bytes env p PHP_FPM_CONFIG_MAX_BYTES) (\<lambda>(bytes, metadata).
       ret (config_resource env adapter
              (php_fpm_config_resource_id (env_sha256 env) (oe_base64 env) (adapter_id adapter))
              basename display_name (butlast p) bytes metadata))))"

section \<open>Discovery in a tree\<close>

text \<open>
  The two loops of \<^verbatim>\<open>discover_tree_managed_config\<close> as one recursion over their state: the entries seen so
  far, the stack of directories, the directory being listed and what is left of its listing.  A popped
  directory takes one off the stack; an entry puts at most one on it and is counted, at most 256 times.
\<close>

function tree_walk ::
    "'h ops_env \<Rightarrow> managed_config_adapter \<Rightarrow> path \<Rightarrow> string \<Rightarrow> string \<Rightarrow> nat \<Rightarrow> (path \<times> nat) list \<Rightarrow>
     path \<times> nat \<Rightarrow> string list \<Rightarrow> (filesystem, ops_error, managed_config_resource) routine" where
  "tree_walk env adapter root requested prefix observed [] current [] = fail (Rejected ''resource_missing'')"
| "tree_walk env adapter root requested prefix observed ((directory, depth) # stack) current [] =
    (if depth > MANAGED_SERVICE_CONFIG_MAX_DEPTH
     then tree_walk env adapter root requested prefix observed stack current []
     else
       bindM (validate_root directory (pa_enforce_root_ownership (oe_paths env))) (\<lambda>_.
       bindM (fs_io (read_dir directory)) (\<lambda>entries.
       tree_walk env adapter root requested prefix observed stack (directory, depth) entries)))"
| "tree_walk env adapter root requested prefix observed stack (directory, depth) (name # names) =
    (if observed + 1 > MANAGED_SERVICE_CONFIG_MAX_ENTRIES then fail (Rejected ''inventory_truncated'')
     else
       bindM (fs_io next_entry) (\<lambda>_.
       bindM (fs_io (symlink_metadata (directory @ [name]))) (\<lambda>metadata.
       if is_symlink metadata
       then tree_walk env adapter root requested prefix (observed + 1) stack (directory, depth) names
       else if is_dir metadata
       then tree_walk env adapter root requested prefix (observed + 1) ((directory @ [name], depth + 1) # stack)
              (directory, depth) names
       else if \<not> is_file metadata
       then tree_walk env adapter root requested prefix (observed + 1) stack (directory, depth) names
       else
         bindM (liftR (safe_tree_relative_path (drop (length root) (directory @ [name])))) (\<lambda>relative_path.
         let resource_id = managed_service_config_resource_id (env_sha256 env) (oe_base64 env) prefix
               (adapter_id adapter) relative_path in
         if resource_id \<noteq> requested
         then tree_walk env adapter root requested prefix (observed + 1) stack (directory, depth) names
         else if secret_tree_resource relative_path then fail (Rejected ''protected_resource'')
         else
           bindM (read_regular_managed_config env adapter directory name relative_path resource_id) (\<lambda>resource.
           if contains_private_key_marker (mr_content resource) then fail (Rejected ''protected_resource'')
           else ret resource)))))"
  by pat_completeness auto
termination
  by (relation "measure (\<lambda>(_, _, _, _, _, observed, stack, _, _).
        2 * (MANAGED_SERVICE_CONFIG_MAX_ENTRIES - observed) + length stack)") auto

definition discover_tree_managed_config ::
    "'h ops_env \<Rightarrow> managed_config_adapter \<Rightarrow> path \<Rightarrow> string \<Rightarrow> string \<Rightarrow>
     (filesystem, ops_error, managed_config_resource) routine" where
  "discover_tree_managed_config env adapter root requested prefix =
    bindM (validate_root root (pa_enforce_root_ownership (oe_paths env))) (\<lambda>_.
    tree_walk env adapter root requested prefix 0 [(root, 0)] (root, 0) [])"

definition GLOBAL_SETTINGS :: string where
  "GLOBAL_SETTINGS =
    [CHR 0xEC, CHR 0xA0, CHR 0x84, CHR 0xEC, CHR 0x97, CHR 0xAD, CHR '' '', CHR 0xEC, CHR 0x84, CHR 0xA4,
     CHR 0xEC, CHR 0xA0, CHR 0x95]"

definition discover_managed_config ::
    "'h ops_env \<Rightarrow> string \<Rightarrow> (filesystem, ops_error, managed_config_resource) routine" where
  "discover_managed_config env requested =
    (let paths = oe_paths env in
     bindM (liftR (find_adapter env requested)) (\<lambda>adapter.
     case adapter of
       AdNginx \<Rightarrow> discover_nginx_managed_config env requested
     | AdNginxTree \<Rightarrow>
         if pa_nginx_main paths = [] then fail (Rejected ''unsupported_layout'')
         else discover_tree_managed_config env AdNginxTree (butlast (pa_nginx_main paths)) requested
                NGINX_TREE_RESOURCE_PREFIX
     | AdNginxMain \<Rightarrow>
         discover_exact_managed_config env AdNginxMain (pa_nginx_main paths) ''nginx.conf''
           (''Nginx'' @ SEPARATOR @ ''nginx.conf'') requested NGINX_MAIN_RESOURCE_PREFIX
     | AdNginxConfD \<Rightarrow>
         discover_directory_managed_config env AdNginxConfD (pa_nginx_conf_d paths) None
           (''Nginx'' @ SEPARATOR @ ''conf.d'') requested NGINX_CONF_D_RESOURCE_PREFIX
     | AdApacheTree \<Rightarrow>
         if pa_apache_main paths = [] then fail (Rejected ''unsupported_layout'')
         else discover_tree_managed_config env AdApacheTree (butlast (pa_apache_main paths)) requested
                APACHE_TREE_RESOURCE_PREFIX
     | AdApacheMain \<Rightarrow>
         discover_exact_managed_config env AdApacheMain (pa_apache_main paths) ''apache2.conf''
           (''Apache'' @ SEPARATOR @ ''apache2.conf'') requested APACHE_MAIN_RESOURCE_PREFIX
     | AdApachePorts \<Rightarrow>
         discover_exact_managed_config env AdApachePorts (pa_apache_ports paths) ''ports.conf''
           (''Apache'' @ SEPARATOR @ ''ports.conf'') requested APACHE_PORTS_RESOURCE_PREFIX
     | AdApacheConf \<Rightarrow>
         discover_directory_managed_config env AdApacheConf (pa_apache_conf_available paths)
           (Some (pa_apache_conf_enabled paths)) (''Apache'' @ SEPARATOR @ ''conf'') requested
           APACHE_CONF_RESOURCE_PREFIX
     | AdApacheSite \<Rightarrow>
         discover_directory_managed_config env AdApacheSite (pa_apache_sites_available paths)
           (Some (pa_apache_sites_enabled paths)) (''Apache'' @ SEPARATOR @ ''site'') requested
           APACHE_SITE_RESOURCE_PREFIX
     | AdPhpFpm83Ini \<Rightarrow>
         discover_php_fpm_managed_config env AdPhpFpm83Ini (pa_php_fpm_ini paths) ''php.ini''
           (''PHP 8.3 FPM'' @ SEPARATOR @ ''php.ini'')
     | AdPhpFpm83Global \<Rightarrow>
         discover_php_fpm_managed_config env AdPhpFpm83Global (pa_php_fpm_global paths) ''php-fpm.conf''
           (''PHP 8.3 FPM'' @ SEPARATOR @ GLOBAL_SETTINGS)
     | AdPhpFpm83PoolWww \<Rightarrow>
         discover_php_fpm_managed_config env AdPhpFpm83PoolWww (pa_php_fpm_pool_www paths) ''www.conf''
           (''PHP 8.3 FPM'' @ SEPARATOR @ ''www pool'')
     | AdPhpFpm83Pool \<Rightarrow> discover_php_fpm_pool_config env requested))"

text \<open>The management site, which only the certificate operations may rewrite.\<close>

definition discover_protected_config ::
    "'h ops_env \<Rightarrow> string \<Rightarrow> (filesystem, ops_error, managed_config_resource) routine" where
  "discover_protected_config env requested_site_id =
    (let paths = oe_paths env; enforce = pa_enforce_root_ownership paths in
     bindM (discover_site env requested_site_id) (\<lambda>site.
     if \<not> ns_protected site \<or> ns_state site \<noteq> Enabled then fail (Rejected ''protected_resource_required'')
     else
       bindM (read_available_content paths (ns_basename site)) (\<lambda>(bytes, metadata, is_protected).
       bindM (liftR (validate_available_metadata metadata enforce)) (\<lambda>_.
       bindM (liftR (validate_managed_metadata metadata enforce)) (\<lambda>_.
       if \<not> is_protected \<or> length bytes > NGINX_MANAGED_CONFIG_MAX_BYTES
       then fail (Rejected ''protected_resource_required'')
       else if \<not> managed_config_bytes_supported bytes \<or> \<not> utf8_valid bytes
       then fail (Rejected ''invalid_encoding'')
       else ret (config_resource env AdNginx (ns_site_id site) (ns_basename site) (ns_basename site)
              (pa_nginx_available paths) bytes metadata))))))"

section \<open>Replacement\<close>

definition set_file_owner :: "path \<Rightarrow> nat \<Rightarrow> nat \<Rightarrow> (filesystem, ops_error, unit) routine" where
  "set_file_owner handle uid gid =
    bindM (fs_io (file_metadata handle)) (\<lambda>metadata.
    if nd_uid metadata = uid \<and> nd_gid metadata = gid then ret ()
    else fs_io (fchown handle uid gid))"

text \<open>A failure after the temporary file exists removes it, if that succeeds.\<close>

definition or_remove ::
    "path \<Rightarrow> (filesystem, ops_error, unit) routine \<Rightarrow> (filesystem, ops_error, unit) routine" where
  "or_remove temporary m =
    attempt m (\<lambda>r.
    case r of Inr _ \<Rightarrow> ret () | Inl e \<Rightarrow> bindM (discard (remove_file temporary)) (\<lambda>_. fail e))"

definition replace_through ::
    "path \<Rightarrow> path \<Rightarrow> bytes \<Rightarrow> nat \<Rightarrow> nat \<Rightarrow> nat \<Rightarrow> string \<Rightarrow> (filesystem, ops_error, unit) routine" where
  "replace_through temporary root content mode uid gid basename =
    bindM (fs_io (create_new temporary)) (\<lambda>handle.
    bindM (or_remove temporary (set_file_mode handle (mode mod 4096))) (\<lambda>_.
    bindM (or_remove temporary (set_file_owner handle uid gid)) (\<lambda>_.
    bindM (or_remove temporary (fs_io (bindM (write_all handle content) (\<lambda>_. sync_all handle)))) (\<lambda>_.
    bindM (or_remove temporary (fs_io (rename temporary (root @ [basename])))) (\<lambda>_.
    fs_io (bindM (open_file root) sync_all))))))"

definition random_suffix :: "('h, string) engine" where
  "random_suffix = bindM (getrandom 8) (\<lambda>bytes. ret (hex_bytes (rev bytes)))"

definition atomic_replace ::
    "path \<Rightarrow> string \<Rightarrow> string \<Rightarrow> nat \<Rightarrow> nat \<Rightarrow> nat \<Rightarrow> ('h, unit) engine" where
  "atomic_replace root basename content mode uid gid =
    bindM random_suffix (\<lambda>suffix.
    on_files (replace_through (root @ [''.jw-agent-'' @ suffix @ ''.tmp'']) root content mode uid gid basename))"

definition replace_managed_config ::
    "'h ops_env \<Rightarrow> managed_config_resource \<Rightarrow> string \<Rightarrow> ('h, managed_config_resource) engine" where
  "replace_managed_config env expected content =
    bindM (on_files (discover_managed_config env (mr_resource_id expected))) (\<lambda>current.
    if mr_content_digest current \<noteq> mr_content_digest expected
       \<or> mr_metadata_digest current \<noteq> mr_metadata_digest expected
    then fail (Rejected ''stale_resource'')
    else if length content > maximum_bytes (mr_adapter expected) then fail (Rejected ''size_limit'')
    else if \<not> managed_config_bytes_supported content then fail (Rejected ''invalid_encoding'')
    else
      bindM (atomic_replace (mr_root expected) (mr_basename expected) content (mr_mode expected)
               (mr_uid expected) (mr_gid expected)) (\<lambda>_.
      on_files (discover_managed_config env (mr_resource_id expected))))"

definition restore_managed_config ::
    "'h ops_env \<Rightarrow> string \<Rightarrow> string \<Rightarrow> string \<Rightarrow> nat \<Rightarrow> nat \<Rightarrow> nat \<Rightarrow> ('h, managed_config_resource) engine" where
  "restore_managed_config env resource_id basename content mode uid gid =
    bindM (on_files (discover_managed_config env resource_id)) (\<lambda>current.
    if mr_basename current \<noteq> basename \<or> length content > maximum_bytes (mr_adapter current)
    then fail (Rejected ''resource_identity_mismatch'')
    else
      bindM (atomic_replace (mr_root current) basename content mode uid gid) (\<lambda>_.
      on_files (discover_managed_config env resource_id)))"

definition replace_protected_config ::
    "'h ops_env \<Rightarrow> managed_config_resource \<Rightarrow> string \<Rightarrow> ('h, managed_config_resource) engine" where
  "replace_protected_config env expected content =
    bindM (on_files (discover_protected_config env (mr_resource_id expected))) (\<lambda>current.
    if mr_basename current \<noteq> mr_basename expected \<or> mr_content_digest current \<noteq> mr_content_digest expected
       \<or> mr_metadata_digest current \<noteq> mr_metadata_digest expected
    then fail (Rejected ''stale_resource'')
    else if length content > NGINX_MANAGED_CONFIG_MAX_BYTES \<or> \<not> managed_config_bytes_supported content
            \<or> \<not> nginx_management_config content
    then fail (Rejected ''protected_config_invalid'')
    else
      bindM (atomic_replace (mr_root expected) (mr_basename expected) content (mr_mode expected)
               (mr_uid expected) (mr_gid expected)) (\<lambda>_.
      on_files (discover_protected_config env (mr_resource_id expected))))"

definition restore_protected_config ::
    "'h ops_env \<Rightarrow> string \<Rightarrow> string \<Rightarrow> string \<Rightarrow> nat \<Rightarrow> nat \<Rightarrow> nat \<Rightarrow> ('h, managed_config_resource) engine" where
  "restore_protected_config env site_id basename content mode uid gid =
    bindM (on_files (discover_protected_config env site_id)) (\<lambda>current.
    if mr_basename current \<noteq> basename \<or> \<not> nginx_management_config content
    then fail (Rejected ''resource_identity_mismatch'')
    else
      bindM (atomic_replace (mr_root current) basename content mode uid gid) (\<lambda>_.
      bindM (on_files (discover_protected_config env site_id)) (\<lambda>restored.
      if mr_mode restored = mode \<and> mr_uid restored = uid \<and> mr_gid restored = gid then ret restored
      else fail (Rejected ''metadata_read_back_failed''))))"

end
