(* ===== verification/Certificates.thy ===== *)
theory Certificates
  imports Managed_Config
begin

text \<open>
  Certificates of \<^verbatim>\<open>jw-opsd/src/certificate.rs\<close> and \<^verbatim>\<open>certbot_runner.rs\<close>: the inventory of the
  lineages Certbot keeps, the preconditions of an issue request, the two directives a TLS attachment
  rewrites, and the client of the certificate daemon.
\<close>

section \<open>Texts\<close>

definition is_ascii_whitespace :: "char \<Rightarrow> bool" where
  "is_ascii_whitespace c = (byte c \<in> {9, 10, 12, 13, 32})"

definition ELLIPSIS :: string where
  "ELLIPSIS = [CHR 0xE2, CHR 0x80, CHR 0xA6]"

definition trim_start :: "string \<Rightarrow> string" where
  "trim_start s = concat (dropWhile is_whitespace (utf8_chars s))"

text \<open>\<^verbatim>\<open>str::split_ascii_whitespace\<close>.\<close>

definition split_ascii_whitespace :: "string \<Rightarrow> string list" where
  "split_ascii_whitespace s =
    filter (\<lambda>w. w \<noteq> []) (split_on (CHR '' '') (map (\<lambda>c. if is_ascii_whitespace c then CHR '' '' else c) s))"

text \<open>\<^verbatim>\<open>Path::components\<close>: the root, a leading dot, and the names; empty and inner dot components go.\<close>

definition path_components :: "string \<Rightarrow> string list" where
  "path_components value =
    (let parts = split_on (CHR ''/'') value;
         names = filter (\<lambda>p. p \<noteq> [] \<and> p \<noteq> ''.'') parts in
     if starts_with ''/'' value then ''/'' # names
     else if hd parts = ''.'' then ''.'' # names
     else names)"

definition path_file_name :: "string \<Rightarrow> string option" where
  "path_file_name value =
    (let components = path_components value in
     if components = [] \<or> last components \<in> {''/'', ''.'', ''..''} then None else Some (last components))"

definition mask_path :: "string \<Rightarrow> string" where
  "mask_path value =
    (let components = path_components value in
     if length components \<ge> 3
     then ELLIPSIS @ ''/'' @ join_with ''/'' (drop (length components - 3) components)
     else case path_file_name value of
       None \<Rightarrow> ELLIPSIS @ ''/certificate.pem''
     | Some name \<Rightarrow> ELLIPSIS @ ''/'' @ name)"

definition mask_account_email :: "string \<Rightarrow> string" where
  "mask_account_email email =
    (case split_once (CHR ''@'') email of
       None \<Rightarrow> ''***''
     | Some (local, domain) \<Rightarrow> concat (take 1 (utf8_chars local)) @ ''***@'' @ domain)"

section \<open>The directives of a TLS attachment\<close>

definition strip_whitespace_char :: "string \<Rightarrow> string option" where
  "strip_whitespace_char s =
    (case utf8_chars s of
       [] \<Rightarrow> None
     | c # _ \<Rightarrow> if is_whitespace c then Some (drop (length c) s) else None)"

definition directive_value :: "string \<Rightarrow> string \<Rightarrow> string option" where
  "directive_value line directive =
    (case strip_prefix directive line of
       None \<Rightarrow> None
     | Some after \<Rightarrow>
         (case strip_whitespace_char after of
            None \<Rightarrow> None
          | Some rest \<Rightarrow>
              (case strip_suffix '';'' (trim rest) of
                 None \<Rightarrow> None
               | Some inner \<Rightarrow>
                   let value = trim inner in
                   if value = [] \<or> list_ex is_ascii_whitespace value then None else Some value)))"

text \<open>
  One line without its line feed: what replaces it, the masked path when it is the certificate
  directive, and whether it is the key directive.
\<close>

definition rewrite_line :: "string \<Rightarrow> string \<Rightarrow> string \<Rightarrow> string \<times> string option \<times> bool" where
  "rewrite_line fullchain private_key bare =
    (let trimmed = trim bare;
         indentation = take (length bare - length (trim_start bare)) bare in
     case directive_value trimmed ''ssl_certificate'' of
       Some value \<Rightarrow> (indentation @ ''ssl_certificate '' @ fullchain @ '';'', Some (mask_path value), False)
     | None \<Rightarrow>
         if directive_value trimmed ''ssl_certificate_key'' \<noteq> None
         then (indentation @ ''ssl_certificate_key '' @ private_key @ '';'', None, True)
         else (bare, None, False))"

text \<open>
  \<^verbatim>\<open>split_inclusive\<close> yields the segments before each line feed with it, and a last one only when it is
  not empty; a text with a last line feed and one without are kept apart by the empty last segment,
  which no directive matches.
\<close>

definition replace_tls_directives :: "string \<Rightarrow> string \<Rightarrow> string \<Rightarrow> (ops_error, string \<times> string) result" where
  "replace_tls_directives content fullchain private_key =
    (let rewritten = map (rewrite_line fullchain private_key) (split_on (CHR 0x0A) content);
         certificates = List.map_filter (\<lambda>(_, certificate, _). certificate) rewritten;
         keys = filter (\<lambda>(_, _, is_key). is_key) rewritten in
     if length certificates \<noteq> 1 \<or> length keys \<noteq> 1 then Inl (Rejected ''attach_unsupported'')
     else Inr (join_with [CHR 0x0A] (map fst rewritten), last certificates))"

definition server_names :: "string \<Rightarrow> string list" where
  "server_names content =
    concat (map (\<lambda>line.
      case strip_prefix ''server_name '' (trim line) of
        None \<Rightarrow> []
      | Some rest \<Rightarrow>
          (case strip_suffix '';'' rest of
             None \<Rightarrow> []
           | Some value \<Rightarrow> filter (\<lambda>name. is_ok (validate_domain name)) (split_ascii_whitespace value)))
      (text_lines content))"

definition server_names_cover :: "bytes \<Rightarrow> string list \<Rightarrow> bool" where
  "server_names_cover content expected =
    (utf8_valid content \<and> list_all (\<lambda>domain. domain \<in> set (server_names content)) expected)"

record tls_attachment_resource =
  ta_config :: managed_config_resource
  ta_proposed_content :: string
  ta_proposed_content_digest :: string
  ta_current_certificate_path :: string
  ta_target_certificate_path :: string

definition path_text :: "path \<Rightarrow> string" where
  "path_text p = concat (map (\<lambda>component. ''/'' @ component) p)"

definition prepare_tls_attachment ::
    "'h ops_env \<Rightarrow> string \<Rightarrow> string \<Rightarrow> string \<Rightarrow> (filesystem, ops_error, tls_attachment_resource) routine" where
  "prepare_tls_attachment env primary_domain site_id expected_site_digest =
    bindM (liftR (map_err Rejected (validate_domain primary_domain))) (\<lambda>_.
    bindM (discover_protected_config env site_id) (\<lambda>config.
    if mr_content_digest config \<noteq> expected_site_digest then fail (Rejected ''stale_site'')
    else if \<not> server_names_cover (mr_content config) [primary_domain] then fail (Rejected ''invalid_domain'')
    else
      let live = pa_letsencrypt_live (oe_paths env) @ [primary_domain];
          fullchain = path_text (live @ [''fullchain.pem'']);
          private_key = path_text (live @ [''privkey.pem'']) in
      if \<not> utf8_valid fullchain \<or> \<not> utf8_valid private_key
         \<or> list_ex is_ascii_whitespace fullchain \<or> list_ex is_ascii_whitespace private_key
      then fail (Rejected ''certificate_path_policy'')
      else
        bindM (liftR (replace_tls_directives (mr_content config) fullchain private_key)) (\<lambda>(proposed, current).
        ret \<lparr> ta_config = config, ta_proposed_content = proposed,
              ta_proposed_content_digest = sha256_digest (env_sha256 env) proposed,
              ta_current_certificate_path = current,
              ta_target_certificate_path = ELLIPSIS @ ''/live/'' @ primary_domain @ ''/fullchain.pem'' \<rparr>)))"

section \<open>Rules on files\<close>

text \<open>\<^verbatim>\<open>mode & 0o022\<close>: writable for the group or for others.\<close>

definition foreign_writable :: "nat \<Rightarrow> bool" where
  "foreign_writable mode = (mode_bit mode 1 \<or> mode_bit mode 4)"

definition validate_directory :: "path \<Rightarrow> bool \<Rightarrow> (filesystem, ops_error, unit) routine" where
  "validate_directory p enforce_root =
    bindM (fs_io (symlink_metadata p)) (\<lambda>metadata.
    if \<not> is_dir metadata \<or> is_symlink metadata then fail (Rejected ''certificate_path_policy'')
    else if enforce_root \<and> (nd_uid metadata \<noteq> 0 \<or> foreign_writable (nd_mode metadata))
    then fail (Rejected ''certificate_path_policy'')
    else ret ())"

definition validate_regular_file :: "path \<Rightarrow> bool \<Rightarrow> nat \<Rightarrow> (filesystem, ops_error, unit) routine" where
  "validate_regular_file p enforce_root maximum =
    bindM (fs_io (symlink_metadata p)) (\<lambda>metadata.
    if \<not> is_file metadata \<or> is_symlink metadata \<or> node_content metadata = []
       \<or> length (node_content metadata) > maximum
    then fail (Rejected ''certificate_path_policy'')
    else if enforce_root \<and> (nd_uid metadata \<noteq> 0 \<or> foreign_writable (nd_mode metadata))
    then fail (Rejected ''certificate_path_policy'')
    else ret ())"

definition CERTIFICATE_MAX_BYTES :: nat where
  "CERTIFICATE_MAX_BYTES = 256 * 1024"

definition path_starts_with :: "path \<Rightarrow> path \<Rightarrow> bool" where
  "path_starts_with p base = (take (length base) p = base)"

definition validate_lineage_target ::
    "'h ops_env \<Rightarrow> string \<Rightarrow> path \<Rightarrow> bool \<Rightarrow> (filesystem, ops_error, unit) routine" where
  "validate_lineage_target env domain p private_key =
    (let paths = oe_paths env in
     bindM (fs_io (symlink_metadata p)) (\<lambda>link_metadata.
     if \<not> is_symlink link_metadata then fail (Rejected ''certificate_path_policy'')
     else
       bindM (fs_io (canonicalize p)) (\<lambda>target.
       bindM (fs_io (canonicalize (pa_letsencrypt_archive paths @ [domain]))) (\<lambda>archive.
       bindM (fs_io (canonicalize (pa_letsencrypt_archive paths))) (\<lambda>archive_root.
       if \<not> path_starts_with archive archive_root \<or> \<not> path_starts_with target archive
       then fail (Rejected ''certificate_path_policy'')
       else
         bindM (fs_io (path_metadata target)) (\<lambda>metadata.
         if \<not> is_file metadata \<or> node_content metadata = []
            \<or> length (node_content metadata) > CERTIFICATE_MAX_BYTES
         then fail (Rejected ''certificate_invalid'')
         else if pa_enforce_root_ownership paths
                 \<and> (nd_uid metadata \<noteq> 0 \<or> (private_key \<and> foreign_bits (nd_mode metadata) \<noteq> 0))
         then fail (Rejected ''certificate_path_policy'')
         else ret ()))))))"

section \<open>Preconditions of an issue request\<close>

definition ACME_CHALLENGE_INCLUDE :: bytes where
  "ACME_CHALLENGE_INCLUDE = ''include /usr/share/jw-agent/nginx/acme-challenge.conf;''"

definition validate_issue_site ::
    "'h ops_env \<Rightarrow> string \<Rightarrow> string \<Rightarrow> string list \<Rightarrow> (filesystem, ops_error, nginx_site) routine" where
  "validate_issue_site env site_id expected_site_digest domains =
    (let paths = oe_paths env in
     bindM (discover_site env site_id) (\<lambda>site.
     if \<not> ns_protected site \<or> ns_state site \<noteq> Enabled then fail (Rejected ''unsupported_environment'')
     else if ns_available_digest site \<noteq> expected_site_digest then fail (Rejected ''stale_site'')
     else
       bindM (read_available_content paths (ns_basename site)) (\<lambda>(content, _, _).
       if \<not> contains_bytes content ACME_CHALLENGE_INCLUDE \<or> \<not> server_names_cover content domains
       then fail (Rejected ''wrong_webroot'')
       else
         bindM (on_err (\<lambda>_. Rejected ''wrong_webroot'')
                  (validate_directory (pa_acme_webroot paths) (pa_enforce_root_ownership paths))) (\<lambda>_.
         ret site))))"

definition validate_issue_preconditions ::
    "'h ops_env \<Rightarrow> certbot_issue_plan_input \<Rightarrow> int \<Rightarrow> (filesystem, ops_error, nginx_site) routine" where
  "validate_issue_preconditions env input now_ms =
    bindM (liftR (map_err Rejected (validate_issue_input now_ms input))) (\<lambda>_.
    let request = cin_request input in
    validate_issue_site env (ci_site_id request) (ci_expected_site_digest request) (issue_domains request))"

section \<open>Reading a certificate\<close>

definition COMMAND_OUTPUT_MAX_BYTES :: nat where
  "COMMAND_OUTPUT_MAX_BYTES = 64 * 1024"

text \<open>The reader thread: each chunk is what one read of the pipe returned.\<close>

fun read_bounded_chunks :: "bytes \<Rightarrow> bytes list \<Rightarrow> (ops_error, bytes) result" where
  "read_bounded_chunks output [] = Inr output"
| "read_bounded_chunks output (chunk # chunks) =
    (if chunk = [] then Inr output
     else if length output + length chunk > COMMAND_OUTPUT_MAX_BYTES
     then Inl (Command ''openssl output limit exceeded'')
     else read_bounded_chunks (output @ chunk) chunks)"

definition inspect_x509 :: "'h ops_env \<Rightarrow> path \<Rightarrow> (filesystem, ops_error, string) routine" where
  "inspect_x509 env p = reading (\<lambda>fs.
    case ct_openssl (oe_certificates env) p fs of
      NotSpawned message \<Rightarrow> Inl (Command message)
    | StillRunning \<Rightarrow> Inl (Rejected ''certificate_inspection_timeout'')
    | Finished success chunks \<Rightarrow>
        bindR (read_bounded_chunks [] chunks) (\<lambda>bytes.
        if \<not> success \<or> \<not> utf8_valid bytes then Inl (Rejected ''certificate_invalid'') else Inr bytes))"

text \<open>What one line of the output contributes; a later fingerprint or date replaces an earlier one.\<close>

definition line_fingerprint :: "string \<Rightarrow> string option" where
  "line_fingerprint trimmed =
    (case (case strip_prefix ''sha256 Fingerprint='' trimmed of
             Some value \<Rightarrow> Some value | None \<Rightarrow> strip_prefix ''SHA256 Fingerprint='' trimmed) of
       None \<Rightarrow> None
     | Some value \<Rightarrow>
         let hex = to_ascii_lowercase (filter (\<lambda>c. c \<noteq> CHR '':'') value) in
         if length hex = 64 \<and> list_all is_ascii_hexdigit hex then Some (''sha256:'' @ hex) else None)"

definition line_sans :: "string \<Rightarrow> string list" where
  "line_sans trimmed =
    filter (\<lambda>domain. is_ok (validate_domain domain))
      (List.map_filter (\<lambda>item. strip_prefix ''DNS:'' (trim item)) (split_on (CHR '','') trimmed))"

definition last_option :: "'a list \<Rightarrow> 'a option" where
  "last_option xs = (if xs = [] then None else Some (last xs))"

definition parse_x509_output :: "string \<Rightarrow> (ops_error, string \<times> string \<times> string list) result" where
  "parse_x509_output output =
    (let lines = map trim (text_lines output);
         fingerprint = last_option (List.map_filter line_fingerprint lines);
         not_after = last_option (List.map_filter (strip_prefix ''notAfter='') lines);
         sans = concat (map line_sans lines) in
     case (fingerprint, not_after) of
       (Some fp, Some date) \<Rightarrow> if sans \<noteq> [] then Inr (fp, date, sans) else Inl (Rejected ''certificate_invalid'')
     | _ \<Rightarrow> Inl (Rejected ''certificate_invalid''))"

section \<open>Inventory\<close>

definition inspect_lineage ::
    "'h ops_env \<Rightarrow> string \<Rightarrow> (filesystem, ops_error, certificate_summary_view) routine" where
  "inspect_lineage env domain =
    (let paths = oe_paths env; enforce = pa_enforce_root_ownership paths;
         renewal_path = pa_letsencrypt_renewal paths @ [domain @ ''.conf''];
         live = pa_letsencrypt_live paths @ [domain] in
     bindM (validate_regular_file renewal_path enforce (64 * 1024)) (\<lambda>_.
     bindM (fs_io (bindM (open_file renewal_path) read_to_end)) (\<lambda>renewal.
     if \<not> utf8_valid renewal then fail (Filesystem ''io'')
     else
       bindM (validate_directory (pa_letsencrypt_live paths) enforce) (\<lambda>_.
       bindM (validate_directory (pa_letsencrypt_archive paths) enforce) (\<lambda>_.
       bindM (validate_directory live enforce) (\<lambda>_.
       bindM (validate_directory (pa_letsencrypt_archive paths @ [domain]) enforce) (\<lambda>_.
       bindM (validate_lineage_target env domain (live @ [''fullchain.pem'']) False) (\<lambda>_.
       bindM (validate_lineage_target env domain (live @ [''privkey.pem'']) True) (\<lambda>_.
       bindM (inspect_x509 env (live @ [''fullchain.pem''])) (\<lambda>output.
       bindM (liftR (parse_x509_output output)) (\<lambda>(fingerprint, not_after, names).
       let sans = dedup (sort names) in
       if domain \<notin> set sans then fail (Rejected ''certificate_invalid'')
       else
         ret \<lparr> cs_primary_domain = domain, cs_sans = sans, cs_not_after = not_after,
               cs_fingerprint_sha256 = fingerprint,
               cs_certificate_path = ELLIPSIS @ ''/live/'' @ domain @ ''/fullchain.pem'',
               cs_private_key_present = True, cs_renewal_config_present = True,
               cs_webroot_managed =
                 ((\<exists>line \<in> set (text_lines renewal). trim line = ''authenticator = webroot'')
                  \<and> (\<exists>line \<in> set (text_lines renewal).
                       trim line = ''webroot_path = /var/lib/jw-agent/acme-webroot'')) \<rparr>)))))))))))"

text \<open>The names of the renewal directory: the domains, and a problem for every other configuration.\<close>

fun lineage_names ::
    "string list \<Rightarrow> string list \<Rightarrow> string list \<Rightarrow> (filesystem, ops_error, string list \<times> string list) routine" where
  "lineage_names domains problems [] = ret (domains, problems)"
| "lineage_names domains problems (name # names) =
    bindM (fs_io next_entry) (\<lambda>_.
    if \<not> utf8_valid name then lineage_names domains problems names
    else case strip_suffix ''.conf'' name of
      None \<Rightarrow> lineage_names domains problems names
    | Some domain \<Rightarrow>
        if \<not> is_ok (validate_domain domain)
        then lineage_names domains (problems @ [''invalid_renewal_lineage_name'']) names
        else lineage_names (domains @ [domain]) problems names)"

fun inspect_lineages ::
    "'h ops_env \<Rightarrow> certificate_summary_view list \<Rightarrow> string list \<Rightarrow> string list \<Rightarrow>
     (filesystem, ops_error, certificate_summary_view list \<times> string list) routine" where
  "inspect_lineages env certificates problems [] = ret (certificates, problems)"
| "inspect_lineages env certificates problems (domain # domains) =
    attempt (inspect_lineage env domain) (\<lambda>r.
    case r of
      Inr certificate \<Rightarrow> inspect_lineages env (certificates @ [certificate]) problems domains
    | Inl _ \<Rightarrow> inspect_lineages env certificates (problems @ [''certificate_invalid:'' @ domain]) domains)"

definition discover_certificates ::
    "'h ops_env \<Rightarrow> (filesystem, ops_error, certificate_summary_view list \<times> string list) routine" where
  "discover_certificates env =
    (let paths = oe_paths env in
     bindM (fs_io (path_exists (pa_letsencrypt_renewal paths))) (\<lambda>present.
     if \<not> present then ret ([], [])
     else
       bindM (validate_directory (pa_letsencrypt_renewal paths) (pa_enforce_root_ownership paths)) (\<lambda>_.
       bindM (fs_io (read_dir (pa_letsencrypt_renewal paths))) (\<lambda>entries.
       bindM (lineage_names [] [] entries) (\<lambda>(domains, problems).
       inspect_lineages env [] problems (dedup (sort domains)))))))"

record certificate_inventory_view =
  iv_observed_at :: string
  iv_certbot_installed :: bool
  iv_timer_enabled :: bool
  iv_timer_active :: bool
  iv_inventory_digest :: string
  iv_certificates :: "certificate_summary_view list"
  iv_problems :: "string list"
  iv_issue_operation_type :: "string option"
  iv_renew_test_operation_type :: "string option"
  iv_attach_operation_type :: "string option"
  iv_assurance :: assurance_view

definition certificate_assurance ::
    "'h ops_env \<Rightarrow> string \<Rightarrow> assurance_level \<Rightarrow> rollback_support \<Rightarrow> bool \<Rightarrow> assurance_view" where
  "certificate_assurance env key level support available =
    \<lparr> av_level = level, av_rollback_support = support, av_operation_available = available,
      av_scope = env_texts env (key @ ''.scope''),
      av_excluded_effects = env_texts env (key @ ''.excluded_effects''),
      av_apply_verifier = env_texts env (key @ ''.apply_verifier''),
      av_rollback_verifier = env_texts env (key @ ''.rollback_verifier''),
      av_reason = Some (concat (env_texts env (key @ ''.reason''))) \<rparr>"

definition inventory_assurance :: "'h ops_env \<Rightarrow> assurance_view" where
  "inventory_assurance env =
    certificate_assurance env ''inventory_assurance'' G0ObserveOnly NotApplicable False"

definition renew_test_assurance :: "'h ops_env \<Rightarrow> assurance_view" where
  "renew_test_assurance env =
    certificate_assurance env ''renew_test_assurance'' G1VerifiedAction NotGuaranteed True"

definition issue_assurance :: "'h ops_env \<Rightarrow> assurance_view" where
  "issue_assurance env = certificate_assurance env ''issue_assurance'' G1VerifiedAction NotGuaranteed True"

definition attach_assurance :: "'h ops_env \<Rightarrow> assurance_view" where
  "attach_assurance env =
    certificate_assurance env ''attach_assurance'' G2ReversibleConfig AutomaticBounded True"

text \<open>\<^verbatim>\<open>runner.run(class).is_ok_and(|evidence| evidence.success)\<close>.\<close>

definition command_succeeds :: "'h ops_env \<Rightarrow> command_class \<Rightarrow> ('h, bool) engine" where
  "command_succeeds env class' =
    attempt (run_command env class') (\<lambda>r. ret (case r of Inl _ \<Rightarrow> False | Inr evidence \<Rightarrow> ce_success evidence))"

definition observe_certificates :: "'h ops_env \<Rightarrow> int \<Rightarrow> ('h, certificate_inventory_view) engine" where
  "observe_certificates env now_ms =
    bindM (on_files (path_is_file (pa_certbot_executable (oe_paths env)))) (\<lambda>installed.
    bindM (command_succeeds env CertbotTimerEnabled) (\<lambda>timer_enabled.
    bindM (command_succeeds env CertbotTimerActive) (\<lambda>timer_active.
    bindM (on_files (discover_certificates env)) (\<lambda>(certificates, found).
    let problems = dedup (sort (found
          @ (if installed then [] else [''certbot_not_installed''])
          @ (if timer_enabled then [] else [''certbot_timer_disabled''])
          @ (if timer_active then [] else [''certbot_timer_inactive'']))) in
    bindM (liftR (format_time (ledger_env_of env) now_ms)) (\<lambda>observed_at.
    ret \<lparr> iv_observed_at = observed_at, iv_certbot_installed = installed,
          iv_timer_enabled = timer_enabled, iv_timer_active = timer_active,
          iv_inventory_digest = sha256_digest (env_sha256 env) (oc_ser_inventory (oe_codec env)
            \<lparr> id_certbot_installed = installed, id_timer_enabled = timer_enabled,
              id_timer_active = timer_active, id_certificates = certificates, id_problems = problems \<rparr>),
          iv_certificates = certificates, iv_problems = problems, iv_issue_operation_type = None,
          iv_renew_test_operation_type = None, iv_attach_operation_type = None,
          iv_assurance = inventory_assurance env \<rparr>)))))"

section \<open>The client of the certificate daemon\<close>

definition expected_class :: "certbot_command \<Rightarrow> certbot_command_class" where
  "expected_class command =
    (case command of
       Issue _ _ _ environment _ \<Rightarrow> if environment = Staging then IssueStaging else IssueProduction
     | RenewDryRun \<Rightarrow> RenewDryRunClass
     | VerifyLocalTls _ _ \<Rightarrow> VerifyLocalTlsClass)"

definition validate_evidence :: "certbot_command \<Rightarrow> certbot_command_evidence \<Rightarrow> (ops_error, unit) result" where
  "validate_evidence command evidence =
    (if cce_command_class evidence \<noteq> expected_class command
        \<or> \<not> is_ok (validate_digest (cce_stdout_digest evidence))
        \<or> \<not> is_ok (validate_digest (cce_stderr_digest evidence))
        \<or> (cce_success evidence \<and> (cce_timed_out evidence \<or> cce_exit_code evidence \<noteq> Some 0))
     then Inl (Rejected ''certbot_response_invalid'') else Inr ())"

datatype certbot_command_result = CertCompleted certbot_command_evidence | CertRejected string

record certbot_command_response =
  crs_protocol_version :: nat
  crs_request_id :: string
  crs_result :: certbot_command_result

text \<open>
  \<^verbatim>\<open>UdsCertbotRunner::run\<close>, with the random bytes it draws and the exchange on the socket as
  arguments; the exchange fails with a message or returns the decoded response.
\<close>

definition uds_certbot_run ::
    "nat \<Rightarrow> bytes option \<Rightarrow> (certbot_command_request \<Rightarrow> (string, certbot_command_response) result) \<Rightarrow>
     certbot_command \<Rightarrow> int \<Rightarrow> (ops_error, certbot_command_evidence) result" where
  "uds_certbot_run timeout_ms entropy exchange command now_ms =
    bindR (ok_or entropy (Command ''random identifier unavailable'')) (\<lambda>bytes.
    let request_id = hex_bytes bytes in
    if int timeout_ms > i64_max then Inl (Command ''certbot timeout overflow'')
    else
      let request = \<lparr> ccr_protocol_version = IPC_PROTOCOL_VERSION, ccr_request_id = request_id,
            ccr_deadline_unix_ms = sat_add now_ms (int timeout_ms), ccr_command = command \<rparr> in
      bindR (map_err (\<lambda>_. Rejected ''certbot_request_invalid'') (validate_certbot_request now_ms request)) (\<lambda>_.
      bindR (map_err Command (exchange request)) (\<lambda>response.
      if crs_protocol_version response \<noteq> IPC_PROTOCOL_VERSION \<or> crs_request_id response \<noteq> request_id
      then Inl (Rejected ''certbot_response_invalid'')
      else case crs_result response of
        CertRejected _ \<Rightarrow> Inl (Rejected ''certbot_request_rejected'')
      | CertCompleted evidence \<Rightarrow> bindR (validate_evidence command evidence) (\<lambda>_. Inr evidence))))"

end
