(* ===== verification/Engine_Config.thy ===== *)
theory Engine_Config
  imports Managed_Config Engine_Nginx
begin

text \<open>
  The configuration operations of \<^verbatim>\<open>jw-opsd/src/engine.rs\<close>, \<^verbatim>\<open>engine/managed_config_plan.rs\<close> and
  \<^verbatim>\<open>engine/managed_config_rollback.rs\<close>: planning an edit or the restoration of an earlier content, approval,
  execution and rollback.  The body of \<^verbatim>\<open>execute_managed_config\<close> is cut into one definition per phase.
\<close>

section \<open>Planning\<close>

fun remove_plan_proposals :: "'h ops_env \<Rightarrow> stored_plan list \<Rightarrow> ('h, unit) engine" where
  "remove_plan_proposals env [] = ret ()"
| "remove_plan_proposals env (plan # plans) =
    bindM (remove_plan_proposal env plan) (\<lambda>_. remove_plan_proposals env plans)"

definition remove_expired_proposals :: "'h ops_env \<Rightarrow> int \<Rightarrow> ('h, unit) engine" where
  "remove_expired_proposals env now_ms =
    bindM (on_ledger (expired_unexecuted_proposal_plans (ledger_env_of env) now_ms)) (\<lambda>plans.
    remove_plan_proposals env plans)"

definition managed_config_plan_hash :: "'h ops_env \<Rightarrow> stored_plan \<Rightarrow> (ops_error, string) result" where
  "managed_config_plan_hash env plan =
    bindR (ok_or (sp_managed_config plan) ForensicLockdown) (\<lambda>payload.
    bindR (find_adapter env (sp_site_id plan)) (\<lambda>adapter.
    Inr (plan_hash_of env (oc_ser_managed_plan (oe_codec env)
      \<lparr> mh_schema_version = 1, mh_operation_type = sp_operation_type plan, mh_plan_id = sp_plan_id plan,
        mh_created_at_ms = sp_created_at_ms plan, mh_expires_at_ms = sp_expires_at_ms plan,
        mh_actor = sp_actor plan, mh_resource_id = sp_site_id plan, mh_display_name = sp_display_name plan,
        mh_current_content_digest = sp_available_digest plan,
        mh_metadata_digest = sp_enabled_state_digest plan,
        mh_proposed_content_digest = mp_proposed_content_digest payload,
        mh_service_action = service_action_value (mp_service_action payload),
        mh_current_bytes = mp_current_bytes payload, mh_proposed_bytes = mp_proposed_bytes payload,
        mh_added_lines = mp_added_lines payload, mh_removed_lines = mp_removed_lines payload,
        mh_diff_summary = mp_diff_summary payload, mh_resource_key = sp_resource_key plan,
        mh_impact = adapter_impact env adapter, mh_recovery_path = adapter_recovery_path env adapter,
        mh_assurance = sp_assurance plan \<rparr>))))"

record managed_config_plan_view =
  pv_operation_type :: string
  pv_plan_id :: string
  pv_plan_hash :: string
  pv_created_at :: string
  pv_expires_at :: string
  pv_actor :: subject
  pv_adapter_id :: string
  pv_resource_id :: string
  pv_display_name :: string
  pv_masked_path :: string
  pv_current_content_digest :: string
  pv_proposed_content_digest :: string
  pv_metadata_digest :: string
  pv_current_bytes :: nat
  pv_proposed_bytes :: nat
  pv_added_lines :: nat
  pv_removed_lines :: nat
  pv_diff_summary :: "string list"
  pv_service_action :: service_action
  pv_impact :: "string list"
  pv_recovery_path :: "string list"
  pv_assurance :: assurance_view

definition config_plan_view :: "'h ops_env \<Rightarrow> stored_plan \<Rightarrow> (ops_error, managed_config_plan_view) result" where
  "config_plan_view env plan =
    (if \<not> is_managed_config_type (sp_operation_type plan) then Inl (Rejected ''operation_type'')
     else
       bindR (ok_or (sp_managed_config plan) ForensicLockdown) (\<lambda>payload.
       bindR (find_adapter env (sp_site_id plan)) (\<lambda>adapter.
       bindR (format_time (ledger_env_of env) (sp_created_at_ms plan)) (\<lambda>created_at.
       bindR (format_time (ledger_env_of env) (sp_expires_at_ms plan)) (\<lambda>expires_at.
       Inr \<lparr> pv_operation_type = sp_operation_type plan, pv_plan_id = sp_plan_id plan,
             pv_plan_hash = sp_plan_hash plan, pv_created_at = created_at, pv_expires_at = expires_at,
             pv_actor = sp_actor plan, pv_adapter_id = adapter_id adapter, pv_resource_id = sp_site_id plan,
             pv_display_name = sp_display_name plan,
             pv_masked_path = masked_path adapter
               (if is_tree adapter then sp_display_name plan
                else (case mp_basename payload of None \<Rightarrow> sp_display_name plan | Some name \<Rightarrow> name)),
             pv_current_content_digest = sp_available_digest plan,
             pv_proposed_content_digest = mp_proposed_content_digest payload,
             pv_metadata_digest = sp_enabled_state_digest plan,
             pv_current_bytes = mp_current_bytes payload, pv_proposed_bytes = mp_proposed_bytes payload,
             pv_added_lines = mp_added_lines payload, pv_removed_lines = mp_removed_lines payload,
             pv_diff_summary = mp_diff_summary payload, pv_service_action = mp_service_action payload,
             pv_impact = adapter_impact env adapter, pv_recovery_path = adapter_recovery_path env adapter,
             pv_assurance = sp_assurance plan \<rparr>)))))"

text \<open>\<^verbatim>\<open>u32::try_from\<close> on a length.\<close>

definition length_u32 :: "string \<Rightarrow> (ops_error, nat) result" where
  "length_u32 s = (if length s \<le> u32_max then Inr (length s) else Inl (Rejected ''size_limit''))"

record managed_plan_storage =
  mg_plan_id :: string
  mg_proposal :: proposal_record
  mg_operation_type :: string
  mg_request_digest :: string

definition store_managed_config_plan ::
    "'h ops_env \<Rightarrow> subject \<Rightarrow> managed_config_plan_request \<Rightarrow> managed_config_resource \<Rightarrow>
     managed_plan_storage \<Rightarrow> int \<Rightarrow> ('h, stored_plan) engine" where
  "store_managed_config_plan env actor request resource storage now_ms =
    bindM (liftR (plan_ttl_ms env)) (\<lambda>ttl_ms.
    let stats = diff_stats (mr_content resource) (mc_proposed_content request) in
    bindM (liftR (length_u32 (mr_content resource))) (\<lambda>current_bytes.
    bindM (liftR (length_u32 (mc_proposed_content request))) (\<lambda>proposed_bytes.
    let payload =
      \<lparr> mp_proposal_relative_path = pp_relative_path (mg_proposal storage),
        mp_proposal_digest = pp_digest (mg_proposal storage),
        mp_basename = Some (mr_basename resource),
        mp_proposed_content_digest = digest_of env (mc_proposed_content request),
        mp_current_bytes = current_bytes, mp_proposed_bytes = proposed_bytes,
        mp_added_lines = ds_added_lines stats, mp_removed_lines = ds_removed_lines stats,
        mp_diff_summary = ds_summary stats, mp_service_action = mc_service_action request \<rparr>;
      plan =
      \<lparr> sp_operation_type = mg_operation_type storage, sp_plan_id = mg_plan_id storage, sp_plan_hash = [],
        sp_actor = actor, sp_site_id = mr_resource_id resource, sp_display_name = mr_display_name resource,
        sp_current_state = Disabled, sp_target_state = Disabled,
        sp_available_digest = mr_content_digest resource,
        sp_enabled_state_digest = mr_metadata_digest resource,
        sp_created_at_ms = now_ms, sp_expires_at_ms = sat_add now_ms ttl_ms,
        sp_idempotency_key = mc_idempotency_key request, sp_request_digest = mg_request_digest storage,
        sp_resource_key = ''config/'' @ adapter_id (mr_adapter resource) @ ''/'' @ mc_resource_id request,
        sp_assurance = managed_config_assurance env (mr_adapter resource),
        sp_managed_config = Some payload, sp_certbot_renew = None, sp_certbot_issue = None,
        sp_certbot_attach = None, sp_ufw_rule = None \<rparr> in
    bindM (liftR (managed_config_plan_hash env plan)) (\<lambda>plan_hash.
    bindM (open_ledger env) (\<lambda>_.
    on_ledger (create_or_reuse_plan (ledger_env_of env) (plan\<lparr>sp_plan_hash := plan_hash\<rparr>)))))))"

text \<open>The proposal is removed again unless the plan that uses it is the one that was stored.\<close>

definition settle_plan ::
    "'h ops_env \<Rightarrow> string \<Rightarrow> proposal_record \<Rightarrow> ('h, stored_plan) engine \<Rightarrow>
     ('h, managed_config_plan_view) engine" where
  "settle_plan env created_plan_id proposal m =
    attempt m (\<lambda>result.
    bindM (if (case result of Inl _ \<Rightarrow> True | Inr stored \<Rightarrow> sp_plan_id stored \<noteq> created_plan_id)
           then discard (on_files (remove_proposal env proposal)) else ret ()) (\<lambda>_.
    case result of
      Inl e \<Rightarrow> fail e
    | Inr stored \<Rightarrow> bindM (open_ledger env) (\<lambda>_. liftR (config_plan_view env stored))))"

definition plan_managed_config ::
    "'h ops_env \<Rightarrow> subject \<Rightarrow> managed_config_plan_request \<Rightarrow> int \<Rightarrow> ('h, managed_config_plan_view) engine" where
  "plan_managed_config env actor request now_ms =
    bindM (liftR (map_err Rejected (validate_managed_plan request))) (\<lambda>_.
    bindM (open_ledger env) (\<lambda>_.
    bindM (remove_expired_proposals env now_ms) (\<lambda>_.
    bindM (on_files (discover_managed_config env (mc_resource_id request))) (\<lambda>resource.
    if length (mc_proposed_content request) > maximum_bytes (mr_adapter resource)
    then fail (Rejected ''size_limit'')
    else if mr_content_digest resource \<noteq> mc_expected_content_digest request
            \<or> mr_metadata_digest resource \<noteq> mc_expected_metadata_digest request
    then fail (Rejected ''stale_resource'')
    else
      bindM (liftR (validate_managed_config_candidate (mr_adapter resource) (mr_content resource)
               (mc_proposed_content request))) (\<lambda>_.
      bindM (random_id ''plan'') (\<lambda>plan_id.
      bindM (on_files (write_proposal env plan_id (mc_proposed_content request))) (\<lambda>proposal.
      settle_plan env plan_id proposal
        (store_managed_config_plan env actor request resource
          \<lparr> mg_plan_id = plan_id, mg_proposal = proposal, mg_operation_type = MANAGED_CONFIG_OPERATION,
            mg_request_digest = request_digest_of env (oc_ser_managed_request (oe_codec env)
              \<lparr> pd_operation_type = MANAGED_CONFIG_OPERATION, pd_actor = actor, pd_request = request \<rparr>) \<rparr>
          now_ms))))))))"

definition plan_managed_config_restore ::
    "'h ops_env \<Rightarrow> subject \<Rightarrow> restore_plan_request \<Rightarrow> int \<Rightarrow> ('h, managed_config_plan_view) engine" where
  "plan_managed_config_restore env actor request now_ms =
    bindM (liftR (map_err Rejected (validate_restore_plan request))) (\<lambda>_.
    bindM (open_ledger env) (\<lambda>_.
    bindM (do_load env (rs_source_operation_id request)) (\<lambda>source.
    if subj_uid (sp_actor (so_plan source)) \<noteq> subj_uid actor
       \<or> \<not> is_managed_config_type (sp_operation_type (so_plan source))
       \<or> so_stage source \<noteq> Succeeded
    then fail (Rejected ''restore_source_unavailable'')
    else
      bindM (liftR (ok_or (so_snapshot source) (Rejected ''restore_source_unavailable''))) (\<lambda>record.
      bindM (on_files (read_managed_config_snapshot env record)) (\<lambda>snapshot.
      bindM (on_files (discover_managed_config env (ms_resource_id snapshot))) (\<lambda>resource.
      if mr_content_digest resource \<noteq> rs_expected_content_digest request
         \<or> mr_metadata_digest resource \<noteq> rs_expected_metadata_digest request
      then fail (Rejected ''stale_resource'')
      else
        bindM (liftR (validate_managed_config_candidate (mr_adapter resource) (mr_content resource)
                 (ms_content snapshot))) (\<lambda>_.
        bindM (random_id ''plan'') (\<lambda>plan_id.
        bindM (on_files (write_proposal env plan_id (ms_content snapshot))) (\<lambda>proposal.
        settle_plan env plan_id proposal
          (store_managed_config_plan env actor
            \<lparr> mc_schema_version = rs_schema_version request, mc_operation_type = MANAGED_CONFIG_OPERATION,
              mc_resource_id = ms_resource_id snapshot,
              mc_expected_content_digest = rs_expected_content_digest request,
              mc_expected_metadata_digest = rs_expected_metadata_digest request,
              mc_proposed_content = ms_content snapshot, mc_service_action = Reload,
              mc_idempotency_key = rs_idempotency_key request \<rparr>
            resource
            \<lparr> mg_plan_id = plan_id, mg_proposal = proposal,
              mg_operation_type = MANAGED_CONFIG_RESTORE_OPERATION,
              mg_request_digest = request_digest_of env (oc_ser_restore_request (oe_codec env)
                \<lparr> pd_operation_type = MANAGED_CONFIG_RESTORE_OPERATION, pd_actor = actor,
                  pd_request = request \<rparr>) \<rparr>
            now_ms))))))))))"

definition approve_managed_config ::
    "'h ops_env \<Rightarrow> subject \<Rightarrow> string \<Rightarrow> string \<Rightarrow> string \<Rightarrow> approval_intent \<Rightarrow> int \<Rightarrow> ('h, receipt_view) engine" where
  "approve_managed_config env actor plan_id plan_hash idempotency_key intent now_ms =
    bindM (liftR (map_err Rejected (validate_intent intent))) (\<lambda>_.
    bindM (open_ledger env) (\<lambda>_.
    bindM (on_ledger (load_plan (ledger_env_of env) plan_id)) (\<lambda>plan.
    if \<not> is_managed_config_type (sp_operation_type plan) then fail (Rejected ''approval_mismatch'')
    else
      bindM (random_id ''op'') (\<lambda>operation_id.
      attempt (on_ledger (begin_operation (ledger_env_of env) operation_id plan_id plan_hash
               idempotency_key actor now_ms)) (\<lambda>r.
      case r of
        Inr operation \<Rightarrow> do_receipt env (so_operation_id operation)
      | Inl e \<Rightarrow>
          if e = Rejected ''plan_expired''
          then bindM (remove_plan_proposal env plan) (\<lambda>_. fail (Rejected ''plan_expired''))
          else fail e)))))"

definition read_managed_config :: "'h ops_env \<Rightarrow> string \<Rightarrow> ('h, managed_config_resource_view) engine" where
  "read_managed_config env resource_id =
    bindM (on_files (discover_managed_config env resource_id)) (\<lambda>resource.
    ret (resource_view resource (managed_config_assurance env (mr_adapter resource))))"

section \<open>Rollback\<close>

record rollback_evidence =
  rv_cause :: string
  rv_digest :: string
  rv_diagnostics :: "diagnostic_view list"
  rv_command :: "command_evidence option"

definition rollback_evidence_plain :: "string \<Rightarrow> string \<Rightarrow> rollback_evidence" where
  "rollback_evidence_plain cause digest =
    \<lparr> rv_cause = cause, rv_digest = digest, rv_diagnostics = [], rv_command = None \<rparr>"

definition rollback_evidence_command :: "string \<Rightarrow> string \<Rightarrow> command_evidence \<Rightarrow> rollback_evidence" where
  "rollback_evidence_command cause digest command =
    \<lparr> rv_cause = cause, rv_digest = digest, rv_diagnostics = [], rv_command = Some command \<rparr>"

definition diagnostics_and_command ::
    "string \<Rightarrow> string \<Rightarrow> diagnostic_view list \<Rightarrow> command_evidence \<Rightarrow> rollback_evidence" where
  "diagnostics_and_command cause digest diagnostics command =
    \<lparr> rv_cause = cause, rv_digest = digest, rv_diagnostics = diagnostics, rv_command = Some command \<rparr>"

definition do_transition_command ::
    "'h ops_env \<Rightarrow> string \<Rightarrow> stage_change \<Rightarrow> command_evidence \<Rightarrow> ('h, stored_operation) engine" where
  "do_transition_command env operation_id change command =
    on_ledger (transition_with_command_evidence (ledger_env_of env) operation_id change
      (evidence_view_of command))"

text \<open>The four ways of recording why a rollback starts.\<close>

definition record_rollback ::
    "'h ops_env \<Rightarrow> string \<Rightarrow> stage_change \<Rightarrow> rollback_evidence \<Rightarrow> ('h, stored_operation) engine" where
  "record_rollback env operation_id change evidence =
    (case (rv_diagnostics evidence = [], rv_command evidence) of
       (True, None) \<Rightarrow> do_transition env operation_id change
     | (True, Some command) \<Rightarrow> do_transition_command env operation_id change command
     | (False, None) \<Rightarrow>
         on_ledger (transition_with_diagnostics (ledger_env_of env) operation_id change
           (rv_diagnostics evidence))
     | (False, Some command) \<Rightarrow>
         on_ledger (transition_with_diagnostics_and_command (ledger_env_of env) operation_id change
           (rv_diagnostics evidence) (evidence_view_of command)))"

definition enter_config_rollback ::
    "'h ops_env \<Rightarrow> string \<Rightarrow> rollback_evidence \<Rightarrow> int \<Rightarrow> ('h, stored_operation) engine" where
  "enter_config_rollback env operation_id evidence now_ms =
    bindM (do_load env operation_id) (\<lambda>operation.
    if so_stage operation = RollingBack then ret operation
    else record_rollback env operation_id
           (stage_step rollback_stages RollingBack (rv_cause evidence) (rv_digest evidence) None None now_ms)
           evidence)"

text \<open>
  The last step: the restored file has to carry the digests of the snapshot.  The evidence recorded is
  the runtime check, or the configuration test when the service is not reloaded.
\<close>

definition config_rollback_verify ::
    "'h ops_env \<Rightarrow> string \<Rightarrow> managed_config_snapshot \<Rightarrow> managed_config_resource \<Rightarrow> command_evidence \<Rightarrow>
     command_evidence option \<Rightarrow> int \<Rightarrow> ('h, receipt_view) engine" where
  "config_rollback_verify env operation_id snapshot restored config runtime_evidence now_ms =
    (if mr_content_digest restored \<noteq> ms_content_digest snapshot
        \<or> mr_metadata_digest restored \<noteq> ms_metadata_digest snapshot
        \<or> \<not> ce_success config
     then recovery_required env operation_id ''rollback_verify_failed'' now_ms
     else
       let rollback_command = (case runtime_evidence of Some value \<Rightarrow> value | None \<Rightarrow> config) in
       bindM (do_transition_command env operation_id
                (stage_step [RollingBack] RolledBack ''rollback_verified'' (command_digest env rollback_command)
                   (Some (ms_content_digest snapshot)) (Some ''verified'') now_ms)
                rollback_command) (\<lambda>terminal.
       bindM (do_receipt env (so_operation_id terminal)) (\<lambda>receipt.
       bindM (case sp_managed_config (so_plan terminal) of
                None \<Rightarrow> ret ()
              | Some payload \<Rightarrow>
                  discard (on_files (remove_proposal env
                    \<lparr> pp_relative_path = mp_proposal_relative_path payload,
                      pp_digest = mp_proposal_digest payload \<rparr>))) (\<lambda>_.
       ret receipt))))"

text \<open>A reload and a check that the service is active, unless the plan only validates.\<close>

definition config_rollback_runtime ::
    "'h ops_env \<Rightarrow> string \<Rightarrow> managed_config_snapshot \<Rightarrow> managed_config_resource \<Rightarrow> command_evidence \<Rightarrow>
     int \<Rightarrow> ('h, receipt_view) engine" where
  "config_rollback_runtime env operation_id snapshot restored config now_ms =
    attempt (run_command env (adapter_reload (mr_adapter restored))) (\<lambda>r.
    case r of
      Inl _ \<Rightarrow> recovery_required env operation_id ''rollback_reload_failed'' now_ms
    | Inr reload \<Rightarrow>
        if \<not> ce_success reload then recovery_required env operation_id ''rollback_reload_failed'' now_ms
        else
          attempt (run_command env (adapter_active (mr_adapter restored))) (\<lambda>r.
          case r of
            Inl _ \<Rightarrow> recovery_required env operation_id ''rollback_active_failed'' now_ms
          | Inr active \<Rightarrow>
              if \<not> ce_success active then recovery_required env operation_id ''rollback_active_failed'' now_ms
              else config_rollback_verify env operation_id snapshot restored config (Some active) now_ms))"

definition config_rollback_restore ::
    "'h ops_env \<Rightarrow> string \<Rightarrow> stored_operation \<Rightarrow> managed_config_snapshot \<Rightarrow> int \<Rightarrow> ('h, receipt_view) engine" where
  "config_rollback_restore env operation_id rolling snapshot now_ms =
    attempt (restore_managed_config env (ms_resource_id snapshot) (ms_basename snapshot)
             (ms_content snapshot) (ms_mode snapshot) (ms_uid snapshot) (ms_gid snapshot)) (\<lambda>r.
    case r of
      Inl _ \<Rightarrow> recovery_required env operation_id ''rollback_replace_failed'' now_ms
    | Inr restored \<Rightarrow>
        attempt (run_command env (config_test (mr_adapter restored))) (\<lambda>r.
        case r of
          Inl _ \<Rightarrow> recovery_required env operation_id ''rollback_syntax_failed'' now_ms
        | Inr config \<Rightarrow>
            if \<not> managed_config_test_succeeded (mr_adapter restored) config
            then recovery_required env operation_id ''rollback_syntax_failed'' now_ms
            else if (case sp_managed_config (so_plan rolling) of
                       None \<Rightarrow> False | Some payload \<Rightarrow> mp_service_action payload = ValidateOnly)
            then config_rollback_verify env operation_id snapshot restored config None now_ms
            else config_rollback_runtime env operation_id snapshot restored config now_ms))"

definition rollback_managed_config_with_evidence ::
    "'h ops_env \<Rightarrow> string \<Rightarrow> rollback_evidence \<Rightarrow> int \<Rightarrow> ('h, receipt_view) engine" where
  "rollback_managed_config_with_evidence env operation_id evidence now_ms =
    bindM (enter_config_rollback env operation_id evidence now_ms) (\<lambda>rolling.
    case so_snapshot rolling of
      None \<Rightarrow> recovery_required env operation_id ''snapshot_missing'' now_ms
    | Some record \<Rightarrow>
        attempt (on_files (read_managed_config_snapshot env record)) (\<lambda>r.
        case r of
          Inl e \<Rightarrow> recovery_required env operation_id (ops_error_code e) now_ms
        | Inr snapshot \<Rightarrow> config_rollback_restore env operation_id rolling snapshot now_ms))"

definition rollback_managed_config ::
    "'h ops_env \<Rightarrow> string \<Rightarrow> string \<Rightarrow> string \<Rightarrow> int \<Rightarrow> ('h, receipt_view) engine" where
  "rollback_managed_config env operation_id cause cause_evidence_digest now_ms =
    rollback_managed_config_with_evidence env operation_id
      (rollback_evidence_plain cause cause_evidence_digest) now_ms"

section \<open>Execution\<close>

definition cancel_managed_before_apply ::
    "'h ops_env \<Rightarrow> stored_operation \<Rightarrow> string \<Rightarrow> int \<Rightarrow> ('h, receipt_view) engine" where
  "cancel_managed_before_apply env operation result_code now_ms =
    bindM (finish env (so_operation_id operation)
             (stage_step [Approved] CancelledBeforeApply result_code (digest_of env result_code)
                None None now_ms)) (\<lambda>receipt.
    bindM (remove_operation_proposal env operation) (\<lambda>_. ret receipt))"

text \<open>The check of the running service, made only for a reload.\<close>

definition check_active ::
    "'h ops_env \<Rightarrow> service_action \<Rightarrow> managed_config_adapter \<Rightarrow> ('h, (ops_error, command_evidence) result option) engine" where
  "check_active env service_action adapter =
    (if service_action = Reload then attempt (run_command env (adapter_active adapter)) (\<lambda>r. ret (Some r))
     else ret None)"

definition active_verified :: "(ops_error, command_evidence) result option \<Rightarrow> bool" where
  "active_verified active =
    (case active of None \<Rightarrow> True | Some (Inl _) \<Rightarrow> False | Some (Inr evidence) \<Rightarrow> ce_success evidence)"

definition finish_managed_noop ::
    "'h ops_env \<Rightarrow> stored_operation \<Rightarrow> proposal_record \<Rightarrow> managed_config_adapter \<Rightarrow> int \<Rightarrow>
     ('h, receipt_view) engine" where
  "finish_managed_noop env operation proposal adapter now_ms =
    bindM (do_transition env (so_operation_id operation)
             (stage_step [Snapshotted] Verifying ''no_change_required''
                (sp_available_digest (so_plan operation)) None None now_ms)) (\<lambda>_.
    attempt (run_command env (config_test adapter)) (\<lambda>config.
    bindM (liftR (ok_or (sp_managed_config (so_plan operation)) ForensicLockdown)) (\<lambda>payload.
    bindM (check_active env (mp_service_action payload) adapter) (\<lambda>active.
    if \<not> ((case config of Inl _ \<Rightarrow> False | Inr evidence \<Rightarrow> managed_config_test_succeeded adapter evidence)
          \<and> active_verified active)
    then
      bindM (finish env (so_operation_id operation)
               (stage_step [Verifying] CancelledBeforeApply ''preexisting_validation_failed''
                  (digest_of env ''preexisting_validation_failed'') None None now_ms)) (\<lambda>receipt.
      bindM (remove_operation_proposal env operation) (\<lambda>_. ret receipt))
    else
      bindM (liftR (case active of Some result \<Rightarrow> result | None \<Rightarrow> config)) (\<lambda>evidence.
      bindM (finish env (so_operation_id operation)
               (stage_step [Verifying] Succeeded ''verified_noop'' (command_digest env evidence)
                  (Some (sp_available_digest (so_plan operation))) None now_ms)) (\<lambda>receipt.
      bindM (discard (on_files (remove_proposal env proposal))) (\<lambda>_. ret receipt)))))))"

text \<open>The phases from the last to the first.\<close>

definition verify_config ::
    "'h ops_env \<Rightarrow> stored_operation \<Rightarrow> managed_config_plan_payload \<Rightarrow> proposal_record \<Rightarrow> managed_config_resource \<Rightarrow>
     command_evidence \<Rightarrow> string \<Rightarrow> int \<Rightarrow> ('h, receipt_view) engine" where
  "verify_config env snapshotted payload proposal preflight tested verification_digest now_ms =
    (let operation_id = so_operation_id snapshotted; adapter = mr_adapter preflight in
     attempt (on_files (discover_managed_config env (sp_site_id (so_plan snapshotted)))) (\<lambda>read_back.
     let content_verified = (case read_back of
         Inl _ \<Rightarrow> False
       | Inr resource \<Rightarrow> mr_content_digest resource = mp_proposed_content_digest payload
           \<and> mr_metadata_digest resource = sp_enabled_state_digest (so_plan snapshotted)) in
     bindM (check_active env (mp_service_action payload) adapter) (\<lambda>active.
     if \<not> (content_verified \<and> active_verified active)
     then (case active of
         Some (Inr value) \<Rightarrow>
           rollback_managed_config_with_evidence env operation_id
             (rollback_evidence_command ''read_back_failed'' (command_digest env value) value) now_ms
       | Some (Inl _) \<Rightarrow>
           rollback_managed_config env operation_id ''read_back_failed''
             (digest_of env (command_class_str (adapter_active adapter))) now_ms
       | None \<Rightarrow> rollback_managed_config env operation_id ''read_back_failed'' verification_digest now_ms)
     else
       bindM (liftR (case active of Some result \<Rightarrow> result | None \<Rightarrow> Inr tested)) (\<lambda>succeeded_command.
       bindM (do_transition_command env operation_id
                (stage_step [Verifying] Succeeded ''config_verified'' (command_digest env succeeded_command)
                   (Some (mp_proposed_content_digest payload)) None now_ms)
                succeeded_command) (\<lambda>succeeded.
       bindM (do_receipt env (so_operation_id succeeded)) (\<lambda>receipt.
       bindM (discard (on_files (remove_proposal env proposal))) (\<lambda>_. ret receipt)))))))"

definition reload_config ::
    "'h ops_env \<Rightarrow> stored_operation \<Rightarrow> managed_config_plan_payload \<Rightarrow> proposal_record \<Rightarrow> managed_config_resource \<Rightarrow>
     command_evidence \<Rightarrow> int \<Rightarrow> ('h, receipt_view) engine" where
  "reload_config env snapshotted payload proposal preflight tested now_ms =
    (let operation_id = so_operation_id snapshotted; reload_class = adapter_reload (mr_adapter preflight) in
     attempt (run_command env reload_class) (\<lambda>r.
     case r of
       Inl e \<Rightarrow>
         rollback_managed_config env operation_id (command_class_str reload_class @ ''_unavailable'')
           (digest_of env (ops_error_code e)) now_ms
     | Inr reload \<Rightarrow>
         let reload_digest = command_digest env reload in
         if \<not> ce_success reload
         then
           rollback_managed_config_with_evidence env operation_id
             (rollback_evidence_command (command_class_str reload_class @ ''_failed'') reload_digest reload) now_ms
         else
           bindM (do_transition_command env operation_id
                    (stage_step [Reloading] Verifying (reloaded_code (mr_adapter preflight)) reload_digest
                       None None now_ms)
                    reload) (\<lambda>_.
           verify_config env snapshotted payload proposal preflight tested reload_digest now_ms)))"

definition test_config ::
    "'h ops_env \<Rightarrow> stored_operation \<Rightarrow> managed_config_plan_payload \<Rightarrow> proposal_record \<Rightarrow> managed_config_resource \<Rightarrow>
     string \<Rightarrow> int \<Rightarrow> ('h, receipt_view) engine" where
  "test_config env snapshotted payload proposal preflight proposed now_ms =
    (let operation_id = so_operation_id snapshotted; adapter = mr_adapter preflight in
     attempt (run_command env (config_test adapter)) (\<lambda>r.
     case r of
       Inl e \<Rightarrow>
         rollback_managed_config env operation_id (command_class_str (config_test adapter) @ ''_unavailable'')
           (digest_of env (ops_error_code e)) now_ms
     | Inr tested \<Rightarrow>
         let config_digest = command_digest env tested in
         if \<not> managed_config_test_succeeded adapter tested
         then
           rollback_managed_config_with_evidence env operation_id
             (diagnostics_and_command (managed_config_failure_code adapter tested (mr_basename preflight))
                config_digest
                (managed_config_diagnostics env preflight tested
                   (changed_candidate_lines (mr_content preflight) proposed) proposed)
                tested) now_ms
         else
           bindM (do_transition_command env operation_id
                    (stage_step [Validating]
                       (if mp_service_action payload = Reload then Reloading else Verifying)
                       (config_valid_code adapter) config_digest None None now_ms)
                    tested) (\<lambda>_.
           if mp_service_action payload = Reload
           then reload_config env snapshotted payload proposal preflight tested now_ms
           else verify_config env snapshotted payload proposal preflight tested config_digest now_ms)))"

definition apply_config ::
    "'h ops_env \<Rightarrow> stored_operation \<Rightarrow> managed_config_plan_payload \<Rightarrow> proposal_record \<Rightarrow> managed_config_resource \<Rightarrow>
     string \<Rightarrow> int \<Rightarrow> ('h, receipt_view) engine" where
  "apply_config env snapshotted payload proposal preflight proposed now_ms =
    (let operation_id = so_operation_id snapshotted in
     bindM (do_transition env operation_id
              (stage_step [Snapshotted] Applying ''config_apply_started'' (mr_content_digest preflight)
                 None None now_ms)) (\<lambda>_.
     attempt (replace_managed_config env preflight proposed) (\<lambda>r.
     case r of
       Inl e \<Rightarrow>
         rollback_managed_config env operation_id (ops_error_code e) (digest_of env (ops_error_code e)) now_ms
     | Inr applied \<Rightarrow>
         bindM (do_transition env operation_id
                  (stage_step [Applying] Validating ''config_replaced'' (mr_content_digest applied)
                     None None now_ms)) (\<lambda>_.
         test_config env snapshotted payload proposal preflight proposed now_ms))))"

definition config_snapshot :: "managed_config_resource \<Rightarrow> managed_config_snapshot" where
  "config_snapshot preflight =
    \<lparr> ms_schema_version = 1, ms_resource_id = mr_resource_id preflight, ms_basename = mr_basename preflight,
      ms_content = mr_content preflight, ms_content_digest = mr_content_digest preflight,
      ms_metadata_digest = mr_metadata_digest preflight, ms_mode = mr_mode preflight,
      ms_uid = mr_uid preflight, ms_gid = mr_gid preflight \<rparr>"

text \<open>From the proposal to the snapshot; every failure on the way cancels the operation.\<close>

definition prepare_config ::
    "'h ops_env \<Rightarrow> stored_operation \<Rightarrow> managed_config_plan_payload \<Rightarrow> managed_config_resource \<Rightarrow> int \<Rightarrow>
     ('h, receipt_view) engine" where
  "prepare_config env operation payload preflight now_ms =
    (let proposal = \<lparr> pp_relative_path = mp_proposal_relative_path payload,
                      pp_digest = mp_proposal_digest payload \<rparr>;
         cancel = (\<lambda>code. cancel_managed_before_apply env operation code now_ms) in
     attempt (on_files (read_proposal env proposal)) (\<lambda>r.
     case r of
       Inl e \<Rightarrow> cancel (ops_error_code e)
     | Inr proposed \<Rightarrow>
         if digest_of env proposed \<noteq> mp_proposed_content_digest payload
         then cancel ''proposal_digest_mismatch''
         else
           case validate_managed_config_candidate (mr_adapter preflight) (mr_content preflight) proposed of
             Inl e \<Rightarrow> cancel (ops_error_code e)
           | Inr _ \<Rightarrow>
               attempt (on_files (write_managed_config_snapshot env (so_operation_id operation)
                 (config_snapshot preflight))) (\<lambda>r.
               case r of
                 Inl e \<Rightarrow> cancel (ops_error_code e)
               | Inr record \<Rightarrow>
                   bindM (on_ledger (attach_snapshot (ledger_env_of env) (so_operation_id operation)
                            record now_ms)) (\<lambda>snapshotted.
                   if mr_content_digest preflight = mp_proposed_content_digest payload
                   then finish_managed_noop env snapshotted proposal (mr_adapter preflight) now_ms
                   else apply_config env snapshotted payload proposal preflight proposed now_ms))))"

definition execute_managed_config ::
    "'h ops_env \<Rightarrow> stored_operation \<Rightarrow> int \<Rightarrow> ('h, receipt_view) engine" where
  "execute_managed_config env operation now_ms =
    (let plan = so_plan operation;
         cancel = (\<lambda>code. cancel_managed_before_apply env operation code now_ms) in
     bindM (liftR (ok_or (sp_managed_config plan) ForensicLockdown)) (\<lambda>payload.
     attempt (on_files (discover_managed_config env (sp_site_id plan))) (\<lambda>r.
     case r of
       Inl e \<Rightarrow> cancel (ops_error_code e)
     | Inr preflight \<Rightarrow>
         if \<not> (mr_content_digest preflight = sp_available_digest plan
               \<and> mr_metadata_digest preflight = sp_enabled_state_digest plan)
         then cancel ''stale_resource''
         else if mp_service_action payload = ValidateOnly
         then
           attempt (run_command env (adapter_active (mr_adapter preflight))) (\<lambda>active.
           if active_verified (Some active) then cancel ''reload_required_for_active_service''
           else prepare_config env operation payload preflight now_ms)
         else prepare_config env operation payload preflight now_ms)))"

end
