(* ===== verification/Cert_Plans.thy ===== *)
theory Cert_Plans
  imports Certificates Engine_Config
begin

text \<open>
  Planning and approving the three certificate operations of \<^verbatim>\<open>jw-opsd/src/engine.rs\<close>: issuing a
  certificate, testing the renewal, and attaching a certificate to the management site.
\<close>

section \<open>Inventory\<close>

definition certificate_inventory :: "'h ops_env \<Rightarrow> int \<Rightarrow> ('h, certificate_inventory_view) engine" where
  "certificate_inventory env now_ms =
    bindM (observe_certificates env now_ms) (\<lambda>inventory.
    bindM (reading (\<lambda>w. Inr (w_lockdown w))) (\<lambda>lockdown.
    if iv_certbot_installed inventory \<and> \<not> lockdown
    then
      attempt (on_ledger (open_ledger_file (ledger_env_of env))) (\<lambda>opened.
      if is_ok opened
      then
        ret (inventory
          \<lparr> iv_issue_operation_type := Some CERTBOT_ISSUE_OPERATION,
            iv_renew_test_operation_type := Some CERTBOT_RENEW_TEST_OPERATION,
            iv_attach_operation_type := Some CERTBOT_ATTACH_OPERATION,
            iv_assurance := (iv_assurance inventory)
              \<lparr> av_reason := Some (concat (env_texts env ''certificate_inventory.reason'')) \<rparr> \<rparr>)
      else ret inventory)
    else ret inventory))"

section \<open>Hashes and views of the plans\<close>

definition certbot_renew_plan_hash :: "'h ops_env \<Rightarrow> stored_plan \<Rightarrow> (ops_error, string) result" where
  "certbot_renew_plan_hash env plan =
    bindR (ok_or (sp_certbot_renew plan) ForensicLockdown) (\<lambda>payload.
    Inr (plan_hash_of env (oc_ser_renew_plan (oe_codec env)
      \<lparr> rh_schema_version = 1, rh_operation_type = CERTBOT_RENEW_TEST_OPERATION,
        rh_plan_id = sp_plan_id plan, rh_created_at_ms = sp_created_at_ms plan,
        rh_expires_at_ms = sp_expires_at_ms plan, rh_actor = sp_actor plan,
        rh_inventory_digest = crp_inventory_digest payload, rh_timer_enabled = crp_timer_enabled payload,
        rh_timer_active = crp_timer_active payload, rh_certificate_count = crp_certificate_count payload,
        rh_resource_key = sp_resource_key plan, rh_assurance = sp_assurance plan \<rparr>)))"

definition certbot_issue_plan_hash :: "'h ops_env \<Rightarrow> stored_plan \<Rightarrow> (ops_error, string) result" where
  "certbot_issue_plan_hash env plan =
    bindR (ok_or (sp_certbot_issue plan) ForensicLockdown) (\<lambda>payload.
    Inr (plan_hash_of env (oc_ser_issue_plan (oe_codec env)
      \<lparr> ih_schema_version = 1, ih_operation_type = CERTBOT_ISSUE_OPERATION,
        ih_plan_id = sp_plan_id plan, ih_created_at_ms = sp_created_at_ms plan,
        ih_expires_at_ms = sp_expires_at_ms plan, ih_actor = sp_actor plan,
        ih_primary_domain = cip_primary_domain payload, ih_domains = cip_domains payload,
        ih_account_email_digest = cip_account_email_proposal_digest payload,
        ih_masked_account_email = cip_masked_account_email payload,
        ih_environment = cip_environment payload, ih_site_id = cip_site_id payload,
        ih_site_digest = cip_site_digest payload, ih_inventory_digest = cip_inventory_digest payload,
        ih_preflight_observed_at_ms = cip_preflight_observed_at_ms payload,
        ih_resolved_addresses = cip_resolved_addresses payload,
        ih_local_port_80_reachable = cip_local_port_80_reachable payload,
        ih_local_port_443_reachable = cip_local_port_443_reachable payload,
        ih_staging_evidence_valid = cip_staging_evidence_valid payload,
        ih_staging_evidence_key = cip_staging_evidence_key payload,
        ih_resource_key = sp_resource_key plan, ih_assurance = sp_assurance plan \<rparr>)))"

definition certbot_attach_plan_hash :: "'h ops_env \<Rightarrow> stored_plan \<Rightarrow> (ops_error, string) result" where
  "certbot_attach_plan_hash env plan =
    bindR (ok_or (sp_certbot_attach plan) ForensicLockdown) (\<lambda>payload.
    Inr (plan_hash_of env (oc_ser_attach_plan (oe_codec env)
      \<lparr> ah_schema_version = 1, ah_operation_type = CERTBOT_ATTACH_OPERATION,
        ah_plan_id = sp_plan_id plan, ah_created_at_ms = sp_created_at_ms plan,
        ah_expires_at_ms = sp_expires_at_ms plan, ah_actor = sp_actor plan,
        ah_primary_domain = cap_primary_domain payload, ah_site_id = cap_site_id payload,
        ah_site_digest = cap_site_digest payload, ah_metadata_digest = cap_metadata_digest payload,
        ah_inventory_digest = cap_inventory_digest payload,
        ah_certificate_fingerprint = cap_certificate_fingerprint payload, ah_sans = cap_sans payload,
        ah_not_after = cap_not_after payload,
        ah_current_certificate_path = cap_current_certificate_path payload,
        ah_target_certificate_path = cap_target_certificate_path payload,
        ah_proposed_content_digest = cap_proposed_content_digest payload,
        ah_timer_enabled = cap_timer_enabled payload, ah_timer_active = cap_timer_active payload,
        ah_resource_key = sp_resource_key plan, ah_assurance = sp_assurance plan \<rparr>)))"

text \<open>The fields the three plan views share.\<close>

record certificate_plan_head =
  hd_operation_type :: string
  hd_plan_id :: string
  hd_plan_hash :: string
  hd_created_at :: string
  hd_expires_at :: string
  hd_actor :: subject
  hd_impact :: "string list"
  hd_recovery_path :: "string list"
  hd_assurance :: assurance_view

definition plan_head ::
    "'h ops_env \<Rightarrow> string \<Rightarrow> stored_plan \<Rightarrow> (ops_error, certificate_plan_head) result" where
  "plan_head env key plan =
    bindR (format_time (ledger_env_of env) (sp_created_at_ms plan)) (\<lambda>created_at.
    bindR (format_time (ledger_env_of env) (sp_expires_at_ms plan)) (\<lambda>expires_at.
    Inr \<lparr> hd_operation_type = sp_operation_type plan, hd_plan_id = sp_plan_id plan,
          hd_plan_hash = sp_plan_hash plan, hd_created_at = created_at, hd_expires_at = expires_at,
          hd_actor = sp_actor plan, hd_impact = env_texts env (key @ ''_IMPACT''),
          hd_recovery_path = env_texts env (key @ ''_RECOVERY_PATH''),
          hd_assurance = sp_assurance plan \<rparr>))"

record certbot_renew_test_plan_view = certificate_plan_head +
  rw_inventory_digest :: string
  rw_timer_enabled :: bool
  rw_timer_active :: bool
  rw_certificate_count :: nat

definition certbot_renew_plan_view ::
    "'h ops_env \<Rightarrow> stored_plan \<Rightarrow> (ops_error, certbot_renew_test_plan_view) result" where
  "certbot_renew_plan_view env plan =
    (if sp_operation_type plan \<noteq> CERTBOT_RENEW_TEST_OPERATION then Inl (Rejected ''operation_type'')
     else
       bindR (ok_or (sp_certbot_renew plan) ForensicLockdown) (\<lambda>payload.
       bindR (plan_head env ''CERTBOT_RENEW'' plan) (\<lambda>head.
       Inr (certificate_plan_head.extend head
         \<lparr> rw_inventory_digest = crp_inventory_digest payload,
           rw_timer_enabled = crp_timer_enabled payload, rw_timer_active = crp_timer_active payload,
           rw_certificate_count = crp_certificate_count payload \<rparr>))))"

record certbot_issue_plan_view = certificate_plan_head +
  iw_primary_domain :: string
  iw_domains :: "string list"
  iw_masked_account_email :: string
  iw_environment :: certificate_environment
  iw_site_id :: string
  iw_inventory_digest :: string
  iw_site_digest :: string
  iw_resolved_addresses :: "string list"
  iw_local_port_80_reachable :: bool
  iw_local_port_443_reachable :: bool
  iw_staging_evidence_valid :: bool

definition issue_plan_view ::
    "'h ops_env \<Rightarrow> stored_plan \<Rightarrow> (ops_error, certbot_issue_plan_view) result" where
  "issue_plan_view env plan =
    (if sp_operation_type plan \<noteq> CERTBOT_ISSUE_OPERATION then Inl (Rejected ''operation_type'')
     else
       bindR (ok_or (sp_certbot_issue plan) ForensicLockdown) (\<lambda>payload.
       bindR (plan_head env ''CERTBOT_ISSUE'' plan) (\<lambda>head.
       Inr (certificate_plan_head.extend head
         \<lparr> iw_primary_domain = cip_primary_domain payload, iw_domains = cip_domains payload,
           iw_masked_account_email = cip_masked_account_email payload,
           iw_environment = cip_environment payload, iw_site_id = cip_site_id payload,
           iw_inventory_digest = cip_inventory_digest payload, iw_site_digest = cip_site_digest payload,
           iw_resolved_addresses = cip_resolved_addresses payload,
           iw_local_port_80_reachable = cip_local_port_80_reachable payload,
           iw_local_port_443_reachable = cip_local_port_443_reachable payload,
           iw_staging_evidence_valid = cip_staging_evidence_valid payload \<rparr>))))"

record certbot_attach_plan_view = certificate_plan_head +
  aw_primary_domain :: string
  aw_site_id :: string
  aw_site_digest :: string
  aw_inventory_digest :: string
  aw_certificate_fingerprint :: string
  aw_sans :: "string list"
  aw_not_after :: string
  aw_current_certificate_path :: string
  aw_target_certificate_path :: string
  aw_timer_enabled :: bool
  aw_timer_active :: bool

definition attach_plan_view ::
    "'h ops_env \<Rightarrow> stored_plan \<Rightarrow> (ops_error, certbot_attach_plan_view) result" where
  "attach_plan_view env plan =
    (if sp_operation_type plan \<noteq> CERTBOT_ATTACH_OPERATION then Inl (Rejected ''operation_type'')
     else
       bindR (ok_or (sp_certbot_attach plan) ForensicLockdown) (\<lambda>payload.
       bindR (plan_head env ''CERTBOT_ATTACH'' plan) (\<lambda>head.
       Inr (certificate_plan_head.extend head
         \<lparr> aw_primary_domain = cap_primary_domain payload, aw_site_id = cap_site_id payload,
           aw_site_digest = cap_site_digest payload, aw_inventory_digest = cap_inventory_digest payload,
           aw_certificate_fingerprint = cap_certificate_fingerprint payload, aw_sans = cap_sans payload,
           aw_not_after = cap_not_after payload,
           aw_current_certificate_path = cap_current_certificate_path payload,
           aw_target_certificate_path = cap_target_certificate_path payload,
           aw_timer_enabled = cap_timer_enabled payload,
           aw_timer_active = cap_timer_active payload \<rparr>))))"

section \<open>Planning\<close>

text \<open>The plan record with the fields the certificate operations set alike.\<close>

definition certificate_plan ::
    "string \<Rightarrow> string \<Rightarrow> subject \<Rightarrow> string \<Rightarrow> string \<Rightarrow> nginx_site_state \<Rightarrow> string \<Rightarrow> string \<Rightarrow> int \<Rightarrow> int \<Rightarrow>
     string \<Rightarrow> string \<Rightarrow> assurance_view \<Rightarrow> stored_plan" where
  "certificate_plan operation_type plan_id actor site_id display_name state available_digest
      enabled_state_digest now_ms ttl_ms idempotency_key request_digest assurance =
    \<lparr> sp_operation_type = operation_type, sp_plan_id = plan_id, sp_plan_hash = [], sp_actor = actor,
      sp_site_id = site_id, sp_display_name = display_name, sp_current_state = state,
      sp_target_state = state, sp_available_digest = available_digest,
      sp_enabled_state_digest = enabled_state_digest, sp_created_at_ms = now_ms,
      sp_expires_at_ms = sat_add now_ms ttl_ms, sp_idempotency_key = idempotency_key,
      sp_request_digest = request_digest, sp_resource_key = ''certbot/global'', sp_assurance = assurance,
      sp_managed_config = None, sp_certbot_renew = None, sp_certbot_issue = None,
      sp_certbot_attach = None, sp_ufw_rule = None \<rparr>"

definition CERTBOT_STAGING_EVIDENCE_TTL_MS :: int where
  "CERTBOT_STAGING_EVIDENCE_TTL_MS = 24 * 60 * 60 * 1000"

definition require_nginx_healthy :: "'h ops_env \<Rightarrow> ('h, unit) engine" where
  "require_nginx_healthy env =
    bindM (run_command env NginxConfigTest) (\<lambda>nginx_test.
    bindM (run_command env NginxActive) (\<lambda>nginx_active.
    if \<not> ce_success nginx_test \<or> \<not> ce_success nginx_active
    then fail (Rejected ''unsupported_environment'') else ret ()))"

definition staging_key ::
    "'h ops_env \<Rightarrow> certbot_issue_plan_input \<Rightarrow> nginx_site \<Rightarrow> string" where
  "staging_key env input site =
    canonical_digest (env_sha256 env) ''jw-agent/certbot-staging-evidence/v1''
      (oc_ser_staging (oe_codec env)
        \<lparr> sm_domains = issue_domains (cin_request input), sm_site_digest = ns_available_digest site,
          sm_resolved_addresses = pf_resolved_addresses (cin_preflight input) \<rparr>)"

definition issue_payload ::
    "'h ops_env \<Rightarrow> certbot_issue_plan_input \<Rightarrow> nginx_site \<Rightarrow> certificate_inventory_view \<Rightarrow> bool \<Rightarrow>
     proposal_record \<Rightarrow> certbot_issue_plan_payload" where
  "issue_payload env input site inventory staging_evidence_valid proposal =
    (let request = cin_request input; preflight = cin_preflight input in
     \<lparr> cip_primary_domain = ci_primary_domain request, cip_domains = issue_domains request,
       cip_account_email_proposal_relative_path = pp_relative_path proposal,
       cip_account_email_proposal_digest = pp_digest proposal,
       cip_masked_account_email = mask_account_email (ci_account_email request),
       cip_environment = ci_environment request, cip_site_id = ns_site_id site,
       cip_site_digest = ns_available_digest site,
       cip_inventory_digest = iv_inventory_digest inventory,
       cip_preflight_observed_at_ms = pf_observed_at_unix_ms preflight,
       cip_resolved_addresses = pf_resolved_addresses preflight,
       cip_local_port_80_reachable = pf_local_port_80_reachable preflight,
       cip_local_port_443_reachable = pf_local_port_443_reachable preflight,
       cip_staging_evidence_valid = staging_evidence_valid,
       cip_staging_evidence_key = staging_key env input site \<rparr>)"

text \<open>Storing the plan; the proposal with the mail address goes again unless this plan keeps it.\<close>

definition store_issue_plan ::
    "'h ops_env \<Rightarrow> stored_plan \<Rightarrow> proposal_record \<Rightarrow> ('h, certbot_issue_plan_view) engine" where
  "store_issue_plan env plan proposal =
    attempt (bindM (open_ledger env) (\<lambda>_.
             bindM (on_ledger (create_or_reuse_plan (ledger_env_of env) plan)) (\<lambda>stored.
             bindM (liftR (issue_plan_view env stored)) (\<lambda>view. ret (sp_plan_id stored, view))))) (\<lambda>result.
    case result of
      Inr (stored_plan_id, view) \<Rightarrow>
        bindM (if stored_plan_id \<noteq> sp_plan_id plan
               then discard (on_files (remove_proposal env proposal)) else ret ()) (\<lambda>_. ret view)
    | Inl e \<Rightarrow> bindM (discard (on_files (remove_proposal env proposal))) (\<lambda>_. fail e))"

definition plan_certbot_issue ::
    "'h ops_env \<Rightarrow> subject \<Rightarrow> certbot_issue_plan_input \<Rightarrow> int \<Rightarrow> ('h, certbot_issue_plan_view) engine" where
  "plan_certbot_issue env actor input now_ms =
    (let request = cin_request input in
     bindM (open_ledger env) (\<lambda>_.
     bindM (remove_expired_proposals env now_ms) (\<lambda>_.
     bindM (on_files (validate_issue_preconditions env input now_ms)) (\<lambda>site.
     bindM (certificate_inventory env now_ms) (\<lambda>inventory.
     if \<not> iv_certbot_installed inventory then fail (Rejected ''unsupported_environment'')
     else if iv_inventory_digest inventory \<noteq> ci_expected_inventory_digest request
     then fail (Rejected ''stale_inventory'')
     else
       bindM (require_nginx_healthy env) (\<lambda>_.
       bindM (open_ledger env) (\<lambda>_.
       bindM (on_ledger (has_recent_staging_evidence (ledger_env_of env) (staging_key env input site)
                (sat_sub now_ms CERTBOT_STAGING_EVIDENCE_TTL_MS))) (\<lambda>staging_evidence_valid.
       if ci_environment request = Production \<and> \<not> staging_evidence_valid
       then fail (Rejected ''staging_required'')
       else
         bindM (liftR (plan_ttl_ms env)) (\<lambda>ttl_ms.
         bindM (random_id ''plan'') (\<lambda>plan_id.
         bindM (on_files (write_proposal env plan_id (ci_account_email request))) (\<lambda>proposal.
         let plan = (certificate_plan CERTBOT_ISSUE_OPERATION plan_id actor (ns_site_id site)
               (ci_primary_domain request) Disabled (iv_inventory_digest inventory)
               (iv_inventory_digest inventory) now_ms ttl_ms (ci_idempotency_key request)
               (request_digest_of env (oc_ser_issue_request (oe_codec env)
                 \<lparr> pd_operation_type = CERTBOT_ISSUE_OPERATION, pd_actor = actor, pd_request = input \<rparr>))
               (issue_assurance env))
             \<lparr>sp_certbot_issue := Some (issue_payload env input site inventory staging_evidence_valid proposal)\<rparr> in
         bindM (liftR (certbot_issue_plan_hash env plan)) (\<lambda>plan_hash.
         store_issue_plan env (plan\<lparr>sp_plan_hash := plan_hash\<rparr>) proposal))))))))))))"

definition RENEWAL_SITE :: string where
  "RENEWAL_SITE = ''certbot-renewal''"

definition RENEWAL_DISPLAY_NAME :: string where
  "RENEWAL_DISPLAY_NAME = ''Certbot '' @
    [CHR 0xEA, CHR 0xB0, CHR 0xB1, CHR 0xEC, CHR 0x8B, CHR 0xA0, CHR '' '', CHR 0xEC, CHR 0x82, CHR 0xAC,
     CHR 0xEC, CHR 0xA0, CHR 0x84, CHR '' '', CHR 0xEA, CHR 0xB2, CHR 0x80, CHR 0xEC, CHR 0xA6, CHR 0x9D]"

definition certificate_count :: "certificate_inventory_view \<Rightarrow> (ops_error, nat) result" where
  "certificate_count inventory =
    (if length (iv_certificates inventory) \<le> u32_max then Inr (length (iv_certificates inventory))
     else Inl (Rejected ''certificate_inventory_too_large''))"

definition plan_certbot_renew_test ::
    "'h ops_env \<Rightarrow> subject \<Rightarrow> certbot_renew_test_plan_request \<Rightarrow> int \<Rightarrow>
     ('h, certbot_renew_test_plan_view) engine" where
  "plan_certbot_renew_test env actor request now_ms =
    bindM (liftR (map_err Rejected (validate_renew_plan request))) (\<lambda>_.
    bindM (certificate_inventory env now_ms) (\<lambda>inventory.
    if \<not> iv_certbot_installed inventory then fail (Rejected ''unsupported_environment'')
    else if iv_inventory_digest inventory \<noteq> crt_expected_inventory_digest request
    then fail (Rejected ''stale_inventory'')
    else
      bindM (liftR (certificate_count inventory)) (\<lambda>count.
      bindM (liftR (plan_ttl_ms env)) (\<lambda>ttl_ms.
      bindM (random_id ''plan'') (\<lambda>plan_id.
      let plan = (certificate_plan CERTBOT_RENEW_TEST_OPERATION plan_id actor RENEWAL_SITE
            RENEWAL_DISPLAY_NAME Disabled (iv_inventory_digest inventory) (iv_inventory_digest inventory)
            now_ms ttl_ms (crt_idempotency_key request)
            (request_digest_of env (oc_ser_renew_request (oe_codec env)
              \<lparr> pd_operation_type = CERTBOT_RENEW_TEST_OPERATION, pd_actor = actor, pd_request = request \<rparr>))
            (renew_test_assurance env))
          \<lparr>sp_certbot_renew := Some
            \<lparr> crp_inventory_digest = iv_inventory_digest inventory,
              crp_timer_enabled = iv_timer_enabled inventory, crp_timer_active = iv_timer_active inventory,
              crp_certificate_count = count \<rparr>\<rparr> in
      bindM (liftR (certbot_renew_plan_hash env plan)) (\<lambda>plan_hash.
      bindM (open_ledger env) (\<lambda>_.
      bindM (on_ledger (create_or_reuse_plan (ledger_env_of env) (plan\<lparr>sp_plan_hash := plan_hash\<rparr>))) (\<lambda>stored.
      liftR (certbot_renew_plan_view env stored)))))))))"

definition attach_payload ::
    "certbot_attach_plan_request \<Rightarrow> tls_attachment_resource \<Rightarrow> certificate_inventory_view \<Rightarrow>
     certificate_summary_view \<Rightarrow> certbot_attach_plan_payload" where
  "attach_payload request attachment inventory certificate =
    \<lparr> cap_primary_domain = cat_primary_domain request, cap_site_id = cat_site_id request,
      cap_site_digest = mr_content_digest (ta_config attachment),
      cap_metadata_digest = mr_metadata_digest (ta_config attachment),
      cap_inventory_digest = iv_inventory_digest inventory,
      cap_certificate_fingerprint = cs_fingerprint_sha256 certificate,
      cap_sans = cs_sans certificate, cap_not_after = cs_not_after certificate,
      cap_current_certificate_path = ta_current_certificate_path attachment,
      cap_target_certificate_path = ta_target_certificate_path attachment,
      cap_proposed_content_digest = ta_proposed_content_digest attachment,
      cap_timer_enabled = iv_timer_enabled inventory, cap_timer_active = iv_timer_active inventory \<rparr>"

definition attachable ::
    "certbot_attach_plan_request \<Rightarrow> certificate_summary_view \<Rightarrow> bool" where
  "attachable request certificate =
    (cs_fingerprint_sha256 certificate = cat_expected_certificate_fingerprint request
     \<and> cs_private_key_present certificate \<and> cs_renewal_config_present certificate
     \<and> cs_webroot_managed certificate \<and> cat_primary_domain request \<in> set (cs_sans certificate))"

definition plan_certbot_attach ::
    "'h ops_env \<Rightarrow> subject \<Rightarrow> certbot_attach_plan_request \<Rightarrow> int \<Rightarrow> ('h, certbot_attach_plan_view) engine" where
  "plan_certbot_attach env actor request now_ms =
    bindM (liftR (map_err Rejected (validate_attach_plan request))) (\<lambda>_.
    bindM (certificate_inventory env now_ms) (\<lambda>inventory.
    if iv_inventory_digest inventory \<noteq> cat_expected_inventory_digest request
    then fail (Rejected ''stale_inventory'')
    else if \<not> iv_certbot_installed inventory \<or> \<not> iv_timer_enabled inventory \<or> \<not> iv_timer_active inventory
    then fail (Rejected ''unsupported_environment'')
    else
      bindM (liftR (ok_or (List.find (\<lambda>c. cs_primary_domain c = cat_primary_domain request)
               (iv_certificates inventory)) (Rejected ''certificate_invalid''))) (\<lambda>certificate.
      if \<not> attachable request certificate then fail (Rejected ''certificate_invalid'')
      else
        bindM (on_files (prepare_tls_attachment env (cat_primary_domain request) (cat_site_id request)
                 (cat_expected_site_digest request))) (\<lambda>attachment.
        bindM (require_nginx_healthy env) (\<lambda>_.
        bindM (liftR (plan_ttl_ms env)) (\<lambda>ttl_ms.
        bindM (random_id ''plan'') (\<lambda>plan_id.
        let plan = (certificate_plan CERTBOT_ATTACH_OPERATION plan_id actor (cat_site_id request)
              (cat_primary_domain request) Enabled (mr_content_digest (ta_config attachment))
              (mr_metadata_digest (ta_config attachment)) now_ms ttl_ms (cat_idempotency_key request)
              (request_digest_of env (oc_ser_attach_request (oe_codec env)
                \<lparr> pd_operation_type = CERTBOT_ATTACH_OPERATION, pd_actor = actor, pd_request = request \<rparr>))
              (attach_assurance env))
            \<lparr>sp_certbot_attach := Some (attach_payload request attachment inventory certificate)\<rparr> in
        bindM (liftR (certbot_attach_plan_hash env plan)) (\<lambda>plan_hash.
        bindM (open_ledger env) (\<lambda>_.
        bindM (on_ledger (create_or_reuse_plan (ledger_env_of env) (plan\<lparr>sp_plan_hash := plan_hash\<rparr>))) (\<lambda>stored.
        liftR (attach_plan_view env stored)))))))))))"

section \<open>Approval\<close>

definition approve_certbot_issue ::
    "'h ops_env \<Rightarrow> subject \<Rightarrow> string \<Rightarrow> string \<Rightarrow> string \<Rightarrow> bool \<Rightarrow> bool \<Rightarrow> int \<Rightarrow> ('h, receipt_view) engine" where
  "approve_certbot_issue env actor plan_id plan_hash idempotency_key external_effect_confirmed
      local_attach_deferred_confirmed now_ms =
    (if \<not> external_effect_confirmed then fail (Rejected ''external_effect_confirmation'')
     else if \<not> local_attach_deferred_confirmed then fail (Rejected ''local_attach_deferred_confirmation'')
     else
       bindM (open_ledger env) (\<lambda>_.
       bindM (on_ledger (load_plan (ledger_env_of env) plan_id)) (\<lambda>plan.
       if sp_operation_type plan \<noteq> CERTBOT_ISSUE_OPERATION then fail (Rejected ''approval_mismatch'')
       else
         bindM (liftR (ok_or (sp_certbot_issue plan) ForensicLockdown)) (\<lambda>payload.
         if sat_sub now_ms (cip_preflight_observed_at_ms payload) > 60000
         then fail (Rejected ''preflight_stale'')
         else
           bindM (random_id ''op'') (\<lambda>operation_id.
           bindM (on_ledger (begin_operation (ledger_env_of env) operation_id plan_id plan_hash
                    idempotency_key actor now_ms)) (\<lambda>operation.
           do_receipt env (so_operation_id operation)))))))"

definition approve_certbot_renew_test ::
    "'h ops_env \<Rightarrow> subject \<Rightarrow> string \<Rightarrow> string \<Rightarrow> string \<Rightarrow> bool \<Rightarrow> int \<Rightarrow> ('h, receipt_view) engine" where
  "approve_certbot_renew_test env actor plan_id plan_hash idempotency_key external_effect_confirmed now_ms =
    (if \<not> external_effect_confirmed then fail (Rejected ''external_effect_confirmation'')
     else approve_plan env CERTBOT_RENEW_TEST_OPERATION actor plan_id plan_hash idempotency_key now_ms)"

definition approve_certbot_attach ::
    "'h ops_env \<Rightarrow> subject \<Rightarrow> string \<Rightarrow> string \<Rightarrow> string \<Rightarrow> bool \<Rightarrow> bool \<Rightarrow> int \<Rightarrow> ('h, receipt_view) engine" where
  "approve_certbot_attach env actor plan_id plan_hash idempotency_key config_replace_confirmed
      service_reload_confirmed now_ms =
    (if \<not> config_replace_confirmed then fail (Rejected ''config_replace_confirmation'')
     else if \<not> service_reload_confirmed then fail (Rejected ''service_reload_confirmation'')
     else approve_plan env CERTBOT_ATTACH_OPERATION actor plan_id plan_hash idempotency_key now_ms)"

end
