(* ===== verification/Engine_Cert.thy ===== *)
theory Engine_Cert
  imports Cert_Plans
begin

text \<open>
  Executing the three certificate operations of \<^verbatim>\<open>jw-opsd/src/engine.rs\<close>.  Issuing and the renewal test
  have effects outside the host and end in the stage \<^const>\<open>Stage_Rejected\<close> when they fail; attaching a
  certificate rewrites the management site and rolls back.
\<close>

section \<open>Common parts\<close>

definition certbot_command_digest :: "'h ops_env \<Rightarrow> certbot_command_evidence \<Rightarrow> string" where
  "certbot_command_digest env evidence =
    canonical_digest (env_sha256 env) ''jw-agent/certbot-command-evidence/v1''
      (oc_ser_certbot_evidence (oe_codec env) evidence)"

text \<open>A terminal transition, the receipt, and the removal of the proposal.\<close>

definition finish_and_clean ::
    "'h ops_env \<Rightarrow> string \<Rightarrow> stage_change \<Rightarrow> ('h, receipt_view) engine" where
  "finish_and_clean env operation_id change =
    bindM (do_transition env operation_id change) (\<lambda>terminal.
    bindM (do_receipt env (so_operation_id terminal)) (\<lambda>receipt.
    bindM (remove_operation_proposal env terminal) (\<lambda>_. ret receipt)))"

definition cancel_certbot_before_apply ::
    "'h ops_env \<Rightarrow> stored_operation \<Rightarrow> string \<Rightarrow> int \<Rightarrow> ('h, receipt_view) engine" where
  "cancel_certbot_before_apply env operation reason now_ms =
    finish_and_clean env (so_operation_id operation)
      (stage_step [Approved] CancelledBeforeApply reason (digest_of env reason) None None now_ms)"

definition reject_certbot_execution ::
    "'h ops_env \<Rightarrow> string \<Rightarrow> operation_stage \<Rightarrow> string \<Rightarrow> string \<Rightarrow> int \<Rightarrow> ('h, receipt_view) engine" where
  "reject_certbot_execution env operation_id expected reason evidence_digest now_ms =
    finish_and_clean env operation_id
      (stage_step [expected] Stage_Rejected reason evidence_digest None None now_ms)"

definition certificate_snapshot ::
    "certificate_inventory_view \<Rightarrow> (ops_error, certificate_inventory_snapshot) result" where
  "certificate_snapshot inventory =
    bindR (certificate_count inventory) (\<lambda>count.
    Inr \<lparr> certificate_inventory_snapshot.ci_schema_version = 1,
          ci_inventory_digest = iv_inventory_digest inventory,
          ci_timer_enabled = iv_timer_enabled inventory, ci_timer_active = iv_timer_active inventory,
          ci_certificate_count = count \<rparr>)"

text \<open>The snapshot of the inventory and the step to \<^const>\<open>Applying\<close>; a failed write cancels.\<close>

definition start_certbot ::
    "'h ops_env \<Rightarrow> stored_operation \<Rightarrow> certificate_inventory_view \<Rightarrow> string \<Rightarrow> int \<Rightarrow>
     (stored_operation \<Rightarrow> ('h, receipt_view) engine) \<Rightarrow> ('h, receipt_view) engine" where
  "start_certbot env operation inventory started_code now_ms continue =
    bindM (liftR (certificate_snapshot inventory)) (\<lambda>snapshot.
    attempt (on_files (write_certificate_inventory_snapshot env (so_operation_id operation) snapshot)) (\<lambda>r.
    case r of
      Inl e \<Rightarrow> cancel_certbot_before_apply env operation (ops_error_code e) now_ms
    | Inr record \<Rightarrow>
        bindM (on_ledger (attach_snapshot (ledger_env_of env) (so_operation_id operation) record now_ms))
          (\<lambda>snapshotted.
        bindM (do_transition env (so_operation_id operation)
                 (stage_step [Snapshotted] Applying started_code (sn_digest record) None None now_ms)) (\<lambda>_.
        continue snapshotted))))"

section \<open>Issuing\<close>

definition issue_verified :: "certbot_issue_plan_payload \<Rightarrow> certificate_inventory_view \<Rightarrow> bool" where
  "issue_verified payload read_back =
    (case cip_environment payload of
       Staging \<Rightarrow> iv_inventory_digest read_back = cip_inventory_digest payload
     | Production \<Rightarrow>
         (case List.find (\<lambda>c. cs_primary_domain c = cip_primary_domain payload) (iv_certificates read_back) of
            None \<Rightarrow> False
          | Some certificate \<Rightarrow> cs_sans certificate = cip_domains payload \<and> cs_webroot_managed certificate)
         \<and> iv_timer_enabled read_back \<and> iv_timer_active read_back)"

definition verify_issue ::
    "'h ops_env \<Rightarrow> string \<Rightarrow> certbot_issue_plan_payload \<Rightarrow> int \<Rightarrow> ('h, receipt_view) engine" where
  "verify_issue env operation_id payload now_ms =
    attempt (certificate_inventory env now_ms) (\<lambda>r.
    case r of
      Inl e \<Rightarrow>
        reject_certbot_execution env operation_id Validating ''certificate_invalid''
          (digest_of env (ops_error_code e)) now_ms
    | Inr read_back \<Rightarrow>
        if \<not> issue_verified payload read_back
        then reject_certbot_execution env operation_id Validating ''certificate_invalid''
               (iv_inventory_digest read_back) now_ms
        else
          finish_and_clean env operation_id
            (stage_step [Validating] Succeeded
               (if cip_environment payload = Staging then ''staging_challenge_verified''
                else ''production_certificate_verified'')
               (iv_inventory_digest read_back) (Some (iv_inventory_digest read_back)) None now_ms))"

definition run_issue ::
    "'h ops_env \<Rightarrow> string \<Rightarrow> certbot_issue_plan_payload \<Rightarrow> string \<Rightarrow> int \<Rightarrow> stored_operation \<Rightarrow>
     ('h, receipt_view) engine" where
  "run_issue env operation_id payload account_email now_ms snapshotted =
    attempt (run_certbot env (Issue (cip_primary_domain payload) (cip_domains payload) account_email
             (cip_environment payload) True) now_ms) (\<lambda>r.
    case r of
      Inl e \<Rightarrow>
        reject_certbot_execution env (so_operation_id snapshotted) Applying ''issuance_unavailable''
          (digest_of env (ops_error_code e)) now_ms
    | Inr evidence \<Rightarrow>
        bindM (do_transition env operation_id
                 (stage_step [Applying] Validating
                    (if cce_success evidence then ''certbot_issue_command_completed''
                     else ''certbot_issue_command_failed'')
                    (certbot_command_digest env evidence) None None now_ms)) (\<lambda>_.
        if \<not> cce_success evidence
        then reject_certbot_execution env operation_id Validating ''issuance_failed''
               (certbot_command_digest env evidence) now_ms
        else verify_issue env operation_id payload now_ms))"

definition prepare_issue ::
    "'h ops_env \<Rightarrow> stored_operation \<Rightarrow> certbot_issue_plan_payload \<Rightarrow> string \<Rightarrow> int \<Rightarrow> ('h, receipt_view) engine" where
  "prepare_issue env operation payload account_email now_ms =
    (let cancel = (\<lambda>reason. cancel_certbot_before_apply env operation reason now_ms) in
     attempt (on_files (validate_issue_site env (cip_site_id payload) (cip_site_digest payload)
              (cip_domains payload))) (\<lambda>r.
     if \<not> is_ok r then cancel ''precondition_changed''
     else
       attempt (certificate_inventory env now_ms) (\<lambda>r.
       case r of
         Inl e \<Rightarrow> cancel (ops_error_code e)
       | Inr inventory \<Rightarrow>
           if \<not> iv_certbot_installed inventory
              \<or> iv_inventory_digest inventory \<noteq> cip_inventory_digest payload
           then cancel ''precondition_changed''
           else
             start_certbot env operation inventory
               (if cip_environment payload = Staging then ''certbot_staging_dry_run_started''
                else ''certbot_production_issue_started'') now_ms
               (run_issue env (so_operation_id operation) payload account_email now_ms))))"

definition execute_certbot_issue ::
    "'h ops_env \<Rightarrow> stored_operation \<Rightarrow> int \<Rightarrow> ('h, receipt_view) engine" where
  "execute_certbot_issue env operation now_ms =
    bindM (liftR (ok_or (sp_certbot_issue (so_plan operation)) ForensicLockdown)) (\<lambda>payload.
    attempt (on_files (read_proposal env
      \<lparr> pp_relative_path = cip_account_email_proposal_relative_path payload,
        pp_digest = cip_account_email_proposal_digest payload \<rparr>)) (\<lambda>r.
    case r of
      Inl e \<Rightarrow> cancel_certbot_before_apply env operation (ops_error_code e) now_ms
    | Inr account_email \<Rightarrow>
        bindM (if cip_environment payload = Production
               then on_ledger (has_recent_staging_evidence (ledger_env_of env)
                      (cip_staging_evidence_key payload) (sat_sub now_ms CERTBOT_STAGING_EVIDENCE_TTL_MS))
               else ret True) (\<lambda>staged.
        if \<not> staged then cancel_certbot_before_apply env operation ''staging_required'' now_ms
        else prepare_issue env operation payload account_email now_ms)))"

section \<open>Testing the renewal\<close>

definition verify_renew :: "'h ops_env \<Rightarrow> string \<Rightarrow> int \<Rightarrow> ('h, receipt_view) engine" where
  "verify_renew env operation_id now_ms =
    attempt (certificate_inventory env now_ms) (\<lambda>r.
    case r of
      Inl e \<Rightarrow>
        reject_certbot_execution env operation_id Validating ''renewal_read_back_failed''
          (digest_of env (ops_error_code e)) now_ms
    | Inr read_back \<Rightarrow>
        if \<not> iv_certbot_installed read_back \<or> \<not> iv_timer_enabled read_back \<or> \<not> iv_timer_active read_back
        then reject_certbot_execution env operation_id Validating ''renewal_timer_unhealthy''
               (iv_inventory_digest read_back) now_ms
        else
          finish_and_clean env operation_id
            (stage_step [Validating] Succeeded ''renewal_test_verified'' (iv_inventory_digest read_back)
               (Some (iv_inventory_digest read_back)) None now_ms))"

definition run_renew ::
    "'h ops_env \<Rightarrow> string \<Rightarrow> int \<Rightarrow> stored_operation \<Rightarrow> ('h, receipt_view) engine" where
  "run_renew env operation_id now_ms snapshotted =
    attempt (run_certbot env RenewDryRun now_ms) (\<lambda>r.
    case r of
      Inl e \<Rightarrow>
        reject_certbot_execution env (so_operation_id snapshotted) Applying ''renewal_test_unavailable''
          (digest_of env (ops_error_code e)) now_ms
    | Inr evidence \<Rightarrow>
        bindM (do_transition env operation_id
                 (stage_step [Applying] Validating
                    (if cce_success evidence then ''certbot_renew_dry_run_completed''
                     else ''certbot_renew_dry_run_failed'')
                    (certbot_command_digest env evidence) None None now_ms)) (\<lambda>_.
        if \<not> cce_success evidence
        then reject_certbot_execution env operation_id Validating ''renewal_test_failed''
               (certbot_command_digest env evidence) now_ms
        else verify_renew env operation_id now_ms))"

definition execute_certbot_renew_test ::
    "'h ops_env \<Rightarrow> stored_operation \<Rightarrow> int \<Rightarrow> ('h, receipt_view) engine" where
  "execute_certbot_renew_test env operation now_ms =
    bindM (liftR (ok_or (sp_certbot_renew (so_plan operation)) ForensicLockdown)) (\<lambda>payload.
    attempt (certificate_inventory env now_ms) (\<lambda>r.
    case r of
      Inl e \<Rightarrow> cancel_certbot_before_apply env operation (ops_error_code e) now_ms
    | Inr inventory \<Rightarrow>
        if \<not> iv_certbot_installed inventory \<or> iv_inventory_digest inventory \<noteq> crp_inventory_digest payload
        then cancel_certbot_before_apply env operation ''precondition_changed'' now_ms
        else
          start_certbot env operation inventory ''certbot_renew_dry_run_started'' now_ms
            (run_renew env (so_operation_id operation) now_ms)))"

section \<open>Attaching a certificate\<close>

definition attach_rollback_restore ::
    "'h ops_env \<Rightarrow> string \<Rightarrow> managed_config_snapshot \<Rightarrow> int \<Rightarrow> ('h, receipt_view) engine" where
  "attach_rollback_restore env operation_id snapshot now_ms =
    attempt (restore_protected_config env (ms_resource_id snapshot) (ms_basename snapshot)
             (ms_content snapshot) (ms_mode snapshot) (ms_uid snapshot) (ms_gid snapshot)) (\<lambda>r.
    case r of
      Inl _ \<Rightarrow> recovery_required env operation_id ''rollback_replace_failed'' now_ms
    | Inr restored \<Rightarrow>
        bindM (command_succeeds env NginxConfigTest) (\<lambda>config.
        bindM (command_succeeds env NginxReload) (\<lambda>reload.
        attempt (run_command env NginxActive) (\<lambda>active.
        case active of
          Inl _ \<Rightarrow> recovery_required env operation_id ''rollback_verify_failed'' now_ms
        | Inr evidence \<Rightarrow>
            if \<not> (mr_content_digest restored = ms_content_digest snapshot
                  \<and> mr_metadata_digest restored = ms_metadata_digest snapshot
                  \<and> config \<and> reload \<and> ce_success evidence)
            then recovery_required env operation_id ''rollback_verify_failed'' now_ms
            else
              finish env operation_id
                (stage_step [RollingBack] RolledBack ''rollback_verified'' (command_digest env evidence)
                   (Some (ms_content_digest snapshot)) (Some ''verified'') now_ms)))))"

definition rollback_certbot_attach ::
    "'h ops_env \<Rightarrow> string \<Rightarrow> string \<Rightarrow> string \<Rightarrow> int \<Rightarrow> ('h, receipt_view) engine" where
  "rollback_certbot_attach env operation_id cause cause_evidence_digest now_ms =
    bindM (enter_rollback env rollback_stages operation_id cause cause_evidence_digest now_ms) (\<lambda>rolling.
    case so_snapshot rolling of
      None \<Rightarrow> recovery_required env operation_id ''snapshot_missing'' now_ms
    | Some record \<Rightarrow>
        attempt (on_files (read_managed_config_snapshot env record)) (\<lambda>r.
        case r of
          Inl e \<Rightarrow> recovery_required env operation_id (ops_error_code e) now_ms
        | Inr snapshot \<Rightarrow> attach_rollback_restore env operation_id snapshot now_ms))"

definition attached_certificate :: "certbot_attach_plan_payload \<Rightarrow> certificate_inventory_view \<Rightarrow> bool" where
  "attached_certificate payload inventory =
    (iv_inventory_digest inventory = cap_inventory_digest payload
     \<and> iv_timer_enabled inventory \<and> iv_timer_active inventory
     \<and> (\<exists>c \<in> set (iv_certificates inventory). cs_primary_domain c = cap_primary_domain payload
          \<and> cs_fingerprint_sha256 c = cap_certificate_fingerprint payload \<and> cs_webroot_managed c))"

text \<open>All four observations are made before they are judged.\<close>

definition verify_certbot_attach ::
    "'h ops_env \<Rightarrow> stored_operation \<Rightarrow> certbot_attach_plan_payload \<Rightarrow> int \<Rightarrow> ('h, receipt_view) engine" where
  "verify_certbot_attach env operation payload now_ms =
    (let operation_id = so_operation_id operation in
     attempt (on_files (discover_protected_config env (cap_site_id payload))) (\<lambda>config.
     bindM (command_succeeds env NginxActive) (\<lambda>active.
     attempt (certificate_inventory env now_ms) (\<lambda>inventory.
     attempt (run_certbot env (VerifyLocalTls (cap_primary_domain payload)
              (cap_certificate_fingerprint payload)) now_ms) (\<lambda>tls.
     let content_verified = (case config of
           Inl _ \<Rightarrow> False
         | Inr resource \<Rightarrow> mr_content_digest resource = cap_proposed_content_digest payload
             \<and> mr_metadata_digest resource = cap_metadata_digest payload);
         inventory_verified = (case inventory of Inl _ \<Rightarrow> False | Inr view \<Rightarrow> attached_certificate payload view) in
     case tls of
       Inl _ \<Rightarrow>
         rollback_certbot_attach env operation_id ''tls_read_back_failed''
           (digest_of env ''tls_probe_unavailable'') now_ms
     | Inr evidence \<Rightarrow>
         if \<not> (content_verified \<and> active \<and> inventory_verified \<and> cce_success evidence)
         then rollback_certbot_attach env operation_id ''tls_read_back_failed''
                (certbot_command_digest env evidence) now_ms
         else
           finish env operation_id
             (stage_step [Verifying] Succeeded ''tls_attachment_verified''
                (certbot_command_digest env evidence) (Some (cap_proposed_content_digest payload))
                None now_ms))))))"

definition reload_attach ::
    "'h ops_env \<Rightarrow> stored_operation \<Rightarrow> certbot_attach_plan_payload \<Rightarrow> int \<Rightarrow> ('h, receipt_view) engine" where
  "reload_attach env snapshotted payload now_ms =
    (let operation_id = so_operation_id snapshotted in
     attempt (run_command env NginxReload) (\<lambda>r.
     case r of
       Inl e \<Rightarrow>
         rollback_certbot_attach env operation_id ''nginx_reload_unavailable''
           (digest_of env (ops_error_code e)) now_ms
     | Inr reload \<Rightarrow>
         if \<not> ce_success reload
         then rollback_certbot_attach env operation_id ''nginx_reload_failed'' (command_digest env reload) now_ms
         else
           bindM (do_transition env operation_id
                    (stage_step [Reloading] Verifying ''nginx_reloaded'' (command_digest env reload)
                       None None now_ms)) (\<lambda>_.
           verify_certbot_attach env snapshotted payload now_ms)))"

definition test_attach ::
    "'h ops_env \<Rightarrow> stored_operation \<Rightarrow> certbot_attach_plan_payload \<Rightarrow> int \<Rightarrow> ('h, receipt_view) engine" where
  "test_attach env snapshotted payload now_ms =
    (let operation_id = so_operation_id snapshotted in
     attempt (run_command env NginxConfigTest) (\<lambda>r.
     case r of
       Inl e \<Rightarrow>
         rollback_certbot_attach env operation_id ''nginx_config_test_unavailable''
           (digest_of env (ops_error_code e)) now_ms
     | Inr tested \<Rightarrow>
         if \<not> ce_success tested
         then rollback_certbot_attach env operation_id ''nginx_config_test_failed'' (command_digest env tested) now_ms
         else
           bindM (do_transition env operation_id
                    (stage_step [Validating] Reloading ''nginx_config_valid'' (command_digest env tested)
                       None None now_ms)) (\<lambda>_.
           reload_attach env snapshotted payload now_ms)))"

definition apply_attach ::
    "'h ops_env \<Rightarrow> stored_operation \<Rightarrow> certbot_attach_plan_payload \<Rightarrow> tls_attachment_resource \<Rightarrow>
     snapshot_record \<Rightarrow> int \<Rightarrow> ('h, receipt_view) engine" where
  "apply_attach env snapshotted payload attachment record now_ms =
    (let operation_id = so_operation_id snapshotted in
     bindM (do_transition env operation_id
              (stage_step [Snapshotted] Applying ''tls_directives_replace_started'' (sn_digest record)
                 None None now_ms)) (\<lambda>_.
     attempt (replace_protected_config env (ta_config attachment) (ta_proposed_content attachment)) (\<lambda>r.
     case r of
       Inl e \<Rightarrow>
         rollback_certbot_attach env operation_id (ops_error_code e) (digest_of env (ops_error_code e)) now_ms
     | Inr applied \<Rightarrow>
         if mr_content_digest applied \<noteq> cap_proposed_content_digest payload
         then rollback_certbot_attach env operation_id ''config_read_back_failed''
                (digest_of env ''config_read_back_failed'') now_ms
         else
           bindM (do_transition env operation_id
                    (stage_step [Applying] Validating ''tls_directives_replaced'' (mr_content_digest applied)
                       None None now_ms)) (\<lambda>_.
           test_attach env snapshotted payload now_ms))))"

definition attach_certificate_valid ::
    "certbot_attach_plan_payload \<Rightarrow> certificate_inventory_view \<Rightarrow> bool" where
  "attach_certificate_valid payload inventory =
    (iv_inventory_digest inventory = cap_inventory_digest payload
     \<and> iv_timer_enabled inventory \<and> iv_timer_active inventory
     \<and> (case List.find (\<lambda>c. cs_primary_domain c = cap_primary_domain payload) (iv_certificates inventory) of
          None \<Rightarrow> False
        | Some c \<Rightarrow> cs_fingerprint_sha256 c = cap_certificate_fingerprint payload
            \<and> cs_sans c = cap_sans payload \<and> cs_not_after c = cap_not_after payload
            \<and> cs_private_key_present c \<and> cs_renewal_config_present c \<and> cs_webroot_managed c))"

definition snapshot_attach ::
    "'h ops_env \<Rightarrow> stored_operation \<Rightarrow> certbot_attach_plan_payload \<Rightarrow> tls_attachment_resource \<Rightarrow> int \<Rightarrow>
     ('h, receipt_view) engine" where
  "snapshot_attach env operation payload attachment now_ms =
    (let operation_id = so_operation_id operation in
     attempt (on_files (write_managed_config_snapshot env operation_id
       (config_snapshot (ta_config attachment)))) (\<lambda>r.
     case r of
       Inl e \<Rightarrow> cancel_certbot_before_apply env operation (ops_error_code e) now_ms
     | Inr record \<Rightarrow>
         bindM (on_ledger (attach_snapshot (ledger_env_of env) operation_id record now_ms)) (\<lambda>snapshotted.
         if mr_content_digest (ta_config attachment) = ta_proposed_content_digest attachment
         then
           bindM (do_transition env operation_id
                    (stage_step [Snapshotted] Verifying ''certificate_already_attached''
                       (ta_proposed_content_digest attachment) None None now_ms)) (\<lambda>_.
           verify_certbot_attach env snapshotted payload now_ms)
         else apply_attach env snapshotted payload attachment record now_ms)))"

definition execute_certbot_attach ::
    "'h ops_env \<Rightarrow> stored_operation \<Rightarrow> int \<Rightarrow> ('h, receipt_view) engine" where
  "execute_certbot_attach env operation now_ms =
    (let cancel = (\<lambda>reason. cancel_certbot_before_apply env operation reason now_ms) in
     bindM (liftR (ok_or (sp_certbot_attach (so_plan operation)) ForensicLockdown)) (\<lambda>payload.
     attempt (certificate_inventory env now_ms) (\<lambda>r.
     case r of
       Inl e \<Rightarrow> cancel (ops_error_code e)
     | Inr inventory \<Rightarrow>
         if \<not> attach_certificate_valid payload inventory then cancel ''precondition_changed''
         else
           attempt (on_files (prepare_tls_attachment env (cap_primary_domain payload)
                    (cap_site_id payload) (cap_site_digest payload))) (\<lambda>r.
           case r of
             Inl e \<Rightarrow> cancel (ops_error_code e)
           | Inr attachment \<Rightarrow>
               if mr_metadata_digest (ta_config attachment) = cap_metadata_digest payload
                  \<and> ta_proposed_content_digest attachment = cap_proposed_content_digest payload
               then snapshot_attach env operation payload attachment now_ms
               else cancel ''precondition_changed''))))"

end
