(* ===== verification/Engine_Dispatch.thy ===== *)
theory Engine_Dispatch
  imports Ops_Protocol Engine_Service Engine_Ufw Engine_Cert
begin

text \<open>
  The entry points of \<^verbatim>\<open>jw-opsd/src/engine.rs\<close>: the start of the daemon with the recovery of unfinished
  operations, the dispatch of a request, and the execution of an approved operation by its type.
\<close>

section \<open>Responses\<close>

record ops_capability_response =
  oc_read_only :: bool
  oc_supported_operations :: "string list"
  oc_forensic_lockdown :: bool

datatype ops_response_body =
    RespCapabilities ops_capability_response
  | RespCertificateInventory certificate_inventory_view
  | RespCertbotIssuePlan certbot_issue_plan_view
  | RespCertbotRenewTestPlan certbot_renew_test_plan_view
  | RespCertbotAttachPlan certbot_attach_plan_view
  | RespManagedConfigResource managed_config_resource_view
  | RespNginxSiteStatePlan nginx_plan_view
  | RespManagedConfigPlan managed_config_plan_view
  | RespServiceControlPlan service_plan_view
  | RespUfw ufw_view
  | RespUfwRulePlan ufw_rule_plan_view
  | RespOperationReceipt receipt_view
  | RespRecentOperations "receipt_view list"
  | RespRejected string

record ops_response =
  rp_protocol_version :: nat
  rp_request_id :: string
  rp_body :: ops_response_body

section \<open>Execution and receipts\<close>

text \<open>The type of the operation selects its handler.\<close>

definition execute_by_type ::
    "'h ops_env \<Rightarrow> stored_operation \<Rightarrow> int \<Rightarrow> ('h, receipt_view) engine" where
  "execute_by_type env operation now_ms =
    (let operation_type = sp_operation_type (so_plan operation) in
     if operation_type = CERTBOT_ISSUE_OPERATION then execute_certbot_issue env operation now_ms
     else if operation_type = CERTBOT_RENEW_TEST_OPERATION then execute_certbot_renew_test env operation now_ms
     else if operation_type = CERTBOT_ATTACH_OPERATION then execute_certbot_attach env operation now_ms
     else if operation_type = MANAGED_CONFIG_OPERATION \<or> operation_type = MANAGED_CONFIG_RESTORE_OPERATION
     then execute_managed_config env operation now_ms
     else if operation_type = SERVICE_CONTROL_OPERATION then execute_service_control env operation now_ms
     else if operation_type = UFW_RULE_OPERATION then execute_ufw_rule env operation now_ms
     else if operation_type \<noteq> NGINX_SITE_STATE_OPERATION then fail ForensicLockdown
     else execute_nginx env operation now_ms)"

definition execute_operation ::
    "'h ops_env \<Rightarrow> subject \<Rightarrow> string \<Rightarrow> int \<Rightarrow> ('h, receipt_view) engine" where
  "execute_operation env actor operation_id now_ms =
    bindM (open_ledger env) (\<lambda>_.
    bindM (do_load env operation_id) (\<lambda>operation.
    if sp_actor (so_plan operation) \<noteq> actor then fail (Rejected ''operation_access_denied'')
    else if is_terminal (so_stage operation) \<or> so_stage operation \<noteq> Approved
    then do_receipt env (so_operation_id operation)
    else execute_by_type env operation now_ms))"

definition operation_receipt :: "'h ops_env \<Rightarrow> subject \<Rightarrow> string \<Rightarrow> ('h, receipt_view) engine" where
  "operation_receipt env actor operation_id =
    bindM (open_ledger env) (\<lambda>_.
    bindM (do_load env operation_id) (\<lambda>operation.
    if subj_uid (sp_actor (so_plan operation)) \<noteq> subj_uid actor
    then fail (Rejected ''operation_access_denied'')
    else do_receipt env operation_id))"

section \<open>Recovery\<close>

definition restart_rollback ::
    "'h ops_env \<Rightarrow> stored_operation \<Rightarrow> int \<Rightarrow> ('h, receipt_view) engine" where
  "restart_rollback env operation now_ms =
    (let operation_type = sp_operation_type (so_plan operation); operation_id = so_operation_id operation;
         cause = ''restart_recovery''; digest = digest_of env ''restart_recovery'' in
     if operation_type = CERTBOT_ATTACH_OPERATION
     then rollback_certbot_attach env operation_id cause digest now_ms
     else if operation_type = MANAGED_CONFIG_OPERATION \<or> operation_type = MANAGED_CONFIG_RESTORE_OPERATION
     then rollback_managed_config env operation_id cause digest now_ms
     else if operation_type = SERVICE_CONTROL_OPERATION
     then rollback_service_control env operation_id cause digest now_ms
     else if operation_type = UFW_RULE_OPERATION
     then rollback_ufw_rule env operation_id cause digest now_ms
     else rollback env operation_id cause digest now_ms)"

definition recover_external ::
    "'h ops_env \<Rightarrow> stored_operation \<Rightarrow> int \<Rightarrow> ('h, unit) engine" where
  "recover_external env operation now_ms =
    bindM (liftR (ok_or (so_snapshot operation) ForensicLockdown)) (\<lambda>record.
    bindM (on_files (read_certificate_inventory_snapshot env record)) (\<lambda>_.
    bindM (do_transition env (so_operation_id operation)
             (stage_step [so_stage operation] RecoveryRequired
                (if sp_operation_type (so_plan operation) = CERTBOT_ISSUE_OPERATION
                 then ''certificate_issue_interrupted'' else ''renewal_test_interrupted'')
                (sn_digest record) None (Some ''not_applicable_external_status_unknown'') now_ms)) (\<lambda>terminal.
    remove_operation_proposal env terminal)))"

definition recover_operation ::
    "'h ops_env \<Rightarrow> stored_operation \<Rightarrow> int \<Rightarrow> ('h, unit) engine" where
  "recover_operation env operation now_ms =
    (if so_stage operation \<in> set [Approved, Snapshotted]
     then
       bindM (do_transition env (so_operation_id operation)
                (stage_step [so_stage operation] CancelledBeforeApply ''recovered_before_apply''
                   (digest_of env ''recovered_before_apply'') None None now_ms)) (\<lambda>terminal.
       if \<not> is_terminal (so_stage terminal) then fail ForensicLockdown
       else remove_operation_proposal env terminal)
     else if so_stage operation \<in> set [Applying, Validating, Reloading, Verifying, RollingBack]
     then
       if sp_operation_type (so_plan operation) = CERTBOT_RENEW_TEST_OPERATION
          \<or> sp_operation_type (so_plan operation) = CERTBOT_ISSUE_OPERATION
       then recover_external env operation now_ms
       else bindM (restart_rollback env operation now_ms) (\<lambda>_. ret ())
     else if so_stage operation = Planned then fail ForensicLockdown
     else ret ())"

fun recover_operations ::
    "'h ops_env \<Rightarrow> int \<Rightarrow> stored_operation list \<Rightarrow> ('h, unit) engine" where
  "recover_operations env now_ms [] = ret ()"
| "recover_operations env now_ms (operation # operations) =
    bindM (recover_operation env operation now_ms) (\<lambda>_. recover_operations env now_ms operations)"

text \<open>Starting the daemon: a ledger that fails its checks locks the daemon, and the start succeeds.\<close>

definition initialize :: "'h ops_env \<Rightarrow> int \<Rightarrow> ('h, unit) engine" where
  "initialize env now_ms =
    bindM (on_files (cleanup_internal_temporaries env)) (\<lambda>_.
    attempt (on_ledger (open_ledger_file (ledger_env_of env))) (\<lambda>opened.
    case opened of
      Inl ForensicLockdown \<Rightarrow> modify (\<lambda>w. w\<lparr>w_lockdown := True\<rparr>)
    | Inl e \<Rightarrow> fail e
    | Inr _ \<Rightarrow>
        bindM (on_ledger (incomplete_operations (ledger_env_of env))) (\<lambda>operations.
        bindM (recover_operations env now_ms operations) (\<lambda>_.
        remove_expired_proposals env now_ms))))"

section \<open>Requests\<close>

definition locked_response :: ops_capability_response where
  "locked_response =
    \<lparr> oc_read_only = True, oc_supported_operations = [], oc_forensic_lockdown = True \<rparr>"

definition capabilities :: "'h ops_env \<Rightarrow> ('h, ops_capability_response) engine" where
  "capabilities env =
    bindM (reading (\<lambda>w. Inr (w_lockdown w))) (\<lambda>locked.
    if locked then ret locked_response
    else
      attempt (on_ledger (open_ledger_file (ledger_env_of env))) (\<lambda>opened.
      case opened of
        Inr _ \<Rightarrow>
          ret \<lparr> oc_read_only = False,
                oc_supported_operations =
                  [NGINX_SITE_STATE_OPERATION, MANAGED_CONFIG_OPERATION, CERTBOT_ISSUE_OPERATION,
                   CERTBOT_RENEW_TEST_OPERATION, CERTBOT_ATTACH_OPERATION, SERVICE_CONTROL_OPERATION,
                   UFW_RULE_OPERATION],
                oc_forensic_lockdown = False \<rparr>
      | Inl ForensicLockdown \<Rightarrow>
          bindM (modify (\<lambda>w. w\<lparr>w_lockdown := True\<rparr>)) (\<lambda>_. ret locked_response)
      | Inl _ \<Rightarrow> ret locked_response))"

text \<open>A request that changes something needs an unlocked daemon and an operator.\<close>

definition guarded :: "subject \<Rightarrow> ('h, 'a) engine \<Rightarrow> ('h, 'a) engine" where
  "guarded actor m =
    bindM require_write_available (\<lambda>_.
    bindM (liftR (require_operator actor)) (\<lambda>_. m))"

definition respond :: "('a \<Rightarrow> ops_response_body) \<Rightarrow> ('h, 'a) engine \<Rightarrow> ('h, ops_response_body) engine" where
  "respond f m = bindM m (\<lambda>x. ret (f x))"

fun handle_body :: "'h ops_env \<Rightarrow> ops_request_body \<Rightarrow> int \<Rightarrow> ('h, ops_response_body) engine" where
  "handle_body env Capabilities now_ms = respond RespCapabilities (capabilities env)"
| "handle_body env (CertificateInventory _) now_ms =
    respond RespCertificateInventory (certificate_inventory env now_ms)"
| "handle_body env (PlanCertbotIssue actor plan) now_ms =
    guarded actor (respond RespCertbotIssuePlan (plan_certbot_issue env actor plan now_ms))"
| "handle_body env (ApproveCertbotIssue actor plan_id plan_hash key external deferred) now_ms =
    guarded actor (respond RespOperationReceipt
      (approve_certbot_issue env actor plan_id plan_hash key external deferred now_ms))"
| "handle_body env (PlanCertbotRenewTest actor plan) now_ms =
    guarded actor (respond RespCertbotRenewTestPlan (plan_certbot_renew_test env actor plan now_ms))"
| "handle_body env (ApproveCertbotRenewTest actor plan_id plan_hash key external) now_ms =
    guarded actor (respond RespOperationReceipt
      (approve_certbot_renew_test env actor plan_id plan_hash key external now_ms))"
| "handle_body env (PlanCertbotAttach actor plan) now_ms =
    guarded actor (respond RespCertbotAttachPlan (plan_certbot_attach env actor plan now_ms))"
| "handle_body env (ApproveCertbotAttach actor plan_id plan_hash key replace reload) now_ms =
    guarded actor (respond RespOperationReceipt
      (approve_certbot_attach env actor plan_id plan_hash key replace reload now_ms))"
| "handle_body env (ReadManagedConfig actor resource_id) now_ms =
    bindM (liftR (require_operator actor)) (\<lambda>_.
    respond RespManagedConfigResource (read_managed_config env resource_id))"
| "handle_body env (PlanNginxSiteState actor plan) now_ms =
    guarded actor (respond RespNginxSiteStatePlan (plan_nginx env actor plan now_ms))"
| "handle_body env (ApproveNginxSiteState actor plan_id plan_hash key) now_ms =
    guarded actor (respond RespOperationReceipt (approve_nginx env actor plan_id plan_hash key now_ms))"
| "handle_body env (PlanManagedConfig actor plan) now_ms =
    guarded actor (respond RespManagedConfigPlan (plan_managed_config env actor plan now_ms))"
| "handle_body env (PlanManagedConfigRestore actor plan) now_ms =
    guarded actor (respond RespManagedConfigPlan (plan_managed_config_restore env actor plan now_ms))"
| "handle_body env (ApproveManagedConfig actor plan_id plan_hash key intent) now_ms =
    guarded actor (respond RespOperationReceipt
      (approve_managed_config env actor plan_id plan_hash key intent now_ms))"
| "handle_body env (PlanServiceControl actor plan) now_ms =
    guarded actor (respond RespServiceControlPlan (plan_service_control env actor plan now_ms))"
| "handle_body env (ApproveServiceControl actor plan_id plan_hash key impact_confirmed) now_ms =
    guarded actor
      (if \<not> impact_confirmed then fail (Rejected ''impact_confirmation'')
       else respond RespOperationReceipt (approve_service_control env actor plan_id plan_hash key now_ms))"
| "handle_body env (ObserveUfw _) now_ms = respond RespUfw (ufw_inventory env now_ms)"
| "handle_body env (PlanUfwRule actor plan) now_ms =
    guarded actor (respond RespUfwRulePlan (plan_ufw_rule env actor plan now_ms))"
| "handle_body env (ApproveUfwRule actor plan_id plan_hash key impact_confirmed) now_ms =
    guarded actor
      (if \<not> impact_confirmed then fail (Rejected ''impact_confirmation'')
       else respond RespOperationReceipt (approve_ufw_rule env actor plan_id plan_hash key now_ms))"
| "handle_body env (ExecuteOperation actor operation_id) now_ms =
    guarded actor (respond RespOperationReceipt (execute_operation env actor operation_id now_ms))"
| "handle_body env (OperationReceipt actor operation_id) now_ms =
    respond RespOperationReceipt (operation_receipt env actor operation_id)"
| "handle_body env (RecentOperations actor) now_ms =
    respond RespRecentOperations
      (bindM (open_ledger env) (\<lambda>_. on_ledger (recent_receipts (ledger_env_of env) (subj_uid actor) 8)))"

text \<open>
  The response to a request, which is never an error.  The flag tells whether the lock of the service
  is usable; it is not after a thread panicked while it held the lock.
\<close>

definition response_body ::
    "'h ops_env \<Rightarrow> bool \<Rightarrow> ops_request \<Rightarrow> int \<Rightarrow> 'h world \<Rightarrow> ops_response_body \<times> 'h world" where
  "response_body env lock_usable request now_ms w =
    (if \<not> lock_usable then (RespRejected ''forensic_lockdown'', w)
     else case validate_ops_request now_ms request of
       Inl code \<Rightarrow> (RespRejected code, w)
     | Inr _ \<Rightarrow>
         (case handle_body env (or_body request) now_ms w of
            (Inr body, w') \<Rightarrow> (body, w')
          | (Inl e, w') \<Rightarrow> (RespRejected (ops_error_code e), w')))"

definition response_for ::
    "'h ops_env \<Rightarrow> bool \<Rightarrow> ops_request \<Rightarrow> int \<Rightarrow> 'h world \<Rightarrow> ops_response \<times> 'h world" where
  "response_for env lock_usable request now_ms w =
    (case response_body env lock_usable request now_ms w of (body, w') \<Rightarrow>
      (\<lparr> rp_protocol_version = IPC_PROTOCOL_VERSION, rp_request_id = or_request_id request,
         rp_body = body \<rparr>, w'))"

end
