(* ===== verification/Ledger_Chain.thy ===== *)
theory Ledger_Chain
  imports Ledger_Open
begin

text \<open>
  The hash chain of the ledger: appending keeps the chain valid together with the evidence rows
  hanging off it, and two valid chains with the same last digest are the same chain unless the
  hash function collides on two inputs the chains themselves exhibit.
\<close>

section \<open>Order of the events\<close>

definition seq_ok :: "event_row list \<Rightarrow> bool" where
  "seq_ok evs = (map ev_sequence evs = map int [1..<Suc (length evs)])"

lemma seq_ok_nth: "seq_ok evs \<Longrightarrow> i < length evs \<Longrightarrow> ev_sequence (evs ! i) = int i + 1"
proof -
  assume ok: "seq_ok evs" and i: "i < length evs"
  have "ev_sequence (evs ! i) = map ev_sequence evs ! i" using i by simp
  also have "\<dots> = int ([1..<Suc (length evs)] ! i)"
    using ok i by (simp add: seq_ok_def del: upt_Suc)
  also have "\<dots> = int i + 1" using i by (simp del: upt_Suc)
  finally show ?thesis .
qed

lemma seq_ok_snoc [simp]:
  "seq_ok (evs @ [r]) \<longleftrightarrow> seq_ok evs \<and> ev_sequence r = int (length evs) + 1"
  by (auto simp: seq_ok_def)

lemma seq_ok_Nil [simp]: "seq_ok []"
  by (simp add: seq_ok_def)

lemma seq_ok_range: "seq_ok evs \<Longrightarrow> r \<in> set evs \<Longrightarrow> 1 \<le> ev_sequence r \<and> ev_sequence r \<le> int (length evs)"
  by (metis seq_ok_nth in_set_conv_nth add.commute le_add_same_cancel1 of_nat_0_le_iff
      of_nat_Suc of_nat_le_iff Suc_leI)

lemma seq_ok_sorted: "seq_ok evs \<Longrightarrow> sorted (map ev_sequence evs)"
  by (simp add: seq_ok_def sorted_map sorted_wrt_upt flip: map_map del: upt_Suc)

lemma sort_key_sorted: "sorted (map f xs) \<Longrightarrow> sort_key f xs = xs"
  by (induction xs) (auto simp: insort_is_Cons)

lemma events_in_order_id: "seq_ok (t_events t) \<Longrightarrow> events_in_order t = t_events t"
  by (simp add: events_in_order_def sort_key_sorted seq_ok_sorted)

lemma latest_event_eq:
  "seq_ok (t_events t) \<Longrightarrow>
    latest_event t = (if t_events t = [] then None else Some (last (t_events t)))"
  by (simp add: latest_event_def Let_def events_in_order_id)

lemma last_sequence:
  assumes "seq_ok evs" "evs \<noteq> []"
  shows "ev_sequence (last evs) = int (length evs)"
proof -
  have "ev_sequence (evs ! (length evs - 1)) = int (length evs - 1) + 1"
    using assms by (intro seq_ok_nth) auto
  with assms(2) show ?thesis by (simp add: last_conv_nth of_nat_diff Suc_leI)
qed

section \<open>The continuity loop\<close>

definition last_digest :: "string \<Rightarrow> event_row list \<Rightarrow> string" where
  "last_digest p evs = (if evs = [] then p else ev_event_digest (last evs))"

lemma last_digest_simps [simp]:
  "last_digest p [] = p"
  "last_digest p (r # evs) = last_digest (ev_event_digest r) evs"
  "last_digest p (evs @ [r]) = ev_event_digest r"
  by (simp_all add: last_digest_def)

definition evidence_ok :: "ledger_env \<Rightarrow> tables \<Rightarrow> event_row \<Rightarrow> bool" where
  "evidence_ok env t row =
    (is_ok (load_command_evidence env (command_at t (ev_sequence row)) (ev_evidence_digest row)
        (map_option dr_validator_evidence_digest (diagnostics_at t (ev_sequence row))))
     \<and> is_ok (load_diagnostics env (diagnostics_at t (ev_sequence row)) (ev_evidence_digest row)))"

definition link_ok :: "ledger_env \<Rightarrow> int \<Rightarrow> string \<Rightarrow> event_row \<Rightarrow> bool" where
  "link_ok env sequence previous row =
    (ev_sequence row = sequence \<and> ev_previous_digest row = previous
     \<and> ledger_event_digest (le_sha256 env) previous (ser_event (le_serde env) (event_of_row row previous))
         = Inr (ev_event_digest row))"

lemma is_ok_iff: "is_ok r \<longleftrightarrow> (\<exists>x. r = Inr x)"
  by (cases r) auto

lemma validate_events_Cons:
  "validate_events env t e p (row # rows) = Inr m \<longleftrightarrow>
    link_ok env e p row \<and> evidence_ok env t row
    \<and> validate_events env t (sat_add e 1) (ev_event_digest row) rows = Inr m"
  by (auto simp: link_ok_def evidence_ok_def is_ok_iff)

declare validate_events.simps(2) [simp del]

lemma validate_events_append:
  "validate_events env t e p (xs @ ys) = Inr m \<longleftrightarrow>
    (\<exists>k. validate_events env t e p xs = Inr k
      \<and> validate_events env t k (last_digest p xs) ys = Inr m)"
  by (induction xs arbitrary: e p) (auto simp: validate_events_Cons)

lemma validate_events_cong:
  assumes "\<And>row. row \<in> set xs \<Longrightarrow> evidence_ok env t' row = evidence_ok env t row"
  shows "validate_events env t' e p xs = Inr m \<longleftrightarrow> validate_events env t e p xs = Inr m"
  using assms by (induction xs arbitrary: e p) (auto simp: validate_events_Cons)

section \<open>Chain invariant\<close>

definition evidence_bounded :: "tables \<Rightarrow> bool" where
  "evidence_bounded t =
    ((\<forall>r \<in> set (t_commands t). 1 \<le> cr_sequence r \<and> cr_sequence r \<le> int (length (t_events t)))
     \<and> (\<forall>r \<in> set (t_diagnostics t). 1 \<le> dr_sequence r \<and> dr_sequence r \<le> int (length (t_events t))))"

definition chain_ok :: "ledger_env \<Rightarrow> tables \<Rightarrow> bool" where
  "chain_ok env t =
    (seq_ok (t_events t) \<and> int (length (t_events t)) \<le> i64_max
     \<and> (\<exists>m. validate_events env t 1 GENESIS_DIGEST (t_events t) = Inr m)
     \<and> evidence_bounded t)"

lemma chain_ok_cong:
  assumes "t_events t' = t_events t" "t_commands t' = t_commands t" "t_diagnostics t' = t_diagnostics t"
  shows "chain_ok env t' = chain_ok env t"
proof -
  have "evidence_ok env t' row = evidence_ok env t row" for row
    using assms by (simp add: evidence_ok_def command_at_def diagnostics_at_def)
  then show ?thesis
    using assms validate_events_cong [of "t_events t" env t' t]
    by (auto simp: chain_ok_def evidence_bounded_def)
qed

lemma validate_events_next:
  assumes "validate_events env t e p xs = Inr m" "1 \<le> e" "e + int (length xs) \<le> i64_max"
  shows "m = e + int (length xs)"
  using assms
proof (induction xs arbitrary: e p)
  case (Cons x xs)
  then have "sat_add e 1 = e + 1" by (intro sat_add_one) auto
  with Cons show ?case by (fastforce simp: validate_events_Cons)
qed simp

lemma genesis_format: "GENESIS_DIGEST = format_sha256 (replicate 32 NUL)"
proof -
  have "hex_bytes (replicate n NUL) = replicate (2 * n) (CHR ''0'')" for n
    by (induction n) (simp_all add: hex_byte_def hex_digit_def NUL_def byte_def)
  from this [of 32] show ?thesis by (simp add: GENESIS_DIGEST_def format_sha256_def)
qed

lemma genesis_valid: "validate_digest GENESIS_DIGEST = Inr ()"
  unfolding genesis_format validate_digest_iff by (rule exI [of _ "replicate 32 NUL"]) simp

lemma link_digest_valid:
  "sha256_sized (le_sha256 env) \<Longrightarrow> link_ok env e p row \<Longrightarrow> validate_digest (ev_event_digest row) = Inr ()"
  by (auto simp: link_ok_def intro: ledger_event_digest_valid)

text \<open>The digest the next event is chained to is always a valid one.\<close>

lemma last_digest_valid:
  assumes "sha256_sized (le_sha256 env)" "validate_events env t e p evs = Inr m"
    and "validate_digest p = Inr ()"
  shows "validate_digest (last_digest p evs) = Inr ()"
  using assms by (induction evs arbitrary: e p) (auto simp: validate_events_Cons dest: link_digest_valid)

section \<open>Appending\<close>

lemma append_event_Inr:
  assumes seq: "seq_ok (t_events t)" and len: "int (length (t_events t)) \<le> i64_max"
    and run: "append_event env ei t = Inr (s, t')"
  obtains row where
    "s = int (length (t_events t)) + 1" "s \<le> i64_max" "t' = t\<lparr>t_events := t_events t @ [row]\<rparr>"
    "link_ok env s (last_digest GENESIS_DIGEST (t_events t)) row"
    "ev_operation_id row = ei_operation_id ei" "ev_plan_id row = ei_plan_id ei"
    "ev_stage row = as_storage_value (ei_stage ei)" "ev_evidence_digest row = ei_evidence_digest ei"
    "ev_result_code row = ei_result_code ei" "ev_recorded_at_ms row = ei_recorded_at_ms ei"
proof -
  define evs where "evs = t_events t"
  define prev where "prev = last_digest GENESIS_DIGEST evs"
  have latest: "(case latest_event t of Some row \<Rightarrow> (ev_sequence row, ev_event_digest row)
      | None \<Rightarrow> (0, GENESIS_DIGEST)) = (int (length evs), prev)"
    using seq last_sequence [of evs]
    by (auto simp: latest_event_eq evs_def prev_def last_digest_def)
  have room: "int (length evs) < i64_max"
  proof (rule ccontr)
    assume "\<not> int (length evs) < i64_max"
    with len have full: "int (length evs) = i64_max" by (simp add: evs_def)
    then have "evs \<noteq> []" by (auto simp: i64_max_def)
    moreover have "sat_add (int (length evs)) 1 = int (length evs)"
      using full by (simp add: sat_add_def sat64_def i64_max_def i64_min_def)
    ultimately show False
      using run seq last_sequence [of evs] unfolding append_event_def latest
      by (auto simp: insert_event_def Let_def evs_def list_ex_iff split: if_splits)
  qed
  have "sat_add (int (length evs)) 1 = int (length evs) + 1"
    using room by (intro sat_add_one) auto
  with run room show thesis
    unfolding append_event_def latest
    by (auto simp: Let_def insert_event_def link_ok_def event_of_row_def evs_def prev_def
        split: if_splits intro!: that)
qed

lemma evidence_ok_frame:
  assumes "t_commands t' = t_commands t @ cs" "t_diagnostics t' = t_diagnostics t @ ds"
    and "\<forall>c \<in> set cs. cr_sequence c \<noteq> ev_sequence row"
    and "\<forall>d \<in> set ds. dr_sequence d \<noteq> ev_sequence row"
  shows "evidence_ok env t' row = evidence_ok env t row"
  using assms
  by (simp add: evidence_ok_def command_at_def diagnostics_at_def find_append_no_match)

text \<open>
  The one step every transaction makes: an event, possibly with evidence rows for it.  The
  premises about evidence are those of the row that was just appended.
\<close>

lemma chain_ok_extend:
  assumes ok: "chain_ok env t" and len: "int (length (t_events t)) + 1 \<le> i64_max"
    and link: "link_ok env (int (length (t_events t)) + 1) (last_digest GENESIS_DIGEST (t_events t)) row"
    and evs: "t_events t' = t_events t @ [row]"
    and cs: "t_commands t' = t_commands t @ cs" "\<forall>c \<in> set cs. cr_sequence c = ev_sequence row"
    and ds: "t_diagnostics t' = t_diagnostics t @ ds" "\<forall>d \<in> set ds. dr_sequence d = ev_sequence row"
    and evid: "evidence_ok env t' row"
  shows "chain_ok env t'"
proof -
  define n where "n = length (t_events t)"
  have row_seq: "ev_sequence row = int n + 1" using link by (simp add: link_ok_def n_def)
  have seq: "seq_ok (t_events t)" and bound: "evidence_bounded t"
    using ok by (auto simp: chain_ok_def)
  obtain m where m: "validate_events env t 1 GENESIS_DIGEST (t_events t) = Inr m"
    using ok by (auto simp: chain_ok_def)
  have m_eq: "m = 1 + int n"
    using validate_events_next [OF m] len by (simp add: n_def)
  have "evidence_ok env t' r = evidence_ok env t r" if "r \<in> set (t_events t)" for r
  proof (rule evidence_ok_frame [OF cs(1) ds(1)])
    have "ev_sequence r \<noteq> ev_sequence row"
      using seq_ok_range [OF seq that] row_seq by (simp add: n_def)
    then show "\<forall>c \<in> set cs. cr_sequence c \<noteq> ev_sequence r"
      and "\<forall>d \<in> set ds. dr_sequence d \<noteq> ev_sequence r"
      using cs(2) ds(2) by auto
  qed
  then have "validate_events env t' 1 GENESIS_DIGEST (t_events t) = Inr m"
    using m validate_events_cong by blast
  with link evid m_eq have "\<exists>k. validate_events env t' 1 GENESIS_DIGEST (t_events t') = Inr k"
    unfolding evs by (auto simp: validate_events_append validate_events_Cons n_def add.commute)
  moreover have "evidence_bounded t'"
    using bound cs ds row_seq unfolding evidence_bounded_def evs by (fastforce simp: n_def)
  ultimately show ?thesis
    using seq row_seq len by (simp add: chain_ok_def evs n_def)
qed

lemma evidence_ok_none:
  assumes "evidence_bounded t" "ev_sequence row = int (length (t_events t)) + 1"
    and "t_commands t' = t_commands t" "t_diagnostics t' = t_diagnostics t"
  shows "evidence_ok env t' row"
proof -
  have "find (\<lambda>r. cr_sequence r = ev_sequence row) (t_commands t) = None"
    and "find (\<lambda>r. dr_sequence r = ev_sequence row) (t_diagnostics t) = None"
    using assms by (auto simp: find_None_iff evidence_bounded_def)
  with assms show ?thesis
    by (simp add: evidence_ok_def command_at_def diagnostics_at_def load_command_evidence_def
        load_diagnostics_def)
qed

section \<open>Tamper evidence\<close>

text \<open>The bytes that were hashed for the event at a position.\<close>

definition event_preimage :: "ledger_env \<Rightarrow> event_row list \<Rightarrow> nat \<Rightarrow> bytes" where
  "event_preimage env evs i =
    (let previous = last_digest GENESIS_DIGEST (take i evs) in
     ''jw-agent/ledger/v1'' @ [NUL]
       @ (case decode_sha256 previous of Inl _ \<Rightarrow> [] | Inr raw \<Rightarrow> raw)
       @ ser_event (le_serde env) (event_of_row (evs ! i) previous))"

lemma link_ok_preimage:
  assumes "link_ok env e (last_digest GENESIS_DIGEST (take i evs)) (evs ! i)"
  shows "ev_event_digest (evs ! i) = format_sha256 (le_sha256 env (event_preimage env evs i))"
    and "\<exists>raw. decode_sha256 (last_digest GENESIS_DIGEST (take i evs)) = Inr raw"
  using assms by (auto simp: link_ok_def ledger_event_digest_def event_preimage_def Let_def)

lemma validate_events_take:
  "validate_events env t e p evs = Inr m \<Longrightarrow> \<exists>k. validate_events env t e p (take n evs) = Inr k"
  by (metis append_take_drop_id validate_events_append)

lemma validate_events_link:
  assumes "validate_events env t 1 p evs = Inr m" "i < length evs" "int (length evs) < i64_max"
  shows "link_ok env (int i + 1) (last_digest p (take i evs)) (evs ! i)"
proof -
  have "validate_events env t 1 p (take i evs @ evs ! i # drop (Suc i) evs) = Inr m"
    using assms by (simp add: id_take_nth_drop [symmetric])
  then obtain k where k: "validate_events env t 1 p (take i evs) = Inr k"
      "link_ok env k (last_digest p (take i evs)) (evs ! i)"
    by (auto simp: validate_events_append validate_events_Cons)
  moreover have "k = 1 + int (length (take i evs))"
    using assms(2,3) by (intro validate_events_next [OF k(1)]) auto
  ultimately show ?thesis using assms(2) by (simp add: add.commute)
qed

lemma validate_events_seq_ok:
  assumes "validate_events env t 1 p evs = Inr m" "int (length evs) < i64_max"
  shows "seq_ok evs"
proof -
  have "ev_sequence (evs ! i) = int i + 1" if "i < length evs" for i
    using validate_events_link [OF assms(1) that assms(2)] by (simp add: link_ok_def)
  then show ?thesis
    unfolding seq_ok_def by (intro nth_equalityI) (auto simp del: upt_Suc)
qed

lemma chain_collision:
  assumes "validate_events env t 1 GENESIS_DIGEST xs = Inr m" "int (length xs) < i64_max"
    and "validate_events env t' 1 GENESIS_DIGEST ys = Inr m'" "int (length ys) < i64_max"
    and inj: "inj (ser_event (le_serde env))"
    and "k \<le> length xs" "k \<le> length ys"
    and "last_digest GENESIS_DIGEST (take k xs) = last_digest GENESIS_DIGEST (take k ys)"
  shows "take k xs = take k ys \<or> (\<exists>i < k. event_preimage env xs i \<noteq> event_preimage env ys i
      \<and> le_sha256 env (event_preimage env xs i) = le_sha256 env (event_preimage env ys i))"
  using assms(6-8)
proof (induction k)
  case (Suc k)
  let ?px = "last_digest GENESIS_DIGEST (take k xs)" and ?py = "last_digest GENESIS_DIGEST (take k ys)"
  have bounds: "k < length xs" "k < length ys" using Suc.prems by auto
  have linkx: "link_ok env (int k + 1) ?px (xs ! k)" and linky: "link_ok env (int k + 1) ?py (ys ! k)"
    using validate_events_link assms(1-4) bounds by auto
  have digests: "ev_event_digest (xs ! k) = ev_event_digest (ys ! k)"
    using Suc.prems(3) bounds by (simp add: take_Suc_conv_app_nth)
  then have hashes: "le_sha256 env (event_preimage env xs k) = le_sha256 env (event_preimage env ys k)"
    using link_ok_preimage(1) [OF linkx] link_ok_preimage(1) [OF linky] by simp
  show ?case
  proof (cases "event_preimage env xs k = event_preimage env ys k")
    case False
    with hashes show ?thesis by blast
  next
    case True
    obtain rx ry where raw: "decode_sha256 ?px = Inr rx" "decode_sha256 ?py = Inr ry"
      using link_ok_preimage(2) [OF linkx] link_ok_preimage(2) [OF linky] by auto
    have "ser_event (le_serde env) (event_of_row (xs ! k) ?px)
        = ser_event (le_serde env) (event_of_row (ys ! k) ?py)"
      using True raw decode_sha256_length [OF raw(1)] decode_sha256_length [OF raw(2)]
      by (simp add: event_preimage_def)
    then have "event_of_row (xs ! k) ?px = event_of_row (ys ! k) ?py"
      using inj by (auto dest: injD)
    then have prev: "?px = ?py" and row: "xs ! k = ys ! k"
      using digests linkx linky by (auto simp: event_of_row_def link_ok_def)
    from Suc.IH prev bounds row show ?thesis
      by (auto simp: take_Suc_conv_app_nth less_Suc_eq)
  qed
qed simp

lemma validated_checkpoint:
  assumes "fst (validate_continuity env l) = Inr ()"
    and "sf_checkpoint (lg_files l) = Some node" "de_checkpoint (le_serde env) (fn_content node) = Some cp"
    and small: "int (length (t_events (lg_tables l))) < i64_max"
  defines "evs \<equiv> events_in_order (lg_tables l)"
  shows "\<exists>m. validate_events env (lg_tables l) 1 GENESIS_DIGEST evs = Inr m"
    and "length evs = length (t_events (lg_tables l))"
    and "nat (cp_sequence cp) \<le> length evs"
    and "last_digest GENESIS_DIGEST (take (nat (cp_sequence cp)) evs) = cp_event_digest cp"
proof -
  let ?t = "lg_tables l"
  show len: "length evs = length (t_events ?t)" by (simp add: evs_def events_in_order_def)
  obtain m where m: "validate_events env ?t 1 GENESIS_DIGEST evs = Inr m"
    and cp: "validate_checkpoint env (sat_sub m 1) ?t (lg_files l) = Inr ()"
    using assms(1) unfolding validate_continuity_def evs_def
    by (auto simp: bindM_def storage_access_def reading_def split: list.splits if_splits)
  from m show "\<exists>m. validate_events env ?t 1 GENESIS_DIGEST evs = Inr m" by blast
  obtain r where r: "r \<in> set (t_events ?t)" "ev_sequence r = cp_sequence cp"
      "ev_event_digest r = cp_event_digest cp"
    using cp assms(2,3)
    by (auto simp: validate_checkpoint_def Let_def split: if_splits option.splits dest!: find_SomeD)
  have seq: "seq_ok evs" using validate_events_seq_ok [OF m] small len by simp
  have "r \<in> set evs" using r(1) by (simp add: evs_def events_in_order_def)
  then obtain i where i: "i < length evs" "r = evs ! i" by (auto simp: in_set_conv_nth)
  with seq_ok_nth [OF seq i(1)] r(2) have "nat (cp_sequence cp) = Suc i" by simp
  with i r(3) show "nat (cp_sequence cp) \<le> length evs"
    and "last_digest GENESIS_DIGEST (take (nat (cp_sequence cp)) evs) = cp_event_digest cp"
    by (auto simp: take_Suc_conv_app_nth)
qed

text \<open>
  (C12) The checkpoint file pins the history.  Take two databases that both pass the continuity
  check, for instance the one the daemon wrote and the one found after a restart, next to a
  checkpoint file with the same content.  Then they agree on every event up to the checkpointed
  sequence, row by row, or else the two databases exhibit at one position two different byte
  strings with the same SHA-256 value.  The JSON printer of events is assumed to be injective.
\<close>

theorem checkpoint_pins_history:
  assumes "fst (validate_continuity env l) = Inr ()" "fst (validate_continuity env l') = Inr ()"
    and "sf_checkpoint (lg_files l) = Some node" "sf_checkpoint (lg_files l') = Some node'"
    and "de_checkpoint (le_serde env) (fn_content node) = Some cp"
    and "de_checkpoint (le_serde env) (fn_content node') = Some cp"
    and "inj (ser_event (le_serde env))"
    and "int (length (t_events (lg_tables l))) < i64_max"
    and "int (length (t_events (lg_tables l'))) < i64_max"
  defines "k \<equiv> nat (cp_sequence cp)"
    and "xs \<equiv> events_in_order (lg_tables l)" and "ys \<equiv> events_in_order (lg_tables l')"
  shows "take k xs = take k ys \<or> (\<exists>i < k. event_preimage env xs i \<noteq> event_preimage env ys i
      \<and> le_sha256 env (event_preimage env xs i) = le_sha256 env (event_preimage env ys i))"
  using validated_checkpoint [OF assms(1,3,5,8)] validated_checkpoint [OF assms(2,4,6,9)] assms(7-9)
  unfolding k_def xs_def ys_def by (metis chain_collision)

end
