(* ===== verification/Sample_Env.thy ===== *)
theory Sample_Env
  imports Ledger_Open "HOL-Library.Countable"
begin

text \<open>
  A concrete environment for the ledger: every value is printed as a run of dots whose length is
  its number in an enumeration of its type, and the hash function is constant.  It shows that the
  assumptions on \<^verbatim>\<open>serde_json\<close> and SHA-256 can be met together, and it is the environment in which
  the theorems with such assumptions are applied to concrete inputs.
\<close>

definition dots :: "'a::countable \<Rightarrow> string" where
  "dots v = replicate (to_nat v) (CHR ''.'')"

definition undots :: "string \<Rightarrow> 'a::countable" where
  "undots s = from_nat (length s)"

lemma undots_dots [simp]: "undots (dots v) = v"
  by (simp add: dots_def undots_def)

instance role :: countable by countable_datatype
instance nginx_site_state :: countable by countable_datatype
instance assurance_level :: countable by countable_datatype
instance rollback_support :: countable by countable_datatype
instance service_action :: countable by countable_datatype
instance certificate_environment :: countable by countable_datatype
instance ufw_rule_mutation :: countable by countable_datatype
instance ufw_protocol :: countable by countable_datatype
instance diagnostic_severity :: countable by countable_datatype

text \<open>Records are enumerated through the tuple of their fields.\<close>

definition enum_ser :: "('a \<Rightarrow> 'b::countable) \<Rightarrow> 'a \<Rightarrow> string" where
  "enum_ser f v = dots (f v)"

definition enum_de :: "('b::countable \<Rightarrow> 'a) \<Rightarrow> string \<Rightarrow> 'a option" where
  "enum_de g s = Some (g (undots s))"

lemma enum_roundtrip: "(\<And>v. g (f v) = v) \<Longrightarrow> enum_de g (enum_ser f v) = Some v"
  by (simp add: enum_de_def enum_ser_def)

definition assurance_tuple where
  "assurance_tuple v = (av_level v, av_rollback_support v, av_operation_available v, av_scope v,
    av_excluded_effects v, av_apply_verifier v, av_rollback_verifier v, av_reason v)"

fun assurance_untuple where
  "assurance_untuple (a, b, c, d, e, f, g, h) =
    \<lparr> av_level = a, av_rollback_support = b, av_operation_available = c, av_scope = d,
      av_excluded_effects = e, av_apply_verifier = f, av_rollback_verifier = g, av_reason = h \<rparr>"

definition managed_tuple where
  "managed_tuple v = (mp_proposal_relative_path v, mp_proposal_digest v, mp_basename v,
    mp_proposed_content_digest v, mp_current_bytes v, mp_proposed_bytes v, mp_added_lines v,
    mp_removed_lines v, mp_diff_summary v, mp_service_action v)"

fun managed_untuple where
  "managed_untuple (a, b, c, d, e, f, g, h, i, j) =
    \<lparr> mp_proposal_relative_path = a, mp_proposal_digest = b, mp_basename = c,
      mp_proposed_content_digest = d, mp_current_bytes = e, mp_proposed_bytes = f,
      mp_added_lines = g, mp_removed_lines = h, mp_diff_summary = i, mp_service_action = j \<rparr>"

definition renew_tuple where
  "renew_tuple v = (crp_inventory_digest v, crp_timer_enabled v, crp_timer_active v,
    crp_certificate_count v)"

fun renew_untuple where
  "renew_untuple (a, b, c, d) = \<lparr> crp_inventory_digest = a, crp_timer_enabled = b,
    crp_timer_active = c, crp_certificate_count = d \<rparr>"

definition issue_tuple where
  "issue_tuple v = (cip_primary_domain v, cip_domains v,
    cip_account_email_proposal_relative_path v, cip_account_email_proposal_digest v,
    cip_masked_account_email v, cip_environment v, cip_site_id v, cip_site_digest v,
    cip_inventory_digest v, cip_preflight_observed_at_ms v, cip_resolved_addresses v,
    cip_local_port_80_reachable v, cip_local_port_443_reachable v,
    cip_staging_evidence_valid v, cip_staging_evidence_key v)"

fun issue_untuple where
  "issue_untuple (a, b, c, d, e, f, g, h, i, j, k, l, m, n, p) =
    \<lparr> cip_primary_domain = a, cip_domains = b, cip_account_email_proposal_relative_path = c,
      cip_account_email_proposal_digest = d, cip_masked_account_email = e,
      cip_environment = f, cip_site_id = g, cip_site_digest = h, cip_inventory_digest = i,
      cip_preflight_observed_at_ms = j, cip_resolved_addresses = k,
      cip_local_port_80_reachable = l, cip_local_port_443_reachable = m,
      cip_staging_evidence_valid = n, cip_staging_evidence_key = p \<rparr>"

definition attach_tuple where
  "attach_tuple v = (cap_primary_domain v, cap_site_id v, cap_site_digest v, cap_metadata_digest v,
    cap_inventory_digest v, cap_certificate_fingerprint v, cap_sans v, cap_not_after v,
    cap_current_certificate_path v, cap_target_certificate_path v, cap_proposed_content_digest v,
    cap_timer_enabled v, cap_timer_active v)"

fun attach_untuple where
  "attach_untuple (a, b, c, d, e, f, g, h, i, j, k, l, m) =
    \<lparr> cap_primary_domain = a, cap_site_id = b, cap_site_digest = c, cap_metadata_digest = d,
      cap_inventory_digest = e, cap_certificate_fingerprint = f, cap_sans = g, cap_not_after = h,
      cap_current_certificate_path = i, cap_target_certificate_path = j,
      cap_proposed_content_digest = k, cap_timer_enabled = l, cap_timer_active = m \<rparr>"

definition ufw_tuple where
  "ufw_tuple v = (up_requested_mutation v, ur_mutation (up_rule v), ur_protocol (up_rule v),
    ur_port (up_rule v), ur_source (up_rule v), ur_rule_id (up_rule v), up_delete_sequences v)"

fun ufw_untuple where
  "ufw_untuple (a, b, c, d, e, f, g) =
    \<lparr> up_requested_mutation = a,
      up_rule = \<lparr> ur_mutation = b, ur_protocol = c, ur_port = d, ur_source = e, ur_rule_id = f \<rparr>,
      up_delete_sequences = g \<rparr>"

definition command_tuple where
  "command_tuple v = (cv_class v, cv_success v, cv_exit_code v, cv_timed_out v, cv_stdout_digest v,
    cv_stdout_truncated v, cv_stderr_digest v, cv_stderr_truncated v)"

fun command_untuple where
  "command_untuple (a, b, c, d, e, f, g, h) =
    \<lparr> cv_class = a, cv_success = b, cv_exit_code = c, cv_timed_out = d, cv_stdout_digest = e,
      cv_stdout_truncated = f, cv_stderr_digest = g, cv_stderr_truncated = h \<rparr>"

definition diagnostic_tuple where
  "diagnostic_tuple v = (dv_service v, dv_validator v, dv_resource_id v, dv_masked_path v,
    dv_line v, dv_column v, dv_severity v, dv_code v, dv_message v, dv_related_changed_lines v,
    dv_cause_candidate_lines v)"

fun diagnostic_untuple where
  "diagnostic_untuple (a, b, c, d, e, f, g, h, i, j, k) =
    \<lparr> dv_service = a, dv_validator = b, dv_resource_id = c, dv_masked_path = d, dv_line = e,
      dv_column = f, dv_severity = g, dv_code = h, dv_message = i, dv_related_changed_lines = j,
      dv_cause_candidate_lines = k \<rparr>"

definition checkpoint_tuple where
  "checkpoint_tuple v = (cp_schema_version v, cp_sequence v, cp_event_digest v)"

fun checkpoint_untuple where
  "checkpoint_untuple (a, b, c) = \<lparr> cp_schema_version = a, cp_sequence = b, cp_event_digest = c \<rparr>"

definition event_tuple where
  "event_tuple v = (ce_schema_version v, ce_sequence v, ce_previous_digest v, ce_operation_id v,
    ce_plan_id v, ce_stage v, ce_result_code v, ce_recorded_at_ms v, ce_evidence_digest v)"

fun event_untuple where
  "event_untuple (a, b, c, d, e, f, g, h, i) =
    \<lparr> ce_schema_version = a, ce_sequence = b, ce_previous_digest = c, ce_operation_id = d,
      ce_plan_id = e, ce_stage = f, ce_result_code = g, ce_recorded_at_ms = h,
      ce_evidence_digest = i \<rparr>"

definition sample_serde :: serde where
  "sample_serde =
    \<lparr> ser_role = dots, de_role = (\<lambda>s. Some (undots s)),
      ser_state = dots, de_state = (\<lambda>s. Some (undots s)),
      ser_assurance = enum_ser assurance_tuple, de_assurance = enum_de assurance_untuple,
      ser_managed = enum_ser (map_option managed_tuple),
      de_managed = enum_de (map_option managed_untuple),
      ser_renew = enum_ser (map_option renew_tuple), de_renew = enum_de (map_option renew_untuple),
      ser_issue = enum_ser (map_option issue_tuple), de_issue = enum_de (map_option issue_untuple),
      ser_attach = enum_ser (map_option attach_tuple),
      de_attach = enum_de (map_option attach_untuple),
      ser_ufw = enum_ser (map_option ufw_tuple), de_ufw = enum_de (map_option ufw_untuple),
      ser_command = enum_ser command_tuple, de_command = enum_de command_untuple,
      ser_diagnostics = enum_ser (map diagnostic_tuple),
      de_diagnostics = enum_de (map diagnostic_untuple),
      ser_checkpoint = enum_ser checkpoint_tuple, de_checkpoint = enum_de checkpoint_untuple,
      ser_event = enum_ser event_tuple,
      ser_diagnostic_evidence = (\<lambda>d. de_validator_evidence_digest d @ de_diagnostics_digest d) \<rparr>"

definition sample_env :: ledger_env where
  "sample_env =
    \<lparr> le_sha256 = (\<lambda>_. replicate 32 NUL), le_serde = sample_serde,
      le_rfc3339 = (\<lambda>ms. if 0 \<le> ms then Some ''1970-01-01T00:00:00Z'' else None),
      le_texts = (\<lambda>k. [k]), le_enforce_root = True, le_daemon_uid = 0 \<rparr>"

lemmas tuple_defs =
  assurance_tuple_def managed_tuple_def renew_tuple_def issue_tuple_def attach_tuple_def
  ufw_tuple_def command_tuple_def diagnostic_tuple_def checkpoint_tuple_def event_tuple_def

lemma tuple_inverses [simp]:
  "assurance_untuple (assurance_tuple v1) = v1"
  "managed_untuple (managed_tuple v2) = v2"
  "renew_untuple (renew_tuple v3) = v3"
  "issue_untuple (issue_tuple v4) = v4"
  "attach_untuple (attach_tuple v5) = v5"
  "ufw_untuple (ufw_tuple v6) = v6"
  "command_untuple (command_tuple v7) = v7"
  "diagnostic_untuple (diagnostic_tuple v8) = v8"
  "checkpoint_untuple (checkpoint_tuple v9) = v9"
  "event_untuple (event_tuple v10) = v10"
  by (simp_all add: tuple_defs)

lemma map_option_inverse [simp]: "(\<And>x. g (f x) = x) \<Longrightarrow> map_option g (map_option f v) = v"
  by (cases v) auto

lemma sample_serde_ok: "serde_ok sample_serde"
  by (auto simp: serde_ok_def sample_serde_def enum_de_def enum_ser_def map_idI)

lemma sample_event_inj: "inj (ser_event sample_serde)"
  by (rule inj_on_inverseI [of _ "\<lambda>s. event_untuple (undots s)"])
     (simp add: sample_serde_def enum_ser_def)

lemma sample_sha256_sized: "sha256_sized (le_sha256 sample_env)"
  by (simp add: sample_env_def sha256_sized_def)

end
