(* ===== verification/Ledger_Safety.thy ===== *)
theory Ledger_Safety
  imports Ledger_Chain Sample_Env
begin

text \<open>
  The ledger invariant and its preservation by every transaction: unique keys, a plan behind every
  operation, resource locks held exactly by operations that are not finished, the last event of an
  operation naming its stage, and a checkpoint file that is never behind what the continuity check
  demands.  On top of it: opening a ledger the daemon wrote never ends in forensic lockdown, locks
  exclude each other, finished operations never change, and the log only grows.
\<close>

section \<open>Invariant\<close>

definition row_terminal :: "operation_row \<Rightarrow> bool" where
  "row_terminal r = (or_stage r \<in> set terminal_storage_values)"

lemma terminal_storage_iff [simp]: "as_storage_value s \<in> set terminal_storage_values \<longleftrightarrow> is_terminal s"
  by (cases s) (simp_all add: terminal_storage_values_def)

declare as_storage_value.simps [simp del]

definition keys_ok :: "tables \<Rightarrow> bool" where
  "keys_ok t =
    (distinct (map pr_plan_id (t_plans t)) \<and> distinct (map or_operation_id (t_operations t))
     \<and> distinct (map or_plan_id (t_operations t)) \<and> distinct (map lr_resource_key (t_locks t))
     \<and> distinct (map ir_idempotency_key (t_idempotency t)))"

definition rows_ok :: "tables \<Rightarrow> bool" where
  "rows_ok t =
    (\<forall>r \<in> set (t_operations t).
       (\<exists>s. or_stage r = as_storage_value s)
       \<and> (\<exists>p \<in> set (t_plans t). pr_plan_id p = or_plan_id r)
       \<and> (or_snapshot_relative_path r = None \<longleftrightarrow> or_snapshot_digest r = None))"

definition holds_lock :: "tables \<Rightarrow> string \<Rightarrow> string \<Rightarrow> bool" where
  "holds_lock t operation_id key =
    (\<exists>k \<in> set (t_locks t). lr_resource_key k = key \<and> lr_operation_id k = operation_id)"

definition locks_ok :: "tables \<Rightarrow> bool" where
  "locks_ok t =
    ((\<forall>k \<in> set (t_locks t). \<exists>r \<in> set (t_operations t).
        or_operation_id r = lr_operation_id k \<and> \<not> row_terminal r)
     \<and> (\<forall>r \<in> set (t_operations t). \<forall>p \<in> set (t_plans t).
          \<not> row_terminal r \<longrightarrow> pr_plan_id p = or_plan_id r \<longrightarrow>
            holds_lock t (or_operation_id r) (pr_resource_key p)
            \<and> (takes_reload_lock (pr_operation_type p) \<longrightarrow>
                 holds_lock t (or_operation_id r) nginx_reload_key)))"

definition events_of :: "string \<Rightarrow> tables \<Rightarrow> event_row list" where
  "events_of operation_id t = filter (\<lambda>e. ev_operation_id e = operation_id) (t_events t)"

text \<open>
  The lifecycle of an operation: the stages that may follow each stage.  A rollback may be entered
  again, and nothing follows a terminal stage.
\<close>

fun next_stages :: "operation_stage \<Rightarrow> operation_stage list" where
  "next_stages Approved = [Snapshotted, CancelledBeforeApply]"
| "next_stages Snapshotted = [Applying, Verifying, CancelledBeforeApply]"
| "next_stages Applying = [Validating, Verifying, RollingBack, Stage_Rejected, RecoveryRequired]"
| "next_stages Validating =
    [Reloading, Verifying, Succeeded, RollingBack, Stage_Rejected, RecoveryRequired]"
| "next_stages Reloading = [Verifying, RollingBack, RecoveryRequired]"
| "next_stages Verifying = [Succeeded, CancelledBeforeApply, RollingBack, RecoveryRequired]"
| "next_stages RollingBack = [RollingBack, RolledBack, RecoveryRequired]"
| "next_stages _ = []"

definition stage_link :: "string \<Rightarrow> string \<Rightarrow> bool" where
  "stage_link x y = (\<exists>a b. x = as_storage_value a \<and> y = as_storage_value b \<and> b \<in> set (next_stages a))"

definition history_ok :: "tables \<Rightarrow> bool" where
  "history_ok t =
    (\<forall>r \<in> set (t_operations t).
       or_operation_id r \<noteq> [] \<and> events_of (or_operation_id r) t \<noteq> []
       \<and> ev_stage (hd (events_of (or_operation_id r) t)) = as_storage_value Approved
       \<and> ev_stage (last (events_of (or_operation_id r) t)) = or_stage r
       \<and> successively stage_link (map ev_stage (events_of (or_operation_id r) t)))"

text \<open>Events name the empty operation or one that exists.\<close>

definition owners_ok :: "tables \<Rightarrow> bool" where
  "owners_ok t =
    (\<forall>e \<in> set (t_events t). ev_operation_id e = [] \<or>
       (\<exists>r \<in> set (t_operations t). or_operation_id r = ev_operation_id e))"

definition pending_covers :: "tables \<Rightarrow> bool" where
  "pending_covers t =
    (case t_pending t of None \<Rightarrow> False
     | Some s \<Rightarrow> s \<ge> required_sequence t (int (length (t_events t))))"

definition node_ok :: "ledger_env \<Rightarrow> file_node \<Rightarrow> bool" where
  "node_ok env n =
    (fn_kind n = RegularFile \<and> fn_nlink n = 1 \<and> (le_enforce_root env \<longrightarrow> fn_uid n = 0))"

definition checkpoint_ok :: "ledger_env \<Rightarrow> file_node option \<Rightarrow> tables \<Rightarrow> bool" where
  "checkpoint_ok env file t =
    ((\<forall>s. t_pending t = Some s \<longrightarrow> 1 \<le> s \<and> s \<le> int (length (t_events t)))
     \<and> (case file of
          None \<Rightarrow> required_sequence t (int (length (t_events t))) = 0 \<or> pending_covers t
        | Some n \<Rightarrow> node_ok env n \<and> (\<exists>cp i. de_checkpoint (le_serde env) (fn_content n) = Some cp
            \<and> cp_schema_version cp = 1 \<and> i < length (t_events t) \<and> cp_sequence cp = int i + 1
            \<and> cp_event_digest cp = ev_event_digest (t_events t ! i)
            \<and> (required_sequence t (int (length (t_events t))) \<le> cp_sequence cp \<or> pending_covers t))))"

definition tables_ok :: "ledger_env \<Rightarrow> file_node option \<Rightarrow> tables \<Rightarrow> bool" where
  "tables_ok env file t =
    (chain_ok env t \<and> keys_ok t \<and> rows_ok t \<and> locks_ok t \<and> history_ok t \<and> owners_ok t
     \<and> checkpoint_ok env file t)"

definition files_ok :: "ledger_env \<Rightarrow> state_files \<Rightarrow> bool" where
  "files_ok env fs =
    ((\<forall>n. sf_parent fs = Some n \<longrightarrow> fn_kind n = DirectoryNode \<and> (le_enforce_root env \<longrightarrow> fn_uid n = 0))
     \<and> (\<forall>n. sf_database fs = Some n \<longrightarrow> node_ok env n) \<and> (\<forall>n. sf_wal fs = Some n \<longrightarrow> node_ok env n)
     \<and> (\<forall>n. sf_shm fs = Some n \<longrightarrow> node_ok env n))"

definition ledger_inv :: "ledger_env \<Rightarrow> ledger \<Rightarrow> bool" where
  "ledger_inv env l =
    (tables_ok env (sf_checkpoint (lg_files l)) (lg_tables l) \<and> files_ok env (lg_files l)
     \<and> lg_integrity l = ''ok''
     \<and> 0 \<le> sc_user_version (lg_schema l) \<and> sc_user_version (lg_schema l) \<le> 8)"

text \<open>
  The conditions on the environment: digests of 32 bytes, a codec that reads back what it printed,
  and, where root ownership is enforced, a daemon that runs as root.
\<close>

definition env_ok :: "ledger_env \<Rightarrow> bool" where
  "env_ok env =
    (sha256_sized (le_sha256 env) \<and> serde_ok (le_serde env)
     \<and> (le_enforce_root env \<longrightarrow> le_daemon_uid env = 0))"

section \<open>Required sequence\<close>

lemma terminal_sequence_Max:
  assumes "\<forall>e \<in> set (t_events t). 1 \<le> ev_sequence e"
  shows "terminal_sequence t =
    Max (insert 0 (ev_sequence ` {e \<in> set (t_events t). ev_stage e \<in> set terminal_storage_values}))"
proof -
  define xs where "xs = filter (\<lambda>e. ev_stage e \<in> set terminal_storage_values) (t_events t)"
  have set_xs: "{e \<in> set (t_events t). ev_stage e \<in> set terminal_storage_values} = set xs"
    by (auto simp: xs_def)
  have pos: "\<forall>e \<in> set xs. 1 \<le> ev_sequence e" using assms by (auto simp: xs_def)
  have fold_max: "fold (\<lambda>x m. max (ev_sequence x) m) rs a = Max (set (a # map ev_sequence rs))" for rs a
    by (simp only: Max.set_eq_fold) (simp add: fold_map comp_def)
  show ?thesis
  proof (cases xs)
    case Nil
    then show ?thesis by (simp add: terminal_sequence_def set_xs flip: xs_def)
  next
    case (Cons r rs)
    have "Max (insert 0 (ev_sequence ` set xs)) = Max (ev_sequence ` set xs)"
      using pos Cons by (subst Max_insert) (auto intro!: max_absorb2 Max_ge_iff [THEN iffD2])
    then show ?thesis
      using Cons by (simp add: terminal_sequence_def set_xs fold_max flip: xs_def)
  qed
qed

lemma terminal_sequence_snoc:
  assumes "seq_ok (t_events t)" "t_events t' = t_events t @ [e]" "ev_sequence e = int (length (t_events t)) + 1"
  shows "terminal_sequence t' =
    (if ev_stage e \<in> set terminal_storage_values then ev_sequence e else terminal_sequence t)"
proof -
  let ?S = "ev_sequence ` {e \<in> set (t_events t). ev_stage e \<in> set terminal_storage_values}"
  have range: "\<forall>e \<in> set (t_events t). 1 \<le> ev_sequence e \<and> ev_sequence e \<le> int (length (t_events t))"
    using seq_ok_range [OF assms(1)] by auto
  have t: "terminal_sequence t = Max (insert 0 ?S)"
    using range by (intro terminal_sequence_Max) auto
  have "terminal_sequence t' = Max (insert 0 (ev_sequence `
      {x \<in> set (t_events t'). ev_stage x \<in> set terminal_storage_values}))"
    using range assms by (intro terminal_sequence_Max) auto
  also have "ev_sequence ` {x \<in> set (t_events t'). ev_stage x \<in> set terminal_storage_values}
      = (if ev_stage e \<in> set terminal_storage_values then insert (ev_sequence e) ?S else ?S)"
    by (auto simp: assms(2))
  finally have t': "terminal_sequence t' =
      Max (insert 0 (if ev_stage e \<in> set terminal_storage_values then insert (ev_sequence e) ?S else ?S))" .
  show ?thesis
  proof (cases "ev_stage e \<in> set terminal_storage_values")
    case True
    have "Max (insert 0 (insert (ev_sequence e) ?S)) = ev_sequence e"
      using range assms(3) by (intro Max_eqI) auto
    with True t' show ?thesis by simp
  next
    case False
    with t t' show ?thesis by simp
  qed
qed

lemma terminal_sequence_bounds:
  assumes "seq_ok (t_events t)"
  shows "0 \<le> terminal_sequence t \<and> terminal_sequence t \<le> int (length (t_events t))"
proof -
  have "\<forall>e \<in> set (t_events t). 1 \<le> ev_sequence e \<and> ev_sequence e \<le> int (length (t_events t))"
    using seq_ok_range [OF assms] by auto
  then show ?thesis by (subst terminal_sequence_Max | simp)+
qed

lemma periodic_eq: "0 \<le> n \<Longrightarrow> n \<le> i64_max \<Longrightarrow> sat_sub n (n mod 128) = n - n mod 128"
  unfolding sat_sub_def
  by (rule sat64_id) (auto simp: is_i64_def i64_min_def intro: order_trans [of _ n])

lemma required_sequence_bounds:
  assumes "seq_ok (t_events t)" "int (length (t_events t)) \<le> i64_max"
  shows "0 \<le> required_sequence t (int (length (t_events t)))
    \<and> required_sequence t (int (length (t_events t))) \<le> int (length (t_events t))"
  using terminal_sequence_bounds [OF assms(1)] assms(2)
  by (auto simp: required_sequence_def periodic_eq)

lemma required_sequence_snoc:
  assumes "seq_ok (t_events t)" "t_events t' = t_events t @ [e]"
    and "ev_sequence e = int (length (t_events t)) + 1" "int (length (t_events t)) + 1 \<le> i64_max"
    and "ev_stage e \<notin> set terminal_storage_values" "(int (length (t_events t)) + 1) mod 128 \<noteq> 0"
  shows "required_sequence t' (int (length (t_events t'))) = required_sequence t (int (length (t_events t)))"
proof -
  define n where "n = int (length (t_events t))"
  have n: "0 \<le> n" "n + 1 \<le> i64_max" "(n + 1) mod 128 \<noteq> 0" using assms by (auto simp: n_def)
  have "(n + 1) mod 128 = (n mod 128 + 1) mod 128" by (simp add: mod_add_left_eq)
  moreover have "n mod 128 + 1 < 128"
    using calculation n(3) pos_mod_bound [of 128 n] by (cases "n mod 128 = 127") auto
  ultimately have "(n + 1) - (n + 1) mod 128 = n - n mod 128" by simp
  then have "sat_sub (n + 1) ((n + 1) mod 128) = sat_sub n (n mod 128)"
    using n by (simp add: periodic_eq)
  then show ?thesis
    using terminal_sequence_snoc [OF assms(1-3)] assms(2,5)
    by (simp add: required_sequence_def n_def add.commute)
qed

section \<open>One event at a time\<close>

lemma checkpoint_ok_append:
  assumes ok: "checkpoint_ok env f t" and seq: "seq_ok (t_events t)"
    and len: "int (length (t_events t)) + 1 \<le> i64_max"
    and evs: "t_events t' = t_events t @ [e]" and e: "ev_sequence e = int (length (t_events t)) + 1"
    and pend: "t_pending t' = (if ev_stage e \<in> set terminal_storage_values
        \<or> (int (length (t_events t)) + 1) mod 128 = 0
      then Some (int (length (t_events t)) + 1) else t_pending t)"
  shows "checkpoint_ok env f t'"
proof -
  let ?mark = "ev_stage e \<in> set terminal_storage_values \<or> (int (length (t_events t)) + 1) mod 128 = 0"
  have seq': "seq_ok (t_events t')" and len': "int (length (t_events t')) \<le> i64_max"
    using seq e len by (simp_all add: evs)
  have cover: "pending_covers t'"
    if "?mark \<or> pending_covers t"
  proof (cases ?mark)
    case True
    then show ?thesis
      using pend required_sequence_bounds [OF seq' len'] by (auto simp: pending_covers_def evs)
  next
    case False
    then have "required_sequence t' (int (length (t_events t'))) = required_sequence t (int (length (t_events t)))"
      by (intro required_sequence_snoc [OF seq evs e len]) auto
    with False that pend show ?thesis by (auto simp: pending_covers_def split: option.splits)
  qed
  have bound: "\<forall>s. t_pending t' = Some s \<longrightarrow> 1 \<le> s \<and> s \<le> int (length (t_events t'))"
    using ok pend by (auto simp: checkpoint_ok_def evs split: if_splits)
  show ?thesis
  proof (cases "?mark \<or> pending_covers t")
    case True
    then show ?thesis
      using ok bound cover
      by (fastforce simp: checkpoint_ok_def evs nth_append split: option.splits)
  next
    case False
    then have "required_sequence t' (int (length (t_events t'))) = required_sequence t (int (length (t_events t)))"
      by (intro required_sequence_snoc [OF seq evs e len]) auto
    with False show ?thesis
      using ok bound
      by (fastforce simp: checkpoint_ok_def evs nth_append split: option.splits)
  qed
qed

lemma events_of_append [simp]:
  "t_events t' = t_events t @ [e] \<Longrightarrow>
    events_of i t' = events_of i t @ (if ev_operation_id e = i then [e] else [])"
  by (simp add: events_of_def)

text \<open>
  An update of one operation, as attaching a snapshot and every transition make it: the row
  \<^verbatim>\<open>r0\<close> of operation \<^verbatim>\<open>i\<close> is replaced by \<^verbatim>\<open>f r0\<close> in stage \<^verbatim>\<open>s\<close>, the event \<^verbatim>\<open>e\<close> is logged, and a
  terminal stage releases the locks.
\<close>

definition row_update ::
    "string \<Rightarrow> (operation_row \<Rightarrow> operation_row) \<Rightarrow> operation_row \<Rightarrow> operation_stage \<Rightarrow> event_row \<Rightarrow>
     tables \<Rightarrow> tables \<Rightarrow> bool" where
  "row_update i f r0 s e t t' =
    (r0 \<in> set (t_operations t) \<and> or_operation_id r0 = i \<and> stage_link (or_stage r0) (as_storage_value s)
     \<and> (\<forall>r. or_operation_id (f r) = or_operation_id r) \<and> (\<forall>r. or_plan_id (f r) = or_plan_id r)
     \<and> or_stage (f r0) = as_storage_value s
     \<and> (or_snapshot_relative_path (f r0) = None \<longleftrightarrow> or_snapshot_digest (f r0) = None)
     \<and> t_plans t' = t_plans t \<and> t_idempotency t' = t_idempotency t
     \<and> t_operations t' = map (\<lambda>r. if or_operation_id r = i then f r else r) (t_operations t)
     \<and> t_locks t' = (if is_terminal s then filter (\<lambda>k. lr_operation_id k \<noteq> i) (t_locks t) else t_locks t)
     \<and> t_events t' = t_events t @ [e] \<and> ev_operation_id e = i \<and> ev_stage e = as_storage_value s)"

lemma stage_link_open: "stage_link (or_stage r) y \<Longrightarrow> \<not> row_terminal r"
  by (auto simp: stage_link_def row_terminal_def elim!: is_terminal.elims)

lemma row_update_rows:
  assumes "row_update i f r0 s e t t'" "keys_ok t"
  shows "r' \<in> set (t_operations t') \<longleftrightarrow>
      r' = f r0 \<or> (r' \<in> set (t_operations t) \<and> or_operation_id r' \<noteq> i)"
proof -
  have r0: "r0 \<in> set (t_operations t)" "or_operation_id r0 = i"
    and ops: "t_operations t' = map (\<lambda>r. if or_operation_id r = i then f r else r) (t_operations t)"
    using assms(1) by (simp_all add: row_update_def)
  have only: "r = r0" if "r \<in> set (t_operations t)" "or_operation_id r = i" for r
    using assms(2) that r0 unfolding keys_ok_def by (metis find_key_distinct option.inject)
  define S where "S = {r \<in> set (t_operations t). or_operation_id r \<noteq> i}"
  have "set (t_operations t) = insert r0 S" using r0 by (auto simp: S_def dest: only)
  then have "set (t_operations t') = insert (f r0) ((\<lambda>r. if or_operation_id r = i then f r else r) ` S)"
    using r0(2) by (simp add: ops)
  moreover have "(\<lambda>r. if or_operation_id r = i then f r else r) ` S = S"
    by (rule trans [OF image_cong image_ident]) (auto simp: S_def)
  ultimately show ?thesis by (simp add: S_def)
qed

lemma row_update_keys:
  assumes "row_update i f r0 s e t t'" "keys_ok t"
  shows "keys_ok t'"
proof -
  have "map or_operation_id (t_operations t') = map or_operation_id (t_operations t)"
    and "map or_plan_id (t_operations t') = map or_plan_id (t_operations t)"
    and "t_plans t' = t_plans t" "t_idempotency t' = t_idempotency t"
    and "t_locks t' = (if is_terminal s then filter (\<lambda>k. lr_operation_id k \<noteq> i) (t_locks t) else t_locks t)"
    using assms(1) by (simp_all add: row_update_def)
  then show ?thesis using assms(2) by (simp add: keys_ok_def distinct_map_filter del: map_map)
qed

lemma row_update_locks:
  assumes up: "row_update i f r0 s e t t'" and ok: "keys_ok t" "locks_ok t"
  shows "locks_ok t'"
proof -
  note mem = row_update_rows [OF up ok(1)]
  have locks: "t_locks t' = (if is_terminal s then filter (\<lambda>k. lr_operation_id k \<noteq> i) (t_locks t) else t_locks t)"
    and plans: "t_plans t' = t_plans t" and r0: "r0 \<in> set (t_operations t)" "or_operation_id r0 = i"
    and fr0: "row_terminal (f r0) \<longleftrightarrow> is_terminal s" "or_operation_id (f r0) = i" "or_plan_id (f r0) = or_plan_id r0"
    using up by (simp_all add: row_update_def row_terminal_def)
  have "stage_link (or_stage r0) (as_storage_value s)" using up by (simp add: row_update_def)
  then have nonterm: "\<not> row_terminal r0" by (rule stage_link_open)
  have held: "holds_lock t' j key \<longleftrightarrow> holds_lock t j key" if "j \<noteq> i \<or> \<not> is_terminal s" for j key
    using that by (auto simp: holds_lock_def locks)
  have "\<exists>r \<in> set (t_operations t'). or_operation_id r = lr_operation_id k \<and> \<not> row_terminal r"
    if k: "k \<in> set (t_locks t')" for k
  proof (cases "lr_operation_id k = i")
    case True
    with k fr0 show ?thesis by (auto simp: locks mem split: if_splits)
  next
    case False
    from k have "k \<in> set (t_locks t)" by (auto simp: locks split: if_splits)
    then obtain r where "r \<in> set (t_operations t)" "or_operation_id r = lr_operation_id k" "\<not> row_terminal r"
      using ok(2) by (auto simp: locks_ok_def)
    with False show ?thesis by (auto simp: mem)
  qed
  moreover have "holds_lock t' (or_operation_id r) (pr_resource_key p)
      \<and> (takes_reload_lock (pr_operation_type p) \<longrightarrow> holds_lock t' (or_operation_id r) nginx_reload_key)"
    if "r \<in> set (t_operations t')" "p \<in> set (t_plans t')" "\<not> row_terminal r" "pr_plan_id p = or_plan_id r" for r p
  proof (cases "r = f r0")
    case True
    with that fr0 r0 nonterm ok(2) show ?thesis by (auto simp: held plans locks_ok_def)
  next
    case False
    with that mem ok(2) show ?thesis by (auto simp: held plans locks_ok_def)
  qed
  ultimately show ?thesis unfolding locks_ok_def by blast
qed

lemma row_update_history:
  assumes up: "row_update i f r0 s e t t'" and ok: "keys_ok t" "history_ok t"
  shows "history_ok t'"
  unfolding history_ok_def
proof
  fix r assume r: "r \<in> set (t_operations t')"
  note mem = row_update_rows [OF up ok(1)]
  have ev: "events_of j t' = events_of j t @ (if j = i then [e] else [])" for j
    using up by (auto simp: row_update_def events_of_def)
  show "or_operation_id r \<noteq> [] \<and> events_of (or_operation_id r) t' \<noteq> []
      \<and> ev_stage (hd (events_of (or_operation_id r) t')) = as_storage_value Approved
      \<and> ev_stage (last (events_of (or_operation_id r) t')) = or_stage r
      \<and> successively stage_link (map ev_stage (events_of (or_operation_id r) t'))"
  proof (cases "r = f r0")
    case True
    have "i \<noteq> []" "events_of i t \<noteq> []" "ev_stage (hd (events_of i t)) = as_storage_value Approved"
        "ev_stage (last (events_of i t)) = or_stage r0"
        "successively stage_link (map ev_stage (events_of i t))"
      using ok(2) up by (auto simp: history_ok_def row_update_def)
    with True up show ?thesis by (simp add: ev row_update_def successively_append_iff last_map)
  next
    case False
    with r mem have "r \<in> set (t_operations t)" "or_operation_id r \<noteq> i" by auto
    with ok(2) show ?thesis by (simp add: history_ok_def ev)
  qed
qed

lemma operation_update_ok:
  assumes up: "row_update i f r0 s e t t'"
    and ok: "keys_ok t" "rows_ok t" "locks_ok t" "history_ok t" "owners_ok t"
  shows "keys_ok t' \<and> rows_ok t' \<and> locks_ok t' \<and> history_ok t' \<and> owners_ok t'"
proof -
  note mem = row_update_rows [OF up ok(1)]
  have fr0: "or_operation_id (f r0) = i" "or_plan_id (f r0) = or_plan_id r0" "or_stage (f r0) = as_storage_value s"
      "or_snapshot_relative_path (f r0) = None \<longleftrightarrow> or_snapshot_digest (f r0) = None"
    and r0: "r0 \<in> set (t_operations t)" and plans: "t_plans t' = t_plans t"
    using up by (simp_all add: row_update_def)
  have "rows_ok t'"
    using ok(2) fr0(2-4) r0 unfolding rows_ok_def by (auto simp: mem plans)
  moreover have "owners_ok t'"
    unfolding owners_ok_def
  proof
    fix x assume "x \<in> set (t_events t')"
    then consider "ev_operation_id x = i" | "x \<in> set (t_events t)" using up by (auto simp: row_update_def)
    then show "ev_operation_id x = [] \<or> (\<exists>r \<in> set (t_operations t'). or_operation_id r = ev_operation_id x)"
    proof cases
      case 1
      then show ?thesis using fr0(1) mem by metis
    next
      case 2
      then show ?thesis using ok(5) fr0(1) mem unfolding owners_ok_def by metis
    qed
  qed
  ultimately show ?thesis
    using row_update_keys [OF up ok(1)] row_update_locks [OF up ok(1,3)] row_update_history [OF up ok(1,4)] by simp
qed

lemma tables_okD:
  assumes "tables_ok env f t"
  shows "chain_ok env t" "keys_ok t" "rows_ok t" "locks_ok t" "history_ok t" "owners_ok t"
    "checkpoint_ok env f t" "seq_ok (t_events t)" "int (length (t_events t)) \<le> i64_max"
    "evidence_bounded t"
  using assms by (auto simp: tables_ok_def chain_ok_def)

lemma append_step:
  assumes ok: "tables_ok env f t"
    and t2: "t_events t2 = t_events t"
    and run: "append_event env ei t2 = Inr (s, t3)"
    and t': "t_events t' = t_events t3"
      "t_commands t' = t_commands t @ cs" "\<forall>c \<in> set cs. cr_sequence c = s"
      "t_diagnostics t' = t_diagnostics t @ ds" "\<forall>d \<in> set ds. dr_sequence d = s"
      "t_pending t' = (if is_terminal (ei_stage ei) \<or> s mod 128 = 0 then Some s else t_pending t)"
    and evid: "\<And>row. ev_sequence row = s \<Longrightarrow> ev_evidence_digest row = ei_evidence_digest ei \<Longrightarrow>
      evidence_ok env t' row"
  obtains row where
    "t3 = t2\<lparr>t_events := t_events t @ [row]\<rparr>" "t_events t' = t_events t @ [row]"
    "ev_operation_id row = ei_operation_id ei" "ev_stage row = as_storage_value (ei_stage ei)"
    "chain_ok env t'" "checkpoint_ok env f t'"
proof -
  note D = tables_okD [OF ok]
  obtain row where row: "s = int (length (t_events t)) + 1" "s \<le> i64_max"
      "t3 = t2\<lparr>t_events := t_events t @ [row]\<rparr>"
      "link_ok env s (last_digest GENESIS_DIGEST (t_events t)) row"
      "ev_operation_id row = ei_operation_id ei" "ev_stage row = as_storage_value (ei_stage ei)"
      "ev_evidence_digest row = ei_evidence_digest ei"
    using append_event_Inr [of t2 env ei s t3] D(8,9) run unfolding t2 by metis
  have seq: "ev_sequence row = s" using row(4) by (simp add: link_ok_def)
  have evs: "t_events t' = t_events t @ [row]" using t'(1) row(3) by simp
  have "chain_ok env t'"
    by (rule chain_ok_extend [OF D(1) _ _ evs t'(2) _ t'(4)])
       (use row seq t' evid in auto)
  moreover have "checkpoint_ok env f t'"
    by (rule checkpoint_ok_append [OF D(7,8) _ evs])
       (use row seq t'(6) in auto)
  ultimately show thesis using that row evs by blast
qed

lemma append_step_plain:
  assumes ok: "tables_ok env f t"
    and t2: "t_events t2 = t_events t" "t_commands t2 = t_commands t"
      "t_diagnostics t2 = t_diagnostics t" "t_pending t2 = t_pending t"
    and run: "append_event env ei t2 = Inr (s, t3)"
    and t': "t' = mark_checkpoint_if_needed s (is_terminal (ei_stage ei)) (g t3)"
    and g: "\<And>x. t_events (g x) = t_events x" "\<And>x. t_commands (g x) = t_commands x"
      "\<And>x. t_diagnostics (g x) = t_diagnostics x" "\<And>x. t_pending (g x) = t_pending x"
  obtains row where
    "t3 = t2\<lparr>t_events := t_events t @ [row]\<rparr>" "t_events t' = t_events t @ [row]"
    "ev_operation_id row = ei_operation_id ei" "ev_stage row = as_storage_value (ei_stage ei)"
    "chain_ok env t'" "checkpoint_ok env f t'"
proof -
  note D = tables_okD [OF ok]
  obtain row where row: "s = int (length (t_events t)) + 1" "t3 = t2\<lparr>t_events := t_events t @ [row]\<rparr>"
    using append_event_Inr [of t2 env ei s t3] D(8,9) run unfolding t2 by metis
  have fields: "t_events t' = t_events t3" "t_commands t' = t_commands t @ []"
      "t_diagnostics t' = t_diagnostics t @ []"
      "t_pending t' = (if is_terminal (ei_stage ei) \<or> s mod 128 = 0 then Some s else t_pending t)"
    using row(2) t2 by (simp_all add: t' g mark_checkpoint_if_needed_def)
  have "evidence_ok env t' r" if "ev_sequence r = s" for r
    by (rule evidence_ok_none [OF D(10)]) (use that row(1) fields in auto)
  from append_step [OF ok t2(1) run fields(1,2) _ fields(3) _ fields(4) this] that
  show thesis by auto
qed

lemma mark_checkpoint_fields [simp]:
  "t_plans (mark_checkpoint_if_needed s b t) = t_plans t"
  "t_operations (mark_checkpoint_if_needed s b t) = t_operations t"
  "t_idempotency (mark_checkpoint_if_needed s b t) = t_idempotency t"
  "t_locks (mark_checkpoint_if_needed s b t) = t_locks t"
  "t_events (mark_checkpoint_if_needed s b t) = t_events t"
  "t_commands (mark_checkpoint_if_needed s b t) = t_commands t"
  "t_diagnostics (mark_checkpoint_if_needed s b t) = t_diagnostics t"
  "t_pending (mark_checkpoint_if_needed s b t) = (if b \<or> s mod 128 = 0 then Some s else t_pending t)"
  by (simp_all add: mark_checkpoint_if_needed_def)

lemma insert_row_Inr [simp]:
  "insert_plan prow t = Inr t' \<longleftrightarrow> t' = t\<lparr>t_plans := t_plans t @ [prow]\<rparr>
    \<and> (\<forall>r \<in> set (t_plans t). pr_plan_id r \<noteq> pr_plan_id prow \<and> pr_plan_hash r \<noteq> pr_plan_hash prow
         \<and> pr_idempotency_key r \<noteq> pr_idempotency_key prow)"
  "insert_idempotency irow t = Inr t' \<longleftrightarrow> t' = t\<lparr>t_idempotency := t_idempotency t @ [irow]\<rparr>
    \<and> (\<forall>r \<in> set (t_idempotency t). ir_idempotency_key r \<noteq> ir_idempotency_key irow)"
  "insert_operation orow t = Inr t' \<longleftrightarrow> t' = t\<lparr>t_operations := t_operations t @ [orow]\<rparr>
    \<and> (\<forall>r \<in> set (t_operations t). or_operation_id r \<noteq> or_operation_id orow \<and> or_plan_id r \<noteq> or_plan_id orow)"
  "insert_lock lrow t = Inr t' \<longleftrightarrow> t' = t\<lparr>t_locks := t_locks t @ [lrow]\<rparr>
    \<and> (\<forall>r \<in> set (t_locks t). lr_resource_key r \<noteq> lr_resource_key lrow)"
  "insert_diagnostics drow t = Inr t' \<longleftrightarrow> t' = t\<lparr>t_diagnostics := t_diagnostics t @ [drow]\<rparr>
    \<and> (\<forall>r \<in> set (t_diagnostics t). dr_sequence r \<noteq> dr_sequence drow)"
  "insert_command crow t = Inr t' \<longleftrightarrow> t' = t\<lparr>t_commands := t_commands t @ [crow]\<rparr>
    \<and> (\<forall>r \<in> set (t_commands t). cr_sequence r \<noteq> cr_sequence crow)"
  by (auto simp: insert_plan_def insert_idempotency_def insert_operation_def insert_lock_def
      insert_diagnostics_def insert_command_def list_ex_iff)

lemma load_plan_Inr:
  assumes "load_plan_from env i t = Inr p"
  obtains row where "row \<in> set (t_plans t)" "pr_plan_id row = i" "plan_of_row (le_serde env) row = Inr p"
    "sp_plan_id p = i" "sp_resource_key p = pr_resource_key row" "sp_operation_type p = pr_operation_type row"
  using assms by (auto simp: load_plan_from_def plan_of_row_def split: if_splits dest!: find_SomeD)

lemma parse_stage_storage [simp, codec_simps]: "parse_stage (as_storage_value s) = Inr s"
  by (cases s) (simp_all add: parse_stage_def as_storage_value.simps)

lemma parse_stage_Inr: "parse_stage v = Inr s \<Longrightarrow> v = as_storage_value s"
  by (auto simp: parse_stage_def as_storage_value.simps split: if_splits)

lemma load_operation_Inr:
  assumes "load_operation_from env i t = Inr p"
  obtains row where "row \<in> set (t_operations t)" "or_operation_id row = i"
    "or_stage row = as_storage_value (so_stage p)" "so_operation_id p = i"
    "load_plan_from env (or_plan_id row) t = Inr (so_plan p)"
    "so_before_digest p = or_before_digest row" "so_after_digest p = or_after_digest row"
    "so_rollback_result p = or_rollback_result row"
    "so_snapshot p = (case or_snapshot_relative_path row of None \<Rightarrow> None
       | Some x \<Rightarrow> map_option (\<lambda>d. \<lparr> sn_relative_path = x, sn_digest = d \<rparr>) (or_snapshot_digest row))"
  using assms
  by (auto simp: load_operation_from_def split: option.splits dest!: find_SomeD parse_stage_Inr)

section \<open>Transactions keep the invariant\<close>

lemma create_body_ok:
  assumes ok: "tables_ok env f t"
    and run: "create_or_reuse_plan_body env plan t = Inr (x, t')"
  shows "tables_ok env f t'"
proof (cases "find (\<lambda>r. ir_idempotency_key r = sp_idempotency_key plan) (t_idempotency t)")
  case (Some r)
  with run ok show ?thesis by (auto simp: create_or_reuse_plan_body_def split: if_splits)
next
  case None
  note D = tables_okD [OF ok]
  define prow where "prow = row_of_plan (le_serde env) plan"
  define irow where "irow = \<lparr> ir_idempotency_key = sp_idempotency_key plan,
      ir_request_digest = sp_request_digest plan, ir_plan_id = sp_plan_id plan, ir_operation_id = None \<rparr>"
  define t2 where "t2 = t\<lparr>t_plans := t_plans t @ [prow], t_idempotency := t_idempotency t @ [irow]\<rparr>"
  define ei where "ei = \<lparr> ei_operation_id = [], ei_plan_id = sp_plan_id plan, ei_stage = Planned,
      ei_result_code = ''planned'', ei_recorded_at_ms = sp_created_at_ms plan,
      ei_evidence_digest = sp_plan_hash plan \<rparr>"
  obtain s t3 where step: "append_event env ei t2 = Inr (s, t3)"
      "t' = mark_checkpoint_if_needed s False t3"
      "\<forall>r \<in> set (t_plans t). pr_plan_id r \<noteq> pr_plan_id prow"
      "\<forall>r \<in> set (t_idempotency t). ir_idempotency_key r \<noteq> ir_idempotency_key irow"
    using run None
    by (auto simp: create_or_reuse_plan_body_def prow_def irow_def t2_def ei_def split: prod.splits)
  obtain row where row: "t3 = t2\<lparr>t_events := t_events t @ [row]\<rparr>" "t_events t' = t_events t @ [row]"
      "ev_operation_id row = ei_operation_id ei" "chain_ok env t'" "checkpoint_ok env f t'"
    by (rule append_step_plain [OF ok _ _ _ _ step(1), of t' "\<lambda>x. x"])
       (auto simp: t2_def step(2) ei_def)
  have op: "ev_operation_id row = []" using row(3) by (simp add: ei_def)
  have fields: "t_plans t' = t_plans t @ [prow]" "t_operations t' = t_operations t"
      "t_locks t' = t_locks t" "t_idempotency t' = t_idempotency t @ [irow]"
    by (simp_all add: step(2) row(1) t2_def)
  have "keys_ok t'" using D(2) step(3,4) by (auto simp: keys_ok_def fields)
  moreover have "rows_ok t'" using D(3) by (auto simp: rows_ok_def fields)
  moreover have "locks_ok t'"
    using D(3,4) step(3) by (fastforce simp: locks_ok_def rows_ok_def fields holds_lock_def)
  moreover have "history_ok t'" using D(5) row(2) op by (auto simp: history_ok_def fields)
  moreover have "owners_ok t'" using D(6) row(2) op by (auto simp: owners_ok_def fields)
  ultimately show ?thesis using row(4,5) by (simp add: tables_ok_def)
qed

text \<open>The tables after a new operation with its locks, before the event is appended.\<close>

lemma begin_rows_ok:
  assumes D: "keys_ok t" "rows_ok t" "locks_ok t" "history_ok t" "owners_ok t"
    and new: "\<forall>r \<in> set (t_operations t). or_operation_id r \<noteq> i \<and> or_plan_id r \<noteq> pid" "i \<noteq> []"
    and orow: "or_operation_id orow = i" "or_plan_id orow = pid" "or_stage orow = as_storage_value Approved"
      "or_snapshot_relative_path orow = None" "or_snapshot_digest orow = None"
    and plan: "prow \<in> set (t_plans t)" "pr_plan_id prow = pid"
    and locks: "t_locks t' = t_locks t @ ls" "distinct (map lr_resource_key (t_locks t'))"
      "\<forall>k \<in> set ls. lr_operation_id k = i" "\<exists>l \<in> set ls. lr_resource_key l = pr_resource_key prow"
      "takes_reload_lock (pr_operation_type prow) \<Longrightarrow> \<exists>l \<in> set ls. lr_resource_key l = nginx_reload_key"
    and t': "t_plans t' = t_plans t" "t_operations t' = t_operations t @ [orow]"
      "map ir_idempotency_key (t_idempotency t') = map ir_idempotency_key (t_idempotency t)"
      "t_events t' = t_events t @ [e]" "ev_operation_id e = i" "ev_stage e = as_storage_value Approved"
  shows "keys_ok t' \<and> rows_ok t' \<and> locks_ok t' \<and> history_ok t' \<and> owners_ok t'"
proof -
  have nonterm: "\<not> row_terminal orow" by (simp add: row_terminal_def orow(3))
  have fresh: "events_of i t = []"
    using D(5) new by (auto simp: owners_ok_def events_of_def filter_empty_conv)
  have keys: "keys_ok t'"
    using D(1) new(1) orow(1,2) locks(2) by (auto simp: keys_ok_def t'(1-3))
  have rows: "rows_ok t'"
    using D(2) orow plan by (auto simp: rows_ok_def t'(1,2))
  have held: "holds_lock t' j k \<longleftrightarrow> holds_lock t j k \<or> (\<exists>l \<in> set ls. lr_resource_key l = k \<and> j = i)" for j k
    using locks(1,3) by (auto simp: holds_lock_def)
  have same_plan: "p = prow" if "p \<in> set (t_plans t)" "pr_plan_id p = pid" for p
    using D(1) that plan unfolding keys_ok_def by (metis find_key_distinct option.inject)
  have "locks_ok t'"
    unfolding locks_ok_def
  proof (intro conjI ballI impI)
    show "\<exists>r \<in> set (t_operations t'). or_operation_id r = lr_operation_id k \<and> \<not> row_terminal r"
      if "k \<in> set (t_locks t')" for k
      using that D(3) locks(1,3) orow(1) nonterm by (auto simp: locks_ok_def t'(2))
  next
    fix r p assume rp: "r \<in> set (t_operations t')" "p \<in> set (t_plans t')" "\<not> row_terminal r"
      "pr_plan_id p = or_plan_id r"
    have p: "p \<in> set (t_plans t)" using rp(2) by (simp add: t'(1))
    show "holds_lock t' (or_operation_id r) nginx_reload_key" if "takes_reload_lock (pr_operation_type p)"
      using rp p D(3) same_plan [OF p] orow(1,2) locks(4,5) that
      by (auto simp: t'(2) held locks_ok_def)
    show "holds_lock t' (or_operation_id r) (pr_resource_key p)"
      using rp p D(3) same_plan [OF p] orow(1,2) locks(4)
      by (auto simp: t'(2) held locks_ok_def)
  qed
  moreover have "history_ok t'"
    using D(4) new orow(1,3) t'(5,6) fresh by (auto simp: history_ok_def t'(2,4))
  moreover have "owners_ok t'"
    using D(5) orow(1) t'(5) by (auto simp: owners_ok_def t'(2,4))
  ultimately show ?thesis using keys rows by simp
qed

lemma begin_body_ok:
  assumes ok: "tables_ok env f t" and i: "i \<noteq> []"
    and run: "begin_operation_body env i pid ph key actor now t = Inr (x, t')"
  shows "tables_ok env f t'"
proof -
  note D = tables_okD [OF ok]
  obtain plan where plan: "load_plan_from env pid t = Inr plan"
    using run by (auto simp: begin_operation_body_def)
  obtain prow where prow: "prow \<in> set (t_plans t)" "pr_plan_id prow = pid"
      "sp_resource_key plan = pr_resource_key prow" "sp_operation_type plan = pr_operation_type prow"
    using load_plan_Inr [OF plan] by metis
  show ?thesis
  proof (cases "find (\<lambda>r. or_plan_id r = pid) (t_operations t)")
    case (Some r)
    with run ok plan show ?thesis by (auto simp: begin_operation_body_def split: if_splits)
  next
    case None
    define ei where "ei = \<lparr> ei_operation_id = i, ei_plan_id = pid, ei_stage = Approved,
        ei_result_code = ''approved'', ei_recorded_at_ms = now, ei_evidence_digest = ph \<rparr>"
    define orow where "orow = \<lparr> or_operation_id = i, or_plan_id = pid, or_stage = as_storage_value Approved,
        or_before_digest = plan_before_digest plan, or_after_digest = plan_before_digest plan,
        or_rollback_result = None, or_snapshot_relative_path = None, or_snapshot_digest = None,
        or_created_at_ms = now, or_updated_at_ms = now \<rparr>"
    define l1 where "l1 = \<lparr> lr_resource_key = sp_resource_key plan, lr_operation_id = i, lr_acquired_at_ms = now \<rparr>"
    define l2 where "l2 = \<lparr> lr_resource_key = nginx_reload_key, lr_operation_id = i, lr_acquired_at_ms = now \<rparr>"
    define ls where "ls = (if takes_reload_lock (sp_operation_type plan) then [l1, l2] else [l1])"
    define idem where "idem = map (\<lambda>r. if ir_idempotency_key r = key
        then r\<lparr>ir_operation_id := Some i\<rparr> else r) (t_idempotency t)"
    define t4 where "t4 = t\<lparr>t_operations := t_operations t @ [orow], t_locks := t_locks t @ ls,
        t_idempotency := idem\<rparr>"
    obtain s t5 where step: "append_event env ei t4 = Inr (s, t5)"
        "t' = mark_checkpoint_if_needed s False t5"
        "\<forall>r \<in> set (t_operations t). or_operation_id r \<noteq> i \<and> or_plan_id r \<noteq> pid"
        "\<forall>k \<in> set (t_locks t). \<forall>l \<in> set ls. lr_resource_key k \<noteq> lr_resource_key l"
        "distinct (map lr_resource_key ls)"
      using run None plan
      by (auto simp: begin_operation_body_def ei_def orow_def l1_def l2_def ls_def idem_def t4_def Let_def
          split: if_splits prod.splits)
    obtain row where row: "t5 = t4\<lparr>t_events := t_events t @ [row]\<rparr>" "t_events t' = t_events t @ [row]"
        "ev_operation_id row = ei_operation_id ei" "ev_stage row = as_storage_value (ei_stage ei)"
        "chain_ok env t'" "checkpoint_ok env f t'"
      by (rule append_step_plain [OF ok _ _ _ _ step(1), of t' "\<lambda>x. x"])
         (auto simp: t4_def step(2) ei_def)
    have "keys_ok t' \<and> rows_ok t' \<and> locks_ok t' \<and> history_ok t' \<and> owners_ok t'"
    proof (rule begin_rows_ok [OF D(2-6) step(3) i _ _ _ _ _ prow(1,2), of orow t' ls row])
      show "map ir_idempotency_key (t_idempotency t') = map ir_idempotency_key (t_idempotency t)"
        by (simp add: step(2) row(1) t4_def idem_def)
      show "distinct (map lr_resource_key (t_locks t'))"
        using D(2) step(4,5) by (auto simp: step(2) row(1) t4_def keys_ok_def)
    qed (use row(1-4) prow in \<open>auto simp: step(2) t4_def orow_def ls_def l1_def l2_def ei_def\<close>)
    with row(5,6) show ?thesis by (simp add: tables_ok_def)
  qed
qed

definition attachments_ok ::
    "ledger_env \<Rightarrow> stored_diagnostics option \<Rightarrow> string option \<Rightarrow> string \<Rightarrow> bool" where
  "attachments_ok env d c ev =
    (is_ok (load_command_evidence env c ev (map_option sdg_validator_evidence_digest d))
     \<and> is_ok (load_diagnostics env (map_option (\<lambda>d. \<lparr> dr_sequence = 0, dr_diagnostics_json = sdg_json d,
           dr_diagnostics_digest = sdg_digest d,
           dr_validator_evidence_digest = sdg_validator_evidence_digest d \<rparr>) d) ev))"

text \<open>A change that follows the lifecycle from each of the stages it expects.\<close>

definition change_ok :: "stage_change \<Rightarrow> bool" where
  "change_ok ch = list_all (\<lambda>s. ch_next ch \<in> set (next_stages s)) (ch_expected ch)"

lemma attach_body_ok:
  assumes ok: "tables_ok env f t"
    and run: "attach_snapshot_body env i sn now t = Inr (x, t')"
  shows "tables_ok env f t'"
proof -
  note D = tables_okD [OF ok]
  define g where "g = (\<lambda>r. r\<lparr>or_stage := as_storage_value Snapshotted,
      or_snapshot_relative_path := Some (sn_relative_path sn),
      or_snapshot_digest := Some (sn_digest sn), or_updated_at_ms := now\<rparr> :: operation_row)"
  define P where "P = (\<lambda>r :: operation_row. or_operation_id r = i \<and> or_stage r = as_storage_value Approved)"
  define t1 where "t1 = update_operations P g t"
  obtain s t2 pl where step: "append_event env \<lparr> ei_operation_id = i, ei_plan_id = pl,
        ei_stage = Snapshotted, ei_result_code = ''snapshot_durable'', ei_recorded_at_ms = now,
        ei_evidence_digest = sn_digest sn \<rparr> t1 = Inr (s, t2)"
      "t' = mark_checkpoint_if_needed s False t2" "length (filter P (t_operations t)) = 1"
    using run by (auto simp: attach_snapshot_body_def Let_def P_def g_def t1_def split: if_splits prod.splits)
  from step(3) have "\<exists>r0. r0 \<in> set (t_operations t) \<and> P r0"
    by (metis filter_empty_conv length_0_conv zero_neq_one)
  then obtain r0 where r0: "r0 \<in> set (t_operations t)" "P r0" by blast
  have only: "r = r0" if "r \<in> set (t_operations t)" "or_operation_id r = i" for r
    using D(2) that r0 unfolding keys_ok_def P_def by (metis find_key_distinct option.inject)
  obtain row where row: "t2 = t1\<lparr>t_events := t_events t @ [row]\<rparr>" "t_events t' = t_events t @ [row]"
      "ev_operation_id row = i" "ev_stage row = as_storage_value Snapshotted"
      "chain_ok env t'" "checkpoint_ok env f t'"
    by (rule append_step_plain [OF ok _ _ _ _ step(1), of t' "\<lambda>x. x"])
       (auto simp: t1_def update_operations_def step(2))
  have "t_operations t' = map (\<lambda>r. if or_operation_id r = i then g r else r) (t_operations t)"
    using r0(2) by (auto simp: step(2) row(1) t1_def update_operations_def P_def dest: only)
  moreover have "stage_link (or_stage r0) (as_storage_value Snapshotted)"
    using r0(2) by (auto simp: P_def stage_link_def intro!: exI [of _ Approved])
  ultimately have "row_update i g r0 Snapshotted row t t'"
    using r0 row by (auto simp: row_update_def g_def P_def step(2) t1_def update_operations_def)
  then have "keys_ok t' \<and> rows_ok t' \<and> locks_ok t' \<and> history_ok t' \<and> owners_ok t'"
    by (rule operation_update_ok [OF _ D(2-6)])
  with row(5,6) show ?thesis by (simp add: tables_ok_def)
qed

text \<open>What a committed transition did: the updated row, the logged event, the attached evidence.\<close>

definition changed_row :: "stage_change \<Rightarrow> stored_operation \<Rightarrow> operation_row \<Rightarrow> operation_row" where
  "changed_row ch cur r = r\<lparr>or_stage := as_storage_value (ch_next ch),
     or_after_digest := (case ch_after_digest ch of Some v \<Rightarrow> v | None \<Rightarrow> so_after_digest cur),
     or_rollback_result := (case ch_rollback_result ch of Some v \<Rightarrow> Some v | None \<Rightarrow> so_rollback_result cur),
     or_updated_at_ms := ch_now_ms ch\<rparr>"

definition change_event :: "string \<Rightarrow> stage_change \<Rightarrow> stored_operation \<Rightarrow> event_input" where
  "change_event i ch cur = \<lparr> ei_operation_id = i, ei_plan_id = sp_plan_id (so_plan cur),
     ei_stage = ch_next ch, ei_result_code = ch_result_code ch, ei_recorded_at_ms = ch_now_ms ch,
     ei_evidence_digest = ch_evidence_digest ch \<rparr>"

definition diagnostics_rows :: "stored_diagnostics option \<Rightarrow> int \<Rightarrow> diagnostics_row list" where
  "diagnostics_rows d s = (case d of None \<Rightarrow> [] | Some v \<Rightarrow> [\<lparr> dr_sequence = s, dr_diagnostics_json = sdg_json v,
     dr_diagnostics_digest = sdg_digest v, dr_validator_evidence_digest = sdg_validator_evidence_digest v \<rparr>])"

definition command_rows :: "string option \<Rightarrow> int \<Rightarrow> command_row list" where
  "command_rows c s = (case c of None \<Rightarrow> [] | Some v \<Rightarrow> [\<lparr> cr_sequence = s, cr_command_json = v \<rparr>])"

lemma transition_body_Inr:
  assumes "transition_body env i ch d c t = Inr (x, t')"
  obtains cur s t2 where "load_operation_from env i t = Inr cur" "so_stage cur \<in> set (ch_expected ch)"
    "append_event env (change_event i ch cur)
       (update_operations (\<lambda>r. or_operation_id r = i) (changed_row ch cur) t) = Inr (s, t2)"
    "t_events t' = t_events t2" "t_plans t' = t_plans t2" "t_operations t' = t_operations t2"
    "t_idempotency t' = t_idempotency t2"
    "t_locks t' = (if is_terminal (ch_next ch)
       then filter (\<lambda>k. lr_operation_id k \<noteq> i) (t_locks t2) else t_locks t2)"
    "t_commands t' = t_commands t2 @ command_rows c s" "t_diagnostics t' = t_diagnostics t2 @ diagnostics_rows d s"
    "t_pending t' = (if is_terminal (ch_next ch) \<or> s mod 128 = 0 then Some s else t_pending t2)"
  using assms
  by (cases c; cases d; cases "is_terminal (ch_next ch)")
     (auto simp: transition_body_def Let_def changed_row_def [abs_def] change_event_def diagnostics_rows_def
       command_rows_def split: if_splits prod.splits)

lemma attached_evidence_ok:
  assumes "attachments_ok env d c v" "evidence_bounded t" "s > int (length (t_events t))"
    and "t_commands t' = t_commands t @ command_rows c s" "t_diagnostics t' = t_diagnostics t @ diagnostics_rows d s"
    and "ev_sequence r = s" "ev_evidence_digest r = v"
  shows "evidence_ok env t' r"
proof -
  have "find (\<lambda>r. cr_sequence r = s) (t_commands t) = None" "find (\<lambda>r. dr_sequence r = s) (t_diagnostics t) = None"
    using assms(2,3) by (auto simp: find_None_iff evidence_bounded_def)
  then show ?thesis
    using assms(1,4-7)
    by (cases c; cases d)
       (auto simp: evidence_ok_def attachments_ok_def command_at_def diagnostics_at_def find_append
         command_rows_def diagnostics_rows_def load_diagnostics_def)
qed

lemma transition_body_ok:
  assumes ok: "tables_ok env f t" and ch: "change_ok ch"
    and att: "attachments_ok env d c (ch_evidence_digest ch)"
    and run: "transition_body env i ch d c t = Inr (x, t')"
  shows "tables_ok env f t'"
proof -
  note D = tables_okD [OF ok]
  obtain cur s t2 where step: "load_operation_from env i t = Inr cur" "so_stage cur \<in> set (ch_expected ch)"
    "append_event env (change_event i ch cur)
       (update_operations (\<lambda>r. or_operation_id r = i) (changed_row ch cur) t) = Inr (s, t2)"
    "t_events t' = t_events t2" "t_plans t' = t_plans t2" "t_operations t' = t_operations t2"
    "t_idempotency t' = t_idempotency t2"
    "t_locks t' = (if is_terminal (ch_next ch)
       then filter (\<lambda>k. lr_operation_id k \<noteq> i) (t_locks t2) else t_locks t2)"
    "t_commands t' = t_commands t2 @ command_rows c s" "t_diagnostics t' = t_diagnostics t2 @ diagnostics_rows d s"
    "t_pending t' = (if is_terminal (ch_next ch) \<or> s mod 128 = 0 then Some s else t_pending t2)"
    by (rule transition_body_Inr [OF run])
  define ei where "ei = change_event i ch cur"
  define t1 where "t1 = update_operations (\<lambda>r. or_operation_id r = i) (changed_row ch cur) t"
  have ev: "append_event env ei t1 = Inr (s, t2)" using step(3) by (simp add: ei_def t1_def)
  have eif: "ei_stage ei = ch_next ch" "ei_operation_id ei = i" "ei_evidence_digest ei = ch_evidence_digest ch"
    by (simp_all add: ei_def change_event_def)
  obtain r0 where r0: "r0 \<in> set (t_operations t)" "or_operation_id r0 = i"
      "or_stage r0 = as_storage_value (so_stage cur)"
    using load_operation_Inr [OF step(1)] by metis
  have link: "stage_link (or_stage r0) (as_storage_value (ch_next ch))"
    using r0(3) step(2) ch by (auto simp: stage_link_def change_ok_def list_all_iff)
  obtain row0 where seq: "s = int (length (t_events t)) + 1" "t2 = t1\<lparr>t_events := t_events t @ [row0]\<rparr>"
    using append_event_Inr [of t1 env ei s t2] D(8,9) ev by (auto simp: t1_def update_operations_def)
  have fields: "t_commands t' = t_commands t @ command_rows c s" "t_diagnostics t' = t_diagnostics t @ diagnostics_rows d s"
      "t_pending t' = (if is_terminal (ei_stage ei) \<or> s mod 128 = 0 then Some s else t_pending t)"
    using step(9-11) seq(2) eif by (simp_all add: t1_def update_operations_def)
  obtain row where row: "t2 = t1\<lparr>t_events := t_events t @ [row]\<rparr>" "t_events t' = t_events t @ [row]"
      "ev_operation_id row = ei_operation_id ei" "ev_stage row = as_storage_value (ei_stage ei)"
      "chain_ok env t'" "checkpoint_ok env f t'"
    by (rule append_step [OF ok _ ev step(4) fields(1) _ fields(2) _ fields(3)
          attached_evidence_ok [OF att D(10) _ fields(1,2)]])
       (auto simp: t1_def update_operations_def command_rows_def diagnostics_rows_def eif seq(1) split: option.splits)
  have "row_update i (changed_row ch cur) r0 (ch_next ch) row t t'"
    using D(3) r0 link row step(5-8) eif
    by (auto simp: row_update_def changed_row_def t1_def update_operations_def rows_ok_def)
  then have "keys_ok t' \<and> rows_ok t' \<and> locks_ok t' \<and> history_ok t' \<and> owners_ok t'"
    by (rule operation_update_ok [OF _ D(2-6)])
  with row(5,6) show ?thesis by (simp add: tables_ok_def)
qed

lemma prepared_command_ok:
  assumes "env_ok env" "prepare_command_evidence env c ev = Inr json"
  shows "attachments_ok env None (Some json) ev"
  using assms
  by (auto simp: env_ok_def serde_ok_def attachments_ok_def prepare_command_evidence_def
      load_command_evidence_def load_diagnostics_def split: if_splits)

lemma prepared_diagnostics_ok:
  assumes "env_ok env" "prepare_diagnostics env v ds = Inr (sd, combined)"
  shows "attachments_ok env (Some sd) None combined"
    and "prepare_command_evidence env c v = Inr json \<Longrightarrow> attachments_ok env (Some sd) (Some json) combined"
  using assms sha256_digest_valid
  by (auto simp: env_ok_def serde_ok_def attachments_ok_def prepare_diagnostics_def
      prepare_command_evidence_def load_command_evidence_def load_diagnostics_def Let_def
      split: if_splits)

end
