(* ===== verification/Ledger_Contract.thy ===== *)
theory Ledger_Contract
  imports Ledger_Safety
begin

text \<open>
  What the rest of the daemon may rely on when it calls the ledger: every operation, failing runs
  and storage faults included, keeps the ledger invariant, only ever extends the event log, and
  never touches a finished operation.  Each of the three is an instance of the step-relation
  interface, so a handler inherits them from the ledger calls it is made of.
\<close>

section \<open>Runs against failing storage\<close>

text \<open>The rules say which faults are left, and that only a pending fault makes an access fail.\<close>

lemma wp_storage_accessI:
  assumes "\<And>fs. set fs \<subseteq> set (lg_faults l) \<Longrightarrow> Q () (l\<lparr>lg_faults := fs\<rparr>)"
    and "\<And>fs. True \<in> set (lg_faults l) \<Longrightarrow> set fs \<subseteq> set (lg_faults l) \<Longrightarrow>
      E (Storage ''storage'') (l\<lparr>lg_faults := fs\<rparr>)"
  shows "wp storage_access Q E l"
proof (cases "lg_faults l")
  case Nil
  then show ?thesis using assms(1) [of "[]"] by (cases l) (simp add: wp_def storage_access_def)
next
  case (Cons f fs)
  then show ?thesis using assms(1,2) [of fs] by (auto simp: wp_def storage_access_def)
qed

lemma wp_transactionI:
  assumes "\<And>x t fs. body (lg_tables l) = Inr (x, t) \<Longrightarrow> set fs \<subseteq> set (lg_faults l) \<Longrightarrow>
      Q x (l\<lparr>lg_faults := fs, lg_tables := t\<rparr>)"
    and "\<And>e fs. body (lg_tables l) = Inl e \<Longrightarrow> set fs \<subseteq> set (lg_faults l) \<Longrightarrow> E e (l\<lparr>lg_faults := fs\<rparr>)"
    and "\<And>fs. True \<in> set (lg_faults l) \<Longrightarrow> set fs \<subseteq> set (lg_faults l) \<Longrightarrow>
      E (Storage ''storage'') (l\<lparr>lg_faults := fs\<rparr>)"
  shows "wp (transaction body) Q E l"
  unfolding transaction_def wp_bindM
  by (rule wp_storage_accessI) (use assms in \<open>auto simp: wp_def split: sum.splits prod.splits\<close>)

lemma wp_queryI:
  assumes "\<And>x fs. f (lg_tables l) = Inr x \<Longrightarrow> set fs \<subseteq> set (lg_faults l) \<Longrightarrow> Q x (l\<lparr>lg_faults := fs\<rparr>)"
    and "\<And>e fs. f (lg_tables l) = Inl e \<Longrightarrow> set fs \<subseteq> set (lg_faults l) \<Longrightarrow> E e (l\<lparr>lg_faults := fs\<rparr>)"
    and "\<And>fs. True \<in> set (lg_faults l) \<Longrightarrow> set fs \<subseteq> set (lg_faults l) \<Longrightarrow>
      E (Storage ''storage'') (l\<lparr>lg_faults := fs\<rparr>)"
  shows "wp (query f) Q E l"
  unfolding query_def wp_bindM wp_reading
  by (rule wp_storage_accessI) (use assms in \<open>auto split: sum.splits\<close>)

text \<open>The parts the operations of the ledger are made of move along a relation.\<close>

definition bodies_move :: "ledger_env \<Rightarrow> (ledger \<Rightarrow> ledger \<Rightarrow> bool) \<Rightarrow> bool" where
  "bodies_move env R =
    (moves R (complete_pending_checkpoint env)
     \<and> (\<forall>p. moves R (transaction (create_or_reuse_plan_body env p)))
     \<and> (\<forall>i p h k a n. i \<noteq> [] \<longrightarrow> moves R (transaction (begin_operation_body env i p h k a n)))
     \<and> (\<forall>i s n. moves R (transaction (attach_snapshot_body env i s n)))
     \<and> (\<forall>i c d cm. change_ok c \<longrightarrow> attachments_ok env d cm (ch_evidence_digest c) \<longrightarrow>
          moves R (transaction (transition_body env i c d cm))))"

text \<open>A relation that does not look at the pending faults.\<close>

locale ledger_relation = step_relation R for R :: "ledger \<Rightarrow> ledger \<Rightarrow> bool" +
  assumes R_faults: "R l (m\<lparr>lg_faults := fs\<rparr>) = R l m"
begin

lemma moves_storage_access: "moves R storage_access"
  unfolding moves_wp by (auto intro!: wp_storage_accessI simp: R_faults R_refl)

lemma moves_query: "moves R (query f)"
  unfolding moves_wp by (auto intro!: wp_queryI simp: R_faults R_refl)

lemma moves_transaction:
  assumes "\<And>l x t. body (lg_tables l) = Inr (x, t) \<Longrightarrow> R l (l\<lparr>lg_tables := t\<rparr>)"
  shows "moves R (transaction body)"
  unfolding moves_wp
proof (intro allI wp_transactionI)
  fix l :: ledger and x t fs assume "body (lg_tables l) = Inr (x, t)"
  then have "R l ((l\<lparr>lg_tables := t\<rparr>)\<lparr>lg_faults := fs\<rparr>)" using assms by (simp only: R_faults)
  also have "(l\<lparr>lg_tables := t\<rparr>)\<lparr>lg_faults := fs\<rparr> = l\<lparr>lg_faults := fs, lg_tables := t\<rparr>"
    by (cases l) simp
  finally show "R l (l\<lparr>lg_faults := fs, lg_tables := t\<rparr>)" .
qed (auto simp: R_faults R_refl)

lemma moves_load:
  "moves R (load_plan env i)" "moves R (load_operation env i)" "moves R (receipt env i)"
  "moves R (recent_receipts env uid n)" "moves R (incomplete_operations env)"
  "moves R (expired_unexecuted_proposal_plans env now)" "moves R (has_recent_staging_evidence env k now)"
  by (simp_all add: load_plan_def load_operation_def receipt_def recent_receipts_def
      incomplete_operations_def expired_unexecuted_proposal_plans_def has_recent_staging_evidence_def
      moves_query)

text \<open>
  Every operation of the ledger moves along the relation as soon as the transaction bodies and the
  checkpoint do.
\<close>

lemma moves_operations:
  assumes env: "env_ok env" and bodies: "bodies_move env R"
  shows "moves R (create_or_reuse_plan env plan)"
    and "i \<noteq> [] \<Longrightarrow> moves R (begin_operation env i p h k a n)"
    and "moves R (attach_snapshot env i s n)"
    and "change_ok c \<Longrightarrow> moves R (transition env i c)"
    and "change_ok c \<Longrightarrow> moves R (transition_with_command_evidence env i c v)"
    and "change_ok c \<Longrightarrow> moves R (transition_with_diagnostics env i c ds)"
    and "change_ok c \<Longrightarrow> moves R (transition_with_diagnostics_and_command env i c ds v)"
proof -
  have cp: "moves R (complete_pending_checkpoint env)"
    and create: "\<And>p. moves R (transaction (create_or_reuse_plan_body env p))"
    and begin_op: "\<And>i p h k a n. i \<noteq> [] \<Longrightarrow> moves R (transaction (begin_operation_body env i p h k a n))"
    and attach: "\<And>i s n. moves R (transaction (attach_snapshot_body env i s n))"
    and trans: "\<And>i c d cm. change_ok c \<Longrightarrow> attachments_ok env d cm (ch_evidence_digest c) \<Longrightarrow>
      moves R (transaction (transition_body env i c d cm))"
    using bodies by (simp_all add: bodies_move_def)
  note rules = moves_intros moves_rules cp moves_load create begin_op attach
  show "moves R (create_or_reuse_plan env plan)"
    unfolding create_or_reuse_plan_def by (intro rules)
  show "i \<noteq> [] \<Longrightarrow> moves R (begin_operation env i p h k a n)"
    unfolding begin_operation_def by (intro rules)
  show "moves R (attach_snapshot env i s n)"
    unfolding attach_snapshot_def by (intro rules)
  have internal: "moves R (transition_internal env i c d cm)"
    if "change_ok c" "attachments_ok env d cm (ch_evidence_digest c)" for c d cm
    unfolding transition_internal_def by (intro rules trans that)
  have plain: "moves R (transition env i c)" if "change_ok c" for c
    unfolding transition_def using that
    by (intro internal) (simp_all add: attachments_ok_def load_command_evidence_def load_diagnostics_def)
  then show "change_ok c \<Longrightarrow> moves R (transition env i c)" .
  have command: "moves R (transition_with_command_evidence env i c v)" if "change_ok c" for c v
  proof (cases "prepare_command_evidence env v (ch_evidence_digest c)")
    case (Inr json)
    then show ?thesis
      using internal [OF that prepared_command_ok [OF env Inr]]
      by (simp add: transition_with_command_evidence_def bindM_def liftR_def)
  qed (simp add: transition_with_command_evidence_def bindM_def liftR_def moves_def R_refl)
  then show "change_ok c \<Longrightarrow> moves R (transition_with_command_evidence env i c v)" .
  have upd: "change_ok (c\<lparr>ch_evidence_digest := x\<rparr>) = change_ok c" for c x
    by (simp add: change_ok_def)
  show "moves R (transition_with_diagnostics env i c ds)" if c: "change_ok c"
  proof (cases "ds = []")
    case nonempty: False
    show ?thesis
    proof (cases "prepare_diagnostics env (ch_evidence_digest c) ds")
      case (Inr r)
      obtain sd comb where r: "r = (sd, comb)" by (cases r)
      have "moves R (transition_internal env i (c\<lparr>ch_evidence_digest := comb\<rparr>) (Some sd) None)"
        using prepared_diagnostics_ok(1) [OF env] Inr r c by (intro internal) (simp_all add: upd)
      with nonempty Inr r show ?thesis
        by (simp add: transition_with_diagnostics_def bindM_def liftR_def)
    qed (simp add: transition_with_diagnostics_def bindM_def liftR_def moves_def R_refl nonempty)
  qed (simp add: transition_with_diagnostics_def plain c)
  show "moves R (transition_with_diagnostics_and_command env i c ds v)" if c: "change_ok c"
  proof (cases "ds = []")
    case nonempty: False
    show ?thesis
    proof (cases "prepare_command_evidence env v (ch_evidence_digest c)")
      case json: (Inr json)
      show ?thesis
      proof (cases "prepare_diagnostics env (ch_evidence_digest c) ds")
        case (Inr r)
        obtain sd comb where r: "r = (sd, comb)" by (cases r)
        have "moves R (transition_internal env i (c\<lparr>ch_evidence_digest := comb\<rparr>) (Some sd) (Some json))"
          using prepared_diagnostics_ok(2) [OF env _ json] Inr r c by (intro internal) (simp_all add: upd)
        with nonempty Inr r json show ?thesis
          by (simp add: transition_with_diagnostics_and_command_def bindM_def liftR_def)
      qed (simp add: transition_with_diagnostics_and_command_def bindM_def liftR_def moves_def R_refl
          nonempty json)
    qed (simp add: transition_with_diagnostics_and_command_def bindM_def liftR_def moves_def R_refl nonempty)
  qed (simp add: transition_with_diagnostics_and_command_def command c)
qed

end

section \<open>The invariant\<close>

lemma ledger_inv_faults [simp]: "ledger_inv env (l\<lparr>lg_faults := fs\<rparr>) = ledger_inv env l"
  by (simp add: ledger_inv_def)

lemma ledger_inv_faults_tables [simp]:
  "ledger_inv env (l\<lparr>lg_faults := fs, lg_tables := t\<rparr>) = ledger_inv env (l\<lparr>lg_tables := t\<rparr>)"
  by (simp add: ledger_inv_def)

interpretation inv_rel: ledger_relation "keeps (ledger_inv env)" for env
  by unfold_locales (auto simp: keeps_def)

lemma keeps_inv_tables:
  assumes "tables_ok env (sf_checkpoint (lg_files l)) (lg_tables l) \<Longrightarrow>
      tables_ok env (sf_checkpoint (lg_files l)) t"
  shows "keeps (ledger_inv env) l (l\<lparr>lg_tables := t\<rparr>)"
  using assms by (auto simp: keeps_def ledger_inv_def)

lemma inv_bodies:
  shows "moves (keeps (ledger_inv env)) (transaction (create_or_reuse_plan_body env plan))"
    and "i \<noteq> [] \<Longrightarrow> moves (keeps (ledger_inv env)) (transaction (begin_operation_body env i p h k a n))"
    and "moves (keeps (ledger_inv env)) (transaction (attach_snapshot_body env i s n))"
    and "change_ok c \<Longrightarrow> attachments_ok env d cm (ch_evidence_digest c) \<Longrightarrow>
      moves (keeps (ledger_inv env)) (transaction (transition_body env i c d cm))"
     apply (rule inv_rel.moves_transaction, rule keeps_inv_tables, erule (1) create_body_ok)
    apply (rule inv_rel.moves_transaction, rule keeps_inv_tables, erule (2) begin_body_ok)
   apply (rule inv_rel.moves_transaction, rule keeps_inv_tables, erule (1) attach_body_ok)
  apply (rule inv_rel.moves_transaction, rule keeps_inv_tables, erule (3) transition_body_ok)
  done

text \<open>Writing the checkpoint: the file then names the newest event.\<close>

definition checkpoint_current :: "ledger_env \<Rightarrow> ledger \<Rightarrow> bool" where
  "checkpoint_current env l =
    (ledger_inv env l \<and> (\<exists>n cp. sf_checkpoint (lg_files l) = Some n
       \<and> de_checkpoint (le_serde env) (fn_content n) = Some cp
       \<and> cp_sequence cp = int (length (t_events (lg_tables l)))))"

lemma checkpoint_current_faults [simp]:
  "checkpoint_current env (l\<lparr>lg_faults := fs\<rparr>) = checkpoint_current env l"
  by (simp add: checkpoint_current_def)

lemma write_checkpoint_current:
  assumes env: "env_ok env" and inv: "ledger_inv env l" and ev: "latest_event (lg_tables l) = Some e"
  shows "checkpoint_current env (set_checkpoint_file (Some (checkpoint_node env
    \<lparr> cp_schema_version = 1, cp_sequence = ev_sequence e, cp_event_digest = ev_event_digest e \<rparr>)) l)"
proof -
  let ?t = "lg_tables l"
  have ok: "tables_ok env (sf_checkpoint (lg_files l)) ?t" using inv by (simp add: ledger_inv_def)
  note D = tables_okD [OF ok]
  have e: "e = last (t_events ?t)" "t_events ?t \<noteq> []"
    using ev latest_event_eq [OF D(8)] by (auto split: if_splits)
  have seq: "ev_sequence e = int (length (t_events ?t))" using last_sequence [OF D(8) e(2)] e(1) by simp
  obtain i where i: "length (t_events ?t) = Suc i" using e(2) by (cases "length (t_events ?t)") auto
  have nth: "e = t_events ?t ! i" using e i by (simp add: last_conv_nth)
  have codec: "de_checkpoint (le_serde env) (ser_checkpoint (le_serde env) cp) = Some cp" for cp
    using env by (simp add: env_ok_def serde_ok_def)
  have "checkpoint_ok env (Some (checkpoint_node env
      \<lparr> cp_schema_version = 1, cp_sequence = ev_sequence e, cp_event_digest = ev_event_digest e \<rparr>)) ?t"
    unfolding checkpoint_ok_def
    using D(7) env i nth seq required_sequence_bounds [OF D(8,9)]
    by (auto simp: checkpoint_ok_def checkpoint_node_def node_ok_def env_ok_def codec intro!: exI [of _ i])
  then show ?thesis
    using inv ok seq env
    by (auto simp: checkpoint_current_def ledger_inv_def set_checkpoint_file_def tables_ok_def files_ok_def
        checkpoint_node_def codec)
qed

lemma clear_checkpoint_inv:
  assumes "checkpoint_current env l"
  shows "ledger_inv env (l\<lparr>lg_tables := (lg_tables l)\<lparr>t_pending := None\<rparr>\<rparr>)"
proof -
  let ?t = "lg_tables l" and ?t' = "(lg_tables l)\<lparr>t_pending := None\<rparr>"
  have ok: "tables_ok env (sf_checkpoint (lg_files l)) ?t"
    using assms by (simp add: checkpoint_current_def ledger_inv_def)
  note D = tables_okD [OF ok]
  have req: "required_sequence ?t' m = required_sequence ?t m" for m
    by (simp add: required_sequence_def terminal_sequence_def)
  have cp: "checkpoint_ok env (sf_checkpoint (lg_files l)) ?t'"
    using assms D(7) required_sequence_bounds [OF D(8,9)]
    by (auto simp: checkpoint_current_def checkpoint_ok_def req)
  have same: "chain_ok env ?t'" "keys_ok ?t'" "rows_ok ?t'" "locks_ok ?t'" "history_ok ?t'" "owners_ok ?t'"
    using D(1-6) chain_ok_cong [of ?t' ?t env]
    by (simp_all add: keys_ok_def rows_ok_def locks_ok_def holds_lock_def history_ok_def events_of_def owners_ok_def)
  with cp assms show ?thesis by (simp add: checkpoint_current_def ledger_inv_def tables_ok_def)
qed

lemma wp_write_checkpointI:
  assumes "validate_private_file False True (sf_checkpoint (lg_files l)) = Inr ()"
    and "\<And>fs. set fs \<subseteq> set (lg_faults l) \<Longrightarrow>
      Q () ((set_checkpoint_file (Some (checkpoint_node env cp)) l)\<lparr>lg_faults := fs\<rparr>)"
    and "\<And>fs. True \<in> set (lg_faults l) \<Longrightarrow>
      E (Storage ''storage'') ((set_checkpoint_file (Some (checkpoint_node env cp)) l)\<lparr>lg_faults := fs\<rparr>)"
    and "\<And>fs. True \<in> set (lg_faults l) \<Longrightarrow> E (Storage ''storage'') (l\<lparr>lg_faults := fs\<rparr>)"
  shows "wp (write_checkpoint env cp) Q E l"
proof -
  have upd: "set_checkpoint_file n (l\<lparr>lg_faults := gs\<rparr>) = (set_checkpoint_file n l)\<lparr>lg_faults := gs\<rparr>" for n gs
    by (simp add: set_checkpoint_file_def)
  show ?thesis
    unfolding write_checkpoint_def wp_bindM wp_reading assms(1) sum.case wp_modify
  proof (intro wp_storage_accessI, goal_cases)
    case (1 fs gs)
    then show ?case using assms(2) [of gs] by (auto simp: upd)
  next
    case (2 fs gs)
    then show ?case using assms(3) [of gs] by (auto simp: upd)
  next
    case (3 fs)
    then show ?case using assms(4) by blast
  qed
qed

text \<open>
  Finishing a checkpoint: nothing is pending afterwards, the invariant holds on every path, and
  only a storage fault makes it fail.
\<close>

definition completed :: "ledger_env \<Rightarrow> ledger \<Rightarrow> bool" where
  "completed env l = (ledger_inv env l \<and> t_pending (lg_tables l) = None)"

lemma completed_faults [simp]: "completed env (l\<lparr>lg_faults := fs\<rparr>) = completed env l"
  by (simp add: completed_def)

lemma clear_pending_outcome:
  assumes "checkpoint_current env l" and "t_pending (lg_tables l) = Some req"
  shows "wp (clear_completed_checkpoint req) (\<lambda>_. completed env)
    (\<lambda>e l'. ledger_inv env l' \<and> e = Storage ''storage'' \<and> True \<in> set (lg_faults l)) l"
proof -
  have inv: "ledger_inv env l" using assms(1) by (simp add: checkpoint_current_def)
  show ?thesis
    unfolding clear_completed_checkpoint_def
    using inv clear_checkpoint_inv [OF assms(1)] assms(2)
    by (intro wp_transactionI) (auto simp: completed_def split: if_splits)
qed

lemma complete_pending_outcome:
  assumes env: "env_ok env" and inv: "ledger_inv env l"
  shows "wp (complete_pending_checkpoint env) (\<lambda>_. completed env)
    (\<lambda>e l'. ledger_inv env l' \<and> e = Storage ''storage'' \<and> True \<in> set (lg_faults l)) l"
  unfolding complete_pending_checkpoint_def wp_bindM
proof (rule wp_queryI, goal_cases)
  case (1 pending fs)
  let ?t = "lg_tables l"
  have ok: "tables_ok env (sf_checkpoint (lg_files l)) ?t" using inv by (simp add: ledger_inv_def)
  note D = tables_okD [OF ok]
  show ?case
  proof (cases pending)
    case None
    with inv 1 show ?thesis by (simp add: wp_ret completed_def)
  next
    case (Some req)
    then have req: "t_pending ?t = Some req" using 1 by simp
    then have bound: "1 \<le> req" "req \<le> int (length (t_events ?t))" using D(7) by (auto simp: checkpoint_ok_def)
    then have nonempty: "t_events ?t \<noteq> []" by auto
    have latest: "latest_event ?t = Some (last (t_events ?t))"
      using latest_event_eq [OF D(8)] nonempty by simp
    have seq: "\<not> ev_sequence (last (t_events ?t)) < req" using last_sequence [OF D(8) nonempty] bound by simp
    have cpfile: "validate_private_file False True (sf_checkpoint (lg_files l)) = Inr ()"
      using D(7) by (auto simp: validate_private_file_def checkpoint_ok_def node_ok_def split: option.splits)
    define ev where "ev = last (t_events ?t)"
    define cp where "cp = \<lparr> cp_schema_version = 1, cp_sequence = ev_sequence ev, cp_event_digest = ev_event_digest ev \<rparr>"
    let ?l = "set_checkpoint_file (Some (checkpoint_node env cp)) l"
    have cur: "checkpoint_current env (?l\<lparr>lg_faults := fs\<rparr>)" for fs
      using write_checkpoint_current [OF env inv latest] by (simp add: ev_def cp_def)
    then have inv': "ledger_inv env ?l" by (simp add: checkpoint_current_def)
    have main: "wp (bindM (write_checkpoint env cp) (\<lambda>_. clear_completed_checkpoint req)) (\<lambda>_. completed env)
      (\<lambda>e l'. ledger_inv env l' \<and> e = Storage ''storage'' \<and> True \<in> set (lg_faults l)) (l\<lparr>lg_faults := fs\<rparr>)"
      if "set fs \<subseteq> set (lg_faults l)" for fs
    proof (unfold wp_bindM, rule wp_write_checkpointI, goal_cases)
      case (2 fs')
      then have "set fs' \<subseteq> set (lg_faults l)" using that by auto
      then have "wp (clear_completed_checkpoint req) (\<lambda>_. completed env)
        (\<lambda>e l'. ledger_inv env l' \<and> e = Storage ''storage'' \<and> True \<in> set (lg_faults l)) (?l\<lparr>lg_faults := fs'\<rparr>)"
        using req
        by (intro wp_mono [OF clear_pending_outcome [OF cur]]) (auto simp: set_checkpoint_file_def)
      then show ?case by (simp add: set_checkpoint_file_def)
    qed (use cpfile inv inv' that in \<open>auto simp: set_checkpoint_file_def\<close>)
    show ?thesis
      unfolding Some option.case wp_bindM
      by (rule wp_queryI) (use seq main inv latest 1 in \<open>auto simp: ev_def [symmetric] cp_def\<close>)
  qed
qed (use inv in auto)

lemma inv_complete_pending: "env_ok env \<Longrightarrow> moves (keeps (ledger_inv env)) (complete_pending_checkpoint env)"
  unfolding moves_wp
proof
  fix l assume env: "env_ok env"
  show "wp (complete_pending_checkpoint env) (\<lambda>_. keeps (ledger_inv env) l) (\<lambda>_. keeps (ledger_inv env) l) l"
  proof (cases "ledger_inv env l")
    case True
    show ?thesis by (rule wp_mono [OF complete_pending_outcome [OF env True]]) (auto simp: keeps_def completed_def)
  qed (simp add: keeps_def wp_state)
qed

lemma inv_bodies_move: "env_ok env \<Longrightarrow> bodies_move env (keeps (ledger_inv env))"
  by (simp add: bodies_move_def inv_complete_pending inv_bodies)

lemmas inv_operations = inv_rel.moves_operations [OF _ inv_bodies_move]

section \<open>The log only grows, and finished operations stay\<close>

definition log_extends :: "tables \<Rightarrow> tables \<Rightarrow> bool" where
  "log_extends t t' = (\<exists>evs. t_events t' = t_events t @ evs)"

definition finished_stay :: "tables \<Rightarrow> tables \<Rightarrow> bool" where
  "finished_stay t t' = (\<forall>r \<in> set (t_operations t). row_terminal r \<longrightarrow> r \<in> set (t_operations t'))"

text \<open>The idempotency keys given out, each with the request digest and the plan it stands for.\<close>

definition promises :: "tables \<Rightarrow> (string \<times> string \<times> string) set" where
  "promises t = (\<lambda>r. (ir_idempotency_key r, ir_request_digest r, ir_plan_id r)) ` set (t_idempotency t)"

definition plans_stay :: "tables \<Rightarrow> tables \<Rightarrow> bool" where
  "plans_stay t t' = (set (t_plans t) \<subseteq> set (t_plans t') \<and> promises t \<subseteq> promises t')"

lemma promises_cong: "t_idempotency t' = t_idempotency t \<Longrightarrow> promises t' = promises t"
  by (simp add: promises_def)

lemma promises_claim:
  "t_idempotency t' = map (\<lambda>r. if ir_idempotency_key r = k then r\<lparr>ir_operation_id := x\<rparr> else r) (t_idempotency t)
    \<Longrightarrow> promises t' = promises t"
  by (simp only: promises_def list.set_map image_image, rule image_cong [OF refl]) simp

lemma promises_append: "t_idempotency t' = t_idempotency t @ rs \<Longrightarrow> promises t \<subseteq> promises t'"
  by (auto simp: promises_def)

definition ledger_progress :: "ledger_env \<Rightarrow> ledger \<Rightarrow> ledger \<Rightarrow> bool" where
  "ledger_progress env l l' =
    (ledger_inv env l \<longrightarrow> ledger_inv env l' \<and> log_extends (lg_tables l) (lg_tables l')
       \<and> finished_stay (lg_tables l) (lg_tables l') \<and> plans_stay (lg_tables l) (lg_tables l'))"

lemmas progress_defs = log_extends_def finished_stay_def plans_stay_def

lemma append_event_fields:
  assumes "append_event env ei t = Inr (s, t')"
  obtains row where "t' = t\<lparr>t_events := t_events t @ [row]\<rparr>"
  using assms by (auto simp: append_event_def Let_def insert_event_def split: if_splits prod.splits)

lemma create_body_progress:
  assumes "create_or_reuse_plan_body env plan t = Inr (x, t')"
  shows "log_extends t t' \<and> finished_stay t t' \<and> plans_stay t t'"
proof -
  have "log_extends t t'" "finished_stay t t'" "set (t_plans t) \<subseteq> set (t_plans t')"
      "\<exists>rs. t_idempotency t' = t_idempotency t @ rs"
    using assms
    by (auto simp: create_or_reuse_plan_body_def log_extends_def finished_stay_def
        split: option.splits if_splits prod.splits elim!: append_event_fields)
  then show ?thesis by (auto simp: plans_stay_def dest: promises_append)
qed

lemma begin_body_progress:
  assumes "begin_operation_body env i p h k a n t = Inr (x, t')"
  shows "log_extends t t' \<and> finished_stay t t' \<and> plans_stay t t'"
proof -
  have "log_extends t t'" "finished_stay t t'" "set (t_plans t) \<subseteq> set (t_plans t')"
      "t' = t \<or> t_idempotency t' = map (\<lambda>r. if ir_idempotency_key r = k
          then r\<lparr>ir_operation_id := Some i\<rparr> else r) (t_idempotency t)"
    using assms
    by (auto simp: begin_operation_body_def Let_def log_extends_def finished_stay_def
        split: option.splits if_splits prod.splits elim!: append_event_fields)
  then show ?thesis by (auto simp: plans_stay_def dest: promises_claim)
qed

lemma attach_body_progress:
  assumes "attach_snapshot_body env i s n t = Inr (x, t')"
  shows "log_extends t t' \<and> finished_stay t t' \<and> plans_stay t t'"
proof -
  define P where "P = (\<lambda>r :: operation_row. or_operation_id r = i \<and> or_stage r = as_storage_value Approved)"
  define g where "g = (\<lambda>r :: operation_row. r\<lparr>or_stage := as_storage_value Snapshotted,
      or_snapshot_relative_path := Some (sn_relative_path s),
      or_snapshot_digest := Some (sn_digest s), or_updated_at_ms := n\<rparr>)"
  have P: "\<And>r. P r \<Longrightarrow> \<not> row_terminal r"
      "t_operations t' = map (\<lambda>r. if P r then g r else r) (t_operations t)"
      "t_plans t' = t_plans t \<and> t_idempotency t' = t_idempotency t" "\<exists>row. t_events t' = t_events t @ [row]"
    using assms
    by (auto simp: attach_snapshot_body_def Let_def update_operations_def row_terminal_def P_def g_def
        split: if_splits prod.splits elim!: append_event_fields)
  have "r \<in> set (t_operations t')" if "r \<in> set (t_operations t)" "row_terminal r" for r
    using that P(1) unfolding P(2) by (auto simp: image_iff intro!: bexI [of _ r])
  with P(3,4) show ?thesis using promises_cong [of t' t] by (auto simp: progress_defs)
qed

lemma transition_body_progress:
  assumes ok: "keys_ok t" and ch: "change_ok ch" and run: "transition_body env i ch d c t = Inr (x, t')"
  shows "log_extends t t' \<and> finished_stay t t' \<and> plans_stay t t'"
proof -
  obtain cur s t2 where step: "load_operation_from env i t = Inr cur" "so_stage cur \<in> set (ch_expected ch)"
    "append_event env (change_event i ch cur)
       (update_operations (\<lambda>r. or_operation_id r = i) (changed_row ch cur) t) = Inr (s, t2)"
    "t_events t' = t_events t2" "t_plans t' = t_plans t2" "t_operations t' = t_operations t2"
    "t_idempotency t' = t_idempotency t2"
    by (rule transition_body_Inr [OF run])
  obtain r0 where r0: "r0 \<in> set (t_operations t)" "or_operation_id r0 = i"
      "or_stage r0 = as_storage_value (so_stage cur)"
    using load_operation_Inr [OF step(1)] by metis
  have open_row: "\<not> row_terminal r" if "r \<in> set (t_operations t)" "or_operation_id r = i" for r
  proof -
    have "r = r0" using ok that r0 unfolding keys_ok_def by (metis find_key_distinct option.inject)
    moreover have "stage_link (or_stage r0) (as_storage_value (ch_next ch))"
      using r0(3) step(2) ch by (auto simp: stage_link_def change_ok_def list_all_iff)
    ultimately show ?thesis by (auto dest: stage_link_open)
  qed
  have P: "t_operations t' = map (\<lambda>r. if or_operation_id r = i then changed_row ch cur r else r) (t_operations t)"
      "t_plans t' = t_plans t \<and> t_idempotency t' = t_idempotency t" "\<exists>row. t_events t' = t_events t @ [row]"
    using step(3-7) by (auto simp: update_operations_def elim!: append_event_fields)
  have "r \<in> set (t_operations t')" if "r \<in> set (t_operations t)" "row_terminal r" for r
    using that open_row [OF that(1)] unfolding P(1) by (auto simp: image_iff intro!: bexI [of _ r])
  with P(2,3) show ?thesis using promises_cong [of t' t] by (auto simp: progress_defs)
qed

text \<open>Checkpoints, migration and opening do not touch the recorded rows.\<close>

definition same_rows :: "ledger \<Rightarrow> ledger \<Rightarrow> bool" where
  "same_rows l l' = ((lg_tables l')\<lparr>t_pending := None\<rparr> = (lg_tables l)\<lparr>t_pending := None\<rparr>)"

lemma same_rows_fields:
  "same_rows l l' \<Longrightarrow> t_events (lg_tables l') = t_events (lg_tables l)"
  "same_rows l l' \<Longrightarrow> t_operations (lg_tables l') = t_operations (lg_tables l)"
  "same_rows l l' \<Longrightarrow> t_plans (lg_tables l') = t_plans (lg_tables l)"
  "same_rows l l' \<Longrightarrow> t_locks (lg_tables l') = t_locks (lg_tables l)"
  "same_rows l l' \<Longrightarrow> t_idempotency (lg_tables l') = t_idempotency (lg_tables l)"
  by (cases "lg_tables l"; cases "lg_tables l'"; simp add: same_rows_def)+

interpretation rows_rel: ledger_relation same_rows
  by unfold_locales (auto simp: same_rows_def)

lemma moves_modify: "(\<And>s. R s (f s)) \<Longrightarrow> moves R (modify f)"
  by (simp add: moves_def modify_def)

lemmas rows_rules =
  moves_intros rows_rel.moves_rules rows_rel.moves_storage_access rows_rel.moves_query
  rows_rel.moves_load rows_rel.moves_transaction moves_modify

lemma rows_complete_pending: "moves same_rows (complete_pending_checkpoint env)"
  unfolding complete_pending_checkpoint_def write_checkpoint_def clear_completed_checkpoint_def
  by (intro rows_rules) (auto simp: same_rows_def set_checkpoint_file_def split: if_splits)

lemma rows_run_migrations: "moves same_rows (run_migrations ms)"
proof (induction ms rule: run_migrations.induct)
  case (2 object version rest)
  show ?case
    unfolding run_migrations.simps run_migration_def
    by (intro rows_rules 2) (auto simp: same_rows_def)
qed (simp add: rows_rules)

lemma rows_migrate: "moves same_rows migrate"
  unfolding migrate_def set_version_def run_migration_def
  by (intro rows_rules rows_run_migrations) (auto simp: same_rows_def)

lemma rows_open: "moves same_rows (open_ledger_file env)"
  unfolding open_ledger_file_def prepare_state_def sqlite_open_def secure_database_files_def
    secure_file_def update_files_def validate_continuity_def Let_def
  apply (intro rows_rules rows_migrate rows_complete_pending)
     apply (auto simp: same_rows_def intro!: rows_rules split: file_kind.splits bool.splits)
  done

section \<open>The contract\<close>

interpretation prog_rel: ledger_relation "ledger_progress env" for env
  by unfold_locales (auto simp: ledger_progress_def log_extends_def finished_stay_def plans_stay_def)

lemma progress_tables:
  assumes "tables_ok env (sf_checkpoint (lg_files l)) (lg_tables l) \<Longrightarrow>
      tables_ok env (sf_checkpoint (lg_files l)) t
      \<and> log_extends (lg_tables l) t \<and> finished_stay (lg_tables l) t \<and> plans_stay (lg_tables l) t"
  shows "ledger_progress env l (l\<lparr>lg_tables := t\<rparr>)"
  using assms by (auto simp: ledger_progress_def ledger_inv_def)

lemma progress_bodies:
  shows "moves (ledger_progress env) (transaction (create_or_reuse_plan_body env plan))"
    and "i \<noteq> [] \<Longrightarrow> moves (ledger_progress env) (transaction (begin_operation_body env i p h k a n))"
    and "moves (ledger_progress env) (transaction (attach_snapshot_body env i s n))"
    and "change_ok c \<Longrightarrow> attachments_ok env d cm (ch_evidence_digest c) \<Longrightarrow>
      moves (ledger_progress env) (transaction (transition_body env i c d cm))"
     apply (rule prog_rel.moves_transaction, rule progress_tables,
      blast intro: create_body_ok dest: create_body_progress)
    apply (rule prog_rel.moves_transaction, rule progress_tables,
      blast intro: begin_body_ok dest: begin_body_progress)
   apply (rule prog_rel.moves_transaction, rule progress_tables,
      blast intro: attach_body_ok dest: attach_body_progress)
  apply (rule prog_rel.moves_transaction, rule progress_tables,
      blast intro: transition_body_ok dest: transition_body_progress tables_okD(2))
  done

lemma progress_of_inv:
  assumes "moves (keeps (ledger_inv env)) m" "moves same_rows m"
  shows "moves (ledger_progress env) m"
  unfolding moves_def
proof
  fix l
  have "same_rows l (snd (m l))" and "ledger_inv env l \<longrightarrow> ledger_inv env (snd (m l))"
    using assms by (auto simp: moves_def keeps_def)
  then show "ledger_progress env l (snd (m l))"
    using promises_cong [of "lg_tables (snd (m l))" "lg_tables l"]
    by (auto simp: ledger_progress_def log_extends_def finished_stay_def plans_stay_def same_rows_fields)
qed

lemma progress_complete_pending:
  "env_ok env \<Longrightarrow> moves (ledger_progress env) (complete_pending_checkpoint env)"
  by (rule progress_of_inv [OF inv_complete_pending rows_complete_pending])

lemma progress_bodies_move: "env_ok env \<Longrightarrow> bodies_move env (ledger_progress env)"
  by (simp add: bodies_move_def progress_complete_pending progress_bodies)

lemmas progress_operations = prog_rel.moves_operations [OF _ progress_bodies_move]

end
