(* ===== verification/Ledger_Reach.thy ===== *)
theory Ledger_Reach
  imports Ledger_Contract
begin

text \<open>
  Whole runs of the ledger: any sequence of its operations, each hit by storage faults at any
  access, interrupted by restarts that open the file again.  Opening never takes a ledger of such a
  run for a tampered one, operations that are under way exclude each other, and what is finished
  stays as it is.
\<close>

section \<open>Opening\<close>

text \<open>
  What holds after each phase of opening: the invariant, no new faults, the tables as they were, a known
  schema, and a condition
  on the files.  A phase
  may fail on a storage fault, or, when \<^verbatim>\<open>D\<close> allows it, on a migration that is already in the schema.
\<close>

definition phase_post ::
    "ledger_env \<Rightarrow> bool set \<Rightarrow> tables \<Rightarrow> schema \<Rightarrow> (state_files \<Rightarrow> bool) \<Rightarrow> ledger \<Rightarrow> bool" where
  "phase_post env F t s P l =
    (ledger_inv env l \<and> set (lg_faults l) \<subseteq> F \<and> lg_tables l = t \<and> lg_schema l = s \<and> P (lg_files l))"

abbreviation any_files :: "state_files \<Rightarrow> bool" where
  "any_files \<equiv> (\<lambda>_. True)"

abbreviation database_made :: "state_files \<Rightarrow> bool" where
  "database_made \<equiv> (\<lambda>fs. sf_database fs \<noteq> None)"

definition phase_error :: "ledger_env \<Rightarrow> bool set \<Rightarrow> bool \<Rightarrow> ops_error \<Rightarrow> ledger \<Rightarrow> bool" where
  "phase_error env F D e l =
    (ledger_inv env l \<and>
      (e = Storage ''storage'' \<and> True \<in> F \<or> e = Storage ''duplicate schema object'' \<and> D))"

lemma phase_accessI:
  assumes "phase_post env F t s P l"
    and "\<And>l'. phase_post env F t s P l' \<Longrightarrow> lg_files l' = lg_files l \<Longrightarrow> lg_tables l' = lg_tables l \<Longrightarrow> Q () l'"
    and "\<And>l'. phase_error env F D (Storage ''storage'') l' \<Longrightarrow> E (Storage ''storage'') l'"
  shows "wp storage_access Q E l"
proof (rule wp_storage_accessI)
  show "Q () (l\<lparr>lg_faults := fs\<rparr>)" if "set fs \<subseteq> set (lg_faults l)" for fs
    using assms(1) that by (intro assms(2)) (auto simp: phase_post_def)
  show "E (Storage ''storage'') (l\<lparr>lg_faults := fs\<rparr>)" if "True \<in> set (lg_faults l)" for fs
    using assms(1) that by (intro assms(3)) (auto simp: phase_post_def phase_error_def)
qed

lemma private_file_ok:
  "(\<And>n. f = Some n \<Longrightarrow> node_ok env n) \<Longrightarrow> validate_private_file (le_enforce_root env) True f = Inr ()"
  by (cases f) (auto simp: validate_private_file_def node_ok_def)

lemma inv_parent:
  "ledger_inv env l \<Longrightarrow> sf_parent (lg_files l) = Some n \<Longrightarrow>
    fn_kind n = DirectoryNode \<and> (le_enforce_root env \<longrightarrow> fn_uid n = 0)"
  by (simp add: ledger_inv_def files_ok_def)

lemma inv_check_files: "ledger_inv env l \<Longrightarrow> check_state_files env (lg_files l) = Inr ()"
  by (auto simp: check_state_files_def ledger_inv_def files_ok_def tables_ok_def checkpoint_ok_def
      intro!: private_file_ok)

text \<open>Changing files other than the checkpoint.\<close>

lemma phase_update_files:
  assumes "phase_post env F t s P l" "files_ok env (f (lg_files l))"
    and "sf_checkpoint (f (lg_files l)) = sf_checkpoint (lg_files l)" "Q (f (lg_files l))"
  shows "phase_post env F t s Q (l\<lparr>lg_files := f (lg_files l)\<rparr>)"
  using assms by (auto simp: phase_post_def ledger_inv_def)

lemma wp_phase_prepare:
  assumes env: "env_ok env" and pre: "phase_post env F t s any_files l"
  shows "wp (prepare_state env) (\<lambda>_. phase_post env F t s any_files) (phase_error env F D) l"
  unfolding prepare_state_def wp_bindM
proof (rule phase_accessI [OF pre], goal_cases)
  case (1 l1)
  let ?made = "\<lambda>l. phase_post env F t s any_files l \<and> sf_parent (lg_files l) \<noteq> None"
  have inv1: "ledger_inv env l1" using 1 by (simp add: phase_post_def)
  have make: "wp (case sf_parent (lg_files l1) of
             None \<Rightarrow> update_files (\<lambda>fs. fs\<lparr>sf_parent := Some
               \<lparr> fn_kind = DirectoryNode, fn_uid = le_daemon_uid env, fn_nlink = 2, fn_mode = 493,
                 fn_content = [] \<rparr>\<rparr>)
           | Some n \<Rightarrow>
               (case fn_kind n of
                  DirectoryNode \<Rightarrow> ret ()
                | SymlinkTo True \<Rightarrow> ret ()
                | _ \<Rightarrow> fail (Storage ''File exists''))) (\<lambda>_. ?made) (phase_error env F D) l1"
    using 1(1) inv_parent [OF inv1] env
    by (auto simp: update_files_def wp_simps files_ok_def env_ok_def phase_post_def ledger_inv_def
        split: option.splits)
  show ?case
    unfolding wp_reading sum.case
  proof (rule wp_mono [OF make], goal_cases)
    case (1 u l2)
    then obtain p where p: "sf_parent (lg_files l2) = Some p" and post: "phase_post env F t s any_files l2" by auto
    have pk: "fn_kind p = DirectoryNode \<and> (le_enforce_root env \<longrightarrow> fn_uid p = 0)"
      using post p by (auto simp: phase_post_def dest: inv_parent)
    let ?set = "\<lambda>l :: ledger. l\<lparr>lg_files := (lg_files l)\<lparr>sf_parent := Some (p\<lparr>fn_mode := 448\<rparr>)\<rparr>\<rparr>"
    have "wp storage_access (\<lambda>_ l. phase_post env F t s any_files (?set l)) (phase_error env F D) l2"
      using pk by (intro phase_accessI [OF post] phase_update_files)
        (auto simp: phase_post_def ledger_inv_def files_ok_def)
    moreover have "check_state_files env ((lg_files l)\<lparr>sf_parent := Some (p\<lparr>fn_mode := 448\<rparr>)\<rparr>) = Inr ()"
      if "phase_post env F t s any_files (?set l)" for l
      using that inv_check_files [of env "?set l"] by (simp add: phase_post_def)
    ultimately show ?case
      using pk by (auto simp: wp_simps p update_files_def elim!: wp_mono)
  qed
qed

lemma wp_phase_sqlite_open:
  assumes env: "env_ok env" and pre: "phase_post env F t s any_files l"
  shows "wp (sqlite_open env) (\<lambda>_. phase_post env F t s database_made) (phase_error env F D) l"
  unfolding sqlite_open_def Let_def wp_bindM
proof (rule phase_accessI [OF pre], goal_cases)
  case (1 l1)
  have "node_ok env (new_file env)" using env by (simp add: node_ok_def new_file_def env_ok_def)
  with 1 show ?case
    by (auto simp: update_files_def wp_simps phase_post_def ledger_inv_def files_ok_def split: option.splits)
qed

lemma wp_phase_secure_file:
  assumes pre: "phase_post env F t s P l" and present: "\<And>fs. P fs \<Longrightarrow> get fs \<noteq> None"
    and get: "\<And>n fs. get (put n fs) = n"
    and keep: "\<And>n fs. sf_checkpoint (put n fs) = sf_checkpoint fs"
    and ok: "\<And>fs n. files_ok env fs \<Longrightarrow> get fs = Some n \<Longrightarrow> node_ok env n"
    and ok': "\<And>fs n. files_ok env fs \<Longrightarrow> node_ok env n \<Longrightarrow> files_ok env (put (Some n) fs)"
    and Q: "\<And>fs n. P fs \<Longrightarrow> Q (put (Some n) fs)"
  shows "wp (secure_file env get put) (\<lambda>_. phase_post env F t s Q) (phase_error env F D) l"
  unfolding secure_file_def wp_bindM
proof (rule phase_accessI [OF pre], goal_cases)
  case (1 l1)
  have P: "P (lg_files l1)" and files: "files_ok env (lg_files l1)"
    using 1 by (auto simp: phase_post_def ledger_inv_def)
  obtain n where n: "get (lg_files l1) = Some n" using present [OF P] by auto
  have node: "node_ok env (n\<lparr>fn_mode := 384\<rparr>)" using ok [OF files n] by (simp add: node_ok_def)
  have "phase_post env F t s Q (l1\<lparr>lg_files := put (Some (n\<lparr>fn_mode := 384\<rparr>)) (lg_files l1)\<rparr>)"
    using 1 ok' [OF files node] keep Q [OF P] by (intro phase_update_files) auto
  with node show ?case
    by (auto simp: update_files_def wp_simps n get validate_private_file_def node_ok_def)
qed

lemma wp_phase_secure:
  assumes pre: "phase_post env F t s database_made l"
  shows "wp (secure_database_files env) (\<lambda>_. phase_post env F t s any_files) (phase_error env F D) l"
  unfolding secure_database_files_def wp_bindM
proof (rule wp_mono [OF wp_phase_secure_file [OF pre, where Q = any_files]], goal_cases)
  case (7 u l1)
  let ?shm = "\<lambda>fs. sf_shm fs = sf_shm (lg_files l1)"
  have wal: "wp (if sf_wal (lg_files l1) \<noteq> None then secure_file env sf_wal (\<lambda>n fs. fs\<lparr>sf_wal := n\<rparr>) else ret ())
      (\<lambda>_. phase_post env F t s ?shm) (phase_error env F D) l1"
  proof (cases "sf_wal (lg_files l1)")
    case None
    with 7 show ?thesis by (simp add: wp_simps phase_post_def)
  next
    case (Some n)
    have "phase_post env F t s (\<lambda>fs. fs = lg_files l1) l1" using 7 by (simp add: phase_post_def)
    from wp_phase_secure_file [OF this, of sf_wal "\<lambda>n fs. fs\<lparr>sf_wal := n\<rparr>" ?shm] Some
    show ?thesis by (simp add: files_ok_def)
  qed
  show ?case
    unfolding wp_reading sum.case
  proof (rule wp_mono [OF wal], goal_cases)
    case (1 v l2)
    show ?case
    proof (cases "sf_shm (lg_files l1)")
      case None
      with 1 show ?thesis by (simp add: wp_simps phase_post_def)
    next
      case (Some n)
      with wp_phase_secure_file [OF 1, of sf_shm "\<lambda>n fs. fs\<lparr>sf_shm := n\<rparr>" any_files]
      show ?thesis by (simp add: files_ok_def)
    qed
  qed
qed (auto simp: files_ok_def)

text \<open>Migration.\<close>

definition apply_migrations :: "(string \<times> int) list \<Rightarrow> schema \<Rightarrow> schema" where
  "apply_migrations ms s =
    \<lparr> sc_user_version = (if ms = [] then sc_user_version s else snd (last ms)),
      sc_objects = sc_objects s @ map fst ms \<rparr>"

definition can_apply :: "(string \<times> int) list \<Rightarrow> schema \<Rightarrow> bool" where
  "can_apply ms s = (distinct (map fst ms) \<and> set (map fst ms) \<inter> set (sc_objects s) = {})"

lemma wp_phase_set_schema:
  assumes "phase_post env F t s P l" "0 \<le> sc_user_version s'" "sc_user_version s' \<le> 8"
  shows "phase_post env F t s' P (l\<lparr>lg_schema := s'\<rparr>)"
  using assms by (auto simp: phase_post_def ledger_inv_def)

lemma wp_phase_run_migration:
  assumes pre: "phase_post env F t s P l" and v: "0 \<le> v" "v \<le> 8"
    and D: "\<not> D \<Longrightarrow> x \<notin> set (sc_objects s)"
  shows "wp (run_migration x v) (\<lambda>_. phase_post env F t (apply_migrations [(x, v)] s) P) (phase_error env F D) l"
  unfolding run_migration_def wp_bindM
proof (rule phase_accessI [OF pre], goal_cases)
  case (1 l1)
  have inv: "ledger_inv env l1" and s: "lg_schema l1 = s" using 1 by (auto simp: phase_post_def)
  let ?s = "s\<lparr>sc_objects := sc_objects s @ [x]\<rparr>"
  have sv: "0 \<le> sc_user_version s" "sc_user_version s \<le> 8" using inv s by (auto simp: ledger_inv_def)
  have post: "phase_post env F t ?s P (l1\<lparr>lg_schema := ?s\<rparr>)"
    using 1 sv by (intro wp_phase_set_schema) auto
  have "wp storage_access (\<lambda>_ l. phase_post env F t (apply_migrations [(x, v)] s) P
      (l\<lparr>lg_schema := (lg_schema l)\<lparr>sc_user_version := v\<rparr>\<rparr>)) (phase_error env F D) (l1\<lparr>lg_schema := ?s\<rparr>)"
  proof (rule phase_accessI [OF post], goal_cases)
    case (1 l2)
    then have "lg_schema l2 = ?s" by (simp add: phase_post_def)
    with 1 v show ?case
      by (auto simp: apply_migrations_def phase_post_def ledger_inv_def)
  qed
  then show ?case
    using D s inv by (auto simp: wp_simps phase_error_def require_def elim!: wp_mono)
qed

lemma wp_phase_run_migrations:
  assumes "phase_post env F t s P l" "\<forall>(x, v) \<in> set ms. 0 \<le> v \<and> v \<le> 8" "\<not> D \<Longrightarrow> can_apply ms s"
  shows "wp (run_migrations ms) (\<lambda>_. phase_post env F t (apply_migrations ms s) P) (phase_error env F D) l"
  using assms
proof (induction ms arbitrary: s l rule: run_migrations.induct)
  case 1
  then show ?case by (cases s) (simp add: wp_simps apply_migrations_def)
next
  case (2 x v ms)
  have step: "apply_migrations ms (apply_migrations [(x, v)] s) = apply_migrations ((x, v) # ms) s"
    by (auto simp: apply_migrations_def)
  show ?case
    unfolding run_migrations.simps wp_bindM
  proof (rule wp_mono [OF wp_phase_run_migration [OF 2(2)]], goal_cases)
    case (4 u l1)
    then show ?case
      using "2.IH" [OF 4] 2(3,4) by (auto simp: step can_apply_def apply_migrations_def)
  qed (use 2 in \<open>auto simp: can_apply_def\<close>)
qed

definition all_migrations :: "(string \<times> int) list" where
  "all_migrations = column_migrations @ [(migration_7, 7), (migration_8, 8)]"

text \<open>None of the objects that the remaining migrations create is there yet.\<close>

definition schema_clean :: "schema \<Rightarrow> bool" where
  "schema_clean s = can_apply (drop (nat (sc_user_version s - 1)) all_migrations) s"

lemmas migration_names =
  migration_2_def migration_3_def migration_4_def migration_5_def migration_6_def migration_7_def
  migration_8_def

lemma version_cases:
  fixes v :: int
  assumes "0 \<le> v" "v \<le> 8"
  shows "v = 0 \<or> v = 1 \<or> v = 2 \<or> v = 3 \<or> v = 4 \<or> v = 5 \<or> v = 6 \<or> v = 7 \<or> v = 8"
  using assms by presburger

lemma wp_phase_columns:
  assumes pre: "phase_post env F t s P l" and D: "\<not> D \<Longrightarrow> schema_clean s" and v: "sc_user_version s = v"
    and range: "0 \<le> v" "v \<le> 5"
  shows "wp (if v = 0 then bindM (set_version 1) (\<lambda>_. run_migrations column_migrations)
           else if 1 \<le> v \<and> v \<le> 5 then run_migrations (drop (nat (v - 1)) column_migrations)
           else if 6 \<le> v \<and> v \<le> 8 then ret ()
           else fail ForensicLockdown)
     (\<lambda>_. phase_post env F t (apply_migrations (drop (nat (v - 1)) column_migrations) s) P) (phase_error env F D) l"
proof -
  have bounds: "\<forall>(x, k) \<in> set (drop n column_migrations). 0 \<le> k \<and> k \<le> 8" for n
    by (rule ballI, drule in_set_dropD) (auto simp: column_migrations_def)
  have cols: "can_apply (drop n column_migrations) s'"
    if "can_apply (drop n all_migrations) s" "sc_objects s' = sc_objects s" for n s'
    using that by (auto simp: can_apply_def all_migrations_def)
  show ?thesis
  proof (cases "v = 0")
    case True
    have "wp (set_version 1) (\<lambda>_. phase_post env F t (s\<lparr>sc_user_version := 1\<rparr>) P) (phase_error env F D) l"
      unfolding set_version_def wp_bindM
    proof (rule phase_accessI [OF pre], goal_cases)
      case (1 l1)
      then show ?case by (auto simp: wp_modify phase_post_def ledger_inv_def)
    qed
    moreover have "apply_migrations column_migrations (s\<lparr>sc_user_version := 1\<rparr>) = apply_migrations column_migrations s"
      by (simp add: apply_migrations_def column_migrations_def)
    ultimately show ?thesis
      using True D v bounds [of 0] cols [of 0 "s\<lparr>sc_user_version := 1\<rparr>"]
        wp_phase_run_migrations [of env F t "s\<lparr>sc_user_version := 1\<rparr>" P _ column_migrations D]
      by (auto simp: wp_bindM schema_clean_def elim!: wp_mono)
  next
    case False
    with wp_phase_run_migrations [OF pre bounds] D v range show ?thesis
      by (auto simp: schema_clean_def cols)
  qed
qed

lemma wp_phase_migrate:
  assumes pre: "phase_post env F t s P l" and D: "\<not> D \<Longrightarrow> schema_clean s"
  shows "wp migrate
    (\<lambda>_. phase_post env F t (apply_migrations (drop (nat (sc_user_version s - 1)) all_migrations) s) P)
    (phase_error env F D) l"
  unfolding migrate_def wp_bindM
proof (rule phase_accessI [OF pre], goal_cases)
  case (1 l1)
  define v where "v = sc_user_version s"
  have v: "sc_user_version (lg_schema l1) = v" "0 \<le> v" "v \<le> 8"
    using 1(1) by (auto simp: phase_post_def ledger_inv_def v_def)
  let ?tables = "drop (nat (v - 1) - 5) [(migration_7, 7 :: int), (migration_8, 8)]"
  let ?columns = "drop (nat (v - 1)) column_migrations"
  let ?s = "apply_migrations ?columns s"
  have split: "drop (nat (v - 1)) all_migrations = ?columns @ ?tables"
    unfolding all_migrations_def drop_append by (simp add: column_migrations_def numeral_eq_Suc)
  have clean: "\<not> D \<Longrightarrow> can_apply ?tables ?s"
    using D by (auto simp: schema_clean_def v_def [symmetric] split can_apply_def apply_migrations_def)
  have compose: "apply_migrations ?tables ?s = apply_migrations (?columns @ ?tables) s"
    by (auto simp: apply_migrations_def)
  have mid: "sc_user_version ?s = (if v \<le> 5 then 6 else v)"
    using version_cases [OF v(2,3)] by (auto simp: apply_migrations_def column_migrations_def v_def)
  have columns: "wp (if v = 0 then bindM (set_version 1) (\<lambda>_. run_migrations column_migrations)
           else if 1 \<le> v \<and> v \<le> 5 then run_migrations (drop (nat (v - 1)) column_migrations)
           else if 6 \<le> v \<and> v \<le> 8 then ret ()
           else fail ForensicLockdown) (\<lambda>_. phase_post env F t ?s P) (phase_error env F D) l1"
  proof (cases "v \<le> 5")
    case True
    with v show ?thesis by (intro wp_phase_columns [OF 1(1) D]) (auto simp: v_def)
  next
    case False
    then have "?s = s" by (cases s) (auto simp: apply_migrations_def column_migrations_def)
    with False v 1(1) show ?thesis by (simp add: wp_ret)
  qed
  have rest: "wp (bindM (if c = 6 then bindM (run_migration migration_7 7) (\<lambda>_. ret 7) else ret c) (\<lambda>c.
      bindM (if c = 7 then bindM (run_migration migration_8 8) (\<lambda>_. ret 8) else ret c) (\<lambda>c.
      if c \<noteq> 8 then fail ForensicLockdown else ret ())))
      (\<lambda>_. phase_post env F t (apply_migrations ?tables ?s) P) (phase_error env F D) l2"
    if post: "phase_post env F t ?s P l2" and c: "c = (if v \<le> 5 then 6 else v)" for l2 and c :: int
  proof -
    have "wp (run_migrations ?tables) (\<lambda>_. phase_post env F t (apply_migrations ?tables ?s) P) (phase_error env F D) l2"
      by (rule wp_phase_run_migrations [OF post _ clean], rule ballI, drule in_set_dropD) auto
    moreover have "nat (v - 1) - 5 = 0 \<and> c = 6 \<or> nat (v - 1) - 5 = 1 \<and> c = 7 \<or> nat (v - 1) - 5 = 2 \<and> c = 8"
      using version_cases [OF v(2,3)] c by auto
    ultimately show ?thesis by (elim disjE conjE) (simp_all add: wp_funs)
  qed
  show ?case
    unfolding wp_reading sum.case v
  proof (rule wp_mono [OF columns], goal_cases)
    case (1 u l2)
    have "sc_user_version (lg_schema l2) = (if v \<le> 5 then 6 else v)"
      using 1 mid by (simp add: phase_post_def)
    from rest [OF 1 this] show ?case
      by (simp only: wp_bindM_fun wp_reading sum.case compose split [symmetric] v_def [symmetric])
  qed
qed

text \<open>The continuity check accepts a ledger that satisfies the invariant.\<close>

lemma checkpoint_validates:
  assumes "ledger_inv env l"
  shows "validate_checkpoint env (int (length (t_events (lg_tables l)))) (lg_tables l) (lg_files l) = Inr ()"
proof -
  let ?t = "lg_tables l" and ?f = "sf_checkpoint (lg_files l)"
  have ok: "tables_ok env ?f ?t" using assms by (simp add: ledger_inv_def)
  note D = tables_okD [OF ok]
  have priv: "validate_private_file (le_enforce_root env) True ?f = Inr ()"
    using inv_check_files [OF assms] by (simp add: check_state_files_def)
  have pending: "\<not> (case t_pending ?t of None \<Rightarrow> False | Some s \<Rightarrow> s \<le> 0 \<or> s > int (length (t_events ?t)))"
    using D(7) by (auto simp: checkpoint_ok_def split: option.splits)
  show ?thesis
  proof (cases ?f)
    case None
    with D(7) priv pending show ?thesis
      by (simp add: validate_checkpoint_def Let_def checkpoint_ok_def pending_covers_def)
  next
    case (Some n)
    then obtain cp i where cp: "de_checkpoint (le_serde env) (fn_content n) = Some cp" "cp_schema_version cp = 1"
        "i < length (t_events ?t)" "cp_sequence cp = int i + 1"
        "cp_event_digest cp = ev_event_digest (t_events ?t ! i)"
        "required_sequence ?t (int (length (t_events ?t))) \<le> cp_sequence cp \<or> pending_covers ?t"
      using D(7) by (auto simp: checkpoint_ok_def)
    have "find (\<lambda>r. ev_sequence r = cp_sequence cp) (t_events ?t) = Some (t_events ?t ! i)"
      using cp(3,4) seq_ok_nth [OF D(8)] by (auto simp: find_Some_iff intro!: exI [of _ i])
    with cp Some priv pending show ?thesis
      by (auto simp: validate_checkpoint_def Let_def pending_covers_def)
  qed
qed

lemma wp_phase_continuity:
  assumes pre: "phase_post env F t s P l" and small: "int (length (t_events t)) < i64_max"
  shows "wp (validate_continuity env) (\<lambda>_. phase_post env F t s P) (phase_error env F D) l"
  unfolding validate_continuity_def wp_bindM
proof (rule phase_accessI [OF pre], goal_cases)
  case (1 l1)
  have inv: "ledger_inv env l1" and t: "lg_tables l1 = t" using 1 by (auto simp: phase_post_def)
  then have ok: "tables_ok env (sf_checkpoint (lg_files l1)) t" by (simp add: ledger_inv_def)
  note D = tables_okD [OF ok]
  obtain m where m: "validate_events env t 1 GENESIS_DIGEST (t_events t) = Inr m"
    using D(1) by (auto simp: chain_ok_def)
  have "m = 1 + int (length (t_events t))" using small by (intro validate_events_next [OF m]) auto
  moreover have "sat_sub (1 + int (length (t_events t))) 1 = int (length (t_events t))"
    using small by (simp add: sat_sub_def sat64_def i64_min_def i64_max_def)
  moreover have "events_in_order t = t_events t" by (rule events_in_order_id [OF D(8)])
  moreover have "lg_integrity l1 = ''ok''" using inv by (simp add: ledger_inv_def)
  ultimately show ?case
    using m checkpoint_validates [OF inv] 1 by (simp add: wp_reading t)
qed

lemma open_outcome:
  assumes env: "env_ok env" and inv: "ledger_inv env l" and small: "int (length (t_events (lg_tables l))) < i64_max"
    and D: "\<not> D \<Longrightarrow> schema_clean (lg_schema l)"
  shows "wp (open_ledger_file env) (\<lambda>_. completed env) (phase_error env (set (lg_faults l)) D) l"
proof -
  define F t s where "F = set (lg_faults l)" and "t = lg_tables l" and "s = lg_schema l"
  define s' where "s' = apply_migrations (drop (nat (sc_user_version s - 1)) all_migrations) s"
  have start: "phase_post env F t s any_files l" using inv by (simp add: phase_post_def F_def t_def s_def)
  have last: "wp (complete_pending_checkpoint env) (\<lambda>_. completed env) (phase_error env F D) m"
    if "phase_post env F t s' any_files m" for m
    using that complete_pending_outcome [OF env, of m]
    by (auto simp: phase_post_def phase_error_def elim!: wp_mono)
  have clean: "\<not> D \<Longrightarrow> schema_clean s" using D by (simp add: s_def)
  have small': "int (length (t_events t)) < i64_max" using small by (simp add: t_def)
  show ?thesis
    unfolding open_ledger_file_def wp_bindM F_def [symmetric]
    by (rule wp_mono [OF wp_phase_prepare [OF env start]],
        rule wp_mono [OF wp_phase_sqlite_open [OF env]], assumption,
        rule wp_mono [OF wp_phase_migrate], assumption, erule clean,
        rule wp_mono [OF wp_phase_secure], assumption,
        rule wp_mono [OF wp_phase_continuity [OF _ small']], assumption,
        simp add: s'_def [symmetric] last)
qed

lemma wp_continuity_keeps:
  assumes "ledger_inv env l"
  shows "wp (validate_continuity env) (\<lambda>_. ledger_inv env) (\<lambda>_. ledger_inv env) l"
  unfolding validate_continuity_def wp_bindM
  by (rule wp_storage_accessI) (use assms in \<open>auto simp: wp_reading split: sum.splits\<close>)

lemma open_keeps_inv:
  assumes env: "env_ok env" and inv: "ledger_inv env l"
  shows "ledger_inv env (snd (open_ledger_file env l))"
proof -
  define F t s where "F = set (lg_faults l)" and "t = lg_tables l" and "s = lg_schema l"
  have start: "phase_post env F t s any_files l" using inv by (simp add: phase_post_def F_def t_def s_def)
  have err: "phase_error env F True e m \<Longrightarrow> ledger_inv env m" for e m by (simp add: phase_error_def)
  have last: "wp (complete_pending_checkpoint env) (\<lambda>_. ledger_inv env) (\<lambda>_. ledger_inv env) m"
    if "ledger_inv env m" for m
    using complete_pending_outcome [OF env that] by (rule wp_mono) (simp_all add: completed_def)
  have "wp (open_ledger_file env) (\<lambda>_. ledger_inv env) (\<lambda>_. ledger_inv env) l"
    unfolding open_ledger_file_def wp_bindM
    by (rule wp_mono [OF wp_phase_prepare [OF env start] _ err],
        rule wp_mono [OF wp_phase_sqlite_open [OF env] _ err], assumption,
        rule wp_mono [OF wp_phase_migrate [where D = True] _ err], assumption, simp,
        rule wp_mono [OF wp_phase_secure _ err], assumption,
        rule wp_mono [OF wp_continuity_keeps], simp add: phase_post_def, erule last, assumption+)
  then show ?thesis by (simp add: wp_state)
qed

lemma open_progress: "env_ok env \<Longrightarrow> moves (ledger_progress env) (open_ledger_file env)"
  using open_keeps_inv [of env] rows_open [of env]
  by (intro progress_of_inv) (auto simp: moves_def keeps_def)

section \<open>Runs\<close>

text \<open>
  One step of a run is a call of the ledger from the daemon, whatever its arguments and however it
  ends.  A transition follows the lifecycle from every stage it expects, which all callers do (see
  the theory \<^verbatim>\<open>Engine_Run\<close>).  A restart leaves the files and the database as the last storage access left them;
  the faults that the next accesses meet are arbitrary.
\<close>

inductive ledger_step :: "ledger_env \<Rightarrow> ledger \<Rightarrow> ledger \<Rightarrow> bool" for env where
  step_restart: "ledger_step env l (l\<lparr>lg_faults := fs\<rparr>)"
| step_open: "ledger_step env l (snd (open_ledger_file env l))"
| step_create: "ledger_step env l (snd (create_or_reuse_plan env plan l))"
| step_begin: "operation_id \<noteq> [] \<Longrightarrow>
    ledger_step env l (snd (begin_operation env operation_id plan_id plan_hash key actor now l))"
| step_attach: "ledger_step env l (snd (attach_snapshot env operation_id snapshot now l))"
| step_transition: "change_ok change \<Longrightarrow> ledger_step env l (snd (transition env operation_id change l))"
| step_command: "change_ok change \<Longrightarrow>
    ledger_step env l (snd (transition_with_command_evidence env operation_id change command l))"
| step_diagnostics: "change_ok change \<Longrightarrow>
    ledger_step env l (snd (transition_with_diagnostics env operation_id change diagnostics l))"
| step_both: "change_ok change \<Longrightarrow>
    ledger_step env l (snd (transition_with_diagnostics_and_command env operation_id change diagnostics command l))"

definition fresh_ledger :: ledger where
  "fresh_ledger =
    \<lparr> lg_tables = \<lparr> t_plans = [], t_operations = [], t_idempotency = [], t_locks = [], t_events = [],
        t_diagnostics = [], t_commands = [], t_pending = None \<rparr>,
      lg_schema = \<lparr> sc_user_version = 0, sc_objects = [] \<rparr>, lg_integrity = ''ok'',
      lg_files = \<lparr> sf_parent = None, sf_database = None, sf_wal = None, sf_shm = None,
        sf_checkpoint = None \<rparr>,
      lg_faults = [] \<rparr>"

abbreviation ledger_run :: "ledger_env \<Rightarrow> ledger \<Rightarrow> ledger \<Rightarrow> bool" where
  "ledger_run env \<equiv> (ledger_step env)\<^sup>*\<^sup>*"

lemma fresh_ledger_inv: "ledger_inv env fresh_ledger"
proof -
  let ?t = "lg_tables fresh_ledger"
  have t: "t_plans ?t = []" "t_operations ?t = []" "t_idempotency ?t = []" "t_locks ?t = []" "t_events ?t = []"
      "t_diagnostics ?t = []" "t_commands ?t = []" "t_pending ?t = None"
    by (simp_all add: fresh_ledger_def)
  have max: "0 \<le> i64_max" by (simp add: i64_max_def)
  have "terminal_sequence ?t = 0" by (simp add: terminal_sequence_def t)
  then have req: "required_sequence ?t 0 = 0" using periodic_eq [of 0] max by (simp add: required_sequence_def)
  have "chain_ok env ?t" using max by (simp add: chain_ok_def t evidence_bounded_def)
  moreover have "keys_ok ?t" "rows_ok ?t" "locks_ok ?t" "history_ok ?t" "owners_ok ?t"
    unfolding keys_ok_def rows_ok_def locks_ok_def history_ok_def owners_ok_def t by simp_all
  moreover have "checkpoint_ok env (sf_checkpoint (lg_files fresh_ledger)) ?t"
    using req by (simp add: checkpoint_ok_def t) (simp add: fresh_ledger_def)
  ultimately show ?thesis
    by (simp add: ledger_inv_def tables_ok_def) (simp add: fresh_ledger_def files_ok_def)
qed

lemma step_progress: "env_ok env \<Longrightarrow> ledger_step env l l' \<Longrightarrow> ledger_progress env l l'"
proof (erule ledger_step.cases, goal_cases)
  case (1 l fs)
  then show ?case by (simp add: prog_rel.R_faults prog_rel.R_refl)
qed (simp_all add: movesD [OF open_progress] progress_operations [THEN movesD])

lemma run_progress:
  assumes "env_ok env" "ledger_run env l l'"
  shows "ledger_progress env l l'"
  using assms(2)
proof (induction rule: rtranclp_induct)
  case base
  show ?case by (rule prog_rel.R_refl)
next
  case (step y z)
  from step(3) step_progress [OF assms(1) step(2)] show ?case by (rule prog_rel.R_trans)
qed

lemma run_inv: "env_ok env \<Longrightarrow> ledger_run env fresh_ledger l \<Longrightarrow> ledger_inv env l"
  using run_progress [of env fresh_ledger l] fresh_ledger_inv [of env] by (simp add: ledger_progress_def)

section \<open>Properties of runs\<close>

lemma wp_outcome:
  "wp m Q E s = (case fst (m s) of Inl e \<Rightarrow> E e (snd (m s)) | Inr x \<Rightarrow> Q x (snd (m s)))"
  by (simp add: wp_def split: prod.splits sum.splits)

lemma load_operation_row:
  assumes "load_operation_from env i t = Inr opn"
  obtains r p where "r \<in> set (t_operations t)" "or_operation_id r = i" "or_stage r = as_storage_value (so_stage opn)"
    "p \<in> set (t_plans t)" "pr_plan_id p = or_plan_id r" "sp_resource_key (so_plan opn) = pr_resource_key p"
    "sp_operation_type (so_plan opn) = pr_operation_type p"
  by (rule load_operation_Inr [OF assms], erule load_plan_Inr) (rule that)

lemma row_terminal_stage: "or_stage r = as_storage_value s \<Longrightarrow> row_terminal r = is_terminal s"
  by (simp add: row_terminal_def)


text \<open>
  (C9) Unfinished operations exclude each other.  In every state of a run, two different operations
  that have not reached a terminal stage belong to plans with different resource keys, and at most
  one of them is of a kind that may reload Nginx.
\<close>

theorem unfinished_operations_exclude:
  assumes "env_ok env" "ledger_run env fresh_ledger l"
    and "load_operation_from env i (lg_tables l) = Inr a" "load_operation_from env j (lg_tables l) = Inr b"
    and "i \<noteq> j" "\<not> is_terminal (so_stage a)" "\<not> is_terminal (so_stage b)"
  shows "sp_resource_key (so_plan a) \<noteq> sp_resource_key (so_plan b)
    \<and> \<not> (takes_reload_lock (sp_operation_type (so_plan a)) \<and> takes_reload_lock (sp_operation_type (so_plan b)))"
proof -
  let ?t = "lg_tables l"
  have "keys_ok ?t" and locks: "locks_ok ?t"
    using run_inv [OF assms(1,2)] by (simp_all add: ledger_inv_def tables_ok_def)
  then have unique: "lr_operation_id x = lr_operation_id y"
    if "x \<in> set (t_locks ?t)" "y \<in> set (t_locks ?t)" "lr_resource_key x = lr_resource_key y" for x y
    using that by (metis find_key_distinct keys_ok_def option.inject)
  have held: "holds_lock ?t k (sp_resource_key (so_plan opn))
      \<and> (takes_reload_lock (sp_operation_type (so_plan opn)) \<longrightarrow> holds_lock ?t k nginx_reload_key)"
    if loaded: "load_operation_from env k ?t = Inr opn" "\<not> is_terminal (so_stage opn)" for k opn
  proof -
    obtain r p where rp: "r \<in> set (t_operations ?t)" "or_operation_id r = k"
        "or_stage r = as_storage_value (so_stage opn)" "p \<in> set (t_plans ?t)" "pr_plan_id p = or_plan_id r"
        "sp_resource_key (so_plan opn) = pr_resource_key p" "sp_operation_type (so_plan opn) = pr_operation_type p"
      by (rule load_operation_row [OF loaded(1)])
    then have "\<not> row_terminal r" using loaded(2) by (simp add: row_terminal_stage)
    with rp locks show ?thesis by (auto simp: locks_ok_def)
  qed
  from held [OF assms(3,6)] held [OF assms(4,7)] show ?thesis
    using unique assms(5) unfolding holds_lock_def by metis
qed

lemma stage_path:
  assumes "successively stage_link (map f xs)" "xs \<noteq> []" "f (hd xs) = as_storage_value a"
  shows "\<exists>stages. map f xs = map as_storage_value stages \<and> successively (\<lambda>a b. b \<in> set (next_stages a)) stages"
  using assms
proof (induction xs arbitrary: a)
  case (Cons x xs)
  show ?case
  proof (cases xs)
    case Nil
    with Cons(4) show ?thesis by (auto intro!: exI [of _ "[a]"])
  next
    case (Cons y ys)
    with \<open>successively stage_link (map f (x # xs))\<close> obtain b where b: "f (hd xs) = as_storage_value b" "b \<in> set (next_stages a)"
      using \<open>f (hd (x # xs)) = as_storage_value a\<close> by (auto simp: stage_link_def)
    obtain stages where st: "map f xs = map as_storage_value stages" "successively (\<lambda>a b. b \<in> set (next_stages a)) stages"
    proof -
      have "successively stage_link (map f xs)" "xs \<noteq> []" using Cons.prems(1) Cons by simp_all
      from Cons.IH [OF this b(1)] show ?thesis using that by blast
    qed
    then have "stages \<noteq> []" "hd stages = b" using Cons b(1) by (auto simp: hd_map [symmetric])
    then have "successively (\<lambda>a b. b \<in> set (next_stages a)) (a # stages)"
      using st(2) b(2) by (cases stages) auto
    with st(1) Cons.prems(3) show ?thesis by (auto intro!: exI [of _ "a # stages"])
  qed
qed simp


text \<open>
  (C10) What is finished stays as it is, and the log is append-only.  Once an operation has reached
  a terminal stage, every later state of the run loads the same operation with the same plan, and
  its event log extends the earlier one.
\<close>

theorem finished_operations_stay:
  assumes "env_ok env" "ledger_run env fresh_ledger l" "ledger_run env l l'"
    and "load_operation_from env i (lg_tables l) = Inr opn" "is_terminal (so_stage opn)"
  shows "load_operation_from env i (lg_tables l') = Inr opn
    \<and> (\<exists>evs. t_events (lg_tables l') = t_events (lg_tables l) @ evs)"
proof -
  let ?t = "lg_tables l" and ?t' = "lg_tables l'"
  have inv: "ledger_inv env l" by (rule run_inv [OF assms(1,2)])
  with run_progress [OF assms(1,3)] have inv': "ledger_inv env l'" and ext: "log_extends ?t ?t'"
    and fin: "finished_stay ?t ?t'" and plans: "plans_stay ?t ?t'"
    by (simp_all add: ledger_progress_def)
  have keys: "keys_ok ?t'" using inv' by (simp add: ledger_inv_def tables_ok_def)
  obtain r p where r: "find (\<lambda>row. or_operation_id row = i) (t_operations ?t) = Some r"
      and p: "find (\<lambda>row. pr_plan_id row = or_plan_id r) (t_plans ?t) = Some p"
      and stage: "parse_stage (or_stage r) = Inr (so_stage opn)"
    using assms(4) by (auto simp: load_operation_from_def load_plan_from_def)
  have "row_terminal r" using parse_stage_Inr [OF stage] assms(5) by (simp add: row_terminal_def)
  then have "r \<in> set (t_operations ?t')" "or_operation_id r = i"
    using fin find_SomeD [OF r] by (auto simp: finished_stay_def)
  then have r': "find (\<lambda>row. or_operation_id row = i) (t_operations ?t') = Some r"
    using keys find_key_distinct [of or_operation_id "t_operations ?t'" r] by (auto simp: keys_ok_def)
  have "p \<in> set (t_plans ?t')" "pr_plan_id p = or_plan_id r"
    using plans find_SomeD [OF p] by (auto simp: plans_stay_def)
  then have p': "find (\<lambda>row. pr_plan_id row = or_plan_id r) (t_plans ?t') = Some p"
    using keys find_key_distinct [of pr_plan_id "t_plans ?t'" p] by (auto simp: keys_ok_def)
  from assms(4) r r' p p' ext show ?thesis
    by (auto simp: load_operation_from_def load_plan_from_def log_extends_def)
qed

end
