(* ===== verification/Ledger_Scenario.thy ===== *)
theory Ledger_Scenario
  imports Ledger_Reach
begin

text \<open>
  A concrete run of the ledger: an environment whose digests count the events, two recorded plans,
  both approved, and one of the two operations cancelled.  The lemmas about calls that meet no fault
  say what each call leaves in the tables.  The theorems at the end apply the properties of runs to
  states of this run.
\<close>

section \<open>An environment\<close>

text \<open>Digests that count: the event with sequence number \<^verbatim>\<open>n\<close> gets the digest number \<^verbatim>\<open>51 + n\<close>.\<close>

definition run_digest :: "nat \<Rightarrow> string" where
  "run_digest n = format_sha256 (char_of n # replicate 31 NUL)"

definition run_env :: ledger_env where
  "run_env = sample_env\<lparr>le_sha256 := (\<lambda>x. char_of (length x) # replicate 31 NUL),
     le_serde := sample_serde\<lparr>ser_event := (\<lambda>e. replicate (nat (ce_sequence e)) NUL)\<rparr>\<rparr>"

lemma run_env_ok: "env_ok run_env"
  using sample_serde_ok
  by (simp add: env_ok_def run_env_def sha256_sized_def serde_ok_def sample_env_def)

lemma run_digest_eq: "m < 256 \<Longrightarrow> n < 256 \<Longrightarrow> run_digest m = run_digest n \<longleftrightarrow> m = n"
  unfolding run_digest_def
  by (subst format_sha256_inject) (auto dest: arg_cong [of _ _ byte])

lemma decode_run: "decode_sha256 (run_digest n) = Inr (char_of n # replicate 31 NUL)"
  by (simp add: run_digest_def decode_format)

lemma decode_genesis: "decode_sha256 GENESIS_DIGEST = Inr (replicate 32 NUL)"
  by (simp add: genesis_format decode_format)

lemma run_link:
  "ledger_event_digest (le_sha256 run_env) (run_digest n) bs = Inr (run_digest (51 + length bs))"
  "ledger_event_digest (le_sha256 run_env) GENESIS_DIGEST bs = Inr (run_digest (51 + length bs))"
  by (simp_all add: ledger_event_digest_def decode_run decode_genesis run_env_def, simp_all add: run_digest_def)


definition run_row :: "nat \<Rightarrow> event_input \<Rightarrow> event_row" where
  "run_row n e =
    \<lparr> ev_sequence = int n + 1, ev_operation_id = ei_operation_id e, ev_plan_id = ei_plan_id e,
      ev_stage = as_storage_value (ei_stage e), ev_result_code = ei_result_code e,
      ev_recorded_at_ms = ei_recorded_at_ms e, ev_evidence_digest = ei_evidence_digest e,
      ev_previous_digest = (if n = 0 then GENESIS_DIGEST else run_digest (51 + n)),
      ev_event_digest = run_digest (52 + n) \<rparr>"

definition run_log :: "event_row list \<Rightarrow> bool" where
  "run_log evs = (seq_ok evs \<and> length evs < 100
     \<and> map ev_event_digest evs = map (\<lambda>i. run_digest (52 + i)) [0..<length evs])"

lemma run_append:
  assumes log: "run_log (t_events t)"
  shows "append_event run_env e t =
    Inr (int (length (t_events t)) + 1, t\<lparr>t_events := t_events t @ [run_row (length (t_events t)) e]\<rparr>)"
proof -
  define n where "n = length (t_events t)"
  have seq: "seq_ok (t_events t)" and n: "n < 100" and dg: "map ev_event_digest (t_events t) = map (\<lambda>i. run_digest (52 + i)) [0..<n]"
    using log by (auto simp: run_log_def n_def)
  have last: "latest_event t = (if n = 0 then None else Some (last (t_events t)))"
    using latest_event_eq [OF seq] by (auto simp: n_def)
  have prev: "n \<noteq> 0 \<Longrightarrow> ev_sequence (last (t_events t)) = int n \<and> ev_event_digest (last (t_events t)) = run_digest (51 + n)"
    using last_sequence [OF seq] dg by (cases n) (auto simp: n_def last_map [symmetric])
  have sat: "sat_add (int n) 1 = int n + 1" using n by (intro sat_add_one) (auto simp: i64_max_def)
  have fresh: "ev_event_digest r \<noteq> run_digest (52 + n)" "ev_sequence r \<noteq> int n + 1" if "r \<in> set (t_events t)" for r
  proof -
    have "ev_event_digest r \<in> set (map (\<lambda>i. run_digest (52 + i)) [0..<n])" unfolding dg [symmetric] using that by simp
    then show "ev_event_digest r \<noteq> run_digest (52 + n)" using n by (auto simp: run_digest_eq)
    show "ev_sequence r \<noteq> int n + 1" using seq_ok_range [OF seq that] by (simp add: n_def)
  qed
  have ser: "length (ser_event (le_serde run_env) (ce :: canonical_event)) = nat (ce_sequence ce)" for ce
    by (simp add: run_env_def)
  show ?thesis
  proof (cases "n = 0")
    case True
    then show ?thesis using last sat fresh
      by (auto simp: append_event_def run_link ser insert_event_def run_row_def list_ex_iff simp flip: n_def)
  next
    case False
    have "nat (int n + 1) = Suc n" by simp
    with False show ?thesis using last prev sat fresh
      by (auto simp: append_event_def run_link ser insert_event_def run_row_def list_ex_iff Let_def simp flip: n_def)
  qed
qed

lemma run_log_append:
  assumes "run_log evs" "length evs < 99"
  shows "run_log (evs @ [run_row (length evs) e])"
  using assms by (auto simp: run_log_def run_row_def)

lemma run_log_Nil [simp]: "run_log []"
  by (simp add: run_log_def)


section \<open>Calls that meet no fault\<close>

lemma quiet_access: "lg_faults l = [] \<Longrightarrow> storage_access l = (Inr (), l)"
  by (simp add: storage_access_def)

definition run_state :: "ledger \<Rightarrow> bool" where
  "run_state l = (lg_faults l = [] \<and> t_pending (lg_tables l) = None \<and> run_log (t_events (lg_tables l))
     \<and> length (t_events (lg_tables l)) < 99)"

lemma quiet_complete:
  "lg_faults l = [] \<Longrightarrow> t_pending (lg_tables l) = None \<Longrightarrow> complete_pending_checkpoint env l = (Inr (), l)"
  by (simp add: complete_pending_checkpoint_def query_def bindM_def quiet_access reading_def ret_def)

lemma not_periodic: "n < 99 \<Longrightarrow> mark_checkpoint_if_needed (int n + 1) False t = t"
proof -
  assume "n < 99"
  then have "(int n + 1) mod 128 = int n + 1" by (intro mod_pos_pos_trivial) auto
  then show ?thesis by (simp add: mark_checkpoint_if_needed_def)
qed

definition with_plan :: "stored_plan \<Rightarrow> tables \<Rightarrow> tables" where
  "with_plan plan t = t\<lparr>t_plans := t_plans t @ [row_of_plan (le_serde run_env) plan],
     t_idempotency := t_idempotency t @ [\<lparr> ir_idempotency_key = sp_idempotency_key plan,
       ir_request_digest = sp_request_digest plan, ir_plan_id = sp_plan_id plan, ir_operation_id = None \<rparr>],
     t_events := t_events t @ [run_row (length (t_events t))
       \<lparr> ei_operation_id = [], ei_plan_id = sp_plan_id plan, ei_stage = Planned, ei_result_code = ''planned'',
         ei_recorded_at_ms = sp_created_at_ms plan, ei_evidence_digest = sp_plan_hash plan \<rparr>]\<rparr>"

lemma run_create:
  assumes l: "run_state l"
    and new: "\<forall>r \<in> set (t_plans (lg_tables l)). pr_plan_id r \<noteq> sp_plan_id plan \<and> pr_plan_hash r \<noteq> sp_plan_hash plan
       \<and> pr_idempotency_key r \<noteq> sp_idempotency_key plan"
      "\<forall>r \<in> set (t_idempotency (lg_tables l)). ir_idempotency_key r \<noteq> sp_idempotency_key plan"
  shows "create_or_reuse_plan run_env plan l = (Inr plan, l\<lparr>lg_tables := with_plan plan (lg_tables l)\<rparr>)"
proof -
  define n where "n = length (t_events (lg_tables l))"
  have n: "n < 99" and pend: "t_pending (lg_tables l) = None" and faults: "lg_faults l = []"
    and log: "run_log (t_events (lg_tables l))"
    using l by (auto simp: run_state_def n_def)
  have "create_or_reuse_plan_body run_env plan (lg_tables l) = Inr ((plan, True), with_plan plan (lg_tables l))"
    using new n log
    by (auto simp: create_or_reuse_plan_body_def insert_plan_def insert_idempotency_def run_append list_ex_iff
        find_None_iff row_of_plan_def with_plan_def not_periodic n_def split: option.splits dest: find_SomeD)
  moreover have "t_pending (with_plan plan (lg_tables l)) = None" using pend by (simp add: with_plan_def)
  ultimately show ?thesis
    using faults by (simp add: create_or_reuse_plan_def transaction_def bindM_def quiet_access quiet_complete ret_def)
qed


lemma plan_row_inverse:
  "serde_ok sd \<Longrightarrow> subj_uid (sp_actor plan) \<le> 4294967295 \<Longrightarrow> plan_of_row sd (row_of_plan sd plan) = Inr plan"
  by (simp add: plan_of_row_def row_of_plan_def serde_ok_def)

definition run_plan :: "string \<Rightarrow> string \<Rightarrow> stored_plan" where
  "run_plan name operation_type =
    \<lparr> sp_operation_type = operation_type, sp_plan_id = name, sp_plan_hash = name,
      sp_actor = \<lparr> subj_uid = 1000, subj_username = ''ops'', subj_role = Operator \<rparr>,
      sp_site_id = ''site'', sp_display_name = ''Site'', sp_current_state = Enabled, sp_target_state = Disabled,
      sp_available_digest = ''a'', sp_enabled_state_digest = ''e'', sp_created_at_ms = 10, sp_expires_at_ms = 600010,
      sp_idempotency_key = name, sp_request_digest = name, sp_resource_key = name,
      sp_assurance = \<lparr> av_level = G2ReversibleConfig, av_rollback_support = AutomaticBounded,
        av_operation_available = True, av_scope = [], av_excluded_effects = [], av_apply_verifier = [],
        av_rollback_verifier = [], av_reason = None \<rparr>, sp_managed_config = None, sp_certbot_renew = None,
      sp_certbot_issue = None, sp_certbot_attach = None, sp_ufw_rule = None \<rparr>"

definition with_operation :: "string \<Rightarrow> stored_plan \<Rightarrow> int \<Rightarrow> tables \<Rightarrow> tables" where
  "with_operation i plan now t = t\<lparr>
     t_operations := t_operations t @ [\<lparr> or_operation_id = i, or_plan_id = sp_plan_id plan,
        or_stage = as_storage_value Approved, or_before_digest = plan_before_digest plan,
        or_after_digest = plan_before_digest plan, or_rollback_result = None,
        or_snapshot_relative_path = None, or_snapshot_digest = None,
        or_created_at_ms = now, or_updated_at_ms = now \<rparr>],
     t_locks := t_locks t @ [\<lparr> lr_resource_key = sp_resource_key plan, lr_operation_id = i, lr_acquired_at_ms = now \<rparr>]
       @ (if takes_reload_lock (sp_operation_type plan)
          then [\<lparr> lr_resource_key = nginx_reload_key, lr_operation_id = i, lr_acquired_at_ms = now \<rparr>] else []),
     t_idempotency := map (\<lambda>r. if ir_idempotency_key r = sp_idempotency_key plan
        then r\<lparr>ir_operation_id := Some i\<rparr> else r) (t_idempotency t),
     t_events := t_events t @ [run_row (length (t_events t))
       \<lparr> ei_operation_id = i, ei_plan_id = sp_plan_id plan, ei_stage = Approved, ei_result_code = ''approved'',
         ei_recorded_at_ms = now, ei_evidence_digest = sp_plan_hash plan \<rparr>]\<rparr>"

lemma run_begin:
  assumes l: "run_state l" and plan: "load_plan_from run_env (sp_plan_id plan) (lg_tables l) = Inr plan"
    and now: "now < sp_expires_at_ms plan"
    and new: "\<forall>r \<in> set (t_operations (lg_tables l)). or_operation_id r \<noteq> i \<and> or_plan_id r \<noteq> sp_plan_id plan"
    and locks: "\<forall>k \<in> set (t_locks (lg_tables l)). lr_resource_key k \<noteq> sp_resource_key plan
      \<and> (takes_reload_lock (sp_operation_type plan) \<longrightarrow> lr_resource_key k \<noteq> nginx_reload_key)"
    and key: "sp_resource_key plan \<noteq> nginx_reload_key"
  shows "begin_operation run_env i (sp_plan_id plan) (sp_plan_hash plan) (sp_idempotency_key plan) (sp_actor plan) now l
    = (load_operation_from run_env i (with_operation i plan now (lg_tables l)),
       l\<lparr>lg_tables := with_operation i plan now (lg_tables l)\<rparr>)"
proof -
  define n where "n = length (t_events (lg_tables l))"
  have n: "n < 99" and pend: "t_pending (lg_tables l) = None" and faults: "lg_faults l = []"
    and log: "run_log (t_events (lg_tables l))"
    using l by (auto simp: run_state_def n_def)
  have none: "find (\<lambda>r. or_plan_id r = sp_plan_id plan) (t_operations (lg_tables l)) = None"
    using new by (auto simp: find_None_iff)
  have "begin_operation_body run_env i (sp_plan_id plan) (sp_plan_hash plan) (sp_idempotency_key plan) (sp_actor plan)
      now (lg_tables l) = Inr (None, with_operation i plan now (lg_tables l))"
    using plan now new locks key n log
    by (auto simp: begin_operation_body_def none insert_operation_def insert_lock_def run_append list_ex_iff Let_def
        with_operation_def not_periodic n_def)
  moreover have "t_pending (with_operation i plan now (lg_tables l)) = None" using pend by (simp add: with_operation_def)
  ultimately show ?thesis
    using faults
    by (simp add: begin_operation_def transaction_def bindM_def quiet_access quiet_complete ret_def load_operation_def
        query_def reading_def split: sum.splits)
qed


section \<open>The run\<close>

text \<open>Two plans are recorded, an Nginx change and a certificate renewal test; both are approved.\<close>

definition ledger_1 :: ledger where
  "ledger_1 = snd (create_or_reuse_plan run_env (run_plan ''a'' NGINX_SITE_STATE_OPERATION) fresh_ledger)"

definition ledger_2 :: ledger where
  "ledger_2 = snd (create_or_reuse_plan run_env (run_plan ''b'' CERTBOT_RENEW_TEST_OPERATION) ledger_1)"

definition ledger_3 :: ledger where
  "ledger_3 = snd (begin_operation run_env ''op-a'' ''a'' ''a'' ''a'' (sp_actor (run_plan ''a'' [])) 20 ledger_2)"

definition ledger_4 :: ledger where
  "ledger_4 = snd (begin_operation run_env ''op-b'' ''b'' ''b'' ''b'' (sp_actor (run_plan ''b'' [])) 30 ledger_3)"

abbreviation plan_a :: stored_plan where
  "plan_a \<equiv> run_plan ''a'' NGINX_SITE_STATE_OPERATION"

abbreviation plan_b :: stored_plan where
  "plan_b \<equiv> run_plan ''b'' CERTBOT_RENEW_TEST_OPERATION"

lemma run_plan_fields [simp]:
  "sp_plan_id (run_plan n ty) = n" "sp_plan_hash (run_plan n ty) = n" "sp_idempotency_key (run_plan n ty) = n"
  "sp_resource_key (run_plan n ty) = n" "sp_operation_type (run_plan n ty) = ty"
  "sp_expires_at_ms (run_plan n ty) = 600010" "sp_request_digest (run_plan n ty) = n"
  "sp_actor (run_plan n ty) = \<lparr> subj_uid = 1000, subj_username = ''ops'', subj_role = Operator \<rparr>"
  by (simp_all add: run_plan_def)

lemma fresh_run_state: "run_state fresh_ledger"
  by (simp add: run_state_def fresh_ledger_def)

lemma run_state_with:
  "run_state l \<Longrightarrow> length (t_events (lg_tables l)) < 98 \<Longrightarrow> run_state (l\<lparr>lg_tables := with_plan plan (lg_tables l)\<rparr>)"
  "run_state l \<Longrightarrow> length (t_events (lg_tables l)) < 98 \<Longrightarrow> run_state (l\<lparr>lg_tables := with_operation i plan now (lg_tables l)\<rparr>)"
  by (simp_all add: run_state_def with_plan_def with_operation_def run_log_append)

lemma run_row_of_plan [simp]:
  "plan_of_row (le_serde run_env) (row_of_plan (le_serde run_env) (run_plan n ty)) = Inr (run_plan n ty)"
  "pr_plan_id (row_of_plan sd (run_plan n ty)) = n" "pr_plan_hash (row_of_plan sd (run_plan n ty)) = n"
  "pr_idempotency_key (row_of_plan sd (run_plan n ty)) = n"
  using run_env_ok by (simp_all add: plan_row_inverse env_ok_def) (simp_all add: row_of_plan_def)

lemma ledger_1_eq: "ledger_1 = fresh_ledger\<lparr>lg_tables := with_plan plan_a (lg_tables fresh_ledger)\<rparr>"
  unfolding ledger_1_def by (subst run_create [OF fresh_run_state]) (simp_all add: fresh_ledger_def)

lemma ledger_1_state: "run_state ledger_1"
  unfolding ledger_1_eq by (rule run_state_with(1) [OF fresh_run_state]) (simp add: fresh_ledger_def)

lemma ledger_1_tables:
  "t_plans (lg_tables ledger_1) = [row_of_plan (le_serde run_env) plan_a]" "t_operations (lg_tables ledger_1) = []"
  "t_locks (lg_tables ledger_1) = []" "map ir_idempotency_key (t_idempotency (lg_tables ledger_1)) = [''a'']"
  "length (t_events (lg_tables ledger_1)) = 1"
  by (simp_all add: ledger_1_eq with_plan_def fresh_ledger_def)

lemma ledger_2_eq: "ledger_2 = ledger_1\<lparr>lg_tables := with_plan plan_b (lg_tables ledger_1)\<rparr>"
proof -
  have "\<forall>r \<in> set (t_idempotency (lg_tables ledger_1)). ir_idempotency_key r = ''a''"
    using ledger_1_tables(4) by auto
  then show ?thesis
    unfolding ledger_2_def by (subst run_create [OF ledger_1_state]) (simp_all add: ledger_1_tables)
qed

lemma ledger_2_state: "run_state ledger_2"
  unfolding ledger_2_eq by (rule run_state_with(1) [OF ledger_1_state]) (simp add: ledger_1_tables)

lemma ledger_2_tables:
  "t_plans (lg_tables ledger_2) = [row_of_plan (le_serde run_env) plan_a, row_of_plan (le_serde run_env) plan_b]"
  "t_operations (lg_tables ledger_2) = []" "t_locks (lg_tables ledger_2) = []"
  "length (t_events (lg_tables ledger_2)) = 2"
  by (simp_all add: ledger_2_eq with_plan_def ledger_1_tables)

lemma ledger_3_eq: "ledger_3 = ledger_2\<lparr>lg_tables := with_operation ''op-a'' plan_a 20 (lg_tables ledger_2)\<rparr>"
proof -
  have "load_plan_from run_env (sp_plan_id plan_a) (lg_tables ledger_2) = Inr plan_a"
    by (simp add: load_plan_from_def ledger_2_tables)
  from run_begin [OF ledger_2_state this, of 20 "''op-a''"] show ?thesis
    by (simp add: ledger_3_def ledger_2_tables nginx_reload_key_def)
qed

lemma ledger_3_state: "run_state ledger_3"
  unfolding ledger_3_eq by (rule run_state_with(2) [OF ledger_2_state]) (simp add: ledger_2_tables)

definition first_row :: "string \<Rightarrow> string \<Rightarrow> int \<Rightarrow> operation_row" where
  "first_row i p now =
    \<lparr> or_operation_id = i, or_plan_id = p, or_stage = as_storage_value Approved, or_before_digest = ''e'',
      or_after_digest = ''e'', or_rollback_result = None, or_snapshot_relative_path = None,
      or_snapshot_digest = None, or_created_at_ms = now, or_updated_at_ms = now \<rparr>"

lemma run_before [simp]:
  "plan_before_digest plan_a = ''e''" "plan_before_digest plan_b = ''e''"
  by (simp_all add: plan_before_digest_def operation_name_defs) (simp_all add: run_plan_def)

lemma ledger_3_tables:
  "t_plans (lg_tables ledger_3) = t_plans (lg_tables ledger_2)"
  "t_operations (lg_tables ledger_3) = [first_row ''op-a'' ''a'' 20]"
  "map lr_resource_key (t_locks (lg_tables ledger_3)) = [''a'', nginx_reload_key]"
  by (simp_all add: ledger_3_eq with_operation_def ledger_2_tables first_row_def)
     (simp add: takes_reload_lock_def operation_name_defs)

lemma begin_b:
  "begin_operation run_env ''op-b'' ''b'' ''b'' ''b'' \<lparr> subj_uid = 1000, subj_username = ''ops'', subj_role = Operator \<rparr>
     30 ledger_3 = (load_operation_from run_env ''op-b'' (with_operation ''op-b'' plan_b 30 (lg_tables ledger_3)),
      ledger_3\<lparr>lg_tables := with_operation ''op-b'' plan_b 30 (lg_tables ledger_3)\<rparr>)"
proof -
  have load: "load_plan_from run_env (sp_plan_id plan_b) (lg_tables ledger_3) = Inr plan_b"
    by (simp add: load_plan_from_def ledger_2_tables ledger_3_tables)
  have keys: "lr_resource_key k \<in> {''a'', nginx_reload_key}" if "k \<in> set (t_locks (lg_tables ledger_3))" for k
    using imageI [OF that, of lr_resource_key] ledger_3_tables(3) by (metis list.set_map list.set)
  have locks: "\<forall>k \<in> set (t_locks (lg_tables ledger_3)). lr_resource_key k \<noteq> sp_resource_key plan_b
      \<and> (takes_reload_lock (sp_operation_type plan_b) \<longrightarrow> lr_resource_key k \<noteq> nginx_reload_key)"
  proof
    fix k assume "k \<in> set (t_locks (lg_tables ledger_3))"
    from keys [OF this] show "lr_resource_key k \<noteq> sp_resource_key plan_b
      \<and> (takes_reload_lock (sp_operation_type plan_b) \<longrightarrow> lr_resource_key k \<noteq> nginx_reload_key)"
      by (auto simp: nginx_reload_key_def takes_reload_lock_def)
  qed
  have "begin_operation run_env ''op-b'' (sp_plan_id plan_b) (sp_plan_hash plan_b) (sp_idempotency_key plan_b)
      (sp_actor plan_b) 30 ledger_3 = (load_operation_from run_env ''op-b''
        (with_operation ''op-b'' plan_b 30 (lg_tables ledger_3)),
      ledger_3\<lparr>lg_tables := with_operation ''op-b'' plan_b 30 (lg_tables ledger_3)\<rparr>)"
    by (rule run_begin [OF ledger_3_state load _ _ locks])
       (simp_all add: ledger_3_tables first_row_def nginx_reload_key_def)
  then show ?thesis by simp
qed

lemma ledger_4_eq: "ledger_4 = ledger_3\<lparr>lg_tables := with_operation ''op-b'' plan_b 30 (lg_tables ledger_3)\<rparr>"
  by (simp add: ledger_4_def begin_b)

lemma ledger_4_tables:
  "t_plans (lg_tables ledger_4) = t_plans (lg_tables ledger_2)"
  "t_operations (lg_tables ledger_4) = [first_row ''op-a'' ''a'' 20, first_row ''op-b'' ''b'' 30]"
  by (simp_all add: ledger_4_eq with_operation_def ledger_3_tables first_row_def)

lemma ledger_1_run: "ledger_run run_env fresh_ledger ledger_1"
  unfolding ledger_1_def by (rule r_into_rtranclp, rule step_create)

lemma ledger_4_later: "ledger_run run_env ledger_1 ledger_4"
proof -
  note snoc = rtranclp.rtrancl_into_rtrancl [of "ledger_step run_env" ledger_1]
  have "ledger_run run_env ledger_1 ledger_2"
    unfolding ledger_2_def by (rule r_into_rtranclp, rule step_create)
  then have "ledger_run run_env ledger_1 ledger_3"
    unfolding ledger_3_def by (rule snoc [OF _ step_begin]) simp
  then show ?thesis
    unfolding ledger_4_def by (rule snoc [OF _ step_begin]) simp
qed

lemma ledger_3_run: "ledger_run run_env fresh_ledger ledger_3"
proof -
  have "ledger_run run_env fresh_ledger ledger_2"
    unfolding ledger_2_def by (rule rtranclp.rtrancl_into_rtrancl [OF ledger_1_run step_create])
  then show ?thesis
    unfolding ledger_3_def by (rule rtranclp.rtrancl_into_rtrancl) (simp add: step_begin)
qed

lemma ledger_4_run: "ledger_run run_env fresh_ledger ledger_4"
  using ledger_1_run ledger_4_later by (rule rtranclp_trans)

lemma ledger_4_loads:
  "\<exists>x. load_operation_from run_env ''op-a'' (lg_tables ledger_4) = Inr x \<and> so_stage x = Approved \<and> so_plan x = plan_a"
  "\<exists>x. load_operation_from run_env ''op-b'' (lg_tables ledger_4) = Inr x \<and> so_stage x = Approved \<and> so_plan x = plan_b"
  by (simp_all add: load_operation_from_def load_plan_from_def ledger_4_tables ledger_2_tables first_row_def)

lemma ledger_4_begun:
  "\<exists>x. fst (begin_operation run_env ''op-b'' ''b'' ''b'' ''b'' (sp_actor plan_b) 30 ledger_3) = Inr x"
  using ledger_4_loads(2) by (auto simp: begin_b ledger_4_eq)

text \<open>The first operation is cancelled.\<close>

definition cancel :: stage_change where
  "cancel = \<lparr> ch_expected = [Approved], ch_next = CancelledBeforeApply, ch_result_code = ''cancelled'',
     ch_evidence_digest = ''d'', ch_after_digest = None, ch_rollback_result = None, ch_now_ms = 40 \<rparr>"

definition ledger_5 :: ledger where
  "ledger_5 = snd (transition run_env ''op-a'' cancel ledger_4)"

lemma ledger_5_run: "ledger_run run_env ledger_4 ledger_5"
  unfolding ledger_5_def by (rule r_into_rtranclp, rule step_transition) (simp add: change_ok_def cancel_def)

lemma ledger_4_state: "run_state ledger_4"
  unfolding ledger_4_eq
  by (rule run_state_with(2) [OF ledger_3_state]) (simp add: ledger_3_eq with_operation_def ledger_2_tables)

lemma ledger_5_load:
  "\<exists>x. load_operation_from run_env ''op-a'' (lg_tables ledger_5) = Inr x \<and> so_stage x = CancelledBeforeApply"
proof -
  let ?t = "lg_tables ledger_4"
  obtain t' where body: "transition_body run_env ''op-a'' cancel None None ?t = Inr ((), t')"
    and rows: "t_plans t' = t_plans ?t" "t_operations t' = [(first_row ''op-a'' ''a'' 20)
      \<lparr>or_stage := as_storage_value CancelledBeforeApply, or_updated_at_ms := 40\<rparr>, first_row ''op-b'' ''b'' 30]"
    using ledger_4_state
    by (simp add: transition_body_def ledger_4_tables ledger_2_tables first_row_def load_operation_from_def
        load_plan_from_def cancel_def update_operations_def run_append run_state_def Let_def mark_checkpoint_if_needed_def)
  have faults: "lg_faults ledger_4 = []" using ledger_4_state by (simp add: run_state_def)
  let ?rest = "bindM (complete_pending_checkpoint run_env) (\<lambda>_. load_operation run_env ''op-a'')"
  have rest: "moves same_rows ?rest" by (intro rows_rules rows_complete_pending)
  have eq: "ledger_5 = snd (?rest (ledger_4\<lparr>lg_tables := t'\<rparr>))"
    by (simp add: ledger_5_def transition_def transition_internal_def transaction_def bindM_def quiet_access
        faults body)
  have "same_rows (ledger_4\<lparr>lg_tables := t'\<rparr>) ledger_5" unfolding eq by (rule movesD [OF rest])
  from same_rows_fields(2,3) [OF this] rows show ?thesis
    by (simp add: load_operation_from_def load_plan_from_def ledger_4_tables ledger_2_tables first_row_def)
qed

section \<open>Witnesses\<close>


theorem unfinished_operations_exclude_witness:
  "\<exists>a b. load_operation_from run_env ''op-a'' (lg_tables ledger_4) = Inr a
    \<and> load_operation_from run_env ''op-b'' (lg_tables ledger_4) = Inr b
    \<and> \<not> is_terminal (so_stage a) \<and> \<not> is_terminal (so_stage b)
    \<and> sp_resource_key (so_plan a) \<noteq> sp_resource_key (so_plan b)
    \<and> \<not> (takes_reload_lock (sp_operation_type (so_plan a)) \<and> takes_reload_lock (sp_operation_type (so_plan b)))"
proof -
  obtain a b where ab: "load_operation_from run_env ''op-a'' (lg_tables ledger_4) = Inr a"
      "load_operation_from run_env ''op-b'' (lg_tables ledger_4) = Inr b" "so_stage a = Approved" "so_stage b = Approved"
    using ledger_4_loads by blast
  from unfinished_operations_exclude [OF run_env_ok ledger_4_run ab(1,2)] ab show ?thesis by auto
qed

theorem finished_operations_stay_witness:
  "\<exists>x. load_operation_from run_env ''op-a'' (lg_tables ledger_5) = Inr x \<and> is_terminal (so_stage x)
    \<and> load_operation_from run_env ''op-a'' (lg_tables (snd (open_ledger_file run_env ledger_5))) = Inr x"
proof -
  obtain x where x: "load_operation_from run_env ''op-a'' (lg_tables ledger_5) = Inr x"
      "so_stage x = CancelledBeforeApply"
    using ledger_5_load by blast
  have "ledger_run run_env fresh_ledger ledger_5" using ledger_4_run ledger_5_run by (rule rtranclp_trans)
  moreover have "ledger_run run_env ledger_5 (snd (open_ledger_file run_env ledger_5))"
    by (rule r_into_rtranclp, rule step_open)
  ultimately show ?thesis
    using finished_operations_stay [OF run_env_ok _ _ x(1)] x by auto
qed


end
