(* ===== verification/Ledger_Outcomes.thy ===== *)
theory Ledger_Outcomes
  imports Ledger_Guarantees
begin

text \<open>
  What a client of the ledger may rely on call by call: in a state that satisfies the invariant, a call
  with its precondition either does exactly what it is meant to do or fails with a storage error.  The
  engine is verified against these outcomes.
\<close>

definition is_storage :: "ops_error \<Rightarrow> bool" where
  "is_storage e = (case e of Storage _ \<Rightarrow> True | _ \<Rightarrow> False)"

lemma is_storage_simps [simp]: "is_storage (Storage m)" "is_storage no_rows" "is_storage unique_violation"
  by (simp_all add: is_storage_def no_rows_def unique_violation_def)

text \<open>The state of an operation after a transition and after its snapshot is attached.\<close>

definition after_change :: "stage_change \<Rightarrow> stored_operation \<Rightarrow> stored_operation" where
  "after_change ch op =
    op\<lparr>so_stage := ch_next ch,
       so_after_digest := (case ch_after_digest ch of Some v \<Rightarrow> v | None \<Rightarrow> so_after_digest op),
       so_rollback_result := (case ch_rollback_result ch of Some v \<Rightarrow> Some v | None \<Rightarrow> so_rollback_result op)\<rparr>"

lemma after_change_fields [simp]:
  "so_stage (after_change ch op) = ch_next ch" "so_plan (after_change ch op) = so_plan op"
  "so_snapshot (after_change ch op) = so_snapshot op"
  "so_operation_id (after_change ch op) = so_operation_id op"
  by (simp_all add: after_change_def)

definition with_snapshot :: "snapshot_record \<Rightarrow> stored_operation \<Rightarrow> stored_operation" where
  "with_snapshot sn op = op\<lparr>so_stage := Snapshotted, so_snapshot := Some sn\<rparr>"

lemma with_snapshot_fields [simp]:
  "so_stage (with_snapshot sn op) = Snapshotted" "so_plan (with_snapshot sn op) = so_plan op"
  "so_snapshot (with_snapshot sn op) = Some sn"
  "so_operation_id (with_snapshot sn op) = so_operation_id op"
  by (simp_all add: with_snapshot_def)

lemma load_operation_id: "load_operation_from env i t = Inr opn \<Longrightarrow> so_operation_id opn = i"
  by (auto simp: load_operation_from_def)

lemma load_operation_cong:
  "t_operations t' = t_operations t \<Longrightarrow> t_plans t' = t_plans t \<Longrightarrow>
    load_operation_from env i t' = load_operation_from env i t"
  by (simp add: load_operation_from_def load_plan_from_def)

section \<open>Events\<close>

lemma append_event_error:
  assumes ok: "tables_ok env f t" and env: "env_ok env" and t2: "t_events t2 = t_events t"
    and run: "append_event env ei t2 = Inl e"
  shows "is_storage e"
proof -
  note D = tables_okD [OF ok]
  have prev: "(case latest_event t2 of Some row \<Rightarrow> (ev_sequence row, ev_event_digest row)
      | None \<Rightarrow> (0, GENESIS_DIGEST)) = (n, last_digest GENESIS_DIGEST (t_events t))"
    if "n = (case latest_event t2 of Some row \<Rightarrow> ev_sequence row | None \<Rightarrow> 0)" for n
    using that D(8) by (auto simp: latest_event_eq t2 last_digest_def)
  have "validate_digest (last_digest GENESIS_DIGEST (t_events t)) = Inr ()"
    using D(1) env last_digest_valid [OF _ _ genesis_valid] unfolding chain_ok_def env_ok_def by blast
  then obtain raw where "decode_sha256 (last_digest GENESIS_DIGEST (t_events t)) = Inr raw"
    using validate_digest_decode by blast
  then show ?thesis
    using run prev
    by (auto simp: append_event_def Let_def ledger_event_digest_def bindR_eq_Inl insert_event_def
        split: if_splits prod.splits)
qed

section \<open>Transitions\<close>

lemma transition_body_error:
  assumes ok: "tables_ok env f t" and env: "env_ok env"
    and opn: "load_operation_from env i t = Inr opn" and stage: "so_stage opn \<in> set (ch_expected ch)"
    and run: "transition_body env i ch None None t = Inl e"
  shows "is_storage e"
  using run opn stage
  by (auto simp: transition_body_def Let_def bindR_eq_Inl update_operations_def
      dest: append_event_error [OF ok env, rotated] split: prod.splits if_splits)

lemma find_update:
  "(\<And>r. or_operation_id (g r) = or_operation_id r) \<Longrightarrow>
    find (\<lambda>r. or_operation_id r = i) (map (\<lambda>r. if or_operation_id r = i then g r else r) rs) =
      map_option g (find (\<lambda>r. or_operation_id r = i) rs)"
  by (induction rs) auto

lemma transition_body_loads:
  assumes ok: "tables_ok env f t" and opn: "load_operation_from env i t = Inr opn"
    and run: "transition_body env i ch d c t = Inr (x, t')"
  shows "load_operation_from env i t' = Inr (after_change ch opn)"
proof -
  note D = tables_okD [OF ok]
  obtain cur s t2 where step: "load_operation_from env i t = Inr cur"
    "append_event env (change_event i ch cur)
       (update_operations (\<lambda>r. or_operation_id r = i) (changed_row ch cur) t) = Inr (s, t2)"
    "t_plans t' = t_plans t2" "t_operations t' = t_operations t2"
    by (rule transition_body_Inr [OF run])
  obtain row where row: "t2 = (update_operations (\<lambda>r. or_operation_id r = i) (changed_row ch cur) t)
      \<lparr>t_events := t_events t @ [row]\<rparr>"
    using append_event_Inr [of "update_operations (\<lambda>r. or_operation_id r = i) (changed_row ch cur) t"
        env "change_event i ch cur" s t2] D(8,9) step(2) by (auto simp: update_operations_def)
  have cur: "cur = opn" using step(1) opn by simp
  have rows: "t_operations t' = map (\<lambda>r. if or_operation_id r = i then changed_row ch opn r else r) (t_operations t)"
    "t_plans t' = t_plans t"
    using step(3,4) by (simp_all add: row cur update_operations_def)
  obtain x where x: "find (\<lambda>r. or_operation_id r = i) (t_operations t) = Some x"
      "(case (or_snapshot_relative_path x, or_snapshot_digest x) of
         (Some relative_path, Some digest) \<Rightarrow> Inr (Some \<lparr> sn_relative_path = relative_path, sn_digest = digest \<rparr>)
       | (None, None) \<Rightarrow> Inr None | _ \<Rightarrow> Inl ForensicLockdown) = Inr (so_snapshot opn)"
      "load_plan_from env (or_plan_id x) t = Inr (so_plan opn)" "so_operation_id opn = i"
      "so_before_digest opn = or_before_digest x" "so_after_digest opn = or_after_digest x"
      "so_rollback_result opn = or_rollback_result x"
    using opn by (auto simp: load_operation_from_def)
  have found: "find (\<lambda>r. or_operation_id r = i) (t_operations t') = Some (changed_row ch opn x)"
    unfolding rows using find_update [of "changed_row ch opn" i "t_operations t"] x(1) by (simp add: changed_row_def)
  have "load_plan_from env p t' = load_plan_from env p t" for p
    by (simp add: load_plan_from_def rows)
  moreover have "or_snapshot_relative_path (changed_row ch opn x) = or_snapshot_relative_path x"
      "or_snapshot_digest (changed_row ch opn x) = or_snapshot_digest x"
      "or_plan_id (changed_row ch opn x) = or_plan_id x" "or_before_digest (changed_row ch opn x) = or_before_digest x"
    by (simp_all add: changed_row_def)
  ultimately show ?thesis
    using x unfolding load_operation_from_def found ok_or_simps bindR_simps
    by (simp only:) (cases opn, simp add: changed_row_def after_change_def)
qed

text \<open>Completing the checkpoint and loading, from a state in which the rows are already in place.\<close>

lemma wp_complete_and_load:
  assumes env: "env_ok env" and inv: "ledger_inv env l"
    and opn: "load_operation_from env i (lg_tables l) = Inr opn"
  shows "wp (bindM (complete_pending_checkpoint env) (\<lambda>_. load_operation env i))
    (\<lambda>opn' l'. opn' = opn \<and> ledger_inv env l' \<and> load_operation_from env i (lg_tables l') = Inr opn)
    (\<lambda>e l'. is_storage e) l"
proof -
  have "wp (complete_pending_checkpoint env) (\<lambda>_ l'. completed env l' \<and> same_rows l l')
      (\<lambda>e l'. is_storage e \<and> same_rows l l') l"
    using complete_pending_outcome [OF env inv] rows_complete_pending [of env]
    unfolding wp_conj moves_wp by (auto elim: wp_mono)
  then show ?thesis
    unfolding wp_bindM load_operation_def
    by (rule wp_mono) (auto intro!: wp_queryI simp: completed_def same_rows_stay(3) opn)
qed

lemma transition_outcome:
  assumes env: "env_ok env" and inv: "ledger_inv env l"
    and opn: "load_operation_from env i (lg_tables l) = Inr opn"
    and stage: "so_stage opn \<in> set (ch_expected ch)" and ch: "change_ok ch"
  shows "wp (transition env i ch)
    (\<lambda>opn' l'. opn' = after_change ch opn \<and> ledger_inv env l'
       \<and> load_operation_from env i (lg_tables l') = Inr opn')
    (\<lambda>e l'. is_storage e) l"
proof -
  have ok: "tables_ok env (sf_checkpoint (lg_files l)) (lg_tables l)" using inv by (simp add: ledger_inv_def)
  have att: "attachments_ok env None None (ch_evidence_digest ch)"
    by (simp add: attachments_ok_def load_command_evidence_def load_diagnostics_def)
  show ?thesis
    unfolding transition_def transition_internal_def wp_bindM [of "transaction _"]
  proof (rule wp_transactionI, goal_cases)
    case (1 x t fs)
    have "ledger_inv env (l\<lparr>lg_faults := fs, lg_tables := t\<rparr>)"
      using transition_body_ok [OF ok ch att 1(1)] inv by (simp add: ledger_inv_def)
    from wp_complete_and_load [OF env this, of i "after_change ch opn"]
      transition_body_loads [OF ok opn 1(1)]
    show ?case by (auto elim: wp_mono)
  qed (use transition_body_error [OF ok env opn stage] in auto)
qed

section \<open>Snapshots\<close>

definition snapshot_rows :: "string \<Rightarrow> snapshot_record \<Rightarrow> int \<Rightarrow> tables \<Rightarrow> tables" where
  "snapshot_rows i sn now t =
    update_operations (\<lambda>r. or_operation_id r = i \<and> or_stage r = as_storage_value Approved)
      (\<lambda>r. r\<lparr>or_stage := as_storage_value Snapshotted,
        or_snapshot_relative_path := Some (sn_relative_path sn),
        or_snapshot_digest := Some (sn_digest sn), or_updated_at_ms := now\<rparr>) t"

lemma snapshot_rows_loads:
  assumes keys: "keys_ok t" and opn: "load_operation_from env i t = Inr opn" and stage: "so_stage opn = Approved"
  shows "load_operation_from env i (snapshot_rows i sn now t) = Inr (with_snapshot sn opn)"
proof -
  let ?g = "\<lambda>r :: operation_row. r\<lparr>or_stage := as_storage_value Snapshotted,
      or_snapshot_relative_path := Some (sn_relative_path sn),
      or_snapshot_digest := Some (sn_digest sn), or_updated_at_ms := now\<rparr>"
  obtain row where row: "row \<in> set (t_operations t)" "or_operation_id row = i"
      "or_stage row = as_storage_value Approved"
    using load_operation_Inr [OF opn] stage by metis
  have only: "r = row" if "r \<in> set (t_operations t)" "or_operation_id r = i" for r
    using keys that row unfolding keys_ok_def by (metis find_key_distinct option.inject)
  have rows: "t_operations (snapshot_rows i sn now t) =
      map (\<lambda>r. if or_operation_id r = i then ?g r else r) (t_operations t)"
    using row(3) by (auto simp: snapshot_rows_def update_operations_def dest: only)
  have plans: "load_plan_from env p (snapshot_rows i sn now t) = load_plan_from env p t" for p
    by (simp add: snapshot_rows_def update_operations_def load_plan_from_def)
  obtain x where x: "find (\<lambda>r. or_operation_id r = i) (t_operations t) = Some x"
      "load_plan_from env (or_plan_id x) t = Inr (so_plan opn)" "so_operation_id opn = i"
      "so_before_digest opn = or_before_digest x" "so_after_digest opn = or_after_digest x"
      "so_rollback_result opn = or_rollback_result x"
    using opn by (auto simp: load_operation_from_def)
  have "find (\<lambda>r. or_operation_id r = i) (t_operations (snapshot_rows i sn now t)) = Some (?g x)"
    unfolding rows using find_update [of ?g i "t_operations t"] x(1) by simp
  then show ?thesis
    using x plans [of "or_plan_id x"]
    by (cases opn; cases sn) (simp add: load_operation_from_def with_snapshot_def)
qed

lemma attach_body_unfold:
  assumes keys: "keys_ok t" and opn: "load_operation_from env i t = Inr opn" and stage: "so_stage opn = Approved"
  shows "attach_snapshot_body env i sn now t =
    (if length (filter (\<lambda>r. or_operation_id r = i \<and> or_stage r = as_storage_value Approved) (t_operations t)) \<noteq> 1
     then Inl no_rows
     else bindR (append_event env
            \<lparr> ei_operation_id = i, ei_plan_id = sp_plan_id (so_plan opn), ei_stage = Snapshotted,
              ei_result_code = ''snapshot_durable'', ei_recorded_at_ms = now,
              ei_evidence_digest = sn_digest sn \<rparr> (snapshot_rows i sn now t))
            (\<lambda>(sequence, t2). Inr ((), mark_checkpoint_if_needed sequence False t2)))"
  using snapshot_rows_loads [OF assms, of sn now]
  unfolding attach_snapshot_body_def Let_def snapshot_rows_def [symmetric] by simp

lemma snapshot_rows_events: "t_events (snapshot_rows i sn now t) = t_events t"
  by (simp add: snapshot_rows_def update_operations_def)

lemma attach_body_error:
  assumes ok: "tables_ok env f t" and env: "env_ok env"
    and opn: "load_operation_from env i t = Inr opn" and stage: "so_stage opn = Approved"
    and run: "attach_snapshot_body env i sn now t = Inl e"
  shows "is_storage e"
  using run append_event_error [OF ok env snapshot_rows_events]
  unfolding attach_body_unfold [OF tables_okD(2) [OF ok] opn stage]
  by (auto simp: bindR_eq_Inl split: if_splits)

lemma attach_body_loads:
  assumes ok: "tables_ok env f t" and opn: "load_operation_from env i t = Inr opn"
    and stage: "so_stage opn = Approved"
    and run: "attach_snapshot_body env i sn now t = Inr (x, t')"
  shows "load_operation_from env i t' = Inr (with_snapshot sn opn)"
proof -
  note D = tables_okD [OF ok]
  obtain ei s t2 where step: "append_event env ei (snapshot_rows i sn now t) = Inr (s, t2)"
      "t' = mark_checkpoint_if_needed s False t2"
    using run unfolding attach_body_unfold [OF D(2) opn stage] by (auto split: if_splits)
  obtain ev where "t2 = (snapshot_rows i sn now t)\<lparr>t_events := t_events t @ [ev]\<rparr>"
    by (rule append_event_Inr [OF _ _ step(1)]) (use D(8,9) in \<open>auto simp: snapshot_rows_events\<close>)
  then have "load_operation_from env i t' = load_operation_from env i (snapshot_rows i sn now t)"
    by (intro load_operation_cong) (simp_all add: step(2))
  then show ?thesis using snapshot_rows_loads [OF D(2) opn stage] by simp
qed

lemma attach_snapshot_outcome:
  assumes env: "env_ok env" and inv: "ledger_inv env l"
    and opn: "load_operation_from env i (lg_tables l) = Inr opn" and stage: "so_stage opn = Approved"
  shows "wp (attach_snapshot env i sn now)
    (\<lambda>opn' l'. opn' = with_snapshot sn opn \<and> ledger_inv env l'
       \<and> load_operation_from env i (lg_tables l') = Inr opn')
    (\<lambda>e l'. is_storage e) l"
proof -
  have ok: "tables_ok env (sf_checkpoint (lg_files l)) (lg_tables l)" using inv by (simp add: ledger_inv_def)
  show ?thesis
    unfolding attach_snapshot_def wp_bindM [of "transaction _"]
  proof (rule wp_transactionI, goal_cases)
    case (1 x t fs)
    have "ledger_inv env (l\<lparr>lg_faults := fs, lg_tables := t\<rparr>)"
      using attach_body_ok [OF ok 1(1)] inv by (simp add: ledger_inv_def)
    from wp_complete_and_load [OF env this, of i "with_snapshot sn opn"]
      attach_body_loads [OF ok opn stage 1(1)]
    show ?case by (auto elim: wp_mono)
  qed (use attach_body_error [OF ok env opn stage] in auto)
qed

section \<open>Reading\<close>

lemma load_operation_outcome:
  assumes "ledger_inv env l" and "load_operation_from env i (lg_tables l) = Inr opn"
  shows "wp (load_operation env i)
    (\<lambda>opn' l'. opn' = opn \<and> ledger_inv env l' \<and> lg_tables l' = lg_tables l) (\<lambda>e l'. is_storage e) l"
  unfolding load_operation_def by (rule wp_queryI) (use assms in auto)

lemma receipt_outcome:
  assumes "ledger_inv env l" and "load_operation_from env i (lg_tables l) = Inr opn"
  shows "wp (receipt env i)
    (\<lambda>r l'. rv_terminal_state r = so_stage opn \<and> ledger_inv env l' \<and> lg_tables l' = lg_tables l)
    (\<lambda>e l'. ledger_inv env l' \<and> lg_tables l' = lg_tables l) l"
  unfolding receipt_def
  by (rule wp_queryI) (use assms in \<open>auto simp: receipt_from_def Let_def split: if_splits\<close>)

end
