(* ===== verification/File_Views.thy ===== *)
theory File_Views
  imports Nginx_Sites
begin

text \<open>
  Routines that only look at the files.  Such a routine leaves every node in place, and whatever it
  returns is what it would return if no call failed: so its result is a view of the filesystem that
  stays valid as long as the nodes do.
\<close>

definition quiet :: "filesystem \<Rightarrow> filesystem" where
  "quiet fs = fs\<lparr>fs_faults := []\<rparr>"

definition observes :: "(filesystem, 'e, 'a) routine \<Rightarrow> bool" where
  "observes m =
    (\<forall>fs. same_nodes fs (snd (m fs)) \<and> (\<forall>x. fst (m fs) = Inr x \<longrightarrow> m (quiet fs) = (Inr x, quiet fs)))"

named_theorems observes_intros \<open>rules that push observation through the combinators\<close>

lemma quiet_quiet [simp]: "quiet (quiet fs) = quiet fs" "quiet (fs\<lparr>fs_faults := f\<rparr>) = quiet fs"
  by (simp_all add: quiet_def)

lemma quiet_same: "same_nodes fs fs' \<Longrightarrow> quiet fs' = quiet fs"
  by (auto simp: same_nodes_def)

lemma observes_pure [observes_intros]: "observes (ret x)" "observes (fail e)" "observes (liftR r)"
  by (auto simp: observes_def ret_def fail_def liftR_def nodes_rel.R_refl)

lemma observes_on_err [observes_intros]: "observes m \<Longrightarrow> observes (on_err f m)"
  by (auto simp: observes_def on_err_def split: prod.splits) (metis fst_conv snd_conv)+

lemma observes_if [observes_intros]:
  "(b \<Longrightarrow> observes m) \<Longrightarrow> (\<not> b \<Longrightarrow> observes n) \<Longrightarrow> observes (if b then m else n)"
  by simp

lemma observes_let [observes_intros]: "(\<And>x. x = v \<Longrightarrow> observes (m x)) \<Longrightarrow> observes (let x = v in m x)"
  by simp

lemma observes_case_prod [observes_intros]:
  "(\<And>x y. v = (x, y) \<Longrightarrow> observes (m x y)) \<Longrightarrow> observes (case v of (x, y) \<Rightarrow> m x y)"
  by (cases v) auto

lemma observes_bindM [observes_intros]:
  assumes "observes m" and "\<And>x. observes (k x)"
  shows "observes (bindM m k)"
proof (unfold observes_def, intro allI conjI impI)
  fix fs x
  obtain r fs1 where run: "m fs = (r, fs1)" by (cases "m fs")
  have m: "same_nodes fs fs1" "\<And>y. r = Inr y \<Longrightarrow> m (quiet fs) = (Inr y, quiet fs)"
    using assms(1) run unfolding observes_def by (metis fst_conv snd_conv)+
  show "same_nodes fs (snd (bindM m k fs))"
  proof (cases r)
    case (Inr y)
    then show ?thesis
      using m(1) assms(2) [of y] nodes_rel.R_trans by (auto simp: bindM_def run observes_def)
  qed (simp add: bindM_def run m)
  assume "fst (bindM m k fs) = Inr x"
  then obtain y where y: "r = Inr y" "fst (k y fs1) = Inr x" by (auto simp: bindM_def run split: sum.splits)
  then have "k y (quiet fs1) = (Inr x, quiet fs1)" using assms(2) by (auto simp: observes_def)
  then show "bindM m k (quiet fs) = (Inr x, quiet fs)"
    using m(2) [OF y(1)] quiet_same [OF m(1)] by (simp add: bindM_def)
qed

lemma access_quiet: "io_access (quiet fs) = (Inr (), quiet fs)"
  by (simp add: io_access_def quiet_def)

lemma observes_access [observes_intros]: "observes io_access"
  using moves_nodes_access by (simp add: observes_def moves_def access_quiet)

lemma observes_read:
  assumes "\<And>fs f. r (fs\<lparr>fs_faults := f\<rparr>) = r fs"
  shows "observes (io_read r)"
proof (unfold observes_def, intro allI conjI impI)
  fix fs x
  show "same_nodes fs (snd (io_read r fs))" by (rule movesD [OF moves_nodes_read])
  assume "fst (io_read r fs) = Inr x"
  then have "r fs = Inr x"
    by (auto simp: io_read_def bindM_def reading_def io_access_def assms split: list.splits option.splits sum.splits)
  then show "io_read r (quiet fs) = (Inr x, quiet fs)"
    using assms [of "[]" fs] by (simp add: io_read_def bindM_def reading_def access_quiet) (simp add: quiet_def)
qed

lemma observes_calls [observes_intros]:
  "observes (symlink_metadata p)" "observes (path_metadata p)" "observes (read_link p)"
  "observes (canonicalize p)" "observes (open_file p)" "observes (file_metadata p)"
  "observes (read_to_end p)" "observes (sync_all p)" "observes (openat_beneath p n)"
  "observes (read_dir p)" "observes next_entry" "observes (statvfs_free p)"
  by (auto simp: nodes_calls bindR_def split: sum.splits intro!: observes_read observes_access)

text \<open>A \<^verbatim>\<open>match\<close> on a call where every failure but a missing file is passed on.\<close>

lemma observes_attempt_read:
  assumes pure: "\<And>fs f. r (fs\<lparr>fs_faults := f\<rparr>) = r fs"
    and ok: "\<And>x. observes (k (Inr x))" and missing: "observes (k (Inl NotFound))"
    and other: "\<exists>e. k (Inl OtherIo) = fail e"
  shows "observes (attempt (io_read r) k)"
proof (unfold observes_def, intro allI conjI impI)
  fix fs x
  obtain v fs1 where run: "io_read r fs = (v, fs1)" by (cases "io_read r fs")
  have same: "same_nodes fs fs1" using movesD [OF moves_nodes_read, of fs r] by (simp add: run)
  have v: "v = r fs \<or> v = Inl OtherIo"
    using run pure
    by (auto simp: io_read_def bindM_def reading_def io_access_def split: list.splits option.splits sum.splits)
  have k: "observes (k v)" using ok missing other
    by (cases v) (metis io_error.exhaust observes_pure(2), simp)
  then show "same_nodes fs (snd (attempt (io_read r) k fs))"
    using same nodes_rel.R_trans by (auto simp: attempt_def run observes_def)
  assume "fst (attempt (io_read r) k fs) = Inr x"
  then have x: "fst (k v fs1) = Inr x" by (simp add: attempt_def run)
  then have "v \<noteq> Inl OtherIo" using other by (auto simp: fail_def)
  then have "v = r fs" using v by simp
  moreover have "k v (quiet fs1) = (Inr x, quiet fs1)" using k x by (auto simp: observes_def)
  ultimately show "attempt (io_read r) k (quiet fs) = (Inr x, quiet fs)"
    using pure [of "[]" fs] quiet_same [OF same]
    by (simp add: attempt_def io_read_def bindM_def reading_def access_quiet) (simp add: quiet_def)
qed

section \<open>Results of a routine\<close>

text \<open>\<^verbatim>\<open>returns Q m\<close>: whatever \<^verbatim>\<open>m\<close> returns, from any state, satisfies \<^verbatim>\<open>Q\<close>.\<close>

definition returns :: "('a \<Rightarrow> bool) \<Rightarrow> ('s, 'e, 'a) routine \<Rightarrow> bool" where
  "returns Q m = (\<forall>s x. fst (m s) = Inr x \<longrightarrow> Q x)"

named_theorems returns_intros \<open>rules that push a property of the result through the combinators\<close>

lemma returns_bindM [returns_intros]: "(\<And>x. returns Q (k x)) \<Longrightarrow> returns Q (bindM m k)"
  by (auto simp: returns_def bindM_def split: prod.splits sum.splits)

lemma returns_fail [returns_intros]: "returns Q (fail e)"
  by (simp add: returns_def fail_def)

lemma returns_ret: "Q x \<Longrightarrow> returns Q (ret x)"
  by (simp add: returns_def ret_def)

lemma returns_if [returns_intros]:
  "(b \<Longrightarrow> returns Q m) \<Longrightarrow> (\<not> b \<Longrightarrow> returns Q n) \<Longrightarrow> returns Q (if b then m else n)"
  by simp

lemma returnsD: "returns Q m \<Longrightarrow> fst (m s) = Inr x \<Longrightarrow> Q x"
  by (auto simp: returns_def)

section \<open>Sites\<close>

lemma observes_validate_root [observes_intros]: "observes (validate_root p b)"
  unfolding validate_root_def by (intro observes_intros)

lemma observes_read_enabled [observes_intros]: "observes (read_enabled paths basename available)"
  unfolding read_enabled_def Let_def symlink_metadata_def
  by (rule observes_attempt_read) (auto intro!: observes_intros)

lemma observes_content [observes_intros]: "observes (read_available_content paths basename)"
  unfolding read_available_content_def open_available_linux_def by (intro observes_intros)

lemma observes_discover_in [observes_intros]: "observes (discover_in env requested names)"
  by (induction names) (auto simp: Let_def intro!: observes_intros)

lemma observes_discover_site [observes_intros]: "observes (discover_site env requested)"
  unfolding discover_site_def by (intro observes_intros)

text \<open>The site as it is on disk, whether or not a call would fail now.\<close>

definition site_view :: "'h ops_env \<Rightarrow> string \<Rightarrow> filesystem \<Rightarrow> (ops_error, nginx_site) result" where
  "site_view env site_id fs = fst (discover_site env site_id (quiet fs))"

lemma site_view_same: "same_nodes fs fs' \<Longrightarrow> site_view env i fs' = site_view env i fs"
  by (simp add: site_view_def quiet_same)

lemma wp_observe:
  assumes "observes m"
    and "\<And>x fs'. same_nodes fs fs' \<Longrightarrow> fst (m (quiet fs)) = Inr x \<Longrightarrow> Q x fs'"
    and "\<And>e fs'. same_nodes fs fs' \<Longrightarrow> E e fs'"
  shows "wp m Q E fs"
  using assms unfolding observes_def wp_def
  by (auto split: prod.splits sum.splits) (metis fst_conv snd_conv)+

lemma wp_discover_site:
  assumes "\<And>site fs'. same_nodes fs fs' \<Longrightarrow> site_view env i fs' = Inr site \<Longrightarrow> Q site fs'"
    and "\<And>e fs'. same_nodes fs fs' \<Longrightarrow> E e fs'"
  shows "wp (discover_site env i) Q E fs"
  by (rule wp_observe [OF observes_discover_site])
    (use assms in \<open>auto simp: site_view_def quiet_same\<close>)

end
