(* ===== verification/Nginx_Outcomes.thy ===== *)
theory Nginx_Outcomes
  imports Engine_Service Ledger_Outcomes File_Views
begin

text \<open>
  How the execution of an operation ends.  The engine is followed step by step from a state of the
  ledger that satisfies the invariant: every path of the Nginx operation reaches a terminal stage or
  fails on storage, a success was read back from disk, and a verified rollback has put the site into
  the state its snapshot describes.
\<close>

section \<open>Calls of the engine\<close>

text \<open>The ledger holds the operation as \<^verbatim>\<open>opn\<close>.\<close>

definition tracks :: "'h ops_env \<Rightarrow> string \<Rightarrow> stored_operation \<Rightarrow> 'h world \<Rightarrow> bool" where
  "tracks env i opn w =
    (ledger_inv (ledger_env_of env) (w_ledger w)
     \<and> load_operation_from (ledger_env_of env) i (lg_tables (w_ledger w)) = Inr opn)"

lemma tracks_frame [simp]:
  "tracks env i opn (w\<lparr>w_fs := fs\<rparr>) = tracks env i opn w"
  "tracks env i opn (w\<lparr>w_host := h\<rparr>) = tracks env i opn w"
  "tracks env i opn (w\<lparr>w_entropy := ent\<rparr>) = tracks env i opn w"
  by (simp_all add: tracks_def)

lemma tracks_id: "tracks env i opn w \<Longrightarrow> so_operation_id opn = i"
  by (auto simp: tracks_def dest: load_operation_id)

lemma wp_do_transition:
  assumes "env_ok (ledger_env_of env)" "tracks env i opn w" "so_stage opn \<in> set (ch_expected ch)" "change_ok ch"
    and "\<And>l. tracks env i (after_change ch opn) (w\<lparr>w_ledger := l\<rparr>) \<Longrightarrow> Q (after_change ch opn) (w\<lparr>w_ledger := l\<rparr>)"
    and "\<And>e w'. is_storage e \<Longrightarrow> E e w'"
  shows "wp (do_transition env i ch) Q E w"
  unfolding do_transition_def on_ledger_def wp_within
  by (rule wp_mono [OF transition_outcome]) (use assms in \<open>auto simp: tracks_def\<close>)

lemma wp_attach_snapshot:
  assumes "env_ok (ledger_env_of env)" "tracks env i opn w" "so_stage opn = Approved"
    and "\<And>l. tracks env i (with_snapshot sn opn) (w\<lparr>w_ledger := l\<rparr>) \<Longrightarrow> Q (with_snapshot sn opn) (w\<lparr>w_ledger := l\<rparr>)"
    and "\<And>e w'. is_storage e \<Longrightarrow> E e w'"
  shows "wp (on_ledger (attach_snapshot (ledger_env_of env) i sn now)) Q E w"
  unfolding on_ledger_def wp_within
  by (rule wp_mono [OF attach_snapshot_outcome]) (use assms in \<open>auto simp: tracks_def\<close>)

lemma wp_do_load:
  assumes "tracks env i opn w"
    and "\<And>l. tracks env i opn (w\<lparr>w_ledger := l\<rparr>) \<Longrightarrow> Q opn (w\<lparr>w_ledger := l\<rparr>)"
    and "\<And>e w'. is_storage e \<Longrightarrow> E e w'"
  shows "wp (do_load env i) Q E w"
  unfolding do_load_def on_ledger_def wp_within
  by (rule wp_mono [OF load_operation_outcome]) (use assms in \<open>auto simp: tracks_def\<close>)

lemma wp_do_receipt:
  assumes "tracks env i opn w"
    and "\<And>r l. tracks env i opn (w\<lparr>w_ledger := l\<rparr>) \<Longrightarrow> rv_terminal_state r = so_stage opn \<Longrightarrow> Q r (w\<lparr>w_ledger := l\<rparr>)"
    and "\<And>e l. tracks env i opn (w\<lparr>w_ledger := l\<rparr>) \<Longrightarrow> E e (w\<lparr>w_ledger := l\<rparr>)"
  shows "wp (do_receipt env i) Q E w"
  unfolding do_receipt_def on_ledger_def wp_within
  by (rule wp_mono [OF receipt_outcome]) (use assms in \<open>auto simp: tracks_def\<close>)

lemma wp_run_command:
  assumes "\<And>x h. Q x (w\<lparr>w_host := h\<rparr>)" and "\<And>e h. E e (w\<lparr>w_host := h\<rparr>)"
  shows "wp (run_command env c) Q E w"
  using assms by (simp add: wp_def run_command_def split: prod.splits sum.splits)

lemma wp_files:
  assumes "wp m (\<lambda>x fs. Q x (w\<lparr>w_fs := fs\<rparr>)) (\<lambda>e fs. E e (w\<lparr>w_fs := fs\<rparr>)) (w_fs w)"
  shows "wp (on_files m) Q E w"
  using assms by (simp add: on_files_def wp_within)

lemma wp_any: "(\<And>x fs. Q x fs) \<Longrightarrow> (\<And>e fs. E e fs) \<Longrightarrow> wp m Q E s"
  by (simp add: wp_def split: prod.splits sum.splits)

section \<open>Ends of an execution\<close>

text \<open>
  The operation is in a terminal stage and \<^verbatim>\<open>P\<close> holds of it and of the files; a routine that ends so
  returns the receipt of that stage, unless storage fails on the way.
\<close>

definition settled :: "'h ops_env \<Rightarrow> string \<Rightarrow> (stored_operation \<Rightarrow> filesystem \<Rightarrow> bool) \<Rightarrow> 'h world \<Rightarrow> bool" where
  "settled env i P w = (\<exists>opn. tracks env i opn w \<and> is_terminal (so_stage opn) \<and> P opn (w_fs w))"

definition ends ::
    "'h ops_env \<Rightarrow> string \<Rightarrow> (stored_operation \<Rightarrow> filesystem \<Rightarrow> bool) \<Rightarrow> ('h, receipt_view) engine \<Rightarrow> 'h world \<Rightarrow> bool" where
  "ends env i P m w =
    wp m (\<lambda>r. settled env i (\<lambda>opn fs. P opn fs \<and> rv_terminal_state r = so_stage opn))
      (\<lambda>e w. is_storage e \<or> settled env i P w) w"

lemma ends_receipt:
  assumes "tracks env i opn w" "is_terminal (so_stage opn)" "P opn (w_fs w)"
  shows "ends env i P (do_receipt env i) w"
  unfolding ends_def by (rule wp_do_receipt [OF assms(1)]) (use assms in \<open>auto simp: settled_def\<close>)

lemma ends_finish:
  assumes "env_ok (ledger_env_of env)" "tracks env i opn w" "so_stage opn \<in> set (ch_expected ch)" "change_ok ch"
    and "is_terminal (ch_next ch)" "P (after_change ch opn) (w_fs w)"
  shows "ends env i P (finish env i ch) w"
  unfolding ends_def finish_def wp_bindM
proof (rule wp_do_transition [OF assms(1-4)], goal_cases)
  case (1 l)
  then have "so_operation_id (after_change ch opn) = i" by (rule tracks_id)
  with ends_receipt [OF 1, of P] assms(5,6) show ?case by (simp add: ends_def)
qed simp

text \<open>Plans without a stored proposal, as those of the Nginx and service operations are.\<close>

definition no_proposal :: "stored_plan \<Rightarrow> bool" where
  "no_proposal plan = (sp_managed_config plan = None \<and> sp_certbot_issue plan = None)"

lemma remove_no_proposal: "no_proposal (so_plan opn) \<Longrightarrow> remove_operation_proposal env opn = ret ()"
  by (simp add: remove_operation_proposal_def remove_plan_proposal_def no_proposal_def bindM_def ret_def fun_eq_iff)

lemma ends_finish_and_clean:
  assumes "env_ok (ledger_env_of env)" "tracks env i opn w" "so_stage opn \<in> set (ch_expected ch)" "change_ok ch"
    and "is_terminal (ch_next ch)" "P (after_change ch opn) (w_fs w)" "no_proposal (so_plan opn)"
  shows "ends env i P
    (bindM (do_transition env i ch) (\<lambda>terminal.
     bindM (do_receipt env (so_operation_id terminal)) (\<lambda>receipt.
     bindM (remove_operation_proposal env terminal) (\<lambda>_. ret receipt)))) w"
  unfolding ends_def wp_bindM [of "do_transition env i ch"]
proof (rule wp_do_transition [OF assms(1-4)], goal_cases)
  case (1 l)
  then have "so_operation_id (after_change ch opn) = i" by (rule tracks_id)
  moreover have "remove_operation_proposal env (after_change ch opn) = ret ()"
    using assms(7) by (simp add: remove_no_proposal)
  moreover have "bindM m (\<lambda>x. bindM (ret ()) (\<lambda>_. ret x)) = m" for m :: "('a, receipt_view) engine"
    by (auto simp: bindM_def ret_def fun_eq_iff split: sum.splits prod.splits)
  ultimately show ?case using ends_receipt [OF 1, of P] assms(5,6) by (simp add: ends_def)
qed simp

lemma step_ok [simp]:
  "ch_expected (stage_step ex nx c ev a r t) = ex" "ch_next (stage_step ex nx c ev a r t) = nx"
  "change_ok (stage_step ex nx c ev a r t) = list_all (\<lambda>s. nx \<in> set (next_stages s)) ex"
  by (simp_all add: stage_step_def change_ok_def)

lemma ends_recovery_required:
  assumes "env_ok (ledger_env_of env)" "tracks env i opn w" "so_stage opn = RollingBack"
    and "no_proposal (so_plan opn)"
    and "\<And>opn'. so_stage opn' = RecoveryRequired \<Longrightarrow> so_plan opn' = so_plan opn \<Longrightarrow> P opn' (w_fs w)"
  shows "ends env i P (recovery_required env i reason now) w"
  unfolding recovery_required_def
  by (rule ends_finish_and_clean [OF assms(1,2)]) (use assms in auto)

text \<open>Following an execution through the combinators.\<close>

lemma ends_bindM:
  "wp m (\<lambda>x. ends env i P (k x)) (\<lambda>e w. is_storage e \<or> settled env i P w) w \<Longrightarrow> ends env i P (bindM m k) w"
  by (simp add: ends_def [abs_def] wp_bindM)

lemma ends_attempt:
  "wp m (\<lambda>x. ends env i P (k (Inr x))) (\<lambda>e. ends env i P (k (Inl e))) w \<Longrightarrow> ends env i P (attempt m k) w"
  by (simp add: ends_def [abs_def] wp_attempt)

lemma ends_transition:
  assumes "env_ok (ledger_env_of env)" "tracks env i opn w" "so_stage opn \<in> set (ch_expected ch)" "change_ok ch"
    and "\<And>l. tracks env i (after_change ch opn) (w\<lparr>w_ledger := l\<rparr>) \<Longrightarrow> ends env i P (k (after_change ch opn)) (w\<lparr>w_ledger := l\<rparr>)"
  shows "ends env i P (bindM (do_transition env i ch) k) w"
  by (rule ends_bindM, rule wp_do_transition [OF assms(1-4)]) (use assms(5) in auto)

lemma ends_command:
  assumes "\<And>r h. ends env i P (k r) (w\<lparr>w_host := h\<rparr>)"
  shows "ends env i P (attempt (run_command env c) k) w"
  by (rule ends_attempt, rule wp_run_command) (rule assms)+

lemma ends_discover:
  assumes "\<And>site fs. same_nodes (w_fs w) fs \<Longrightarrow> site_view env j fs = Inr site \<Longrightarrow>
      ends env i P (k (Inr site)) (w\<lparr>w_fs := fs\<rparr>)"
    and "\<And>e fs. same_nodes (w_fs w) fs \<Longrightarrow> ends env i P (k (Inl e)) (w\<lparr>w_fs := fs\<rparr>)"
  shows "ends env i P (attempt (on_files (discover_site env j)) k) w"
  by (rule ends_attempt, rule wp_files, rule wp_discover_site) (use assms in auto)

lemma ends_files:
  assumes "\<And>r fs. ends env i P (k r) (w\<lparr>w_fs := fs\<rparr>)"
  shows "ends env i P (attempt (on_files m) k) w"
  by (rule ends_attempt, rule wp_files, rule wp_any) (rule assms)+

section \<open>Rollback of the Nginx operation\<close>

definition site_verified :: "'h ops_env \<Rightarrow> stored_plan \<Rightarrow> filesystem \<Rightarrow> bool" where
  "site_verified env plan fs =
    (\<exists>site. site_view env (sp_site_id plan) fs = Inr site \<and> ns_state site = sp_target_state plan
       \<and> ns_available_digest site = sp_available_digest plan)"

text \<open>
  The site is in the state that a document describes whose digest the ledger recorded for the
  operation's snapshot.
\<close>

definition site_restored :: "'h ops_env \<Rightarrow> stored_operation \<Rightarrow> filesystem \<Rightarrow> bool" where
  "site_restored env opn fs =
    (\<exists>record bytes snapshot site.
       so_snapshot opn = Some record \<and> digest_of env bytes = sn_digest record
       \<and> oc_de_nginx_snapshot (oe_codec env) bytes = Some snapshot
       \<and> site_view env (nl_site_id snapshot) fs = Inr site
       \<and> ns_available_digest site = nl_available_digest snapshot
       \<and> ns_enabled_state_digest site = nl_enabled_state_digest snapshot)"

definition nginx_end :: "'h ops_env \<Rightarrow> stored_plan \<Rightarrow> stored_operation \<Rightarrow> filesystem \<Rightarrow> bool" where
  "nginx_end env plan opn fs =
    (so_plan opn = plan
     \<and> (so_stage opn = Succeeded \<longrightarrow> sp_current_state plan \<noteq> sp_target_state plan \<longrightarrow> site_verified env plan fs)
     \<and> (so_stage opn = RolledBack \<longrightarrow> site_restored env opn fs))"

lemma wp_enter_rollback:
  assumes "env_ok (ledger_env_of env)" "tracks env i opn w" "so_stage opn \<in> set expected"
    and "set expected \<subseteq> set rollback_stages"
    and "\<And>opn' l. tracks env i opn' (w\<lparr>w_ledger := l\<rparr>) \<Longrightarrow> so_stage opn' = RollingBack \<Longrightarrow>
      so_plan opn' = so_plan opn \<Longrightarrow> so_snapshot opn' = so_snapshot opn \<Longrightarrow> Q opn' (w\<lparr>w_ledger := l\<rparr>)"
    and "\<And>e w'. is_storage e \<Longrightarrow> E e w'"
  shows "wp (enter_rollback env expected i cause ev now) Q E w"
  unfolding enter_rollback_def wp_bindM
proof (rule wp_do_load [OF assms(2)], goal_cases)
  case (1 l)
  have ok: "list_all (\<lambda>s. RollingBack \<in> set (next_stages s)) expected"
    using assms(4) by (auto simp: list_all_iff rollback_stages_def)
  show ?case
  proof (cases "so_stage opn = RollingBack")
    case False
    show ?thesis
      unfolding if_not_P [OF False]
      by (rule wp_do_transition [OF assms(1) 1]) (use assms(3,5,6) ok in \<open>auto simp: fun_upd_def\<close>)
  qed (use 1 assms(5) in \<open>simp add: wp_simps\<close>)
qed (use assms(6) in auto)

lemma observes_private [observes_intros]: "observes (validate_private_directory p b)"
  unfolding validate_private_directory_def by (intro observes_intros)

lemma observes_read_snapshot [observes_intros]: "observes (read_snapshot_bytes env record n)"
  unfolding read_snapshot_bytes_def by (intro observes_intros)

lemma read_snapshot_digest: "returns (\<lambda>bytes. digest_of env bytes = sn_digest record) (read_snapshot_bytes env record n)"
  unfolding read_snapshot_bytes_def Let_def
  by (intro returns_intros) (simp add: digest_of_def returns_ret)

lemma observes_read_document [observes_intros]: "observes m \<Longrightarrow> observes (read_document de m)"
  unfolding read_document_def by (intro observes_intros)

lemma wp_read_nginx_snapshot:
  assumes "\<And>snapshot bytes fs'. same_nodes fs fs' \<Longrightarrow> digest_of env bytes = sn_digest record \<Longrightarrow>
      oc_de_nginx_snapshot (oe_codec env) bytes = Some snapshot \<Longrightarrow> Q snapshot fs'"
    and "\<And>e fs'. same_nodes fs fs' \<Longrightarrow> E e fs'"
  shows "wp (read_nginx_snapshot env record) Q E fs"
proof (rule wp_observe)
  show "observes (read_nginx_snapshot env record)"
    unfolding read_nginx_snapshot_def by (intro observes_intros)
next
  fix snapshot fs' assume "same_nodes fs fs'" "fst (read_nginx_snapshot env record (quiet fs)) = Inr snapshot"
  then obtain bytes where "fst (read_snapshot_bytes env record (64 * 1024) (quiet fs)) = Inr bytes"
      "oc_de_nginx_snapshot (oe_codec env) bytes = Some snapshot"
    by (auto simp: read_nginx_snapshot_def read_document_def bindM_def liftR_def split: prod.splits sum.splits)
  then show "Q snapshot fs'" using assms(1) \<open>same_nodes fs fs'\<close> returnsD [OF read_snapshot_digest] by blast
qed (rule assms(2))

lemma ends_rollback_verify:
  assumes env: "env_ok (ledger_env_of env)" and opn: "tracks env i opn w" "so_stage opn = RollingBack"
    and plan: "no_proposal (so_plan opn)"
    and snap: "so_snapshot opn = Some record" "digest_of env bytes = sn_digest record"
      "oc_de_nginx_snapshot (oe_codec env) bytes = Some snapshot"
  shows "ends env i (nginx_end env (so_plan opn)) (rollback_verify env i snapshot evidence now) w"
proof -
  obtain config reload active where evidence: "evidence = (config, reload, active)" by (cases evidence)
  have rec: "ends env i (nginx_end env (so_plan opn)) (recovery_required env i reason now) (w\<lparr>w_fs := fs\<rparr>)"
    for reason fs
    by (rule ends_recovery_required [OF env, of _ opn]) (use opn plan in \<open>auto simp: nginx_end_def\<close>)
  show ?thesis
    unfolding rollback_verify_def evidence prod.case
  proof (rule ends_discover, goal_cases)
    case (1 site fs)
    show ?case
    proof (cases "ns_available_digest site = nl_available_digest snapshot
        \<and> ns_enabled_state_digest site = nl_enabled_state_digest snapshot
        \<and> ce_success config \<and> ce_success reload \<and> ce_success active")
      case True
      let ?ch = "stage_step [RollingBack] RolledBack ''rollback_verified'' (command_digest env active)
        (Some (nl_enabled_state_digest snapshot)) (Some ''verified'') now"
      have "site_restored env (after_change ?ch opn) fs"
        using snap 1(2) True by (auto simp: site_restored_def)
      then have "nginx_end env (so_plan opn) (after_change ?ch opn) fs" by (simp add: nginx_end_def)
      then have "ends env i (nginx_end env (so_plan opn))
        (bindM (do_transition env i ?ch) (\<lambda>terminal.
         bindM (do_receipt env (so_operation_id terminal)) (\<lambda>receipt.
         bindM (remove_operation_proposal env terminal) (\<lambda>_. ret receipt)))) (w\<lparr>w_fs := fs\<rparr>)"
        using opn plan by (intro ends_finish_and_clean [OF env, of _ opn]) simp_all
      with True show ?thesis by (simp add: Let_def)
    qed (simp add: Let_def rec)
  qed (simp add: Let_def rec)
qed

lemma wp_rollback_commands:
  assumes "\<And>x h. Q x (w\<lparr>w_host := h\<rparr>)" and "\<And>e h. E e (w\<lparr>w_host := h\<rparr>)"
  shows "wp (rollback_commands env) Q E w"
proof -
  have "wp (if b then run_command env c else ret v) (\<lambda>x. R x) E (w\<lparr>w_host := h\<rparr>)"
    if "\<And>x h. R x (w\<lparr>w_host := h\<rparr>)" for b c v R h
    using that assms(2) by (cases b) (auto intro!: wp_run_command simp: wp_ret)
  then show ?thesis
    unfolding rollback_commands_def wp_bindM wp_ret
    by (intro wp_run_command assms(2)) (simp add: assms(1))
qed

lemma ends_rollback_restore:
  assumes env: "env_ok (ledger_env_of env)" and opn: "tracks env i opn w" "so_stage opn = RollingBack"
    and plan: "no_proposal (so_plan opn)"
    and snap: "so_snapshot opn = Some record" "digest_of env bytes = sn_digest record"
      "oc_de_nginx_snapshot (oe_codec env) bytes = Some snapshot"
  shows "ends env i (nginx_end env (so_plan opn)) (rollback_restore env i snapshot now) w"
proof -
  let ?P = "nginx_end env (so_plan opn)"
  have rec: "ends env i ?P (recovery_required env i reason now) w'" if "tracks env i opn w'" for reason w'
    by (rule ends_recovery_required [OF env that opn(2) plan]) (simp add: nginx_end_def)
  have verify: "ends env i ?P (rollback_verify env i snapshot evidence now) w'" if "tracks env i opn w'" for evidence w'
    by (rule ends_rollback_verify [OF env that opn(2) plan snap])
  have commands: "ends env i ?P (attempt (rollback_commands env) (\<lambda>r. case r of
      Inl e \<Rightarrow> recovery_required env i (ops_error_code e) now
    | Inr evidence \<Rightarrow> rollback_verify env i snapshot evidence now)) w'" if "tracks env i opn w'" for w'
    by (rule ends_attempt, rule wp_rollback_commands) (use that rec verify in auto)
  have link: "ends env i ?P (attempt (on_files (set_enabled (oe_paths env) current b)) (\<lambda>r. case r of
      Inl _ \<Rightarrow> recovery_required env i ''rollback_link_failed'' now
    | Inr _ \<Rightarrow> attempt (rollback_commands env) (\<lambda>r. case r of
      Inl e \<Rightarrow> recovery_required env i (ops_error_code e) now
    | Inr evidence \<Rightarrow> rollback_verify env i snapshot evidence now))) w'" if "tracks env i opn w'" for w' current b
    by (rule ends_files) (use that rec commands in \<open>auto split: sum.splits\<close>)
  show ?thesis
    unfolding rollback_restore_def by (rule ends_discover) (use opn rec link in auto)
qed

lemma ends_rollback:
  assumes env: "env_ok (ledger_env_of env)" and opn: "tracks env i opn w" "so_stage opn \<in> set rollback_stages"
    and plan: "no_proposal (so_plan opn)"
  shows "ends env i (nginx_end env (so_plan opn)) (rollback env i cause ev now) w"
  unfolding rollback_def
proof (rule ends_bindM, rule wp_enter_rollback [OF env opn subset_refl], goal_cases)
  case (1 rolling l)
  let ?P = "nginx_end env (so_plan rolling)"
  have plan': "no_proposal (so_plan rolling)" using plan 1(3) by simp
  have rec: "ends env i ?P (recovery_required env i reason now) w'" if "tracks env i rolling w'" for reason w'
    by (rule ends_recovery_required [OF env that 1(2) plan']) (simp add: nginx_end_def)
  have loaded: "ends env i ?P (attempt (on_files (read_nginx_snapshot env sn)) (\<lambda>r. case r of
      Inl e \<Rightarrow> recovery_required env i (ops_error_code e) now
    | Inr snapshot \<Rightarrow> rollback_restore env i snapshot now)) w'"
    if "tracks env i rolling w'" "so_snapshot rolling = Some sn" for sn w'
    by (rule ends_attempt, rule wp_files, rule wp_read_nginx_snapshot)
      (use that rec ends_rollback_restore [OF env _ 1(2) plan'] in auto)
  show ?case
    unfolding 1(3) [symmetric] using 1(1) rec loaded by (auto split: option.splits)
qed simp

section \<open>The phases of the Nginx operation\<close>

lemma ends_verify_nginx:
  assumes env: "env_ok (ledger_env_of env)" and opn: "tracks env i opn w" "so_stage opn = Verifying"
    and plan: "so_plan opn = so_plan sn" "no_proposal (so_plan sn)" and i: "so_operation_id sn = i"
  shows "ends env i (nginx_end env (so_plan sn)) (verify_nginx env sn now) w"
proof -
  let ?P = "nginx_end env (so_plan sn)"
  have undo: "ends env i ?P (rollback env i cause ev now) w'" if "tracks env i opn w'" for cause ev w'
    using ends_rollback [OF env that, of cause ev now] opn(2) plan by (simp add: rollback_stages_def)
  show ?thesis
    unfolding verify_nginx_def Let_def i
  proof (rule ends_discover, goal_cases)
    case (1 site fs)
    show ?case
    proof (simp only: sum.case, rule ends_command, goal_cases)
      case (1 r h)
      show ?case
      proof (cases "\<exists>active. r = Inr active \<and> ns_state site = sp_target_state (so_plan sn)
            \<and> ns_available_digest site = sp_available_digest (so_plan sn) \<and> ce_success active")
        case True
        then obtain active where r: "r = Inr active" "ns_state site = sp_target_state (so_plan sn)"
            "ns_available_digest site = sp_available_digest (so_plan sn)" "ce_success active" by blast
        show ?thesis
          by (simp add: r, rule ends_finish [OF env, of _ opn])
            (use opn r plan \<open>site_view env (sp_site_id (so_plan sn)) fs = Inr site\<close>
              in \<open>auto simp: nginx_end_def site_verified_def\<close>)
      qed (use opn undo in \<open>auto split: sum.splits\<close>)
    qed
  qed (use opn undo in auto)
qed

lemma ends_reload_nginx:
  assumes env: "env_ok (ledger_env_of env)" and opn: "tracks env i opn w" "so_stage opn = Reloading"
    and plan: "so_plan opn = so_plan sn" "no_proposal (so_plan sn)" and i: "so_operation_id sn = i"
  shows "ends env i (nginx_end env (so_plan sn)) (reload_nginx env sn now) w"
proof -
  let ?P = "nginx_end env (so_plan sn)"
  have undo: "ends env i ?P (rollback env i cause ev now) w'" if "tracks env i opn w'" for cause ev w'
    using ends_rollback [OF env that, of cause ev now] opn(2) plan by (simp add: rollback_stages_def)
  have go: "ends env i ?P (bindM (do_transition env i (stage_step [Reloading] Verifying c ev None None now))
      (\<lambda>_. verify_nginx env sn now)) w'" if "tracks env i opn w'" for c ev w'
    by (rule ends_transition [OF env that])
      (use opn plan i in \<open>auto intro!: ends_verify_nginx [OF env]\<close>)
  show ?thesis
    unfolding reload_nginx_def Let_def i by (rule ends_command) (use opn undo go in \<open>auto split: sum.splits\<close>)
qed

lemma ends_test_nginx:
  assumes env: "env_ok (ledger_env_of env)" and opn: "tracks env i opn w" "so_stage opn = Validating"
    and plan: "so_plan opn = so_plan sn" "no_proposal (so_plan sn)" and i: "so_operation_id sn = i"
  shows "ends env i (nginx_end env (so_plan sn)) (test_nginx env sn now) w"
proof -
  let ?P = "nginx_end env (so_plan sn)"
  have undo: "ends env i ?P (rollback env i cause ev now) w'" if "tracks env i opn w'" for cause ev w'
    using ends_rollback [OF env that, of cause ev now] opn(2) plan by (simp add: rollback_stages_def)
  have go: "ends env i ?P (bindM (do_transition env i (stage_step [Validating] Reloading c ev None None now))
      (\<lambda>_. reload_nginx env sn now)) w'" if "tracks env i opn w'" for c ev w'
    by (rule ends_transition [OF env that])
      (use opn plan i in \<open>auto intro!: ends_reload_nginx [OF env]\<close>)
  show ?thesis
    unfolding test_nginx_def Let_def i by (rule ends_command) (use opn undo go in \<open>auto split: sum.splits\<close>)
qed

lemma ends_apply_nginx:
  assumes env: "env_ok (ledger_env_of env)" and sn: "tracks env i sn w" "so_stage sn = Snapshotted"
    and plan: "no_proposal (so_plan sn)"
  shows "ends env i (nginx_end env (so_plan sn)) (apply_nginx env sn preflight now) w"
proof -
  let ?P = "nginx_end env (so_plan sn)"
  have i: "so_operation_id sn = i" using sn(1) by (rule tracks_id)
  have undo: "ends env i ?P (rollback env i cause ev now) w'"
    if "tracks env i opn w'" "so_stage opn = Applying" "so_plan opn = so_plan sn" for opn cause ev w'
    using ends_rollback [OF env that(1), of cause ev now] that plan by (simp add: rollback_stages_def)
  have go: "ends env i ?P (bindM (do_transition env i (stage_step [Applying] Validating c ev None None now))
      (\<lambda>_. test_nginx env sn now)) w'"
    if "tracks env i opn w'" "so_stage opn = Applying" "so_plan opn = so_plan sn" for opn c ev w'
    by (rule ends_transition [OF env that(1)])
      (use that plan i in \<open>auto intro!: ends_test_nginx [OF env]\<close>)
  show ?thesis
    unfolding apply_nginx_def Let_def i
  proof (rule ends_transition [OF env sn(1)], goal_cases)
    case (3 l)
    show ?case
      by (rule ends_files) (use undo [of "after_change _ sn"] go [of "after_change _ sn"] 3 in \<open>auto split: sum.splits\<close>)
  qed (simp_all add: sn)
qed

lemma ends_finish_noop:
  assumes env: "env_ok (ledger_env_of env)" and sn: "tracks env i sn w" "so_stage sn = Snapshotted"
    and same: "sp_current_state (so_plan sn) = sp_target_state (so_plan sn)"
  shows "ends env i (nginx_end env (so_plan sn)) (finish_noop env sn now) w"
proof -
  let ?P = "nginx_end env (so_plan sn)"
  have i: "so_operation_id sn = i" using sn(1) by (rule tracks_id)
  have stop: "ends env i ?P (finish env i (stage_step [Verifying] st c ev ad None now)) w'"
    if "tracks env i opn w'" "so_stage opn = Verifying" "so_plan opn = so_plan sn"
      "st = CancelledBeforeApply \<or> st = Succeeded" for opn st c ev ad w'
    by (rule ends_finish [OF env that(1)]) (use that same in \<open>auto simp: nginx_end_def\<close>)
  show ?thesis
    unfolding finish_noop_def cancel_noop_def i
  proof (rule ends_transition [OF env sn(1)], goal_cases)
    case (3 l)
    show ?case
      by (rule ends_command)
        (use 3 stop [of "after_change _ sn"] in \<open>auto split: sum.splits intro!: ends_command\<close>)
  qed (simp_all add: sn)
qed

lemma wp_validate_precondition:
  assumes "\<And>x fs. Q x (w\<lparr>w_fs := fs\<rparr>)" and "\<And>e fs. E e (w\<lparr>w_fs := fs\<rparr>)"
  shows "wp (validate_precondition env opn) Q E w"
  unfolding validate_precondition_def Let_def wp_bindM
  by (rule wp_files, rule wp_any) (auto simp: wp_simps assms)

lemma ends_execute_nginx:
  assumes env: "env_ok (ledger_env_of env)" and opn: "tracks env i opn w" "so_stage opn = Approved"
    and plan: "no_proposal (so_plan opn)"
  shows "ends env i (nginx_end env (so_plan opn)) (execute_nginx env opn now) w"
proof -
  let ?P = "nginx_end env (so_plan opn)"
  have i: "so_operation_id opn = i" using opn(1) by (rule tracks_id)
  have cancel: "ends env i ?P (cancel_before_apply env i e now) w'" if "tracks env i opn w'" for e w'
    unfolding cancel_before_apply_def
    by (rule ends_finish [OF env that]) (use opn in \<open>auto simp: nginx_end_def\<close>)
  have go: "ends env i ?P (bindM (on_ledger (attach_snapshot (ledger_env_of env) i sn now)) (\<lambda>snapshotted.
      if sp_current_state (so_plan snapshotted) = sp_target_state (so_plan snapshotted)
      then finish_noop env snapshotted now else apply_nginx env snapshotted preflight now)) w'"
    if "tracks env i opn w'" for sn preflight w'
    by (rule ends_bindM, rule wp_attach_snapshot [OF env that opn(2)])
      (use ends_finish_noop [OF env, of i "with_snapshot sn opn"]
         ends_apply_nginx [OF env, of i "with_snapshot sn opn"] plan in \<open>auto simp: with_snapshot_def\<close>)
  have snap: "ends env i ?P (attempt (on_files (write_nginx_snapshot env i snapshot)) (\<lambda>r. case r of
      Inl e \<Rightarrow> cancel_before_apply env i e now
    | Inr sn \<Rightarrow> bindM (on_ledger (attach_snapshot (ledger_env_of env) i sn now)) (\<lambda>snapshotted.
      if sp_current_state (so_plan snapshotted) = sp_target_state (so_plan snapshotted)
      then finish_noop env snapshotted now else apply_nginx env snapshotted preflight now))) w'"
    if "tracks env i opn w'" for snapshot preflight w'
    by (rule ends_files) (use that cancel go in \<open>auto split: sum.splits\<close>)
  show ?thesis
    unfolding execute_nginx_def Let_def i
    by (rule ends_attempt, rule wp_validate_precondition) (use opn cancel snap in auto)
qed

section \<open>Guarantees\<close>

lemma nginx_run_ends:
  assumes "env_ok (ledger_env_of env)" "ledger_run (ledger_env_of env) fresh_ledger (w_ledger w)"
    and "load_operation_from (ledger_env_of env) i (lg_tables (w_ledger w)) = Inr opn"
    and "so_stage opn = Approved" "no_proposal (so_plan opn)"
  shows "ends env i (nginx_end env (so_plan opn)) (execute_nginx env opn now) w"
  by (rule ends_execute_nginx) (use assms run_inv in \<open>auto simp: tracks_def\<close>)



text \<open>
  (C3) A receipt that reports a rolled back Nginx change is backed by the disk: the site is in the
  state described by the snapshot document whose digest the ledger recorded for the operation before
  the change.
\<close>

theorem nginx_rollback_is_on_disk:
  assumes "env_ok (ledger_env_of env)" "ledger_run (ledger_env_of env) fresh_ledger (w_ledger w)"
    and "load_operation_from (ledger_env_of env) i (lg_tables (w_ledger w)) = Inr opn"
    and "so_stage opn = Approved" "no_proposal (so_plan opn)"
    and "execute_nginx env opn now w = (Inr rv, w')" "rv_terminal_state rv = RolledBack"
  shows "\<exists>opn'. load_operation_from (ledger_env_of env) i (lg_tables (w_ledger w')) = Inr opn'
    \<and> site_restored env opn' (w_fs w')"
  using nginx_run_ends [OF assms(1-5), of now] assms(6,7)
  by (auto simp: ends_def wp_def settled_def tracks_def nginx_end_def)

end
