(* ===== verification/Engine_Run.thy ===== *)
theory Engine_Run
  imports Engine_Dispatch Nginx_Outcomes
begin

text \<open>
  What every request and every start of the daemon does to the ledger and the lockdown flag.  The
  locale \<^verbatim>\<open>engine_relation\<close> names the effects a handler may have: steps of the ledger, effects on files
  and host, and raising the flag.  A relation that allows these allows every request.
\<close>

section \<open>Effects of the handlers\<close>

locale engine_relation = step_relation R for R :: "'h world \<Rightarrow> 'h world \<Rightarrow> bool" +
  fixes env :: "'h ops_env"
  assumes ledger_call: "ledger_step (ledger_env_of env) (w_ledger w) l \<Longrightarrow> R w (w\<lparr>w_ledger := l\<rparr>)"
    and elsewhere: "w_ledger w' = w_ledger w \<Longrightarrow> w_lockdown w' = w_lockdown w \<Longrightarrow> R w w'"
    and lock_down: "open_ledger_file (ledger_env_of env) (w_ledger w) = (Inl ForensicLockdown, l) \<Longrightarrow>
      R w (w\<lparr>w_ledger := l, w_lockdown := True\<rparr>)"
begin

lemma moves_ledger_call:
  assumes "\<And>l. ledger_step (ledger_env_of env) l (snd (m l))"
  shows "moves R (on_ledger m)"
proof (unfold moves_def, intro allI)
  fix w
  show "R w (snd (on_ledger m w))"
    using ledger_call [OF assms, of w] by (auto simp: on_ledger_def within_def split: prod.splits)
qed

lemma query_step: "ledger_step e l (snd (query f l))"
proof -
  have "\<exists>fs. snd (query f l) = l\<lparr>lg_faults := fs\<rparr>"
    by (cases "lg_faults l") (auto simp: query_def storage_access_def bindM_def reading_def intro: exI [of _ "[]"])
  then show ?thesis by (metis step_restart)
qed

lemma moves_queries:
  "moves R (on_ledger (load_plan e i))" "moves R (on_ledger (load_operation e i))"
  "moves R (on_ledger (receipt e i))" "moves R (on_ledger (recent_receipts e uid n))"
  "moves R (on_ledger (incomplete_operations e))"
  "moves R (on_ledger (expired_unexecuted_proposal_plans e now))"
  "moves R (on_ledger (has_recent_staging_evidence e k now))"
  by (auto intro!: moves_ledger_call query_step simp: load_plan_def load_operation_def receipt_def
      recent_receipts_def incomplete_operations_def expired_unexecuted_proposal_plans_def
      has_recent_staging_evidence_def)

lemma moves_ledger_writes:
  "moves R (on_ledger (open_ledger_file (ledger_env_of env)))"
  "moves R (on_ledger (create_or_reuse_plan (ledger_env_of env) p))"
  "i \<noteq> [] \<Longrightarrow> moves R (on_ledger (begin_operation (ledger_env_of env) i p' h k a n))"
  "moves R (on_ledger (attach_snapshot (ledger_env_of env) i s n))"
  "change_ok c \<Longrightarrow> moves R (on_ledger (transition (ledger_env_of env) i c))"
  "change_ok c \<Longrightarrow> moves R (on_ledger (transition_with_command_evidence (ledger_env_of env) i c v))"
  "change_ok c \<Longrightarrow> moves R (on_ledger (transition_with_diagnostics (ledger_env_of env) i c ds))"
  "change_ok c \<Longrightarrow> moves R (on_ledger (transition_with_diagnostics_and_command (ledger_env_of env) i c ds v))"
  by (rule moves_ledger_call, rule ledger_step.intros, assumption?)+

lemma moves_elsewhere:
  "moves R (on_files m)" "moves R (run_command env c)" "moves R (run_ufw_command env u)"
  "moves R (management_edge_ready env)" "moves R (run_certbot env b now)" "moves R (getrandom n)"
  by (auto simp: moves_def on_files_def within_def run_command_def run_ufw_command_def
      management_edge_ready_def run_certbot_def getrandom_def R_refl
      intro!: elsewhere split: prod.splits list.splits option.splits)

text \<open>The flag is raised only where opening the ledger reported a lockdown.\<close>

lemma moves_open:
  fixes k :: "(ops_error, unit) result \<Rightarrow> ('h world, 'e, 'b) routine"
  assumes "moves R (k (Inr ()))" and "\<And>e. e \<noteq> ForensicLockdown \<Longrightarrow> moves R (k (Inl e))"
    and locked: "k (Inl ForensicLockdown) = bindM (modify (\<lambda>w. w\<lparr>w_lockdown := True\<rparr>)) k'" and "moves R (k' ())"
  shows "moves R (attempt (on_ledger (open_ledger_file (ledger_env_of env))) k)"
proof (unfold moves_def, intro allI)
  fix w :: "'h world"
  obtain r l where run: "open_ledger_file (ledger_env_of env) (w_ledger w) = (r, l)" by force
  have opened: "R w (w\<lparr>w_ledger := l\<rparr>)"
    using ledger_call [OF step_open, of w] by (simp add: run)
  let ?k = "k r (w\<lparr>w_ledger := l\<rparr>)"
  have "R w (snd ?k)"
  proof (cases "r = Inl ForensicLockdown")
    case True
    show ?thesis
      using R_trans [OF lock_down movesD [OF assms(4)]] run
      by (simp add: True locked bindM_def modify_def)
  next
    case False
    then have "moves R (k r)" using assms(1,2) by (cases r) auto
    with opened show ?thesis by (blast intro: R_trans movesD)
  qed
  then show "R w (snd (attempt (on_ledger (open_ledger_file (ledger_env_of env))) k w))"
    by (simp add: attempt_def on_ledger_def within_def run)
qed

lemma moves_open_ledger: "moves R (open_ledger env)"
  unfolding open_ledger_def
  by (rule moves_open, simp add: moves_pure, simp add: moves_pure split: ops_error.splits, simp)
    (simp add: moves_pure)

lemma moves_random_id:
  assumes "\<And>x. x \<noteq> [] \<Longrightarrow> moves R (k x)"
  shows "moves R (bindM (random_id prefix) k)"
proof -
  have "bindM (random_id prefix) k = bindM (getrandom 16) (\<lambda>bytes. k (prefix @ ''_'' @ hex_bytes bytes))"
    by (simp add: random_id_def bindM_def ret_def fun_eq_iff split: prod.splits sum.splits)
  then show ?thesis by (auto intro!: moves_bindM moves_elsewhere assms)
qed

lemmas rules = moves_random_id moves_intros moves_rules moves_queries moves_ledger_writes moves_elsewhere

subsection \<open>Shared parts\<close>

lemma moves_shared:
  "moves R (open_ledger env)" "moves R require_write_available" "moves R (discard (on_files m))"
  "change_ok c \<Longrightarrow> moves R (do_transition env i c)" "moves R (do_load env i)" "moves R (do_receipt env i)"
  "change_ok c \<Longrightarrow> moves R (do_transition_command env i c v)"
  by (auto simp: require_write_available_def discard_def do_transition_def do_load_def do_receipt_def
      do_transition_command_def intro!: rules moves_open_ledger)

lemma moves_clean:
  "moves R (remove_plan_proposal env p)" "moves R (remove_operation_proposal env opn)"
  by (simp_all add: remove_operation_proposal_def remove_plan_proposal_def)
    (intro rules moves_shared)+

lemma moves_finish: "change_ok c \<Longrightarrow> moves R (finish env i c)"
  unfolding finish_def by (intro rules moves_shared)

lemma moves_finish_and_clean: "change_ok c \<Longrightarrow> moves R (finish_and_clean env i c)"
  unfolding finish_and_clean_def by (intro rules moves_shared moves_clean)

lemma moves_recovery_required: "moves R (recovery_required env i reason now)"
  unfolding recovery_required_def by (intro rules moves_shared moves_clean) simp_all

lemmas parts = moves_shared moves_clean moves_finish moves_finish_and_clean moves_recovery_required


subsection \<open>Rollbacks\<close>

lemma moves_enter_rollback:
  "list_all (\<lambda>s. RollingBack \<in> set (next_stages s)) ex \<Longrightarrow> moves R (enter_rollback env ex i c d now)"
  unfolding enter_rollback_def by (intro rules parts) simp_all

lemma stages_roll_back:
  "list_all (\<lambda>s. RollingBack \<in> set (next_stages s)) rollback_stages"
  "list_all (\<lambda>s. RollingBack \<in> set (next_stages s)) ufw_rollback_stages"
  by (simp_all add: rollback_stages_def ufw_rollback_stages_def)

lemma moves_rollback: "moves R (rollback env i c d now)"
  unfolding rollback_def rollback_restore_def rollback_commands_def rollback_verify_def
  by (intro rules parts moves_enter_rollback stages_roll_back) simp_all

lemma moves_service_rollback: "moves R (rollback_service_control env i c d now)"
  unfolding rollback_service_control_def service_restored_def
  by (intro rules parts moves_enter_rollback) simp_all

lemma moves_files_replaced:
  "moves R (atomic_replace root name content mode uid gid)"
  "moves R (replace_managed_config env r c)" "moves R (restore_managed_config env i b c m u g)"
  "moves R (replace_protected_config env r c)" "moves R (restore_protected_config env i b c m u g)"
proof -
  show replace: "moves R (atomic_replace root name content mode uid gid)" for root name content mode uid gid
    unfolding atomic_replace_def random_suffix_def by (intro rules)
  show "moves R (replace_managed_config env r c)" "moves R (restore_managed_config env i b c m u g)"
    "moves R (replace_protected_config env r c)" "moves R (restore_protected_config env i b c m u g)"
    unfolding replace_managed_config_def restore_managed_config_def replace_protected_config_def
      restore_protected_config_def by (intro rules replace)+
qed

lemma moves_record_rollback: "change_ok c \<Longrightarrow> moves R (record_rollback env i c e)"
  unfolding record_rollback_def by (cases "rv_diagnostics e = []"; cases "rv_command e") (auto intro!: rules parts)

lemma moves_config_rollback:
  "moves R (rollback_managed_config_with_evidence env i e now)" "moves R (rollback_managed_config env i c d now)"
  unfolding rollback_managed_config_def rollback_managed_config_with_evidence_def enter_config_rollback_def
    config_rollback_restore_def config_rollback_runtime_def config_rollback_verify_def
  by (intro rules parts moves_record_rollback moves_files_replaced; simp add: rollback_stages_def)+

lemma moves_ufw_inventory: "moves R (ufw_inventory env now)"
  unfolding ufw_inventory_def observe_ufw_def by (intro rules)

lemma moves_run_deletions: "moves R (run_deletions env ns ds)"
  by (induction ns arbitrary: ds) (auto intro!: rules)

lemma moves_ufw_commands:
  "moves R (delete_sequences env ns)" "moves R (apply_payload env p)" "moves R (restore_product_effect env p rs)"
  unfolding apply_payload_def restore_product_effect_def delete_sequences_def
  by (intro rules moves_run_deletions)+

lemma moves_ufw_rollback: "moves R (rollback_ufw_rule env i c d now)"
  unfolding rollback_ufw_rule_def
  by (intro rules parts moves_enter_rollback stages_roll_back moves_ufw_commands moves_ufw_inventory) simp_all

lemma moves_command_succeeds: "moves R (command_succeeds env c)"
  unfolding command_succeeds_def by (intro rules)

lemma moves_attach_rollback: "moves R (rollback_certbot_attach env i c d now)"
  unfolding rollback_certbot_attach_def attach_rollback_restore_def
  by (intro rules parts moves_enter_rollback stages_roll_back moves_files_replaced moves_command_succeeds) simp_all

subsection \<open>Executions\<close>

lemma moves_execute_nginx: "moves R (execute_nginx env opn now)"
  unfolding execute_nginx_def validate_precondition_def cancel_before_apply_def finish_noop_def cancel_noop_def
    apply_nginx_def test_nginx_def reload_nginx_def verify_nginx_def
  by (intro rules parts moves_rollback) simp_all

lemma moves_execute_service: "moves R (execute_service_control env opn now)"
  unfolding execute_service_control_def start_service_control_def cancel_before_apply_def apply_service_def
    verify_service_def
  by (intro rules parts moves_service_rollback) simp_all

lemma moves_execute_ufw: "moves R (execute_ufw_rule env opn now)"
  unfolding execute_ufw_rule_def apply_ufw_def verify_ufw_def cancel_before_apply_def
  by (intro rules parts moves_ufw_rollback moves_ufw_commands moves_ufw_inventory) simp_all

lemma moves_check_active: "moves R (check_active env a ad)"
  unfolding check_active_def by (intro rules)

lemma moves_verify_config: "moves R (verify_config env opn p pr r t d now)"
  unfolding verify_config_def
  by (intro rules parts moves_config_rollback moves_check_active) simp_all

lemma moves_config_ends:
  "moves R (cancel_managed_before_apply env opn r now)" "moves R (finish_managed_noop env opn pr ad now)"
  unfolding cancel_managed_before_apply_def finish_managed_noop_def
  by (intro rules parts moves_check_active; simp)+

lemma moves_execute_config: "moves R (execute_managed_config env opn now)"
  unfolding execute_managed_config_def prepare_config_def apply_config_def test_config_def reload_config_def
    Let_def
  by (intro rules parts moves_config_rollback moves_config_ends moves_files_replaced moves_verify_config)
    simp_all

lemma moves_certificate_inventory: "moves R (certificate_inventory env now)"
  unfolding certificate_inventory_def observe_certificates_def
  by (intro rules moves_command_succeeds)

lemma moves_certbot_ends:
  "moves R (cancel_certbot_before_apply env opn r now)"
  "Stage_Rejected \<in> set (next_stages ex) \<Longrightarrow> moves R (reject_certbot_execution env i ex r d now)"
  unfolding cancel_certbot_before_apply_def reject_certbot_execution_def
  by (intro rules parts; simp)+

lemma moves_start_certbot:
  "(\<And>opn. moves R (k opn)) \<Longrightarrow> moves R (start_certbot env opn view code now k)"
  unfolding start_certbot_def by (intro rules parts moves_certbot_ends) simp_all

lemma moves_execute_issue: "moves R (execute_certbot_issue env opn now)"
  unfolding execute_certbot_issue_def prepare_issue_def run_issue_def verify_issue_def Let_def
  by (intro rules parts moves_start_certbot moves_certbot_ends moves_certificate_inventory) simp_all

lemma moves_execute_renew: "moves R (execute_certbot_renew_test env opn now)"
  unfolding execute_certbot_renew_test_def run_renew_def verify_renew_def
  by (intro rules parts moves_start_certbot moves_certbot_ends moves_certificate_inventory) simp_all

lemma moves_execute_attach: "moves R (execute_certbot_attach env opn now)"
  unfolding execute_certbot_attach_def snapshot_attach_def apply_attach_def test_attach_def reload_attach_def
    verify_certbot_attach_def Let_def
  by (intro rules parts moves_certbot_ends moves_certificate_inventory moves_attach_rollback
      moves_files_replaced moves_command_succeeds) simp_all

lemma moves_execute: "moves R (execute_operation env actor i now)"
  unfolding execute_operation_def execute_by_type_def
  by (intro rules parts moves_execute_nginx moves_execute_service moves_execute_ufw moves_execute_config
      moves_execute_issue moves_execute_renew moves_execute_attach)

subsection \<open>Plans and approvals\<close>

lemma moves_remove_expired: "moves R (remove_expired_proposals env now)"
proof -
  have "moves R (remove_plan_proposals env ps)" for ps
    by (induction ps) (auto intro!: rules parts)
  then show ?thesis unfolding remove_expired_proposals_def by (intro rules)
qed

lemma moves_plans:
  "moves R (plan_nginx env a rn now)" "moves R (plan_service_control env a rs now)"
  "moves R (plan_ufw_rule env a ru now)"
  unfolding plan_nginx_def plan_service_control_def plan_ufw_rule_def
  by (intro rules parts moves_ufw_inventory)+

lemma moves_store_config: "moves R (store_managed_config_plan env a rq rs st now)"
  unfolding store_managed_config_plan_def by (intro rules parts)

lemma moves_settle_plan: "moves R m \<Longrightarrow> moves R (settle_plan env i pr m)"
  unfolding settle_plan_def by (intro rules parts)

lemma moves_config_plans:
  "moves R (plan_managed_config env a rc now)" "moves R (plan_managed_config_restore env a rr now)"
  unfolding plan_managed_config_def plan_managed_config_restore_def
  by (intro rules parts moves_remove_expired moves_settle_plan moves_store_config)+

lemma moves_certificate_plans:
  "moves R (plan_certbot_issue env a ri now)" "moves R (plan_certbot_renew_test env a rt now)"
  "moves R (plan_certbot_attach env a ra now)"
  unfolding plan_certbot_issue_def store_issue_plan_def plan_certbot_renew_test_def plan_certbot_attach_def
    require_nginx_healthy_def
  by (intro rules parts moves_remove_expired moves_certificate_inventory)+

lemma moves_approvals:
  "moves R (approve_plan env ty a i h k now)" "moves R (approve_managed_config env a i h k intent now)"
  "moves R (approve_ufw_rule env a i h k now)" "moves R (approve_certbot_issue env a i h k b1 b2 now)"
  "moves R (approve_certbot_renew_test env a i h k b1 now)"
  "moves R (approve_certbot_attach env a i h k b1 b2 now)"
  unfolding approve_plan_def approve_managed_config_def approve_ufw_rule_def approve_certbot_issue_def
    approve_certbot_renew_test_def approve_certbot_attach_def
  by (intro rules parts; assumption)+

subsection \<open>Requests and the start\<close>

lemma moves_observations:
  "moves R (capabilities env)" "moves R (operation_receipt env a i)" "moves R (read_managed_config env i)"
  unfolding operation_receipt_def read_managed_config_def capabilities_def
    apply (intro moves_bindM moves_pure moves_if moves_open)
       apply (auto split: ops_error.splits intro!: rules parts)
  done

lemma moves_guarded: "moves R m \<Longrightarrow> moves R (guarded actor m)" "moves R m \<Longrightarrow> moves R (respond f m)"
  by (auto simp: guarded_def respond_def intro!: rules parts)

lemma moves_handle_body: "moves R (handle_body env body now)"
  by (cases body)
    (auto simp: approve_nginx_def approve_service_control_def intro!: moves_guarded moves_observations
      moves_plans moves_config_plans moves_certificate_plans moves_approvals moves_execute
      moves_certificate_inventory moves_ufw_inventory rules parts)

lemma response_moves: "R w (snd (response_for env lock_usable request now w))"
  using movesD [OF moves_handle_body]
  by (auto simp: response_for_def response_body_def R_refl split: prod.splits sum.splits)
    (metis snd_conv)+

lemma moves_recover: "moves R (recover_operation env opn now)"
  unfolding recover_operation_def recover_external_def restart_rollback_def
  by (intro rules parts moves_attach_rollback moves_config_rollback moves_service_rollback
      moves_ufw_rollback moves_rollback) auto

lemma moves_recover_operations: "moves R (recover_operations env now opns)"
  by (induction opns) (auto intro!: rules moves_recover)

lemma moves_initialize: "moves R (initialize env now)"
proof -
  have lock: "modify f = bindM (modify f) ret" for f :: "'h world \<Rightarrow> 'h world"
    by (simp add: modify_def bindM_def ret_def fun_eq_iff)
  show ?thesis
    unfolding initialize_def
    apply (intro moves_bindM moves_elsewhere moves_open [where k' = ret])
       apply (auto split: ops_error.splits intro!: rules moves_recover_operations moves_remove_expired)
    apply (rule lock)
    done
qed

end

section \<open>Runs of the daemon\<close>

text \<open>
  A step of the daemon is a request, the start of a new process, or a change of the files and the host
  by anybody else.  Storage faults may be anywhere; a process that dies in the middle of a request is a
  request whose later storage accesses fail.
\<close>

inductive daemon_step :: "'h ops_env \<Rightarrow> 'h world \<Rightarrow> 'h world \<Rightarrow> bool" for env where
  daemon_request: "daemon_step env w (snd (response_for env lock_usable request now w))"
| daemon_start: "daemon_step env w (snd (initialize env now (w\<lparr>w_lockdown := False\<rparr>)))"
| daemon_environment: "w_ledger w' = (w_ledger w)\<lparr>lg_faults := fs\<rparr> \<Longrightarrow> w_lockdown w' = w_lockdown w \<Longrightarrow>
    daemon_step env w w'"

abbreviation daemon_run :: "'h ops_env \<Rightarrow> 'h world \<Rightarrow> 'h world \<Rightarrow> bool" where
  "daemon_run env \<equiv> (daemon_step env)\<^sup>*\<^sup>*"

definition run_related :: "'h ops_env \<Rightarrow> 'h world \<Rightarrow> 'h world \<Rightarrow> bool" where
  "run_related env w w' = ledger_run (ledger_env_of env) (w_ledger w) (w_ledger w')"

interpretation along_run: engine_relation "run_related env" env for env
proof unfold_locales
  show "run_related env w (w\<lparr>w_ledger := l, w_lockdown := True\<rparr>)"
    if "open_ledger_file (ledger_env_of env) (w_ledger w) = (Inl ForensicLockdown, l)" for w :: "'a world" and l
    using step_open [of "ledger_env_of env" "w_ledger w"] that by (simp add: run_related_def)
qed (auto simp: run_related_def)

lemma step_related: "daemon_step env w w' \<Longrightarrow> run_related env w w'"
proof (erule daemon_step.cases)
  fix w0 w1 fs assume "w = w0" "w' = w1" "w_ledger w1 = (w_ledger w0)\<lparr>lg_faults := fs\<rparr>"
  then show ?thesis by (auto simp: run_related_def intro: step_restart)
next
  fix w0 now assume "w = w0" "w' = snd (initialize env now (w0\<lparr>w_lockdown := False\<rparr>))"
  then show ?thesis
    using movesD [OF along_run.moves_initialize, of env "w0\<lparr>w_lockdown := False\<rparr>" now]
    by (simp add: run_related_def)
qed (simp add: along_run.response_moves)

lemma run_refines: "daemon_run env w w' \<Longrightarrow> run_related env w w'"
  by (induction rule: rtranclp_induct) (auto intro: along_run.R_refl along_run.R_trans step_related)

text \<open>
  The flag stays down in a daemon that only sees ledgers of its own.
\<close>

definition unlocked :: "'h ops_env \<Rightarrow> 'h world \<Rightarrow> bool" where
  "unlocked env w =
    (env_ok (ledger_env_of env) \<and> ledger_run (ledger_env_of env) fresh_ledger (w_ledger w)
     \<and> (int (length (t_events (lg_tables (w_ledger w)))) < i64_max \<longrightarrow> \<not> w_lockdown w))"

lemma run_extends: "ledger_run e l l' \<Longrightarrow> ledger_step e l' l'' \<Longrightarrow> ledger_run e l l''"
  by (rule rtranclp.rtrancl_into_rtrancl)

lemma run_events_grow:
  assumes "env_ok e" "ledger_run e fresh_ledger l" "ledger_step e l l'"
  shows "length (t_events (lg_tables l)) \<le> length (t_events (lg_tables l'))"
  using step_progress [OF assms(1,3)] run_inv [OF assms(1,2)]
  by (auto simp: ledger_progress_def log_extends_def)

lemma reachable_opens:
  assumes "env_ok e" "ledger_run e fresh_ledger l" "int (length (t_events (lg_tables l))) < i64_max"
  shows "fst (open_ledger_file e l) \<noteq> Inl ForensicLockdown"
  using open_outcome [OF assms(1) run_inv [OF assms(1,2)] assms(3), of True]
  by (auto simp: wp_outcome phase_error_def)

interpretation unlocked_rel: engine_relation "keeps (unlocked env)" env for env
proof unfold_locales
  show "keeps (unlocked env) w (w\<lparr>w_ledger := l\<rparr>)"
    if step: "ledger_step (ledger_env_of env) (w_ledger w) l" for w :: "'a world" and l
    using run_events_grow [OF _ _ step] run_extends [OF _ step]
    by (auto simp: keeps_def unlocked_def)
  show "keeps (unlocked env) w (w\<lparr>w_ledger := l, w_lockdown := True\<rparr>)"
    if fl: "open_ledger_file (ledger_env_of env) (w_ledger w) = (Inl ForensicLockdown, l)" for w :: "'a world" and l
  proof -
    have step: "ledger_step (ledger_env_of env) (w_ledger w) l"
      using step_open [of "ledger_env_of env" "w_ledger w"] fl by simp
    show ?thesis
      using run_events_grow [OF _ _ step] run_extends [OF _ step]
        reachable_opens [of "ledger_env_of env" "w_ledger w"] fl
      by (auto simp: keeps_def unlocked_def)
  qed
qed (auto simp: keeps_def unlocked_def)

lemma step_unlocked: "daemon_step env w w' \<Longrightarrow> unlocked env w \<Longrightarrow> unlocked env w'"
proof (erule daemon_step.cases)
  fix w0 w1 fs assume "w = w0" "w' = w1" "w_ledger w1 = (w_ledger w0)\<lparr>lg_faults := fs\<rparr>"
    "w_lockdown w1 = w_lockdown w0" "unlocked env w"
  then show "unlocked env w'"
    by (auto simp: unlocked_def intro: rtranclp.rtrancl_into_rtrancl step_restart)
next
  fix w0 now assume "w = w0" "w' = snd (initialize env now (w0\<lparr>w_lockdown := False\<rparr>))" "unlocked env w"
  then show "unlocked env w'"
    using movesD [OF unlocked_rel.moves_initialize, of env "w0\<lparr>w_lockdown := False\<rparr>" now]
    by (simp add: keeps_def unlocked_def)
next
  fix w0 ok request now assume "w = w0" "w' = snd (response_for env ok request now w0)" "unlocked env w"
  then show "unlocked env w'"
    using unlocked_rel.response_moves [of env w0 ok request now] by (simp add: keeps_def)
qed

lemma run_unlocked: "daemon_run env w w' \<Longrightarrow> unlocked env w \<Longrightarrow> unlocked env w'"
  by (induction rule: rtranclp_induct) (auto intro: step_unlocked)

text \<open>
  (C7) The daemon refines the ledger machine.  Whatever requests arrive, whatever files, commands and
  storage accesses fail, and however often the daemon restarts, the ledger before and after is related
  by steps of the ledger machine only: every transition the engine asks for follows the lifecycle, and
  every operation it begins has an identifier.  The guarantees proved for runs of the ledger therefore
  hold for the daemon as a whole.
\<close>

theorem daemon_refines_ledger_machine:
  assumes "daemon_run env w w'"
  shows "ledger_run (ledger_env_of env) (w_ledger w) (w_ledger w')"
  using run_refines [OF assms] by (simp add: run_related_def)


end
