(* ===== verification/Engine_Settles.thy ===== *)
theory Engine_Settles
  imports Engine_Run
begin

text \<open>
  Where executions and recoveries end.  A handler that returns a receipt has brought its operation to a
  terminal stage, whatever happened on the way; a start of the daemon that succeeds has done so for
  every operation it found.
\<close>

section \<open>Concluded operations\<close>

definition concluded_in :: "string \<Rightarrow> tables \<Rightarrow> bool" where
  "concluded_in i t = (\<exists>r \<in> set (t_operations t). or_operation_id r = i \<and> row_terminal r)"

definition sound :: "'h ops_env \<Rightarrow> 'h world \<Rightarrow> bool" where
  "sound env w = (env_ok (ledger_env_of env) \<and> ledger_inv (ledger_env_of env) (w_ledger w))"

definition concluded :: "'h ops_env \<Rightarrow> string \<Rightarrow> 'h world \<Rightarrow> bool" where
  "concluded env i w = (sound env w \<and> concluded_in i (lg_tables (w_ledger w)))"

lemma step_sound:
  assumes "sound env w" "ledger_step (ledger_env_of env) (w_ledger w) l"
  shows "sound env (w\<lparr>w_ledger := l\<rparr>)"
  using assms step_progress [of "ledger_env_of env" "w_ledger w" l]
  by (simp add: sound_def ledger_progress_def)

lemma step_concluded:
  assumes "concluded env i w" "ledger_step (ledger_env_of env) (w_ledger w) l"
  shows "concluded env i (w\<lparr>w_ledger := l\<rparr>)"
  using assms step_progress [of "ledger_env_of env" "w_ledger w" l]
  by (auto simp: concluded_def sound_def ledger_progress_def finished_stay_def concluded_in_def)

lemma open_step:
  "open_ledger_file e l = (x, l') \<Longrightarrow> ledger_step e l l'"
  using step_open [of e l] by simp

lemma frame_sound:
  "w_ledger w' = w_ledger w \<Longrightarrow> sound env w' = sound env w"
  "w_ledger w' = w_ledger w \<Longrightarrow> concluded env i w' = concluded env i w"
  by (simp_all add: sound_def concluded_def)

interpretation sound_rel: engine_relation "keeps (sound env)" env for env
proof unfold_locales
  show "keeps (sound env) w (w\<lparr>w_ledger := l, w_lockdown := True\<rparr>)"
    if "open_ledger_file (ledger_env_of env) (w_ledger w) = (Inl ForensicLockdown, l)" for w :: "'a world" and l
    using step_sound [OF _ open_step [OF that]] frame_sound(1) [of "w\<lparr>w_ledger := l, w_lockdown := True\<rparr>" "w\<lparr>w_ledger := l\<rparr>"]
    by (simp add: keeps_def)
  show "keeps (sound env) w w'" if "w_ledger w' = w_ledger w" for w w' :: "'a world"
    using frame_sound(1) [OF that] by (simp add: keeps_def)
qed (simp_all add: keeps_def step_sound)

interpretation concluded_rel: engine_relation "keeps (concluded env i)" env for env i
proof unfold_locales
  show "keeps (concluded env i) w (w\<lparr>w_ledger := l, w_lockdown := True\<rparr>)"
    if "open_ledger_file (ledger_env_of env) (w_ledger w) = (Inl ForensicLockdown, l)" for w :: "'a world" and l
    using step_concluded [OF _ open_step [OF that]]
      frame_sound(2) [of "w\<lparr>w_ledger := l, w_lockdown := True\<rparr>" "w\<lparr>w_ledger := l\<rparr>"]
    by (simp add: keeps_def)
  show "keeps (concluded env i) w w'" if "w_ledger w' = w_ledger w" for w w' :: "'a world"
    using frame_sound(2) [OF that] by (simp add: keeps_def)
qed (simp_all add: keeps_def step_concluded)

lemma internal_concludes:
  assumes "ledger_inv e l" "is_terminal (ch_next c)"
  shows "wp (transition_internal e i c d cm) (\<lambda>_ l'. concluded_in i (lg_tables l')) (\<lambda>_ _. True) l"
proof -
  have rest: "moves same_rows (bindM (complete_pending_checkpoint e) (\<lambda>_. load_operation e i))"
    by (intro rows_rel.moves_rules rows_complete_pending rows_rel.moves_load)
  show ?thesis
    unfolding transition_internal_def wp_bindM [of "transaction _"]
  proof (rule wp_transactionI)
    fix x t fs assume run: "transition_body e i c d cm (lg_tables l) = Inr (x, t)"
    obtain cur where cur: "load_operation_from e i (lg_tables l) = Inr cur"
      by (rule transition_body_Inr [OF run])
    have "load_operation_from e i t = Inr (after_change c cur)"
      using transition_body_loads [OF _ cur run] assms(1) unfolding ledger_inv_def by blast
    then obtain r where "r \<in> set (t_operations t)" "or_operation_id r = i"
        "or_stage r = as_storage_value (so_stage (after_change c cur))"
      by (rule load_operation_row)
    then have "concluded_in i t" using assms(2) by (auto simp: concluded_in_def row_terminal_stage)
    then show "wp (bindM (complete_pending_checkpoint e) (\<lambda>_. load_operation e i))
        (\<lambda>_ l'. concluded_in i (lg_tables l')) (\<lambda>_ _. True) (l\<lparr>lg_faults := fs, lg_tables := t\<rparr>)"
      using movesD [OF rest, of "l\<lparr>lg_faults := fs, lg_tables := t\<rparr>"]
      by (auto simp: wp_def concluded_in_def dest!: same_rows_fields(2) split: prod.splits sum.splits)
  qed simp_all
qed

section \<open>Handlers that conclude\<close>

definition settling :: "'h ops_env \<Rightarrow> string \<Rightarrow> ('h, 'a) engine \<Rightarrow> bool" where
  "settling env i m = (\<forall>w r w'. sound env w \<longrightarrow> m w = (Inr r, w') \<longrightarrow> concluded env i w')"

lemma settlingI:
  "(\<And>w r w'. sound env w \<Longrightarrow> m w = (Inr r, w') \<Longrightarrow> concluded env i w') \<Longrightarrow> settling env i m"
  by (auto simp: settling_def)

lemma settlingD: "settling env i m \<Longrightarrow> sound env w \<Longrightarrow> m w = (Inr r, w') \<Longrightarrow> concluded env i w'"
  by (auto simp: settling_def)

lemma sound_after: "moves (keeps (sound env)) m \<Longrightarrow> sound env w \<Longrightarrow> m w = (r, w') \<Longrightarrow> sound env w'"
  using movesD [of "keeps (sound env)" m w] by (simp add: keeps_def)

lemma settling_bindM:
  assumes "moves (keeps (sound env)) m" and "\<And>x. settling env i (k x)"
  shows "settling env i (bindM m k)"
  by (rule settlingI)
    (auto simp: bindM_def split: prod.splits sum.splits, meson settlingD assms(2) sound_after [OF assms(1)])

lemma settling_attempt:
  assumes "moves (keeps (sound env)) m" and "\<And>r. settling env i (k r)"
  shows "settling env i (attempt m k)"
  by (rule settlingI)
    (auto simp: attempt_def split: prod.splits, meson settlingD assms(2) sound_after [OF assms(1)])

lemma settling_then:
  assumes m: "settling env i m" and k: "\<And>x. moves (keeps (concluded env i)) (k x)"
  shows "settling env i (bindM m k)"
proof (rule settlingI)
  fix w r w' assume w: "sound env w" "bindM m k w = (Inr r, w')"
  then obtain x v where run: "m w = (Inr x, v)" "k x v = (Inr r, w')"
    by (auto simp: bindM_def split: prod.splits sum.splits)
  show "concluded env i w'"
    using settlingD [OF m w(1) run(1)] movesD [OF k, of v x] run(2) by (simp add: keeps_def)
qed

lemma settling_fail: "settling env i (fail e)"
  by (simp add: settling_def fail_def)

lemma settling_if: "(b \<Longrightarrow> settling env i m) \<Longrightarrow> (\<not> b \<Longrightarrow> settling env i n) \<Longrightarrow> settling env i (if b then m else n)"
  by simp

lemma settling_case_option:
  "(v = None \<Longrightarrow> settling env i m) \<Longrightarrow> (\<And>x. v = Some x \<Longrightarrow> settling env i (n x)) \<Longrightarrow>
    settling env i (case v of None \<Rightarrow> m | Some x \<Rightarrow> n x)"
  by (cases v) auto

lemma settling_case_sum:
  "(\<And>e. v = Inl e \<Longrightarrow> settling env i (m e)) \<Longrightarrow> (\<And>x. v = Inr x \<Longrightarrow> settling env i (n x)) \<Longrightarrow>
    settling env i (case v of Inl e \<Rightarrow> m e | Inr x \<Rightarrow> n x)"
  by (cases v) auto

lemma settling_case_prod:
  "(\<And>x y. v = (x, y) \<Longrightarrow> settling env i (m x y)) \<Longrightarrow> settling env i (case v of (x, y) \<Rightarrow> m x y)"
  by (cases v) auto

lemma on_ledger_concludes:
  assumes "\<And>l. ledger_inv (ledger_env_of env) l \<Longrightarrow> env_ok (ledger_env_of env) \<Longrightarrow>
      wp m (\<lambda>_ l'. concluded_in i (lg_tables l')) (\<lambda>_ _. True) l"
    and "moves (keeps (sound env)) (on_ledger m)"
  shows "settling env i (on_ledger m)"
proof (rule settlingI)
  fix w r w' assume w: "sound env w" "on_ledger m w = (Inr r, w')"
  from assms(1) [of "w_ledger w"] w have "concluded_in i (lg_tables (w_ledger w'))"
    by (auto simp: sound_def wp_def on_ledger_def within_def split: prod.splits sum.splits)
  with sound_after [OF assms(2) w] show "concluded env i w'" by (simp add: concluded_def)
qed

lemma settling_transition:
  assumes "is_terminal (ch_next c)" "change_ok c"
  shows "settling env i (do_transition env i c)" "settling env i (do_transition_command env i c v)"
proof -
  show "settling env i (do_transition env i c)"
    unfolding do_transition_def
    by (rule on_ledger_concludes, unfold transition_def, rule internal_concludes, assumption, rule assms(1),
        fold transition_def, rule sound_rel.moves_ledger_writes, rule assms(2))
  have "wp (transition_with_command_evidence e i c v) (\<lambda>_ l'. concluded_in i (lg_tables l')) (\<lambda>_ _. True) l"
    if "ledger_inv e l" for e l v
    unfolding transition_with_command_evidence_def wp_bindM wp_liftR
    using internal_concludes [OF that assms(1)] by (simp split: sum.splits)
  then show "settling env i (do_transition_command env i c v)"
    unfolding do_transition_command_def
    by (rule on_ledger_concludes, blast, intro sound_rel.moves_ledger_writes assms(2))
qed

lemma settling_finish:
  assumes "is_terminal (ch_next c)" "change_ok c"
  shows "settling env i (finish env i c)" "settling env i (finish_and_clean env i c)"
  unfolding finish_def finish_and_clean_def
  by (rule settling_then [OF settling_transition(1) [OF assms]],
      intro concluded_rel.rules concluded_rel.parts)+

lemma settling_recovery_required: "settling env i (recovery_required env i reason now)"
  unfolding recovery_required_def
  by (rule settling_then [OF settling_transition(1)], simp, simp) (intro concluded_rel.rules concluded_rel.parts)

lemma settling_attach_snapshot:
  assumes "\<And>opn. so_operation_id opn = j \<Longrightarrow> settling env i (k opn)"
  shows "settling env i (bindM (on_ledger (attach_snapshot (ledger_env_of env) j s now)) k)"
proof (rule settlingI)
  fix w r w' assume w: "sound env w" "bindM (on_ledger (attach_snapshot (ledger_env_of env) j s now)) k w = (Inr r, w')"
  then obtain opn v where run: "on_ledger (attach_snapshot (ledger_env_of env) j s now) w = (Inr opn, v)"
      "k opn v = (Inr r, w')"
    by (auto simp: bindM_def split: prod.splits sum.splits)
  have "so_operation_id opn = j"
    using run(1) by (auto simp: on_ledger_def within_def attach_snapshot_def bindM_def load_operation_def
        query_def reading_def split: prod.splits sum.splits dest: load_operation_id)
  with settlingD [OF assms _ run(2)] sound_after [OF sound_rel.moves_ledger_writes(4) w(1) run(1)]
  show "concluded env i w'" by simp
qed

lemmas settling_rules = settling_attach_snapshot settling_recovery_required settling_finish settling_fail
  settling_if settling_case_option settling_case_sum settling_case_prod settling_bindM settling_attempt

lemma settling_finish_then:
  assumes "is_terminal (ch_next c)" "change_ok c" "\<And>x. moves (keeps (concluded env i)) (k x)"
  shows "settling env i (bindM (finish env i c) k)"
  by (rule settling_then [OF settling_finish(1) [OF assms(1,2)] assms(3)])

lemma settling_command_then:
  assumes "is_terminal (ch_next c)" "change_ok c" "\<And>x. moves (keeps (concluded env i)) (k x)"
  shows "settling env i (bindM (do_transition_command env i c v) k)"
  by (rule settling_then [OF settling_transition(2) [OF assms(1,2)] assms(3)])

section \<open>Rollbacks\<close>

lemma settling_rollback: "settling env i (rollback env i c d now)"
  unfolding rollback_def rollback_restore_def rollback_commands_def rollback_verify_def Let_def
    finish_and_clean_def [symmetric]
  by (intro settling_rules sound_rel.rules sound_rel.parts sound_rel.moves_enter_rollback
      sound_rel.stages_roll_back) simp_all

lemma settling_service_rollback: "settling env i (rollback_service_control env i c d now)"
  unfolding rollback_service_control_def service_restored_def Let_def
  by (intro settling_rules sound_rel.rules sound_rel.parts sound_rel.moves_enter_rollback) simp_all

lemma settling_ufw_rollback: "settling env i (rollback_ufw_rule env i c d now)"
  unfolding rollback_ufw_rule_def Let_def
  by (intro settling_rules sound_rel.rules sound_rel.parts sound_rel.moves_enter_rollback
      sound_rel.stages_roll_back sound_rel.moves_ufw_commands sound_rel.moves_ufw_inventory) simp_all

lemma settling_attach_rollback: "settling env i (rollback_certbot_attach env i c d now)"
  unfolding rollback_certbot_attach_def attach_rollback_restore_def
  by (intro settling_rules sound_rel.rules sound_rel.parts sound_rel.moves_enter_rollback
      sound_rel.stages_roll_back sound_rel.moves_files_replaced sound_rel.moves_command_succeeds) simp_all

lemma settling_config_rollback_verify: "settling env i (config_rollback_verify env i sn r cf rt now)"
  unfolding config_rollback_verify_def Let_def
  by (intro settling_if settling_recovery_required settling_command_then concluded_rel.rules concluded_rel.parts)
    simp_all

lemma settling_config_rollback:
  "settling env i (rollback_managed_config_with_evidence env i e now)"
  "settling env i (rollback_managed_config env i c d now)"
proof -
  show "settling env i (rollback_managed_config_with_evidence env i e now)" for e
    unfolding rollback_managed_config_with_evidence_def enter_config_rollback_def config_rollback_restore_def
      config_rollback_runtime_def
    by (intro settling_config_rollback_verify settling_rules sound_rel.rules sound_rel.parts
        sound_rel.moves_record_rollback sound_rel.moves_files_replaced) (simp add: rollback_stages_def)
  then show "settling env i (rollback_managed_config env i c d now)" by (simp add: rollback_managed_config_def)
qed

section \<open>Executions\<close>

lemma settling_nginx: "settling env (so_operation_id opn) (execute_nginx env opn now)"
  unfolding execute_nginx_def validate_precondition_def cancel_before_apply_def Let_def
proof (intro settling_rules sound_rel.rules sound_rel.parts, goal_cases)
  case (5 _ _ _ _ snapshotted)
  then show ?case
    unfolding finish_noop_def cancel_noop_def
    by (auto intro!: settling_rules sound_rel.rules sound_rel.parts)
next
  case (6 _ _ _ _ snapshotted)
  then show ?case
    unfolding apply_nginx_def test_nginx_def reload_nginx_def verify_nginx_def Let_def
    by (auto intro!: settling_rules settling_rollback sound_rel.rules sound_rel.parts)
qed simp_all

lemma settling_service: "settling env (so_operation_id opn) (execute_service_control env opn now)"
  unfolding execute_service_control_def start_service_control_def cancel_before_apply_def apply_service_def
    verify_service_def Let_def
  by (auto intro!: settling_rules settling_service_rollback sound_rel.rules sound_rel.parts)

lemma settling_ufw: "settling env (so_operation_id opn) (execute_ufw_rule env opn now)"
  unfolding execute_ufw_rule_def apply_ufw_def verify_ufw_def cancel_before_apply_def Let_def
  by (auto intro!: settling_rules settling_ufw_rollback sound_rel.rules sound_rel.parts
      sound_rel.moves_ufw_commands sound_rel.moves_ufw_inventory)

lemma settling_config_ends:
  "settling env (so_operation_id opn) (cancel_managed_before_apply env opn r now)"
  "settling env (so_operation_id opn) (finish_managed_noop env opn pr ad now)"
  unfolding cancel_managed_before_apply_def finish_managed_noop_def
  by (intro settling_finish_then settling_rules sound_rel.rules sound_rel.parts
      sound_rel.moves_check_active concluded_rel.rules concluded_rel.parts; simp)+

lemma settling_verify_config:
  "settling env (so_operation_id opn) (verify_config env opn p pr r t d now)"
  unfolding verify_config_def Let_def
  by (intro settling_command_then settling_rules settling_config_rollback sound_rel.rules sound_rel.parts
      sound_rel.moves_check_active concluded_rel.rules concluded_rel.parts; simp)

lemma settling_config: "settling env (so_operation_id opn) (execute_managed_config env opn now)"
proof -
  have apply': "settling env (so_operation_id sn) (apply_config env sn p pr r c now)" for sn p pr r c
    unfolding apply_config_def test_config_def reload_config_def Let_def
    by (auto intro!: settling_verify_config settling_config_rollback settling_rules sound_rel.rules
        sound_rel.parts sound_rel.moves_files_replaced)
  have prepare: "settling env (so_operation_id opn) (prepare_config env opn p r now)" for p r
    unfolding prepare_config_def Let_def
    by (intro settling_config_ends settling_rules sound_rel.rules)
      (metis settling_config_ends(2), metis apply')
  show ?thesis
    unfolding execute_managed_config_def Let_def
    by (intro settling_config_ends prepare settling_rules sound_rel.rules)
qed

lemma settling_certbot_ends:
  "settling env (so_operation_id opn) (cancel_certbot_before_apply env opn r now)"
  "Stage_Rejected \<in> set (next_stages ex) \<Longrightarrow> settling env i (reject_certbot_execution env i ex r d now)"
  unfolding cancel_certbot_before_apply_def reject_certbot_execution_def
  by (intro settling_finish; simp)+

lemma settling_start_certbot:
  assumes "\<And>sn. so_operation_id sn = so_operation_id opn \<Longrightarrow> settling env (so_operation_id opn) (k sn)"
  shows "settling env (so_operation_id opn) (start_certbot env opn view code now k)"
  unfolding start_certbot_def
  by (intro settling_certbot_ends settling_rules sound_rel.rules sound_rel.parts assms) simp_all

lemma settling_issue: "settling env (so_operation_id opn) (execute_certbot_issue env opn now)"
proof -
  have run: "settling env (so_operation_id opn) (run_issue env (so_operation_id opn) p e now sn)"
    if "so_operation_id sn = so_operation_id opn" for p e sn
    unfolding run_issue_def verify_issue_def that
    by (auto intro!: settling_certbot_ends settling_rules sound_rel.rules sound_rel.parts
        sound_rel.moves_certificate_inventory)
  show ?thesis
    unfolding execute_certbot_issue_def prepare_issue_def Let_def
    by (intro settling_start_certbot run settling_certbot_ends settling_rules sound_rel.rules
        sound_rel.moves_certificate_inventory)
qed

lemma settling_renew: "settling env (so_operation_id opn) (execute_certbot_renew_test env opn now)"
proof -
  have run: "settling env (so_operation_id opn) (run_renew env (so_operation_id opn) now sn)"
    if "so_operation_id sn = so_operation_id opn" for sn
    unfolding run_renew_def verify_renew_def that
    by (auto intro!: settling_certbot_ends settling_rules sound_rel.rules sound_rel.parts
        sound_rel.moves_certificate_inventory)
  show ?thesis
    unfolding execute_certbot_renew_test_def
    by (intro settling_start_certbot run settling_certbot_ends settling_rules sound_rel.rules
        sound_rel.moves_certificate_inventory)
qed

lemma settling_attach: "settling env (so_operation_id opn) (execute_certbot_attach env opn now)"
proof -
  have verify: "settling env (so_operation_id sn) (verify_certbot_attach env sn p now)" for sn p
    unfolding verify_certbot_attach_def Let_def
    by (auto intro!: settling_attach_rollback settling_rules sound_rel.rules sound_rel.parts
        sound_rel.moves_certificate_inventory sound_rel.moves_command_succeeds)
  have apply': "settling env (so_operation_id sn) (apply_attach env sn p a r now)" for sn p a r
    unfolding apply_attach_def test_attach_def reload_attach_def Let_def
    by (auto intro!: verify settling_attach_rollback settling_rules sound_rel.rules sound_rel.parts
        sound_rel.moves_files_replaced)
  have snapshot: "settling env (so_operation_id opn) (snapshot_attach env opn p a now)" for p a
    unfolding snapshot_attach_def Let_def
    by (intro settling_certbot_ends settling_rules sound_rel.rules sound_rel.parts)
      (auto intro: verify [of sn for sn, THEN back_subst [of "\<lambda>i. settling env i _"]]
        apply' [of sn for sn, THEN back_subst [of "\<lambda>i. settling env i _"]])
  show ?thesis
    unfolding execute_certbot_attach_def Let_def
    by (intro snapshot settling_certbot_ends settling_rules sound_rel.rules
        sound_rel.moves_certificate_inventory)
qed

lemma settling_by_type: "settling env (so_operation_id opn) (execute_by_type env opn now)"
  unfolding execute_by_type_def Let_def
  by (intro settling_rules settling_issue settling_renew settling_attach settling_config settling_service
      settling_ufw settling_nginx)

lemma concluded_unlocked:
  assumes "concluded env i w" "k \<in> set (t_locks (lg_tables (w_ledger w)))"
  shows "lr_operation_id k \<noteq> i"
proof
  assume lock: "lr_operation_id k = i"
  let ?t = "lg_tables (w_ledger w)"
  from assms(1) have ok: "locks_ok ?t" "keys_ok ?t"
    by (simp_all add: concluded_def sound_def ledger_inv_def tables_ok_def)
  from assms(1) obtain r where r: "r \<in> set (t_operations ?t)" "or_operation_id r = i" "row_terminal r"
    by (auto simp: concluded_def concluded_in_def)
  from ok(1) assms(2) lock obtain q where q: "q \<in> set (t_operations ?t)" "or_operation_id q = i" "\<not> row_terminal q"
    by (auto simp: locks_ok_def)
  from ok(2) r q show False unfolding keys_ok_def by (metis find_key_distinct option.inject)
qed

lemma open_ledger_world:
  assumes "open_ledger env w = (Inr x, v)"
  shows "same_rows (w_ledger w) (w_ledger v)"
  using assms movesD [OF rows_open [of "ledger_env_of env"], of "w_ledger w"]
  by (auto simp: open_ledger_def attempt_def on_ledger_def within_def ret_def fail_def bindM_def modify_def
      split: prod.splits sum.splits ops_error.splits)

lemma query_world: "query f l = (r, l') \<Longrightarrow> lg_tables l' = lg_tables l"
  by (cases "lg_faults l") (auto simp: query_def storage_access_def bindM_def reading_def split: if_splits)

lemma execute_concludes:
  assumes "sound env w" "load_operation_from (ledger_env_of env) i (lg_tables (w_ledger w)) = Inr opn"
    and "so_stage opn = Approved" "execute_operation env actor i now w = (Inr view, w')"
  shows "concluded env i w'"
proof -
  let ?e = "ledger_env_of env"
  obtain v where v: "open_ledger env w = (Inr (), v)"
      "bindM (do_load env i) (\<lambda>operation.
        if sp_actor (so_plan operation) \<noteq> actor then fail (Rejected ''operation_access_denied'')
        else if is_terminal (so_stage operation) \<or> so_stage operation \<noteq> Approved
        then do_receipt env (so_operation_id operation)
        else execute_by_type env operation now) v = (Inr view, w')"
    using assms(4) unfolding execute_operation_def bindM_def [of "open_ledger env"]
    by (auto split: prod.splits sum.splits)
  have rows: "load_operation_from ?e i (lg_tables (w_ledger v)) = Inr opn"
    using assms(2) load_operation_cong same_rows_fields [OF open_ledger_world [OF v(1)]] by metis
  obtain q u where q: "do_load env i v = (Inr q, u)"
      "(if sp_actor (so_plan q) \<noteq> actor then fail (Rejected ''operation_access_denied'')
        else if is_terminal (so_stage q) \<or> so_stage q \<noteq> Approved
        then do_receipt env (so_operation_id q)
        else execute_by_type env q now) u = (Inr view, w')"
    using v(2) unfolding bindM_def by (auto split: prod.splits sum.splits)
  have "q = opn"
    using q(1) rows by (cases "lg_faults (w_ledger v)")
      (auto simp: do_load_def on_ledger_def within_def load_operation_def query_def storage_access_def
        bindM_def reading_def split: if_splits)
  with q(2) assms(3) have run: "execute_by_type env opn now u = (Inr view, w')"
    by (auto simp: fail_def split: if_splits)
  have "sound env v" using sound_after [OF sound_rel.moves_open_ledger assms(1) v(1)] .
  then have "sound env u" using sound_after [OF sound_rel.moves_shared(5) _ q(1)] by blast
  moreover have "so_operation_id opn = i" using assms(2) by (rule load_operation_id)
  ultimately show ?thesis using settlingD [OF settling_by_type _ run] by simp
qed

lemma settling_recover:
  assumes "\<not> is_terminal (so_stage opn)"
  shows "settling env (so_operation_id opn) (recover_operation env opn now)"
proof -
  have external: "settling env (so_operation_id opn) (recover_external env opn now)"
    if "so_stage opn \<in> set [Applying, Validating, Reloading, Verifying, RollingBack]"
    unfolding recover_external_def
    by (rule settling_bindM, rule sound_rel.rules, rule settling_bindM, rule sound_rel.rules,
        rule settling_then [OF settling_transition(1)]) (use that in \<open>auto intro!: concluded_rel.parts\<close>)
  have restart: "settling env (so_operation_id opn) (bindM (restart_rollback env opn now) (\<lambda>_. ret ()))"
    unfolding restart_rollback_def Let_def
    by (rule settling_then, intro settling_if settling_attach_rollback settling_config_rollback
        settling_service_rollback settling_ufw_rollback settling_rollback) (intro concluded_rel.rules)
  have early: "settling env (so_operation_id opn) (bindM (do_transition env (so_operation_id opn)
        (stage_step [so_stage opn] CancelledBeforeApply c d None None now)) (\<lambda>terminal.
      if \<not> is_terminal (so_stage terminal) then fail ForensicLockdown
      else remove_operation_proposal env terminal))"
    if "so_stage opn \<in> set [Approved, Snapshotted]" for c d
    by (rule settling_then [OF settling_transition(1)])
      (use that in \<open>auto intro!: concluded_rel.rules concluded_rel.parts\<close>)
  show ?thesis
    unfolding recover_operation_def using assms early external restart
    by (cases "so_stage opn") (auto intro: settling_fail)
qed

lemma recover_all_conclude:
  assumes "sound env w" "\<forall>opn \<in> set opns. \<not> is_terminal (so_stage opn)"
    and "recover_operations env now opns w = (Inr (), w')"
  shows "\<forall>opn \<in> set opns. concluded env (so_operation_id opn) w'"
  using assms
proof (induction opns arbitrary: w)
  case (Cons opn opns)
  obtain v where v: "recover_operation env opn now w = (Inr (), v)" "recover_operations env now opns v = (Inr (), w')"
    using Cons.prems(3) by (auto simp: bindM_def split: prod.splits sum.splits)
  have "concluded env (so_operation_id opn) v"
    using settlingD [OF settling_recover _ v(1)] Cons.prems by simp
  then have "concluded env (so_operation_id opn) w'"
    using movesD [OF concluded_rel.moves_recover_operations, of env "so_operation_id opn" v now opns] v(2)
    by (simp add: keeps_def)
  moreover have "sound env v" using sound_after [OF sound_rel.moves_recover Cons.prems(1) v(1)] .
  ultimately show ?case using Cons.IH [OF _ _ v(2)] Cons.prems(2) by auto
qed simp

lemma set_order_by: "set (order_by k s xs) = set xs"
proof -
  have "set (insert_by le x ys) = insert x (set ys)" for le and x :: 'a and ys by (induction ys) auto
  then show ?thesis by (induction xs) (simp_all add: order_by_def)
qed

lemma incomplete_found:
  assumes "on_ledger (incomplete_operations (ledger_env_of env)) v = (Inr opns, u)" and inv: "sound env v"
  shows "\<forall>r \<in> set (t_operations (lg_tables (w_ledger v))). \<not> row_terminal r \<longrightarrow>
      or_operation_id r \<in> so_operation_id ` set opns"
    and "\<forall>opn \<in> set opns. \<not> is_terminal (so_stage opn)"
    and "lg_tables (w_ledger u) = lg_tables (w_ledger v)"
proof -
  let ?e = "ledger_env_of env" and ?t = "lg_tables (w_ledger v)"
  obtain l where l: "incomplete_operations ?e (w_ledger v) = (Inr opns, l)" "u = v\<lparr>w_ledger := l\<rparr>"
    using assms by (auto simp: on_ledger_def within_def split: prod.splits)
  have load: "load_each (\<lambda>r. load_operation_from ?e (or_operation_id r) ?t) (incomplete_rows ?t) = Inr opns"
    using l(1) by (cases "lg_faults (w_ledger v)")
      (auto simp: incomplete_operations_def query_def storage_access_def bindM_def reading_def split: if_splits)
  note each = load_each_Inr [OF load]
  have rows: "set (incomplete_rows ?t) = {r \<in> set (t_operations ?t). \<not> row_terminal r}"
    by (auto simp: incomplete_rows_def set_order_by row_terminal_def)
  show "\<forall>r \<in> set (t_operations ?t). \<not> row_terminal r \<longrightarrow> or_operation_id r \<in> so_operation_id ` set opns"
  proof (intro ballI impI)
    fix r assume "r \<in> set (t_operations ?t)" "\<not> row_terminal r"
    then obtain n where n: "n < length (incomplete_rows ?t)" "incomplete_rows ?t ! n = r"
      using rows by (metis (mono_tags, lifting) in_set_conv_nth mem_Collect_eq)
    with each have "load_operation_from ?e (or_operation_id r) ?t = Inr (opns ! n)" "opns ! n \<in> set opns" by auto
    then show "or_operation_id r \<in> so_operation_id ` set opns" using load_operation_id by (metis imageI)
  qed
  show "\<forall>opn \<in> set opns. \<not> is_terminal (so_stage opn)"
  proof
    fix opn assume "opn \<in> set opns"
    then obtain n where n: "n < length opns" "opns ! n = opn" by (auto simp: in_set_conv_nth)
    let ?r = "incomplete_rows ?t ! n"
    have r: "?r \<in> set (t_operations ?t)" "\<not> row_terminal ?r"
      using rows each n nth_mem [of n "incomplete_rows ?t"] by auto
    have "load_operation_from ?e (or_operation_id ?r) ?t = Inr opn" using each n by auto
    then obtain q where "q \<in> set (t_operations ?t)" "or_operation_id q = or_operation_id ?r"
        "or_stage q = as_storage_value (so_stage opn)" by (rule load_operation_row)
    moreover have "keys_ok ?t" using inv by (simp add: sound_def ledger_inv_def tables_ok_def)
    ultimately have "q = ?r" using r(1) unfolding keys_ok_def by (metis find_key_distinct option.inject)
    then show "\<not> is_terminal (so_stage opn)"
      using r(2) row_terminal_stage [OF \<open>or_stage q = _\<close>] by simp
  qed
  show "lg_tables (w_ledger u) = ?t"
    using l query_world by (auto simp: incomplete_operations_def)
qed

lemma initialize_concludes:
  assumes "sound env w" "initialize env now w = (Inr (), w')" "\<not> w_lockdown w'"
    and "r \<in> set (t_operations (lg_tables (w_ledger w)))"
  shows "concluded env (or_operation_id r) w'"
proof -
  let ?e = "ledger_env_of env" and ?i = "or_operation_id r"
  obtain a b where a: "on_files (cleanup_internal_temporaries env) w = (Inr (), a)"
      "on_ledger (open_ledger_file ?e) a = (Inr (), b)"
      "bindM (on_ledger (incomplete_operations ?e)) (\<lambda>opns.
        bindM (recover_operations env now opns) (\<lambda>_. remove_expired_proposals env now)) b = (Inr (), w')"
    using assms(2,3) unfolding initialize_def bindM_def [of "on_files _"] attempt_def
    by (auto simp: modify_def fail_def split: prod.splits sum.splits ops_error.splits)
  then obtain opns c d where c: "on_ledger (incomplete_operations ?e) b = (Inr opns, c)"
      "recover_operations env now opns c = (Inr (), d)" "remove_expired_proposals env now d = (Inr (), w')"
    unfolding bindM_def by (auto split: prod.splits sum.splits)
  have "same_rows (w_ledger w) (w_ledger b)"
    using a(1,2) movesD [OF rows_open [of ?e], of "w_ledger w"]
    by (auto simp: on_files_def on_ledger_def within_def split: prod.splits)
  with assms(4) have r: "r \<in> set (t_operations (lg_tables (w_ledger b)))" by (simp add: same_rows_fields)
  have sa: "sound env a" using assms(1) a(1) by (auto simp: on_files_def within_def sound_def split: prod.splits)
  have sb: "sound env b"
    using sound_after [OF sound_rel.moves_ledger_call sa a(2)] step_open .
  note found = incomplete_found [OF c(1) sb]
  have "sound env c" using sound_after [OF sound_rel.moves_queries(5) sb c(1)] .
  then have all: "\<forall>opn \<in> set opns. concluded env (so_operation_id opn) d"
    using recover_all_conclude found(2) c(2) by blast
  have "concluded env ?i d"
  proof (cases "row_terminal r")
    case True
    then have "concluded env ?i c"
      using r found(3) \<open>sound env c\<close> by (auto simp: concluded_def concluded_in_def)
    then show ?thesis
      using movesD [OF concluded_rel.moves_recover_operations, of env ?i c now opns] c(2) by (simp add: keeps_def)
  next
    case False
    then show ?thesis using found(1) r all by (auto simp: image_iff)
  qed
  then show ?thesis
    using movesD [OF concluded_rel.moves_remove_expired, of env ?i d now] c(3) by (simp add: keeps_def)
qed

section \<open>Final receipts\<close>


text \<open>
  (C6) A start leaves nothing pending.  When the daemon starts on a ledger left by any earlier run - cut
  off at any storage access - and the start succeeds without locking the daemon, every operation recorded
  before the start has reached a terminal stage and none of them holds a resource lock.
\<close>

theorem start_leaves_nothing_pending:
  assumes "env_ok (ledger_env_of env)" "ledger_run (ledger_env_of env) fresh_ledger (w_ledger w)"
    and "initialize env now w = (Inr (), w')" "\<not> w_lockdown w'"
    and "r \<in> set (t_operations (lg_tables (w_ledger w)))"
  shows "concluded_in (or_operation_id r) (lg_tables (w_ledger w'))
    \<and> or_operation_id r \<notin> lr_operation_id ` set (t_locks (lg_tables (w_ledger w')))"
proof -
  have "sound env w" using assms(1,2) run_inv by (simp add: sound_def)
  then have c: "concluded env (or_operation_id r) w'" using initialize_concludes assms(3-5) by blast
  then show ?thesis using concluded_unlocked [OF c] by (fastforce simp: concluded_def)
qed

end
