(* ===== verification/Engine_Scenario.thy ===== *)
theory Engine_Scenario
  imports Nginx_Outcomes
begin

text \<open>
  Concrete executions of the engine: a host with one enabled site, a recorded and approved plan to
  disable it, and the two ends of its execution, the verified success and, when the configuration
  test fails, the verified rollback.  The theorems at the end apply the guarantees to these runs.
\<close>

section \<open>Ledger calls that meet no fault\<close>

text \<open>Events without attachments, whose stages and times can be shown in a receipt.\<close>

definition readable :: "tables \<Rightarrow> bool" where
  "readable t =
    (t_commands t = [] \<and> t_diagnostics t = []
     \<and> (\<forall>e \<in> set (t_events t). (\<exists>s. ev_stage e = as_storage_value s) \<and> 0 \<le> ev_recorded_at_ms e))"

text \<open>The ledger works, has recorded \<^verbatim>\<open>n\<close> events and holds the operation \<^verbatim>\<open>i\<close> as \<^verbatim>\<open>opn\<close>.\<close>

definition works :: "nat \<Rightarrow> string \<Rightarrow> stored_operation \<Rightarrow> ledger \<Rightarrow> bool" where
  "works n i opn l =
    (ledger_inv run_env l \<and> run_state l \<and> length (t_events (lg_tables l)) = n \<and> readable (lg_tables l)
     \<and> load_operation_from run_env i (lg_tables l) = Inr opn)"

lemma complete_faults:
  "lg_faults l = [] \<Longrightarrow> lg_faults (snd (complete_pending_checkpoint env l)) = []"
  by (simp add: complete_pending_checkpoint_def bindM_def query_def reading_def quiet_access ret_def fail_def
      write_checkpoint_def modify_def set_checkpoint_file_def clear_completed_checkpoint_def transaction_def
      split: sum.splits option.splits)

lemma same_rows_readable: "same_rows l l' \<Longrightarrow> readable (lg_tables l') = readable (lg_tables l)"
  by (cases "lg_tables l"; cases "lg_tables l'"; simp add: same_rows_def readable_def)

lemma works_complete:
  assumes "ledger_inv run_env l" "lg_faults l = []" "run_log (t_events (lg_tables l))"
    and "length (t_events (lg_tables l)) = n" "n < 99" "load_operation_from run_env i (lg_tables l) = Inr opn"
    and "readable (lg_tables l)"
  shows "wp (bindM (complete_pending_checkpoint run_env) (\<lambda>_. load_operation run_env i))
    (\<lambda>opn' l'. opn' = opn \<and> works n i opn l') (\<lambda>_ _. False) l"
proof -
  have "wp (complete_pending_checkpoint run_env)
      (\<lambda>_ l'. completed run_env l' \<and> same_rows l l' \<and> lg_faults l' = []) (\<lambda>_ _. False) l"
    using complete_pending_outcome [OF run_env_ok assms(1)] movesD [OF rows_complete_pending, of l run_env]
      complete_faults [OF assms(2), of run_env] assms(2)
    by (auto simp: wp_def split: prod.splits sum.splits)
  then show ?thesis
    unfolding wp_bindM
  proof (rule wp_mono, goal_cases)
    case (1 x l')
    then have "load_operation run_env i l' = (Inr opn, l')"
      using assms(6) same_rows_stay(3) [of l l' run_env i]
      by (simp add: load_operation_def query_def bindM_def quiet_access reading_def)
    then show ?case
      using 1 assms same_rows_fields(1) [of l l'] same_rows_stay(3) [of l l' run_env i] same_rows_readable [of l l']
      by (simp add: wp_def works_def run_state_def completed_def)
  qed simp
qed

lemma wp_quiet_transaction:
  assumes "lg_faults l = []" "body (lg_tables l) = Inr (x, t)" "Q x (l\<lparr>lg_tables := t\<rparr>)"
  shows "wp (transaction body) Q E l"
  using assms by (simp add: wp_def transaction_def bindM_def quiet_access)

lemma run_transition_body:
  assumes "run_log (t_events t)" "load_operation_from run_env i t = Inr opn" "so_stage opn \<in> set (ch_expected ch)"
  shows "\<exists>row t'. transition_body run_env i ch None None t = Inr ((), t')
    \<and> t_events t' = t_events t @ [run_row (length (t_events t)) row] \<and> ei_stage row = ch_next ch
    \<and> ei_recorded_at_ms row = ch_now_ms ch \<and> t_commands t' = t_commands t \<and> t_diagnostics t' = t_diagnostics t"
  using assms
  by (intro exI [of _ "\<lparr> ei_operation_id = i, ei_plan_id = sp_plan_id (so_plan opn), ei_stage = ch_next ch,
      ei_result_code = ch_result_code ch, ei_recorded_at_ms = ch_now_ms ch,
      ei_evidence_digest = ch_evidence_digest ch \<rparr>"])
    (simp add: transition_body_def Let_def update_operations_def run_append mark_checkpoint_if_needed_def)

lemma readable_snoc:
  assumes "readable t" "t_events t' = t_events t @ [run_row n row]" "0 \<le> ei_recorded_at_ms row"
    and "t_commands t' = t_commands t" "t_diagnostics t' = t_diagnostics t"
  shows "readable t'"
  using assms by (auto simp: readable_def run_row_def)

lemma works_transition:
  assumes w: "works n i opn l" and n: "n < 98" and stage: "so_stage opn \<in> set (ch_expected ch)"
    and ch: "change_ok ch" "0 \<le> ch_now_ms ch"
  shows "wp (transition run_env i ch) (\<lambda>opn' l'. opn' = after_change ch opn \<and> works (Suc n) i opn' l') (\<lambda>_ _. False) l"
proof -
  have l: "ledger_inv run_env l" "lg_faults l = []" "run_log (t_events (lg_tables l))"
      "load_operation_from run_env i (lg_tables l) = Inr opn" "length (t_events (lg_tables l)) = n"
      "readable (lg_tables l)"
    using w by (auto simp: works_def run_state_def)
  have ok: "tables_ok run_env (sf_checkpoint (lg_files l)) (lg_tables l)" using l(1) by (simp add: ledger_inv_def)
  have att: "attachments_ok run_env None None (ch_evidence_digest ch)"
    by (simp add: attachments_ok_def load_command_evidence_def load_diagnostics_def)
  obtain row t' where t': "transition_body run_env i ch None None (lg_tables l) = Inr ((), t')"
      "t_events t' = t_events (lg_tables l) @ [run_row (length (t_events (lg_tables l))) row]"
      "ei_recorded_at_ms row = ch_now_ms ch" "t_commands t' = t_commands (lg_tables l)"
      "t_diagnostics t' = t_diagnostics (lg_tables l)"
    using run_transition_body [OF l(3,4) stage] by blast
  have "wp (bindM (complete_pending_checkpoint run_env) (\<lambda>_. load_operation run_env i))
      (\<lambda>opn' l'. opn' = after_change ch opn \<and> works (Suc n) i (after_change ch opn) l') (\<lambda>_ _. False)
      (l\<lparr>lg_tables := t'\<rparr>)"
  proof (rule works_complete)
    show "ledger_inv run_env (l\<lparr>lg_tables := t'\<rparr>)"
      using transition_body_ok [OF ok ch(1) att t'(1)] l(1) by (simp add: ledger_inv_def)
  qed (use l n t' ch run_log_append readable_snoc [OF l(6) t'(2)] transition_body_loads [OF ok l(4) t'(1)] in auto)
  then show ?thesis
    unfolding transition_def transition_internal_def wp_bindM [of "transaction _"]
    by - (rule wp_quiet_transaction [OF l(2)], rule t'(1), auto elim: wp_mono)
qed

lemma filter_key: "distinct (map f xs) \<Longrightarrow> x \<in> set xs \<Longrightarrow> filter (\<lambda>y. f y = f x) xs = [x]"
  by (induction xs) (auto simp: filter_empty_conv image_iff)

lemma run_attach_body:
  assumes ok: "tables_ok run_env f t" and log: "run_log (t_events t)"
    and opn: "load_operation_from run_env i t = Inr opn" and stage: "so_stage opn = Approved" and n: "length (t_events t) < 99"
  shows "\<exists>row t'. attach_snapshot_body run_env i sn now t = Inr ((), t')
    \<and> t_events t' = t_events t @ [run_row (length (t_events t)) row] \<and> ei_recorded_at_ms row = now
    \<and> t_commands t' = t_commands t \<and> t_diagnostics t' = t_diagnostics t"
proof -
  note D = tables_okD [OF ok]
  obtain row where row: "row \<in> set (t_operations t)" "or_operation_id row = i" "or_stage row = as_storage_value Approved"
    using load_operation_Inr [OF opn] stage by metis
  have "filter (\<lambda>r. or_operation_id r = i) (t_operations t) = [row]"
    using filter_key [of or_operation_id "t_operations t" row] D(2) row by (simp add: keys_ok_def)
  then have "filter (\<lambda>r. or_stage r = as_storage_value Approved) (filter (\<lambda>r. or_operation_id r = i) (t_operations t)) = [row]"
    using row by simp
  then have "filter (\<lambda>r. or_operation_id r = i \<and> or_stage r = as_storage_value Approved) (t_operations t) = [row]"
    by (simp add: conj_commute)
  moreover have "t_events (snapshot_rows i sn now t) = t_events t" "t_commands (snapshot_rows i sn now t) = t_commands t"
      "t_diagnostics (snapshot_rows i sn now t) = t_diagnostics t"
    by (simp_all add: snapshot_rows_def update_operations_def)
  ultimately show ?thesis
    unfolding attach_body_unfold [OF D(2) opn stage] using log n
    by (intro exI [of _ "\<lparr> ei_operation_id = i, ei_plan_id = sp_plan_id (so_plan opn), ei_stage = Snapshotted,
        ei_result_code = ''snapshot_durable'', ei_recorded_at_ms = now, ei_evidence_digest = sn_digest sn \<rparr>"])
      (simp add: run_append not_periodic)
qed

lemma works_attach:
  assumes w: "works n i opn l" and n: "n < 98" and stage: "so_stage opn = Approved" and now: "0 \<le> now"
  shows "wp (attach_snapshot run_env i sn now) (\<lambda>opn' l'. opn' = with_snapshot sn opn \<and> works (Suc n) i opn' l') (\<lambda>_ _. False) l"
proof -
  have l: "ledger_inv run_env l" "lg_faults l = []" "run_log (t_events (lg_tables l))"
      "load_operation_from run_env i (lg_tables l) = Inr opn" "length (t_events (lg_tables l)) = n"
      "readable (lg_tables l)"
    using w by (auto simp: works_def run_state_def)
  have ok: "tables_ok run_env (sf_checkpoint (lg_files l)) (lg_tables l)" using l(1) by (simp add: ledger_inv_def)
  obtain row t' where t': "attach_snapshot_body run_env i sn now (lg_tables l) = Inr ((), t')"
      "t_events t' = t_events (lg_tables l) @ [run_row (length (t_events (lg_tables l))) row]"
      "ei_recorded_at_ms row = now" "t_commands t' = t_commands (lg_tables l)"
      "t_diagnostics t' = t_diagnostics (lg_tables l)"
    using run_attach_body [OF ok l(3,4) stage, of sn now] l(5) n by auto
  have "wp (bindM (complete_pending_checkpoint run_env) (\<lambda>_. load_operation run_env i))
      (\<lambda>opn' l'. opn' = with_snapshot sn opn \<and> works (Suc n) i (with_snapshot sn opn) l') (\<lambda>_ _. False)
      (l\<lparr>lg_tables := t'\<rparr>)"
  proof (rule works_complete)
    show "ledger_inv run_env (l\<lparr>lg_tables := t'\<rparr>)"
      using attach_body_ok [OF ok t'(1)] l(1) by (simp add: ledger_inv_def)
  qed (use l n t' now run_log_append readable_snoc [OF l(6) t'(2)] attach_body_loads [OF ok l(4) stage t'(1)] in auto)
  then show ?thesis
    unfolding attach_snapshot_def wp_bindM [of "transaction _"]
    by - (rule wp_quiet_transaction [OF l(2)], rule t'(1), auto elim: wp_mono)
qed

lemma load_each_all: "(\<forall>x \<in> set xs. \<exists>y. f x = Inr y) \<Longrightarrow> \<exists>ys. load_each f xs = Inr ys \<and> length ys = length xs"
  by (induction xs) auto

lemma works_load: "works n i opn l \<Longrightarrow> load_operation run_env i l = (Inr opn, l)"
  by (simp add: works_def run_state_def load_operation_def query_def bindM_def quiet_access reading_def)

lemma works_receipt:
  assumes "works n i opn l"
  shows "\<exists>r. receipt run_env i l = (Inr r, l) \<and> rv_terminal_state r = so_stage opn"
proof -
  let ?t = "lg_tables l"
  have l: "ledger_inv run_env l" "lg_faults l = []" "load_operation_from run_env i ?t = Inr opn" "readable ?t"
    using assms by (auto simp: works_def run_state_def)
  have ok: "tables_ok run_env (sf_checkpoint (lg_files l)) ?t" using l(1) by (simp add: ledger_inv_def)
  note D = tables_okD [OF ok]
  obtain row where row: "row \<in> set (t_operations ?t)" "or_operation_id row = i"
    by (rule load_operation_row [OF l(3)]) blast
  then have ne: "events_of i ?t \<noteq> []" using D(5) by (auto simp: history_ok_def)
  have ev: "\<exists>y. stage_evidence run_env ?t e = Inr y" if e: "e \<in> set (events_of i ?t)" for e
  proof -
    have "e \<in> set (t_events ?t)" using e by (simp add: events_of_def)
    then have "\<exists>s. ev_stage e = as_storage_value s" "0 \<le> ev_recorded_at_ms e" "0 \<le> ev_sequence e"
      using l(4) seq_ok_range [OF D(8)] by (force simp: readable_def)+
    then show ?thesis
      using l(4) by (auto simp: stage_evidence_def Let_def readable_def command_at_def diagnostics_at_def
          load_command_evidence_def load_diagnostics_def format_time_def run_env_def sample_env_def)
  qed
  then obtain stages where "load_each (stage_evidence run_env ?t) (events_of i ?t) = Inr stages" "stages \<noteq> []"
    using load_each_all [of "events_of i ?t" "stage_evidence run_env ?t"] ne by (metis length_0_conv)
  then show ?thesis
    using l(2,3) events_in_order_id [OF D(8)]
    by (simp add: receipt_def query_def bindM_def quiet_access reading_def receipt_from_def events_of_def Let_def)
qed

section \<open>A host\<close>

text \<open>
  One site \<^verbatim>\<open>a\<close>.  The host is the list of the outcomes of the commands to come.
\<close>

definition demo_evidence :: "command_class \<Rightarrow> bool \<Rightarrow> command_evidence" where
  "demo_evidence c ok = (failed_evidence (le_sha256 run_env) c)\<lparr>ce_success := ok\<rparr>"

definition demo_runner :: "bool list operation_runner" where
  "demo_runner =
    \<lparr> rn_run = (\<lambda>c fs h. (Inr (demo_evidence c (hd h)), tl h)),
      rn_run_ufw = (\<lambda>c h. (Inl (Rejected ''command_unavailable''), h)),
      rn_management_edge_ready = (\<lambda>fs h. (Inr True, h)) \<rparr>"

definition demo_id :: string where
  "demo_id = ''ngs_b''"

definition demo_digest :: string where
  "demo_digest = sha256_digest (le_sha256 run_env) ''server''"

definition demo_snapshot :: nginx_link_snapshot where
  "demo_snapshot =
    \<lparr> nl_schema_version = 1, nl_site_id = demo_id, nl_basename = ''a'', nl_enabled = True,
      nl_available_digest = demo_digest,
      nl_enabled_state_digest = nginx_enabled_state_digest (le_sha256 run_env) True \<rparr>"

text \<open>The scenario uses no certificate.\<close>

definition demo_certificates :: "'h certificate_tools" where
  "demo_certificates =
    \<lparr> ct_run_certbot = (\<lambda>_ _ fs h. (Inl (Command ''unavailable''), fs, h)),
      ct_openssl = (\<lambda>_ _. NotSpawned ''unavailable'') \<rparr>"

definition demo_env :: "bool list ops_env" where
  "demo_env =
    \<lparr> oe_ledger = run_env,
      oe_paths = default_paths\<lparr>pa_nginx_available := [''sites-available''], pa_nginx_enabled := [''sites-enabled''],
        pa_snapshots := [''s'']\<rparr>,
      oe_policy = default_policy,
      oe_codec = \<lparr> oc_ser_nginx_snapshot = (\<lambda>s. if s = demo_snapshot then ''snapshot'' else ''other''),
        oc_de_nginx_snapshot = (\<lambda>b. if b = ''snapshot'' then Some demo_snapshot else None),
        oc_ser_managed_snapshot = (\<lambda>_. []), oc_de_managed_snapshot = (\<lambda>_. None),
        oc_ser_service_snapshot = (\<lambda>_. []), oc_de_service_snapshot = (\<lambda>_. None),
        oc_ser_nginx_request = (\<lambda>_. []), oc_ser_service_request = (\<lambda>_. []), oc_ser_plan = (\<lambda>_. []),
        oc_ser_managed_request = (\<lambda>_. []), oc_ser_restore_request = (\<lambda>_. []), oc_ser_managed_plan = (\<lambda>_. []),
        oc_ser_ufw_request = (\<lambda>_. []), oc_ser_ufw_plan = (\<lambda>_. []), oc_ser_ufw_snapshot = (\<lambda>_. []),
        oc_de_ufw_snapshot = (\<lambda>_. None), oc_ser_digests = concat, oc_ser_certificate_snapshot = (\<lambda>_. []),
        oc_de_certificate_snapshot = (\<lambda>_. None), oc_ser_issue_request = (\<lambda>_. []),
        oc_ser_renew_request = (\<lambda>_. []), oc_ser_attach_request = (\<lambda>_. []), oc_ser_issue_plan = (\<lambda>_. []),
        oc_ser_renew_plan = (\<lambda>_. []), oc_ser_attach_plan = (\<lambda>_. []), oc_ser_inventory = (\<lambda>_. []),
        oc_ser_staging = (\<lambda>_. []), oc_ser_certbot_evidence = (\<lambda>_. []) \<rparr>,
      oe_base64 = (\<lambda>_. ''b''), oe_runner = demo_runner, oe_certificates = demo_certificates \<rparr>"

definition demo_node :: "node \<Rightarrow> nat \<Rightarrow> inode" where
  "demo_node k mode = \<lparr> nd_node = k, nd_uid = 0, nd_gid = 0, nd_nlink = 1, nd_mode = mode \<rparr>"

abbreviation demo_link :: path where
  "demo_link \<equiv> [''sites-enabled'', ''a'']"

definition demo_fs :: filesystem where
  "demo_fs =
    \<lparr> fs_nodes = [([''sites-available''], demo_node DirNode 493), ([''sites-available'', ''a''], demo_node (FileNode ''server'') 420),
        ([''sites-enabled''], demo_node DirNode 493), (demo_link, demo_node (LinkNode False [''..'', ''sites-available'', ''a'']) 511),
        ([''s''], demo_node DirNode 448)],
      fs_blocks_available = 1024 * 1024, fs_fragment_size = 4096, fs_uid = 0, fs_gid = 0,
      fs_new_dir_mode = 493, fs_new_file_mode = 420, fs_faults = [] \<rparr>"

text \<open>What the site looks like, enabled or not, to calls that do not fail.\<close>

definition site_nodes :: "bool \<Rightarrow> filesystem \<Rightarrow> bool" where
  "site_nodes on fs =
    (fs_faults fs = [] \<and> fs_uid fs = 0 \<and> fs_gid fs = 0
     \<and> node_at fs [''sites-available''] = Some (demo_node DirNode 493)
     \<and> node_at fs [''sites-available'', ''a''] = Some (demo_node (FileNode ''server'') 420)
     \<and> node_at fs [''sites-enabled''] = Some (demo_node DirNode 493)
     \<and> node_at fs demo_link = (if on then Some (demo_node (LinkNode False [''..'', ''sites-available'', ''a'']) 511) else None)
     \<and> children fs [''sites-available''] = [''a''])"

definition demo_site :: "bool \<Rightarrow> nginx_site" where
  "demo_site on =
    \<lparr> ns_site_id = demo_id, ns_basename = ''a'', ns_available_digest = demo_digest,
      ns_enabled_state_digest = nginx_enabled_state_digest (le_sha256 run_env) on,
      ns_state = (if on then Enabled else Disabled), ns_protected = False \<rparr>"

lemma site_nodes_fs: "site_nodes True demo_fs"
  by (simp add: site_nodes_def demo_fs_def node_at_def children_def)

lemma quiet_io: "fs_faults fs = [] \<Longrightarrow> io_access fs = (Inr (), fs)"
  by (simp add: io_access_def)

text \<open>Evaluation of routines applied to a state.\<close>

lemma run_apply:
  "bindM m k s = (case m s of (r, t) \<Rightarrow> case r of Inl e \<Rightarrow> (Inl e, t) | Inr x \<Rightarrow> k x t)"
  "attempt m h s = (case m s of (r, t) \<Rightarrow> h r t)"
  "on_err f p s = (case p s of (r, t) \<Rightarrow> (map_err f r, t))"
  "ret y s = (Inr y, s)" "fail d s = (Inl d, s)" "liftR v s = (v, s)" "reading q s = (q s, s)"
  "io_read u fs = (case io_access fs of (r, t) \<Rightarrow> case r of Inl e \<Rightarrow> (Inl e, t) | Inr x \<Rightarrow> (u t, t))"
  "io_write g fs = (case io_access fs of (r, t) \<Rightarrow> case r of Inl e \<Rightarrow> (Inl e, t)
     | Inr x \<Rightarrow> (case g t of Inl e \<Rightarrow> (Inl e, t) | Inr t' \<Rightarrow> (Inr (), t')))"
  by (auto simp: bindM_def attempt_def on_err_def ret_def fail_def liftR_def reading_def io_read_def io_write_def
      split: prod.splits sum.splits)

lemmas run_fs = run_apply quiet_io locate_def resolve_def MAX_LINKS_def symlink_metadata_def canonicalize_def open_file_def
  file_metadata_def read_to_end_def openat_beneath_def read_dir_def next_entry_def sync_all_def Let_def

lemma demo_paths [simp]:
  "pa_nginx_available (oe_paths demo_env) = [''sites-available'']" "pa_nginx_enabled (oe_paths demo_env) = [''sites-enabled'']"
  "pa_snapshots (oe_paths demo_env) = [''s'']" "pa_enforce_root_ownership (oe_paths demo_env)"
  "oe_ledger demo_env = run_env" "ledger_env_of demo_env = run_env"
  by (simp_all add: demo_env_def default_paths_def Let_def ledger_env_of_def run_env_def sample_env_def)

lemma demo_read_enabled:
  "site_nodes on fs \<Longrightarrow> read_enabled (oe_paths demo_env) ''a'' [''sites-available'', ''a''] fs = (Inr on, fs)"
  by (cases on) (auto simp: read_enabled_def site_nodes_def run_fs demo_node_def is_symlink_def)

lemma demo_validate_root:
  "site_nodes on fs \<Longrightarrow> validate_root [''sites-available''] True fs = (Inr (), fs)"
  "site_nodes on fs \<Longrightarrow> validate_root [''sites-enabled''] True fs = (Inr (), fs)"
  by (simp_all add: validate_root_def site_nodes_def run_fs demo_node_def is_symlink_def is_dir_def)

lemma demo_content:
  "site_nodes on fs \<Longrightarrow> read_available_content (oe_paths demo_env) ''a'' fs =
    (Inr (''server'', demo_node (FileNode ''server'') 420, False), fs)"
proof -
  have "\<not> nginx_management_config ''server''" by code_simp
  then show "site_nodes on fs \<Longrightarrow> ?thesis"
    by (simp add: read_available_content_def open_available_linux_def site_nodes_def run_fs demo_node_def is_symlink_def
        node_content_def AVAILABLE_FILE_MAX_BYTES_def)
qed

lemma demo_discover:
  assumes "site_nodes on fs"
  shows "discover_site demo_env demo_id fs = (Inr (demo_site on), fs)"
proof -
  have "read_dir [''sites-available''] fs = (Inr [''a''], fs)"
    using assms by (simp add: site_nodes_def run_fs demo_node_def is_dir_def)
  moreover have "next_entry fs = (Inr (), fs)" using assms by (simp add: next_entry_def quiet_io site_nodes_def)
  moreover have "safe_basename ''a'' = Inr ''a''" "\<not> nginx_internal_temporary_name ''a''"
    by code_simp+
  moreover have "nginx_site_id h (oe_base64 demo_env) l n = demo_id" for h l n
    by (simp add: nginx_site_id_def demo_env_def demo_id_def)
  ultimately show ?thesis
    using demo_validate_root [OF assms] demo_content [OF assms] demo_read_enabled [OF assms]
    by (simp add: discover_site_def Let_def run_apply validate_available_metadata_def demo_node_def is_file_def demo_site_def
        demo_digest_def MANAGEMENT_SITE_def)
qed

lemma children_put: "p \<noteq> [] \<Longrightarrow> butlast p \<noteq> dir \<Longrightarrow> children (put_node p n fs) dir = children fs dir"
proof -
  assume "p \<noteq> []" "butlast p \<noteq> dir"
  then have "filter (\<lambda>e. fst e \<noteq> [] \<and> butlast (fst e) = dir) (put_entry p n es) = filter (\<lambda>e. fst e \<noteq> [] \<and> butlast (fst e) = dir) es" for es
    by (induction es) auto
  then show ?thesis by (simp add: children_def put_node_def)
qed

lemma children_drop: "butlast p \<noteq> dir \<Longrightarrow> children (drop_node p fs) dir = children fs dir"
  by (auto simp: children_def drop_node_def intro!: arg_cong [of _ _ "map _"] filter_cong)

lemma fs_fields [simp]:
  "fs_faults (put_node p n fs) = fs_faults fs" "fs_faults (drop_node p fs) = fs_faults fs"
  "fs_uid (put_node p n fs) = fs_uid fs" "fs_uid (drop_node p fs) = fs_uid fs"
  "fs_gid (put_node p n fs) = fs_gid fs" "fs_gid (drop_node p fs) = fs_gid fs"
  by (simp_all add: put_node_def drop_node_def)

abbreviation relinked :: inode where
  "relinked \<equiv> demo_node (LinkNode False [''..'', ''sites-available'', ''a'']) 511"

lemma site_nodes_switch:
  "site_nodes on fs \<Longrightarrow> site_nodes False (drop_node demo_link fs)"
  "site_nodes on fs \<Longrightarrow> site_nodes True (put_node demo_link relinked fs)"
  by (simp_all add: site_nodes_def children_put children_drop)

lemma demo_disable:
  assumes "site_nodes True fs"
  shows "set_enabled (oe_paths demo_env) (demo_site b) False fs = (Inr (), drop_node demo_link fs)"
proof -
  have "unlinkat [''sites-enabled''] ''a'' fs = (Inr (), drop_node demo_link fs)"
    using assms by (simp add: unlinkat_def run_fs site_nodes_def demo_node_def is_dir_def)
  moreover have "open_file [''sites-enabled''] fs = (Inr [''sites-enabled''], fs)"
      "open_file [''sites-enabled''] (drop_node demo_link fs) = (Inr [''sites-enabled''], drop_node demo_link fs)"
    using assms by (simp_all add: run_fs site_nodes_def demo_node_def)
  moreover have "sync_all [''sites-enabled''] (drop_node demo_link fs) = (Inr (), drop_node demo_link fs)"
    using assms by (simp add: run_fs site_nodes_def)
  ultimately show ?thesis
    using demo_read_enabled [OF assms] demo_read_enabled [OF site_nodes_switch(1) [OF assms]]
    by (simp add: set_enabled_def set_enabled_linux_def Let_def run_apply demo_site_def)
qed

lemma demo_enable:
  assumes "site_nodes False fs"
  shows "set_enabled (oe_paths demo_env) (demo_site b) True fs = (Inr (), put_node demo_link relinked fs)"
proof -
  have "symlinkat [''..'', ''sites-available'', ''a''] [''sites-enabled''] ''a'' fs = (Inr (), put_node demo_link relinked fs)"
    using assms by (simp add: symlinkat_def run_fs site_nodes_def demo_node_def add_node_def new_inode_def)
  moreover have "open_file [''sites-enabled''] fs = (Inr [''sites-enabled''], fs)"
      "open_file [''sites-enabled''] (put_node demo_link relinked fs) = (Inr [''sites-enabled''], put_node demo_link relinked fs)"
    using assms by (simp_all add: run_fs site_nodes_def demo_node_def)
  moreover have "sync_all [''sites-enabled''] (put_node demo_link relinked fs) = (Inr (), put_node demo_link relinked fs)"
    using assms by (simp add: run_fs site_nodes_def)
  ultimately show ?thesis
    using demo_read_enabled [OF assms] demo_read_enabled [OF site_nodes_switch(2) [OF assms]]
    by (simp add: set_enabled_def set_enabled_linux_def Let_def run_apply demo_site_def)
qed

text \<open>The snapshot of the operation \<^verbatim>\<open>op\<close>.\<close>

definition demo_record :: snapshot_record where
  "demo_record = \<lparr> sn_relative_path = ''op/nginx-link.json'', sn_digest = sha256_digest (le_sha256 run_env) ''snapshot'' \<rparr>"

definition demo_saved :: filesystem where
  "demo_saved = demo_fs\<lparr>fs_nodes := fs_nodes demo_fs @ [([''s'', ''op''], demo_node DirNode 448),
     ([''s'', ''op'', ''nginx-link.json''], demo_node (FileNode ''snapshot'') 384)]\<rparr>"

definition snap_nodes :: "filesystem \<Rightarrow> bool" where
  "snap_nodes fs =
    (fs_faults fs = [] \<and> node_at fs [''s''] = Some (demo_node DirNode 448)
     \<and> node_at fs [''s'', ''op''] = Some (demo_node DirNode 448)
     \<and> node_at fs [''s'', ''op'', ''nginx-link.json''] = Some (demo_node (FileNode ''snapshot'') 384))"

lemma snap_nodes_switch:
  "snap_nodes fs \<Longrightarrow> snap_nodes (drop_node demo_link fs)" "snap_nodes fs \<Longrightarrow> snap_nodes (put_node demo_link relinked fs)"
  by (simp_all add: snap_nodes_def)

lemma demo_saved_nodes: "site_nodes True demo_saved" "snap_nodes demo_saved"
  by (simp_all add: demo_saved_def site_nodes_def snap_nodes_def demo_fs_def node_at_def children_def)

lemma demo_split: "split_on (CHR ''/'') ''op/nginx-link.json'' = [''op'', ''nginx-link.json'']" "split_on (CHR ''/'') ''op'' = [''op'']"
  by code_simp+

lemma demo_prepare: "prepare_private_root [''s''] True demo_fs = (Inr (), demo_fs)"
  by (simp add: prepare_private_root_def run_fs create_dir_all_def demo_fs_def node_at_def put_node_def demo_node_def
      set_mode_def set_permissions_def validate_private_directory_def is_dir_def is_symlink_def foreign_bits_def)

lemma demo_write:
  "write_nginx_snapshot demo_env ''op'' demo_snapshot demo_fs = (Inr demo_record, demo_saved)"
proof -
  have "oc_ser_nginx_snapshot (oe_codec demo_env) demo_snapshot = ''snapshot''" "po_snapshot_min_free_bytes (oe_policy demo_env) = 4194304"
    by (simp_all add: demo_env_def default_policy_def)
  then show ?thesis
    unfolding write_nginx_snapshot_def write_snapshot_bytes_def Let_def
    by (simp add: run_apply(1) [of "prepare_private_root _ _"] demo_prepare)
      (simp add: run_fs join_relative_def demo_split require_capacity_def statvfs_free_def u64_max_def
        create_dir_def set_mode_def set_permissions_def validate_private_directory_def create_new_def set_file_mode_def
        fchmod_def change_node_def write_all_def append_bytes_def add_node_def new_inode_def node_at_def put_node_def
        demo_node_def is_dir_def is_symlink_def foreign_bits_def demo_record_def node_content_def demo_saved_def
        demo_fs_def)
qed

lemma demo_read:
  assumes "snap_nodes fs"
  shows "read_nginx_snapshot demo_env demo_record fs = (Inr demo_snapshot, fs)"
proof -
  have priv: "validate_private_directory [''s''] True fs = (Inr (), fs)" "validate_private_directory [''s'', ''op''] True fs = (Inr (), fs)"
    using assms by (simp_all add: validate_private_directory_def snap_nodes_def run_fs demo_node_def is_dir_def is_symlink_def foreign_bits_def)
  have start: "\<not> starts_with ''/'' ''op/nginx-link.json''" by code_simp
  have "read_snapshot_bytes demo_env demo_record (64 * 1024) fs = (Inr ''snapshot'', fs)"
    using assms priv start
    by (simp add: read_snapshot_bytes_def demo_record_def Let_def run_fs demo_split join_relative_def snap_nodes_def demo_node_def
        is_file_def is_symlink_def node_content_def foreign_bits_def)
  then show ?thesis
    by (simp add: read_nginx_snapshot_def read_document_def run_apply demo_env_def)
qed

section \<open>The approved operation\<close>

definition demo_plan :: stored_plan where
  "demo_plan = (run_plan ''p'' NGINX_SITE_STATE_OPERATION)\<lparr>sp_site_id := demo_id, sp_available_digest := demo_digest,
     sp_enabled_state_digest := nginx_enabled_state_digest (le_sha256 run_env) True\<rparr>"

text \<open>A ledger with one approved plan.\<close>

definition planned_ledger :: "stored_plan \<Rightarrow> ledger" where
  "planned_ledger plan = snd (create_or_reuse_plan run_env plan fresh_ledger)"

definition approved_ledger :: "stored_plan \<Rightarrow> ledger" where
  "approved_ledger plan =
    snd (begin_operation run_env ''op'' (sp_plan_id plan) (sp_plan_hash plan) (sp_idempotency_key plan) (sp_actor plan) 20
      (planned_ledger plan))"

definition approved_operation :: "stored_plan \<Rightarrow> stored_operation" where
  "approved_operation plan =
    \<lparr> so_operation_id = ''op'', so_plan = plan, so_stage = Approved, so_before_digest = plan_before_digest plan,
      so_after_digest = plan_before_digest plan, so_rollback_result = None, so_snapshot = None \<rparr>"

definition plan_ready :: "stored_plan \<Rightarrow> bool" where
  "plan_ready plan =
    (subj_uid (sp_actor plan) \<le> 4294967295 \<and> 0 \<le> sp_created_at_ms plan \<and> 20 < sp_expires_at_ms plan
     \<and> sp_resource_key plan \<noteq> nginx_reload_key)"

lemma planned_eq: "planned_ledger plan = fresh_ledger\<lparr>lg_tables := with_plan plan (lg_tables fresh_ledger)\<rparr>"
  unfolding planned_ledger_def by (subst run_create [OF fresh_run_state]) (simp_all add: fresh_ledger_def)

lemma planned_state: "run_state (planned_ledger plan)"
  unfolding planned_eq by (rule run_state_with(1) [OF fresh_run_state]) (simp add: fresh_ledger_def)

lemma planned_loads:
  "plan_ready plan \<Longrightarrow> load_plan_from run_env (sp_plan_id plan) (lg_tables (planned_ledger plan)) = Inr plan"
  using run_env_ok plan_row_inverse [of "le_serde run_env" plan]
  by (simp add: load_plan_from_def planned_eq with_plan_def fresh_ledger_def env_ok_def row_of_plan_def plan_ready_def)

lemma approved_eq:
  "plan_ready plan \<Longrightarrow>
    approved_ledger plan = (planned_ledger plan)\<lparr>lg_tables := with_operation ''op'' plan 20 (lg_tables (planned_ledger plan))\<rparr>"
  using run_begin [OF planned_state planned_loads, of plan 20 "''op''"]
  by (simp add: approved_ledger_def planned_eq with_plan_def fresh_ledger_def plan_ready_def)

lemma approved_run: "ledger_run run_env fresh_ledger (approved_ledger plan)"
proof -
  have "ledger_run run_env fresh_ledger (planned_ledger plan)"
    unfolding planned_ledger_def by (rule r_into_rtranclp, rule step_create)
  then show ?thesis
    unfolding approved_ledger_def by (rule rtranclp.rtrancl_into_rtrancl) (simp add: step_begin)
qed

lemma approved_works:
  assumes "plan_ready plan"
  shows "works 2 ''op'' (approved_operation plan) (approved_ledger plan)"
proof -
  have "load_plan_from run_env (sp_plan_id plan) (lg_tables (approved_ledger plan)) = Inr plan"
    using planned_loads [OF assms] by (simp add: approved_eq [OF assms] load_plan_from_def with_operation_def)
  moreover have "t_operations (lg_tables (planned_ledger plan)) = []"
    by (simp add: planned_eq with_plan_def fresh_ledger_def)
  moreover have "parse_stage ''APPROVED'' = Inr Approved" by code_simp
  ultimately have "load_operation_from run_env ''op'' (lg_tables (approved_ledger plan)) = Inr (approved_operation plan)"
    by (simp add: approved_eq [OF assms] load_operation_from_def with_operation_def approved_operation_def)
  moreover have "run_state (approved_ledger plan)"
    unfolding approved_eq [OF assms]
    by (rule run_state_with(2) [OF planned_state]) (simp add: planned_eq with_plan_def fresh_ledger_def)
  moreover have "length (t_events (lg_tables (approved_ledger plan))) = 2" "readable (lg_tables (approved_ledger plan))"
    using assms
    by (auto simp: approved_eq [OF assms] with_operation_def planned_eq with_plan_def fresh_ledger_def readable_def run_row_def
        plan_ready_def simp del: as_storage_value.simps)
  ultimately show ?thesis
    using run_inv [OF run_env_ok approved_run] by (simp add: works_def)
qed

text \<open>The plan of the scenario.\<close>

abbreviation demo_planned :: ledger where
  "demo_planned \<equiv> planned_ledger demo_plan"

abbreviation demo_approved :: ledger where
  "demo_approved \<equiv> approved_ledger demo_plan"

definition demo_operation :: stored_operation where
  "demo_operation =
    \<lparr> so_operation_id = ''op'', so_plan = demo_plan, so_stage = Approved,
      so_before_digest = nginx_enabled_state_digest (le_sha256 run_env) True,
      so_after_digest = nginx_enabled_state_digest (le_sha256 run_env) True, so_rollback_result = None,
      so_snapshot = None \<rparr>"

lemma demo_plan_fields [simp]:
  "sp_plan_id demo_plan = ''p''" "sp_plan_hash demo_plan = ''p''" "sp_idempotency_key demo_plan = ''p''"
  "sp_resource_key demo_plan = ''p''" "sp_operation_type demo_plan = NGINX_SITE_STATE_OPERATION"
  "sp_expires_at_ms demo_plan = 600010" "sp_created_at_ms demo_plan = 10"
  "sp_site_id demo_plan = demo_id" "sp_current_state demo_plan = Enabled" "sp_target_state demo_plan = Disabled"
  "sp_available_digest demo_plan = demo_digest"
  "sp_enabled_state_digest demo_plan = nginx_enabled_state_digest (le_sha256 run_env) True"
  "no_proposal demo_plan" "subj_uid (sp_actor demo_plan) = 1000"
  by (simp_all add: demo_plan_def run_plan_def no_proposal_def)

lemma demo_ready: "plan_ready demo_plan"
  by (simp add: plan_ready_def nginx_reload_key_def)

lemmas demo_planned_eq = planned_eq [of demo_plan]
lemmas demo_approved_eq = approved_eq [OF demo_ready]
lemmas demo_approved_run = approved_run [of demo_plan]

lemma demo_works: "works 2 ''op'' demo_operation demo_approved"
proof -
  have "approved_operation demo_plan = demo_operation"
    by (simp add: approved_operation_def demo_operation_def plan_before_digest_def operation_name_defs)
  then show ?thesis using approved_works [OF demo_ready] by simp
qed

section \<open>Following the executions\<close>

definition at :: "nat \<Rightarrow> stored_operation \<Rightarrow> filesystem \<Rightarrow> 'h \<Rightarrow> 'h world \<Rightarrow> bool" where
  "at n opn fs h w = (works n ''op'' opn (w_ledger w) \<and> w_fs w = fs \<and> w_host w = h)"

text \<open>The first group holds in every environment whose ledger is the one of the scenario.\<close>

lemma host_transition:
  assumes env: "ledger_env_of env = run_env"
    and "at n opn fs h w" "n < 98" "so_stage opn \<in> set (ch_expected ch)" "change_ok ch" "0 \<le> ch_now_ms ch"
    and "\<And>w'. at (Suc n) (after_change ch opn) fs h w' \<Longrightarrow> Q (after_change ch opn) w'"
  shows "wp (do_transition env ''op'' ch) Q E w"
  unfolding do_transition_def on_ledger_def wp_within env
  by (rule wp_mono [OF works_transition]) (use assms(2-) in \<open>auto simp: at_def\<close>)

lemma host_attach:
  assumes env: "ledger_env_of env = run_env"
    and "at n opn fs h w" "n < 98" "so_stage opn = Approved" "0 \<le> now"
    and "\<And>w'. at (Suc n) (with_snapshot sn opn) fs h w' \<Longrightarrow> Q (with_snapshot sn opn) w'"
  shows "wp (on_ledger (attach_snapshot (ledger_env_of env) ''op'' sn now)) Q E w"
  unfolding on_ledger_def wp_within env
  by (rule wp_mono [OF works_attach]) (use assms(2-) in \<open>auto simp: at_def\<close>)

lemma host_load:
  assumes env: "ledger_env_of env = run_env"
    and "at n opn fs h w" "\<And>w'. at n opn fs h w' \<Longrightarrow> Q opn w'"
  shows "wp (do_load env ''op'') Q E w"
  using works_load [of n "''op''" opn "w_ledger w"] assms(2-)
  unfolding do_load_def on_ledger_def wp_within env by (simp add: wp_def at_def)

lemma host_receipt:
  assumes env: "ledger_env_of env = run_env"
    and "at n opn fs h w" and "\<And>r w'. rv_terminal_state r = so_stage opn \<Longrightarrow> at n opn fs h w' \<Longrightarrow> Q r w'"
  shows "wp (do_receipt env ''op'') Q E w"
proof -
  obtain r where "receipt run_env ''op'' (w_ledger w) = (Inr r, w_ledger w)" "rv_terminal_state r = so_stage opn"
    using works_receipt [of n "''op''" opn "w_ledger w"] assms(2) by (auto simp: at_def)
  with assms(2-) show ?thesis
    unfolding do_receipt_def on_ledger_def wp_within env by (simp add: wp_def)
qed

lemma at_files:
  assumes "at n opn fs h w" "m fs = (Inr x, fs')" "\<And>w'. at n opn fs' h w' \<Longrightarrow> Q x w'"
  shows "wp (on_files m) Q E w"
  unfolding on_files_def wp_within using assms by (simp add: wp_def at_def)

lemma at_id: "at n opn fs h w \<Longrightarrow> so_operation_id opn = ''op''"
  by (auto simp: at_def works_def dest: load_operation_id)

lemma host_finish:
  assumes env: "ledger_env_of env = run_env"
    and "at n opn fs h w" "n < 98" "so_stage opn \<in> set (ch_expected ch)" "change_ok ch" "0 \<le> ch_now_ms ch"
    and "\<And>r w'. rv_terminal_state r = ch_next ch \<Longrightarrow> Q r w'"
  shows "wp (finish env ''op'' ch) Q E w"
  unfolding finish_def wp_bindM
proof (rule host_transition [OF assms(1-6)], goal_cases)
  case (1 w')
  show ?case unfolding at_id [OF 1] by (rule host_receipt [OF env 1]) (use assms(7) in simp)
qed

lemmas at_transition = host_transition [OF demo_paths(6)]
lemmas at_attach = host_attach [OF demo_paths(6)]
lemmas at_load = host_load [OF demo_paths(6)]
lemmas at_receipt = host_receipt [OF demo_paths(6)]
lemmas at_finish = host_finish [OF demo_paths(6)]

lemma at_command:
  assumes "at n opn fs (b # h) w" "\<And>w'. at n opn fs h w' \<Longrightarrow> Q (demo_evidence c b) w'"
  shows "wp (run_command demo_env c) Q E w"
proof -
  have "run_command demo_env c w = (Inr (demo_evidence c b), w\<lparr>w_host := h\<rparr>)"
    using assms(1) by (simp add: run_command_def demo_env_def demo_runner_def at_def)
  with assms show ?thesis by (simp add: wp_def at_def)
qed

text \<open>The stages of the operation after its snapshot.\<close>

definition demo_stage :: "operation_stage \<Rightarrow> stored_operation \<Rightarrow> bool" where
  "demo_stage st opn = (so_stage opn = st \<and> so_plan opn = demo_plan \<and> so_operation_id opn = ''op''
     \<and> so_snapshot opn = Some demo_record)"

lemma demo_evidence_success [simp]: "ce_success (demo_evidence c b) = b"
  by (simp add: demo_evidence_def)

lemma stage_step_now [simp]: "ch_now_ms (stage_step ex nx c ev a r t) = t"
  by (simp add: stage_step_def)

lemma demo_stage_step:
  "demo_stage st opn \<Longrightarrow> demo_stage nx (after_change (stage_step ex nx c ev a r t) opn)"
  by (simp add: demo_stage_def stage_step_def after_change_def)

lemma run_verify:
  assumes w: "at n opn fs (True # h) w" "demo_stage Verifying opn" "n < 92" "site_nodes False fs"
    and sn: "so_plan sn = demo_plan" "so_operation_id sn = ''op''"
  shows "wp (verify_nginx demo_env sn 30) (\<lambda>r w'. rv_terminal_state r = Succeeded) E w"
  unfolding verify_nginx_def Let_def sn wp_attempt demo_plan_fields
proof (rule at_files [OF w(1)], rule demo_discover [OF w(4)], simp only: sum.case wp_attempt, rule at_command, assumption, goal_cases)
  case (1 w1 w2)
  show ?case
    by (simp add: demo_site_def, rule at_finish [OF 1(2)]) (use w in \<open>auto simp: demo_stage_def\<close>)
qed

lemma run_reload:
  assumes w: "at n opn fs (True # True # h) w" "demo_stage Reloading opn" "n < 91" "site_nodes False fs"
    and sn: "so_plan sn = demo_plan" "so_operation_id sn = ''op''"
  shows "wp (reload_nginx demo_env sn 30) (\<lambda>r w'. rv_terminal_state r = Succeeded) E w"
  unfolding reload_nginx_def Let_def sn wp_attempt
proof (rule at_command [OF w(1)], simp add: wp_bindM, rule at_transition, assumption, goal_cases)
  case (5 w1 w2)
  show ?case
    by (rule run_verify [OF 5(2)]) (use w sn in \<open>auto intro: demo_stage_step\<close>)
qed (use w in \<open>auto simp: demo_stage_def\<close>)

lemma run_rollback_verify:
  assumes w: "at n opn fs h w" "demo_stage RollingBack opn" "n < 90" "site_nodes True fs"
  shows "wp (rollback_verify demo_env ''op'' demo_snapshot
      (demo_evidence c1 True, demo_evidence c2 True, demo_evidence c3 True) 30) (\<lambda>r w'. rv_terminal_state r = RolledBack) E w"
proof -
  have id: "nl_site_id demo_snapshot = demo_id" by (simp add: demo_snapshot_def)
  have same: "ns_available_digest (demo_site True) = nl_available_digest demo_snapshot"
      "ns_enabled_state_digest (demo_site True) = nl_enabled_state_digest demo_snapshot"
    by (simp_all add: demo_site_def demo_snapshot_def)
  show ?thesis
    unfolding rollback_verify_def prod.case wp_attempt id
  proof (rule at_files [OF w(1)], rule demo_discover [OF w(4)], simp add: same wp_bindM, rule at_transition, assumption, goal_cases)
    case (5 w1 w2)
    show ?case
      unfolding at_id [OF 5(2)] wp_bindM [of "do_receipt _ _"]
      by (rule at_receipt [OF 5(2)])
        (use w in \<open>simp add: remove_no_proposal demo_stage_def wp_ret wp_bindM\<close>)
  qed (use w in \<open>auto simp: demo_stage_def\<close>)
qed

lemma run_rollback_restore:
  assumes w: "at n opn fs (True # True # True # h) w" "demo_stage RollingBack opn" "n < 90" "site_nodes False fs"
  shows "wp (rollback_restore demo_env ''op'' demo_snapshot 30) (\<lambda>r w'. rv_terminal_state r = RolledBack) E w"
proof -
  have sn: "nl_site_id demo_snapshot = demo_id" "nl_enabled demo_snapshot" by (simp_all add: demo_snapshot_def)
  show ?thesis
    unfolding rollback_restore_def wp_attempt sn
    apply (rule at_files [OF w(1)], rule demo_discover [OF w(4)])
    apply (simp only: sum.case wp_attempt sn)
    apply (rule at_files, assumption, rule demo_enable [OF w(4)])
    apply (simp only: sum.case wp_attempt rollback_commands_def wp_bindM)
    apply (rule at_command, assumption, simp only: demo_evidence_success if_True wp_bindM wp_ret sum.case)+
    apply (rule run_rollback_verify, assumption)
    using w site_nodes_switch by auto
qed

lemma run_rollback:
  assumes w: "at n opn fs (True # True # True # h) w" "demo_stage Validating opn" "n < 80" "site_nodes False fs" "snap_nodes fs"
  shows "wp (rollback demo_env ''op'' c ev 30) (\<lambda>r w'. rv_terminal_state r = RolledBack) E w"
  unfolding rollback_def enter_rollback_def wp_bindM
proof (rule at_load [OF w(1)], goal_cases)
  case (1 w1)
  let ?ch = "stage_step rollback_stages RollingBack c ev None None 30"
  have st: "so_stage opn \<noteq> RollingBack" "demo_stage RollingBack (after_change ?ch opn)"
    using w(2) demo_stage_step by (auto simp: demo_stage_def)
  then have sn: "so_snapshot (after_change ?ch opn) = Some demo_record" by (simp add: demo_stage_def)
  show ?case
    unfolding if_not_P [OF st(1)]
  proof (rule at_transition [OF 1], goal_cases)
    case (5 w2)
    show ?case
      unfolding sn option.case wp_attempt
      by (rule at_files [OF 5], rule demo_read [OF w(5)], simp only: sum.case, rule run_rollback_restore)
        (use w st in auto)
  qed (use w in \<open>auto simp: demo_stage_def rollback_stages_def\<close>)
qed

lemma run_test:
  assumes w: "at n opn fs (b # True # True # (if b then h else True # h)) w" "demo_stage Validating opn" "n < 80"
      "site_nodes False fs" "snap_nodes fs"
    and sn: "so_plan sn = demo_plan" "so_operation_id sn = ''op''"
  shows "wp (test_nginx demo_env sn 30) (\<lambda>r w'. rv_terminal_state r = (if b then Succeeded else RolledBack)) E w"
proof (cases b)
  case True
  show ?thesis
    unfolding test_nginx_def Let_def sn wp_attempt
  proof (rule at_command [OF w(1)], simp add: wp_bindM True, rule at_transition, assumption, goal_cases)
    case (5 w1 w2)
    show ?case
      by (rule run_reload [OF 5(2)]) (use w sn in \<open>auto intro: demo_stage_step\<close>)
  qed (use w in \<open>auto simp: demo_stage_def\<close>)
next
  case False
  show ?thesis
    unfolding test_nginx_def Let_def sn wp_attempt
  proof (rule at_command [OF w(1)], simp add: wp_bindM False, goal_cases)
    case (1 w1)
    then show ?case by (intro run_rollback [of n opn fs h]) (use w in auto)
  qed
qed

lemma run_apply_nginx:
  assumes w: "at n opn demo_saved (b # True # True # (if b then h else True # h)) w" "demo_stage Snapshotted opn" "n < 70"
  shows "wp (apply_nginx demo_env opn (demo_site True) 30)
    (\<lambda>r w'. rv_terminal_state r = (if b then Succeeded else RolledBack)) E w"
proof -
  have sn: "so_plan opn = demo_plan" "so_operation_id opn = ''op''" using w(2) by (auto simp: demo_stage_def)
  show ?thesis
    unfolding apply_nginx_def Let_def sn wp_bindM demo_plan_fields
  proof (rule at_transition [OF w(1)], goal_cases)
    case (5 w1)
    show ?case
      unfolding wp_attempt
    proof (rule at_files [OF 5], simp only: operation_stage.distinct nginx_site_state.distinct, rule demo_disable [OF demo_saved_nodes(1)],
        simp only: sum.case wp_bindM, rule at_transition, assumption, goal_cases)
      case (5 w1 w2)
      show ?case
        by (rule run_test [OF 5(2)])
          (use w sn demo_saved_nodes site_nodes_switch snap_nodes_switch in \<open>auto intro!: demo_stage_step\<close>)
    qed (use w in \<open>auto simp: demo_stage_def\<close>)
  qed (use w in \<open>auto simp: demo_stage_def\<close>)
qed

lemma run_execute:
  assumes w: "at 2 demo_operation demo_fs (b # True # True # (if b then h else True # h)) w"
  shows "wp (execute_nginx demo_env demo_operation 30) (\<lambda>r w'. rv_terminal_state r = (if b then Succeeded else RolledBack)) E w"
proof -
  have sn: "so_plan demo_operation = demo_plan" "so_operation_id demo_operation = ''op''" "so_stage demo_operation = Approved"
    by (simp_all add: demo_operation_def)
  have site: "\<not> ns_protected (demo_site True)" "ns_available_digest (demo_site True) = demo_digest"
      "ns_enabled_state_digest (demo_site True) = nginx_enabled_state_digest (le_sha256 run_env) True" "ns_state (demo_site True) = Enabled"
    by (simp_all add: demo_site_def)
  have snap: "\<lparr> nl_schema_version = 1, nl_site_id = ns_site_id (demo_site True), nl_basename = ns_basename (demo_site True),
      nl_enabled = (ns_state (demo_site True) = Enabled), nl_available_digest = ns_available_digest (demo_site True),
      nl_enabled_state_digest = ns_enabled_state_digest (demo_site True) \<rparr> = demo_snapshot"
    by (simp add: demo_site_def demo_snapshot_def)
  have pre: "wp (validate_precondition demo_env demo_operation) Q E' w"
    if "\<And>w'. at 2 demo_operation demo_fs (b # True # True # (if b then h else True # h)) w' \<Longrightarrow> Q (demo_site True) w'" for Q E'
    unfolding validate_precondition_def Let_def sn wp_bindM demo_plan_fields
    by (rule at_files [OF w], rule demo_discover [OF site_nodes_fs]) (simp add: site wp_ret that)
  show ?thesis
    unfolding execute_nginx_def Let_def sn wp_attempt
  proof (rule pre, simp only: sum.case wp_attempt snap, rule at_files, assumption, rule demo_write, simp only: sum.case wp_bindM,
      rule at_attach, assumption, goal_cases)
    case (4 w1 w2 w3)
    have ne: "sp_current_state (so_plan (with_snapshot demo_record demo_operation))
        \<noteq> sp_target_state (so_plan (with_snapshot demo_record demo_operation))" by (simp add: sn)
    show ?case
      unfolding if_not_P [OF ne] by (rule run_apply_nginx [OF 4(3)]) (simp_all add: demo_stage_def sn with_snapshot_def)
  qed (simp_all add: sn)
qed

section \<open>Witnesses\<close>

definition demo_world :: "bool list \<Rightarrow> bool list world" where
  "demo_world h = \<lparr> w_ledger = demo_approved, w_fs = demo_fs, w_lockdown = False, w_entropy = [], w_host = h \<rparr>"

lemma demo_start:
  "env_ok (ledger_env_of demo_env)" "ledger_run (ledger_env_of demo_env) fresh_ledger (w_ledger (demo_world h))"
  "load_operation_from (ledger_env_of demo_env) ''op'' (lg_tables (w_ledger (demo_world h))) = Inr demo_operation"
  "so_stage demo_operation = Approved" "no_proposal (so_plan demo_operation)"
  using run_env_ok demo_approved_run demo_works
  by (simp_all add: demo_world_def works_def) (simp_all add: demo_operation_def)

lemma demo_runs:
  "\<exists>rv w'. execute_nginx demo_env demo_operation 30 (demo_world [True, True, True]) = (Inr rv, w') \<and> rv_terminal_state rv = Succeeded"
  "\<exists>rv w'. execute_nginx demo_env demo_operation 30 (demo_world [False, True, True, True]) = (Inr rv, w') \<and> rv_terminal_state rv = RolledBack"
  using run_execute [of True "[]" "demo_world [True, True, True]" "\<lambda>_ _. False"]
    run_execute [of False "[]" "demo_world [False, True, True, True]" "\<lambda>_ _. False"] demo_works
  by (auto simp: wp_def at_def demo_world_def split: prod.splits sum.splits)



theorem nginx_rollback_is_on_disk_witness:
  "\<exists>rv w' opn'. execute_nginx demo_env demo_operation 30 (demo_world [False, True, True, True]) = (Inr rv, w')
    \<and> load_operation_from run_env ''op'' (lg_tables (w_ledger w')) = Inr opn' \<and> site_restored demo_env opn' (w_fs w')"
proof -
  obtain rv w' where run: "execute_nginx demo_env demo_operation 30 (demo_world [False, True, True, True]) = (Inr rv, w')"
      "rv_terminal_state rv = RolledBack" using demo_runs(2) by blast
  show ?thesis using nginx_rollback_is_on_disk [OF demo_start run] run(1) by auto
qed

end
