(* ===== verification/Daemon_Scenario.thy ===== *)
theory Daemon_Scenario
  imports Engine_Settles Engine_Scenario
begin

text \<open>
  Concrete runs of the whole daemon on the host of the scenario: a start on an empty ledger, the
  execution of the approved operation through its request handler, and a start that finds the
  operation approved but not begun.  The theorems at the end apply the guarantees to these runs.
\<close>

section \<open>Openings that meet no fault\<close>

lemma open_quiet:
  assumes "ledger_inv run_env l" "run_state l" "schema_clean (lg_schema l)"
  shows "\<exists>l'. open_ledger_file run_env l = (Inr (), l') \<and> lg_tables l' = lg_tables l \<and> lg_faults l' = []
    \<and> ledger_inv run_env l'"
proof -
  let ?t = "lg_tables l" and ?s = "lg_schema l"
  have l: "lg_faults l = []" "t_pending ?t = None" "int (length (t_events ?t)) < i64_max"
    using assms(2) by (auto simp: run_state_def i64_max_def)
  have start: "phase_post run_env {} ?t ?s any_files l" using assms(1) l by (simp add: phase_post_def)
  have last: "wp (complete_pending_checkpoint run_env) (\<lambda>_. phase_post run_env {} ?t s any_files)
      (phase_error run_env {} False) m" if "phase_post run_env {} ?t s any_files m" for m s
    using that l(2) by (simp add: wp_def quiet_complete phase_post_def)
  have "wp (open_ledger_file run_env) (\<lambda>_. phase_post run_env {} ?t
        (apply_migrations (drop (nat (sc_user_version ?s - 1)) all_migrations) ?s) any_files)
      (phase_error run_env {} False) l"
    unfolding open_ledger_file_def wp_bindM
    by (rule wp_mono [OF wp_phase_prepare [OF run_env_ok start]],
        rule wp_mono [OF wp_phase_sqlite_open [OF run_env_ok]], assumption,
        rule wp_mono [OF wp_phase_migrate], assumption, rule assms(3),
        rule wp_mono [OF wp_phase_secure], assumption,
        rule wp_mono [OF wp_phase_continuity [OF _ l(3)]], assumption, rule last)
  then show ?thesis
    by (cases "open_ledger_file run_env l")
      (auto simp: wp_def phase_post_def phase_error_def split: sum.splits)
qed

lemma fresh_schema_clean: "schema_clean (lg_schema fresh_ledger)"
  by (simp add: fresh_ledger_def schema_clean_def can_apply_def all_migrations_def column_migrations_def migration_names)

lemma demo_opens:
  "\<exists>l. open_ledger_file run_env demo_approved = (Inr (), l) \<and> works 2 ''op'' demo_operation l
    \<and> lg_tables l = lg_tables demo_approved"
proof -
  have "lg_schema demo_approved = lg_schema fresh_ledger" by (simp add: demo_approved_eq demo_planned_eq)
  then obtain l where "open_ledger_file run_env demo_approved = (Inr (), l)"
      "lg_tables l = lg_tables demo_approved" "lg_faults l = []" "ledger_inv run_env l"
    using open_quiet [of demo_approved] demo_works fresh_schema_clean by (auto simp: works_def)
  then show ?thesis using demo_works by (auto simp: works_def run_state_def)
qed

lemma demo_cleanup: "cleanup_internal_temporaries demo_env demo_fs = (Inr (), demo_fs)"
proof -
  have paths: "oe_paths demo_env = default_paths\<lparr>pa_nginx_available := [''sites-available''],
      pa_nginx_enabled := [''sites-enabled''], pa_snapshots := [''s'']\<rparr>" by (simp add: demo_env_def)
  have quiet: "fs_faults demo_fs = []" "node_at demo_fs [''etc''] = None" by (simp_all add: demo_fs_def node_at_def)
  have absent: "cleanup_temporaries_in_root (''etc'' # c # cs) True demo_fs = (Inr (), demo_fs)" for c cs
    by (simp add: cleanup_temporaries_in_root_def path_exists_def path_metadata_def run_fs quiet is_ok_def)
  have "path_exists [''sites-available''] demo_fs = (Inr True, demo_fs)" "read_dir [''sites-available''] demo_fs = (Inr [''a''], demo_fs)"
    using site_nodes_fs
    by (simp_all add: site_nodes_def path_exists_def path_metadata_def run_fs demo_node_def is_dir_def is_ok_def)
  moreover have "utf8_valid ''a''" "\<not> nginx_internal_temporary_name ''a''" by code_simp+
  ultimately have site: "cleanup_temporaries_in_root [''sites-available''] True demo_fs = (Inr (), demo_fs)"
    using demo_validate_root(1) [OF site_nodes_fs] quiet
    by (simp add: cleanup_temporaries_in_root_def run_apply next_entry_def quiet_io)
  show ?thesis
    by (simp add: cleanup_internal_temporaries_def Let_def paths default_paths_def cleanup_parent_temporaries_def
        bindM_def site absent)
qed

section \<open>The execution of the approved operation\<close>

lemma at_open:
  assumes "at 2 demo_operation fs h w" "w_ledger w = demo_approved"
    and "\<And>w'. at 2 demo_operation fs h w' \<Longrightarrow> lg_tables (w_ledger w') = lg_tables demo_approved \<Longrightarrow> Q () w'"
  shows "wp (on_ledger (open_ledger_file (ledger_env_of demo_env))) Q E w"
    and "wp (open_ledger demo_env) Q E w"
proof -
  obtain l where l: "open_ledger_file run_env (w_ledger w) = (Inr (), l)" "works 2 ''op'' demo_operation l"
      "lg_tables l = lg_tables demo_approved" using demo_opens assms(2) by auto
  show open_file: "wp (on_ledger (open_ledger_file (ledger_env_of demo_env))) Q E w"
    using l assms unfolding on_ledger_def wp_within demo_paths by (simp add: wp_def at_def)
  show "wp (open_ledger demo_env) Q E w"
    using l assms unfolding open_ledger_def wp_attempt on_ledger_def wp_within demo_paths
    by (simp add: wp_def at_def ret_def)
qed

lemma demo_at: "at 2 demo_operation demo_fs h (demo_world h)" "w_ledger (demo_world h) = demo_approved"
  using demo_works by (simp_all add: at_def demo_world_def)

lemma run_operation:
  "wp (execute_operation demo_env (sp_actor demo_plan) ''op'' 30) (\<lambda>r w'. rv_terminal_state r = Succeeded) E
    (demo_world [True, True, True])"
proof -
  have opn: "so_plan demo_operation = demo_plan" "so_stage demo_operation = Approved" by (simp_all add: demo_operation_def)
  show ?thesis
    unfolding execute_operation_def wp_bindM
  proof (rule at_open(2) [OF demo_at], rule at_load, assumption)
    fix w' assume "at 2 demo_operation demo_fs [True, True, True] w'"
    from run_execute [of True "[]" w' E] this
    show "wp (if sp_actor (so_plan demo_operation) \<noteq> sp_actor demo_plan then fail (Rejected ''operation_access_denied'')
        else if is_terminal (so_stage demo_operation) \<or> so_stage demo_operation \<noteq> Approved
        then do_receipt demo_env (so_operation_id demo_operation) else execute_by_type demo_env demo_operation 30)
        (\<lambda>r w'. rv_terminal_state r = Succeeded) E w'"
      by (simp add: opn execute_by_type_def operation_name_defs)
  qed
qed


section \<open>A start that finds the operation approved\<close>

lemma demo_incomplete:
  assumes "at 2 demo_operation fs h w" "lg_tables (w_ledger w) = lg_tables demo_approved"
  shows "on_ledger (incomplete_operations (ledger_env_of demo_env)) w = (Inr [demo_operation], w)"
proof -
  have opn: "load_operation_from run_env ''op'' (lg_tables demo_approved) = Inr demo_operation" "lg_faults (w_ledger w) = []"
    using demo_works assms by (simp_all add: works_def at_def run_state_def)
  have "''APPROVED'' \<notin> set terminal_storage_values" by code_simp
  then have "map or_operation_id (incomplete_rows (lg_tables demo_approved)) = [''op'']"
    by (simp add: incomplete_rows_def demo_approved_eq with_operation_def order_by_def demo_planned_eq with_plan_def
        fresh_ledger_def)
  then obtain r where "incomplete_rows (lg_tables demo_approved) = [r]" "or_operation_id r = ''op''" by auto
  then show ?thesis
    using opn assms(2) unfolding demo_paths incomplete_operations_def on_ledger_def within_def query_def
    by (simp add: run_apply quiet_access)
qed

lemma demo_proposal_free: "remove_plan_proposal demo_env demo_plan w = (Inr (), w)"
  by (simp add: remove_plan_proposal_def demo_plan_def run_plan_def run_apply)

text \<open>Transitions change no plan.\<close>

definition same_plans :: "ledger \<Rightarrow> ledger \<Rightarrow> bool" where
  "same_plans l l' = (t_plans (lg_tables l') = t_plans (lg_tables l))"

interpretation plans_rel: ledger_relation same_plans
  by unfold_locales (auto simp: same_plans_def)

lemma plans_transition: "moves same_plans (transition e i c)"
proof -
  have "moves same_plans (complete_pending_checkpoint e)"
    using rows_complete_pending [of e] same_rows_fields(3) by (fastforce simp: moves_def same_plans_def)
  moreover have appended: "t_plans t' = t_plans t" if "append_event e ev t = Inr (n, t')" for ev t n t'
    using that by (auto simp: append_event_def insert_event_def Let_def split: prod.splits if_splits)
  have "same_plans l (l\<lparr>lg_tables := t\<rparr>)" if "transition_body e i c None None (lg_tables l) = Inr (x, t)" for l x t
    by (rule transition_body_Inr [OF that])
      (auto simp: same_plans_def update_operations_def dest: appended)
  ultimately show ?thesis
    unfolding transition_def transition_internal_def
    by (intro plans_rel.moves_rules plans_rel.moves_transaction plans_rel.moves_load)
qed

definition site_plans :: "ledger \<Rightarrow> bool" where
  "site_plans l = list_all (\<lambda>r. pr_operation_type r = NGINX_SITE_STATE_OPERATION) (t_plans (lg_tables l))"

lemma at_expired:
  assumes "at n opn fs h w" "site_plans (w_ledger w)" and "Q () w"
  shows "wp (remove_expired_proposals demo_env 30) Q E w"
proof -
  have none: "filter (\<lambda>r. pr_operation_type r \<in> {MANAGED_CONFIG_OPERATION, MANAGED_CONFIG_RESTORE_OPERATION, CERTBOT_ISSUE_OPERATION}
       \<and> pr_expires_at_ms r \<le> 30 \<and> \<not> list_ex (\<lambda>opr. or_plan_id opr = pr_plan_id r) (t_operations (lg_tables (w_ledger w))))
       (t_plans (lg_tables (w_ledger w))) = []"
    using assms(2) by (auto simp: filter_empty_conv operation_name_defs site_plans_def list_all_iff)
  have "lg_faults (w_ledger w) = []" using assms(1) by (simp add: at_def works_def run_state_def)
  then have "on_ledger (expired_unexecuted_proposal_plans run_env 30) w = (Inr [], w)"
    using none by (simp add: expired_unexecuted_proposal_plans_def on_ledger_def within_def query_def run_apply
        quiet_access order_by_def)
  then show ?thesis using assms(3) by (simp add: remove_expired_proposals_def wp_def run_apply)
qed

lemma run_recovery:
  assumes "at 2 demo_operation fs h w" "site_plans (w_ledger w)"
  shows "wp (bindM (recover_operations demo_env 30 [demo_operation]) (\<lambda>_. remove_expired_proposals demo_env 30))
    (\<lambda>_ w'. length (t_events (lg_tables (w_ledger w'))) = 3) E w"
proof -
  let ?ch = "stage_step [Approved] CancelledBeforeApply ''recovered_before_apply''
    (digest_of demo_env ''recovered_before_apply'') None None 30"
  have opn: "so_plan demo_operation = demo_plan" "so_stage demo_operation = Approved" "so_operation_id demo_operation = ''op''"
    by (simp_all add: demo_operation_def)
  have "wp (do_transition demo_env ''op'' ?ch) (\<lambda>opn' w'. opn' = after_change ?ch demo_operation
      \<and> at 3 opn' fs h w') (\<lambda>_ _. False) w"
    by (rule at_transition [OF assms(1)]) (simp_all add: opn stage_step_def change_ok_def)
  moreover have "site_plans (w_ledger w')" if "do_transition demo_env ''op'' ?ch w = (r, w')" for r w'
    using that assms(2) movesD [OF plans_transition, of "w_ledger w" run_env "''op''" ?ch]
    unfolding do_transition_def on_ledger_def within_def demo_paths
    by (auto simp: site_plans_def same_plans_def split: prod.splits)
  ultimately obtain w' where w': "do_transition demo_env ''op'' ?ch w = (Inr (after_change ?ch demo_operation), w')"
      "at 3 (after_change ?ch demo_operation) fs h w'" "site_plans (w_ledger w')"
    by (auto simp: wp_def split: prod.splits sum.splits)
  have "is_terminal (so_stage (after_change ?ch demo_operation))" "so_plan (after_change ?ch demo_operation) = demo_plan"
    by (simp_all add: after_change_def stage_step_def opn)
  then have "recover_operations demo_env 30 [demo_operation] w = (Inr (), w')"
    using w'(1) by (simp add: recover_operation_def opn run_apply remove_operation_proposal_def demo_proposal_free)
  moreover have "length (t_events (lg_tables (w_ledger w'))) = 3" using w'(2) by (simp add: at_def works_def)
  ultimately show ?thesis
    using at_expired [OF w'(2,3)] by (simp add: wp_def run_apply)
qed

lemma run_start:
  "\<exists>w'. initialize demo_env 30 (demo_world h) = (Inr (), w') \<and> length (t_events (lg_tables (w_ledger w'))) = 3"
proof -
  have clean: "on_files (cleanup_internal_temporaries demo_env) (demo_world h) = (Inr (), demo_world h)"
    using demo_cleanup by (simp add: on_files_def within_def demo_world_def)
  have "wp (on_ledger (open_ledger_file (ledger_env_of demo_env)))
      (\<lambda>_ w'. at 2 demo_operation demo_fs h w' \<and> lg_tables (w_ledger w') = lg_tables demo_approved) (\<lambda>_ _. False) (demo_world h)"
    by (rule at_open(1) [OF demo_at]) auto
  then obtain v where v: "on_ledger (open_ledger_file run_env) (demo_world h) = (Inr (), v)"
      "at 2 demo_operation demo_fs h v" "lg_tables (w_ledger v) = lg_tables demo_approved"
    by (auto simp: wp_def split: prod.splits sum.splits)
  have "site_plans (w_ledger v)"
    by (simp add: site_plans_def v(3) demo_approved_eq demo_planned_eq with_operation_def with_plan_def fresh_ledger_def
        row_of_plan_def)
  from run_recovery [OF v(2) this, of "\<lambda>_ _. False"] show ?thesis
    using demo_incomplete [OF v(2,3)] v(1)
    by (simp add: initialize_def run_apply clean wp_def) (auto split: prod.splits sum.splits)
qed

theorem start_leaves_nothing_pending_witness:
  "\<exists>w'. initialize demo_env 30 (demo_world []) = (Inr (), w') \<and> \<not> w_lockdown w'
    \<and> concluded_in ''op'' (lg_tables (w_ledger w'))
    \<and> ''op'' \<notin> lr_operation_id ` set (t_locks (lg_tables (w_ledger w')))"
proof -
  obtain w' where w': "initialize demo_env 30 (demo_world []) = (Inr (), w')" "length (t_events (lg_tables (w_ledger w'))) = 3"
    using run_start by blast
  have "unlocked demo_env (demo_world [])" using demo_start(1,2) by (simp add: unlocked_def demo_world_def)
  then have lock: "\<not> w_lockdown w'"
    using movesD [OF unlocked_rel.moves_initialize, of demo_env "demo_world []" 30] w'
    by (simp add: keeps_def unlocked_def i64_max_def)
  obtain r where "r \<in> set (t_operations (lg_tables (w_ledger (demo_world []))))" "or_operation_id r = ''op''"
    using load_operation_row [OF demo_start(3)] by metis
  with start_leaves_nothing_pending [OF demo_start(1,2) w'(1) lock, of r] show ?thesis using w'(1) lock by auto
qed

section \<open>A daemon that starts on an empty ledger\<close>

definition fresh_world :: "bool list world" where
  "fresh_world = \<lparr> w_ledger = fresh_ledger, w_fs = demo_fs, w_lockdown = False, w_entropy = [], w_host = [] \<rparr>"

lemma fresh_start:
  "\<exists>w'. daemon_run demo_env fresh_world w' \<and> w_lockdown w' = False \<and> t_events (lg_tables (w_ledger w')) = []"
proof -
  have clean: "on_files (cleanup_internal_temporaries demo_env) fresh_world = (Inr (), fresh_world)"
    using demo_cleanup by (simp add: on_files_def within_def fresh_world_def)
  obtain l where l: "open_ledger_file run_env fresh_ledger = (Inr (), l)" "lg_tables l = lg_tables fresh_ledger" "lg_faults l = []"
    using open_quiet [OF _ fresh_run_state fresh_schema_clean] run_inv [OF run_env_ok] by blast
  define v where "v = fresh_world\<lparr>w_ledger := l\<rparr>"
  have "on_ledger (open_ledger_file run_env) fresh_world = (Inr (), v)"
    using l(1) by (simp add: on_ledger_def within_def fresh_world_def v_def)
  moreover have "on_ledger (incomplete_operations run_env) v = (Inr [], v)"
      "on_ledger (expired_unexecuted_proposal_plans run_env 30) v = (Inr [], v)"
    using l(2,3) by (simp_all add: on_ledger_def within_def incomplete_operations_def expired_unexecuted_proposal_plans_def
        query_def run_apply quiet_access v_def fresh_ledger_def incomplete_rows_def order_by_def)
  ultimately have "initialize demo_env 30 fresh_world = (Inr (), v)"
    by (simp add: initialize_def run_apply clean remove_expired_proposals_def)
  moreover have "fresh_world\<lparr>w_lockdown := False\<rparr> = fresh_world" by (simp add: fresh_world_def)
  ultimately have "daemon_step demo_env fresh_world v"
    using daemon_start [of demo_env fresh_world 30] by simp
  then show ?thesis using l(2) by (intro exI [of _ v]) (auto simp: v_def fresh_ledger_def fresh_world_def)
qed

theorem daemon_refines_ledger_machine_witness:
  "\<exists>w'. daemon_run demo_env fresh_world w' \<and> ledger_run (ledger_env_of demo_env) (w_ledger fresh_world) (w_ledger w')"
proof -
  obtain w' where "daemon_run demo_env fresh_world w'" using fresh_start by blast
  with daemon_refines_ledger_machine [OF this] show ?thesis by blast
qed


end
