(* ===== verification/Ufw_Guarantees.thy ===== *)
theory Ufw_Guarantees
  imports Engine_Ufw
begin

text \<open>
  What the firewall operation promises: an inventory of bounded size with well-formed entries, and
  deletions that hit exactly the rules of one identifier.
\<close>

section \<open>The inventory\<close>

definition rule_view_ok :: "ufw_rule_view \<Rightarrow> bool" where
  "rule_view_ok rule =
    (uv_sequence rule \<le> u16_max
     \<and> (case uv_port rule of None \<Rightarrow> True | Some port \<Rightarrow> port \<le> u16_max)
     \<and> uv_action rule \<in> set [''allow'', ''deny'', ''reject'', ''limit'']
     \<and> uv_owned rule = (uv_rule_id rule \<noteq> None)
     \<and> (case uv_rule_id rule of None \<Rightarrow> True | Some i \<Rightarrow> starts_with ''ufr_'' i \<and> length i = 28)
     \<and> uv_protected rule = (uv_protocol rule = Some Tcp
          \<and> (case uv_port rule of None \<Rightarrow> False | Some port \<Rightarrow> ufw_protected_tcp_port port)))"

lemma parse_u16_bound: "parse_u16 s = Some n \<Longrightarrow> n \<le> u16_max"
  by (auto simp: parse_u16_def split: option.splits if_splits)

lemma parse_target_bound: "parse_target value = (Some port, protocol) \<Longrightarrow> port \<le> u16_max"
  by (auto simp: parse_target_def parse_u16_bound split: option.splits prod.splits)

lemma position_Some: "position P xs = Some n \<Longrightarrow> n < length xs \<and> P (xs ! n)"
  by (induction xs arbitrary: n) (auto split: if_splits)

lemma parse_columns_ok:
  assumes "parse_columns n columns comment = Some rule" "n \<le> u16_max"
  shows "rule_view_ok rule"
proof -
  let ?tokens = "split_whitespace columns"
  obtain k where k: "position (\<lambda>token. token \<in> set [''ALLOW'', ''DENY'', ''REJECT'', ''LIMIT'']) ?tokens = Some k"
    using assms(1) by (auto simp: parse_columns_def Let_def split: option.splits)
  obtain port protocol where target: "parse_target (case ?tokens of [] \<Rightarrow> ''any'' | token # _ \<Rightarrow> token) = (port, protocol)"
    by fastforce
  have "?tokens ! k \<in> set [''ALLOW'', ''DENY'', ''REJECT'', ''LIMIT'']" using position_Some [OF k] by simp
  moreover have "list_all (\<lambda>t. to_ascii_lowercase t \<in> set [''allow'', ''deny'', ''reject'', ''limit''])
      [''ALLOW'', ''DENY'', ''REJECT'', ''LIMIT'']" by code_simp
  ultimately have action: "to_ascii_lowercase (?tokens ! k) \<in> set [''allow'', ''deny'', ''reject'', ''limit'']"
    unfolding list_all_iff by blast
  have ident: "starts_with ''ufr_'' i \<and> length i = 28" if "comment_rule_id c = Some i" for c i
    using that by (auto simp: comment_rule_id_def split: list.splits if_splits)
  let ?rule_id = "case comment of None \<Rightarrow> None | Some value \<Rightarrow> comment_rule_id value"
  have fields: "uv_sequence rule = n" "uv_port rule = port" "uv_protocol rule = protocol" "uv_rule_id rule = ?rule_id"
      "uv_action rule = to_ascii_lowercase (?tokens ! k)" "uv_owned rule = (?rule_id \<noteq> None)"
      "uv_protected rule = (protocol = Some Tcp \<and> (case port of None \<Rightarrow> False | Some n \<Rightarrow> ufw_protected_tcp_port n))"
    using assms(1) unfolding parse_columns_def Let_def k option.case target prod.case option.inject
    by (auto simp only: ufw_rule_view.select_convs)
  have "case port of None \<Rightarrow> True | Some p \<Rightarrow> p \<le> u16_max" using parse_target_bound target by (cases port) auto
  moreover have "case ?rule_id of None \<Rightarrow> True | Some i \<Rightarrow> starts_with ''ufr_'' i \<and> length i = 28"
    using ident by (auto split: option.splits)
  ultimately show ?thesis
    unfolding rule_view_ok_def fields using assms(2) action by (intro conjI) auto
qed

lemma parse_numbered_rule_ok: "parse_numbered_rule line = Some rule \<Longrightarrow> rule_view_ok rule"
  by (auto simp: parse_numbered_rule_def Let_def parse_u16_bound intro: parse_columns_ok
      split: option.splits prod.splits)

text \<open>
  (C0) Whatever the firewall tool prints, the inventory has at most 256 rules, each with a rule number
  and a port of 16 bits, one of the four actions, an identifier of the daemon exactly when it counts as
  owned, and the protection mark exactly on the TCP ports of the management access.  The inventory
  admits changes only when the firewall is active and its whole output was captured and kept.
\<close>

theorem parsed_inventory_bounded:
  assumes "parse_ufw_status env evidence observed_at = view"
  shows "length (vw_rules view) \<le> 256 \<and> (\<forall>rule \<in> set (vw_rules view). rule_view_ok rule)
    \<and> (vw_mutation_available view \<longrightarrow> vw_status view = UfwActive \<and> \<not> st_truncated (ce_stdout evidence)
        \<and> vw_rules view = List.map_filter parse_numbered_rule (text_lines (from_utf8_lossy (st_captured (ce_stdout evidence)))))"
proof -
  let ?rules = "List.map_filter parse_numbered_rule (text_lines (from_utf8_lossy (st_captured (ce_stdout evidence))))"
  have view: "vw_rules view = take 256 ?rules"
      "vw_mutation_available view \<Longrightarrow> vw_status view = UfwActive \<and> \<not> st_truncated (ce_stdout evidence) \<and> length ?rules \<le> 256"
    using assms by (auto simp: parse_ufw_status_def Let_def UFW_RULE_MAX_ENTRIES_def)
  have "rule_view_ok rule" if "rule \<in> set (vw_rules view)" for rule
    using that parse_numbered_rule_ok unfolding view(1) by (auto simp: set_map_filter dest!: in_set_takeD)
  then show ?thesis using view by auto
qed

section \<open>Deletions\<close>

text \<open>What is left of a numbered list when the entries with the given numbers are gone.\<close>

definition without_numbers :: "nat set \<Rightarrow> 'a list \<Rightarrow> 'a list" where
  "without_numbers ns xs = nths xs {k. Suc k \<notin> ns}"

definition delete_number :: "nat \<Rightarrow> 'a list \<Rightarrow> 'a list" where
  "delete_number n xs = take (n - 1) xs @ drop n xs"

text \<open>
  The documented behaviour of \<^verbatim>\<open>ufw delete N\<close>: when it succeeds, the N-th rule is gone.
\<close>

definition ufw_deletes :: "'h ops_env \<Rightarrow> ('h \<Rightarrow> 'r list) \<Rightarrow> bool" where
  "ufw_deletes env firewall =
    (\<forall>n h evidence h'. rn_run_ufw (oe_runner env) (UfwDelete n) h = (Inr evidence, h') \<and> ce_success evidence \<longrightarrow>
       0 < n \<and> n \<le> length (firewall h) \<and> firewall h' = delete_number n (firewall h))"

lemma without_numbers_delete:
  assumes "0 < n" "n \<le> length xs" "\<forall>m \<in> ns. m < n"
  shows "without_numbers ns (delete_number n xs) = without_numbers (insert n ns) xs"
proof -
  obtain k where k: "n = Suc k" using assms(1) by (cases n) auto
  define as x bs where "as = take k xs" and "x = xs ! k" and "bs = drop n xs"
  have xs: "xs = as @ x # bs" and len: "length as = k"
    using assms(2) id_take_nth_drop [of k xs] by (simp_all add: as_def x_def bs_def k)
  have all: "nths bs {j. Suc (j + m) \<notin> N} = bs" if "\<forall>i \<in> N. i \<le> m" for m N
  proof -
    have "{j. Suc (j + m) \<notin> N} = UNIV" using that by force
    then show ?thesis by (simp add: nths_all)
  qed
  have "delete_number n xs = as @ bs" by (simp add: delete_number_def k as_def bs_def)
  moreover have "nths as {j. Suc j \<notin> insert n ns} = nths as {j. Suc j \<notin> ns}"
    using len by (auto simp: nths_def k intro!: arg_cong [of _ _ "map fst"] filter_cong dest: set_zip_rightD)
  moreover have "nths bs {j. Suc (j + k) \<notin> ns} = bs" using assms(3) k by (intro all) auto
  moreover have "nths (x # bs) {j. Suc (j + k) \<notin> insert n ns} = bs"
  proof -
    have "\<forall>i \<in> ns. i \<le> Suc k" using assms(3) k by auto
    then show ?thesis using all [of ns "Suc k"] by (simp add: nths_Cons k)
  qed
  ultimately show ?thesis
    by (simp add: without_numbers_def xs nths_append len)
qed

lemma sorted_distinct_strict: "sorted xs \<Longrightarrow> distinct xs \<Longrightarrow> sorted_wrt (<) (xs :: nat list)"
  by (induction xs) (auto simp: order_less_le)

lemma deletions_remove:
  assumes ufw: "ufw_deletes env firewall"
    and "sorted_wrt (<) (rev ns)" "run_deletions env ns ds w = (Inr ds', w')"
  shows "firewall (w_host w') = without_numbers (set ns) (firewall (w_host w))"
  using assms(2,3)
proof (induction ns arbitrary: ds w)
  case Nil
  then show ?case by (simp add: ret_def without_numbers_def nths_all)
next
  case (Cons n ns)
  obtain evidence h where run: "rn_run_ufw (oe_runner env) (UfwDelete n) (w_host w) = (Inr evidence, h)" "ce_success evidence"
      "run_deletions env ns (ds @ [command_digest env evidence]) (w\<lparr>w_host := h\<rparr>) = (Inr ds', w')"
    using Cons.prems(2) by (auto simp: bindM_def run_ufw_command_def fail_def split: prod.splits sum.splits if_splits)
  have below: "sorted_wrt (<) (rev ns)" "\<forall>m \<in> set ns. m < n"
    using Cons.prems(1) by (auto simp: sorted_wrt_append)
  have "firewall (w_host w') = without_numbers (set ns) (firewall h)"
    using Cons.IH [OF below(1) run(3)] by simp
  moreover have "0 < n" "n \<le> length (firewall (w_host w))" "firewall h = delete_number n (firewall (w_host w))"
    using ufw run(1,2) by (auto simp: ufw_deletes_def)
  ultimately show ?case using without_numbers_delete [of n "firewall (w_host w)" "set ns"] below(2) by simp
qed

text \<open>
  (C0) Deleting a rule removes exactly the rules that carry its identifier and keeps the others in their
  order, although every deletion renumbers the rules after it.  Assumed is the documented behaviour of
  \<^verbatim>\<open>ufw delete N\<close>, which removes the N-th rule when it succeeds, and an inventory that numbers the rules
  from one.  All the removed rules belong to the daemon and none of them protects the management access.
\<close>

theorem deletion_removes_exactly_the_rule:
  assumes ufw: "ufw_deletes env firewall"
    and numbered: "map uv_sequence (vw_rules view) = [1..<Suc (length (firewall (w_host w)))]"
    and resolved: "resolve_deletion rule_id view = Inr (rule, sequences)"
    and deleted: "delete_sequences env sequences w = (Inr digest, w')"
  shows "firewall (w_host w') = nths (firewall (w_host w)) {k. uv_rule_id (vw_rules view ! k) \<noteq> Some rule_id}
    \<and> (\<forall>r \<in> set (rules_with_id rule_id (vw_rules view)). uv_owned r \<and> \<not> uv_protected r)"
proof -
  let ?rules = "vw_rules view" and ?fw = "firewall (w_host w)"
  have len: "length ?rules = length ?fw" using arg_cong [OF numbered, of length] by (simp del: upt_Suc)
  have number: "uv_sequence (?rules ! k) = Suc k" if "k < length ?rules" for k
    using arg_cong [OF numbered, of "\<lambda>xs. xs ! k"] that len by (simp del: upt_Suc)
  have seq: "sequences = descending (map uv_sequence (rules_with_id rule_id ?rules))"
      "\<forall>r \<in> set (rules_with_id rule_id ?rules). uv_owned r \<and> \<not> uv_protected r"
    using resolved by (auto simp: resolve_deletion_def Let_def split: list.splits if_splits)
  have "distinct (map uv_sequence ?rules)" unfolding numbered by simp
  then have "distinct (map uv_sequence (rules_with_id rule_id ?rules))"
    unfolding rules_with_id_def by (rule distinct_map_filter)
  then have "sorted_wrt (<) (rev sequences)" by (simp add: seq(1) descending_def sorted_distinct_strict)
  moreover obtain ds where "run_deletions env sequences [] w = (Inr ds, w')"
    using deleted by (auto simp: delete_sequences_def bindM_def ret_def split: prod.splits sum.splits)
  ultimately have result: "firewall (w_host w') = without_numbers (set sequences) ?fw"
    using deletions_remove [OF ufw] by blast
  have "Suc k \<in> set sequences \<longleftrightarrow> uv_rule_id (?rules ! k) = Some rule_id" if k: "k < length ?rules" for k
  proof
    assume "Suc k \<in> set sequences"
    then obtain r where r: "r \<in> set ?rules" "uv_rule_id r = Some rule_id" "uv_sequence r = Suc k"
      by (auto simp: seq(1) descending_def rules_with_id_def)
    then obtain j where "j < length ?rules" "?rules ! j = r" by (auto simp: in_set_conv_nth)
    then show "uv_rule_id (?rules ! k) = Some rule_id" using r number [of j] by auto
  next
    assume "uv_rule_id (?rules ! k) = Some rule_id"
    then have "uv_sequence (?rules ! k) \<in> set sequences"
      using k by (auto simp: seq(1) descending_def rules_with_id_def)
    then show "Suc k \<in> set sequences" using number [OF k] by simp
  qed
  then have "nths ?fw {k. Suc k \<notin> set sequences} = nths ?fw {k. uv_rule_id (?rules ! k) \<noteq> Some rule_id}"
    unfolding nths_def using len by (intro arg_cong [of _ _ "map fst"] filter_cong) (auto dest!: set_zip_rightD)
  then show ?thesis using result seq(2) by (simp add: without_numbers_def)
qed

end
