(* ===== verification/Cert_Guarantees.thy ===== *)
theory Cert_Guarantees
  imports Certificates
begin

text \<open>
  What a TLS attachment writes: the site configuration with two of its lines replaced and every other
  byte as it was.
\<close>

lemma split_join:
  assumes "ws \<noteq> []" "\<forall>w \<in> set ws. d \<notin> set w"
  shows "split_on d (join_with [d] ws) = ws"
  using assms
proof (induction "[d]" ws rule: join_with.induct)
  case (3 w v vs)
  have step: "split_on d (u @ d # s) = u # split_on d s" if "d \<notin> set u" for u s
    using that by (induction u) auto
  show ?case using 3 by (simp add: step)
qed (simp_all add: split_on_no_sep)

lemma single_index:
  assumes "length (filter P xs) = 1"
  shows "\<exists>i < length xs. \<forall>k < length xs. P (xs ! k) \<longleftrightarrow> k = i"
proof -
  obtain x where x: "filter P xs = [x]" using assms by (metis One_nat_def length_0_conv length_Suc_conv)
  then obtain us vs where xs: "xs = us @ x # vs" "\<forall>u \<in> set us. \<not> P u" "P x" "filter P vs = []"
    by (auto simp: filter_eq_Cons_iff)
  then have "P (xs ! k) \<longleftrightarrow> k = length us" if "k < length xs" for k
    using that by (auto simp: nth_append nth_Cons filter_empty_conv split: nat.splits dest!: nth_mem)
  then show ?thesis using xs(1) by (intro exI [of _ "length us"]) auto
qed

text \<open>The two kinds of lines an attachment replaces.\<close>

abbreviation certificate_line :: "string \<Rightarrow> bool" where
  "certificate_line line \<equiv> directive_value (trim line) ''ssl_certificate'' \<noteq> None"

abbreviation key_line :: "string \<Rightarrow> bool" where
  "key_line line \<equiv> \<not> certificate_line line \<and> directive_value (trim line) ''ssl_certificate_key'' \<noteq> None"

definition indentation_of :: "string \<Rightarrow> string" where
  "indentation_of line = take (length line - length (trim_start line)) line"

lemma rewrite_line_cases:
  "certificate_line line \<Longrightarrow> fst (rewrite_line f k line) = indentation_of line @ ''ssl_certificate '' @ f @ '';''"
  "key_line line \<Longrightarrow> fst (rewrite_line f k line) = indentation_of line @ ''ssl_certificate_key '' @ k @ '';''"
  "\<not> certificate_line line \<Longrightarrow> \<not> key_line line \<Longrightarrow> fst (rewrite_line f k line) = line"
  "(fst (snd (rewrite_line f k line)) \<noteq> None) = certificate_line line"
  "snd (snd (rewrite_line f k line)) = key_line line"
  by (auto simp: rewrite_line_def indentation_of_def Let_def split: option.splits)

lemma map_filter_length: "length (List.map_filter f xs) = length (filter (\<lambda>x. f x \<noteq> None) xs)"
  by (simp add: List.map_filter_def comp_def)

text \<open>
  (C30) Attaching a certificate changes two lines and nothing else.  The new configuration has the lines
  of the old one, with the one \<^verbatim>\<open>ssl_certificate\<close> directive and the one \<^verbatim>\<open>ssl_certificate_key\<close> directive
  replaced by directives that name the new files under the same indentation; a configuration without
  exactly one of each is refused.  The paths are assumed to contain no line feed.
\<close>

theorem attachment_replaces_two_lines:
  assumes "replace_tls_directives content fullchain private_key = Inr (output, current)"
    and "CHR 0x0A \<notin> set fullchain" "CHR 0x0A \<notin> set private_key"
  shows "\<exists>i j. i < length (split_on (CHR 0x0A) content) \<and> j < length (split_on (CHR 0x0A) content) \<and> i \<noteq> j
    \<and> (\<forall>k < length (split_on (CHR 0x0A) content).
         (certificate_line (split_on (CHR 0x0A) content ! k) \<longleftrightarrow> k = i) \<and> (key_line (split_on (CHR 0x0A) content ! k) \<longleftrightarrow> k = j))
    \<and> split_on (CHR 0x0A) output = (split_on (CHR 0x0A) content)
        [i := indentation_of (split_on (CHR 0x0A) content ! i) @ ''ssl_certificate '' @ fullchain @ '';'',
         j := indentation_of (split_on (CHR 0x0A) content ! j) @ ''ssl_certificate_key '' @ private_key @ '';'']"
proof -
  let ?ls = "split_on (CHR 0x0A) content"
  let ?rw = "rewrite_line fullchain private_key"
  have counts: "length (filter certificate_line ?ls) = 1" "length (filter key_line ?ls) = 1"
      and joined: "output = join_with [CHR 0x0A] (map (fst \<circ> ?rw) ?ls)"
    using assms(1)
    by (auto simp: replace_tls_directives_def Let_def map_filter_length filter_map comp_def case_prod_beta rewrite_line_cases
        simp del: not_None_eq split: if_splits)
  obtain i where i: "i < length ?ls" "\<And>k. k < length ?ls \<Longrightarrow> certificate_line (?ls ! k) \<longleftrightarrow> k = i"
    using single_index [OF counts(1)] by blast
  obtain j where j: "j < length ?ls" "\<And>k. k < length ?ls \<Longrightarrow> key_line (?ls ! k) \<longleftrightarrow> k = j"
    using single_index [OF counts(2)] by blast
  have ij: "i \<noteq> j" using i(2) [OF j(1)] j(2) [OF j(1)] by auto
  have clean: "CHR 0x0A \<notin> set (fst (?rw line))" if "line \<in> set ?ls" for line
  proof -
    have "CHR 0x0A \<notin> set (indentation_of line)"
      using split_on_parts [OF that] by (auto simp: indentation_of_def dest: in_set_takeD)
    then show ?thesis
      using rewrite_line_cases(1-3) [of line fullchain private_key] split_on_parts [OF that] assms(2,3)
      by (cases "certificate_line line"; cases "key_line line") auto
  qed
  have "split_on (CHR 0x0A) output = map (fst \<circ> ?rw) ?ls"
    unfolding joined by (rule split_join) (use clean in auto)
  also have "\<dots> = ?ls[i := indentation_of (?ls ! i) @ ''ssl_certificate '' @ fullchain @ '';'',
      j := indentation_of (?ls ! j) @ ''ssl_certificate_key '' @ private_key @ '';'']"
  proof (rule nth_equalityI)
    fix k assume "k < length (map (fst \<circ> ?rw) ?ls)"
    then have k: "k < length ?ls" by simp
    note line = rewrite_line_cases(1-3) [of "?ls ! k" fullchain private_key]
    have "(certificate_line (?ls ! k) \<longleftrightarrow> k = i) \<and> (key_line (?ls ! k) \<longleftrightarrow> k = j)" using i(2) [OF k] j(2) [OF k] by blast
    then show "map (fst \<circ> ?rw) ?ls ! k = ?ls[i := indentation_of (?ls ! i) @ ''ssl_certificate '' @ fullchain @ '';'',
      j := indentation_of (?ls ! j) @ ''ssl_certificate_key '' @ private_key @ '';''] ! k"
      using k ij line
      by (cases "k = i"; cases "k = j") (simp_all add: nth_list_update del: not_None_eq)
  qed simp
  finally show ?thesis using i j ij by blast
qed

definition sample_site :: string where
  "sample_site = ''  ssl_certificate /old/a.pem;'' @ [CHR 0x0A] @ ''  ssl_certificate_key /old/b.pem;''"

theorem attachment_replaces_two_lines_witness:
  "\<exists>output current. replace_tls_directives sample_site ''/c'' ''/d'' = Inr (output, current)
    \<and> split_on (CHR 0x0A) output = [''  ssl_certificate /c;'', ''  ssl_certificate_key /d;'']"
proof -
  have "is_ok (replace_tls_directives sample_site ''/c'' ''/d'')" by code_simp
  then obtain written current where run: "replace_tls_directives sample_site ''/c'' ''/d'' = Inr (written, current)"
    by (cases "replace_tls_directives sample_site ''/c'' ''/d''") (auto simp: is_ok_def)
  have lines: "split_on (CHR 0x0A) sample_site = [''  ssl_certificate /old/a.pem;'', ''  ssl_certificate_key /old/b.pem;'']"
    by code_simp
  have kinds: "certificate_line ''  ssl_certificate /old/a.pem;''" "key_line ''  ssl_certificate_key /old/b.pem;''"
      "indentation_of ''  ssl_certificate /old/a.pem;'' = ''  ''" "indentation_of ''  ssl_certificate_key /old/b.pem;'' = ''  ''"
    by code_simp+
  have len: "length (split_on (CHR 0x0A) sample_site) = 2" by (simp add: lines)
  have "CHR 0x0A \<notin> set ''/c''" "CHR 0x0A \<notin> set ''/d''" by code_simp+
  from attachment_replaces_two_lines [OF run this] obtain i j where
      ij: "i < 2 \<and> j < 2 \<and> i \<noteq> j \<and> (\<forall>k < 2. (certificate_line (split_on (CHR 0x0A) sample_site ! k) \<longleftrightarrow> k = i)
          \<and> (key_line (split_on (CHR 0x0A) sample_site ! k) \<longleftrightarrow> k = j))
        \<and> split_on (CHR 0x0A) written = (split_on (CHR 0x0A) sample_site)
          [i := indentation_of (split_on (CHR 0x0A) sample_site ! i) @ ''ssl_certificate '' @ ''/c'' @ '';'',
           j := indentation_of (split_on (CHR 0x0A) sample_site ! j) @ ''ssl_certificate_key '' @ ''/d'' @ '';'']"
    unfolding len by (elim exE) (rule that)
  have "certificate_line (split_on (CHR 0x0A) sample_site ! 0)" unfolding lines nth_Cons_0 by (rule kinds(1))
  moreover have "(0::nat) < 2" by simp
  ultimately have i: "i = 0" using ij by blast
  have j: "j = 1" using ij i by (metis One_nat_def less_2_cases)
  have "split_on (CHR 0x0A) written = (split_on (CHR 0x0A) sample_site)
      [0 := indentation_of (split_on (CHR 0x0A) sample_site ! 0) @ ''ssl_certificate '' @ ''/c'' @ '';'',
       1 := indentation_of (split_on (CHR 0x0A) sample_site ! 1) @ ''ssl_certificate_key '' @ ''/d'' @ '';'']"
    using ij unfolding i j by blast
  then have "split_on (CHR 0x0A) written = [''  ssl_certificate /c;'', ''  ssl_certificate_key /d;'']"
    unfolding lines by (simp add: kinds)
  then show ?thesis using run by blast
qed

end
