(* ===== verification/Engine_Guards.thy ===== *)
theory Engine_Guards
  imports Engine_Run
begin

text \<open>
  What requests may change: those that plan, approve or execute need an unlocked daemon and an
  operator, and the others leave the recorded operations and the files of the host as they are.
\<close>

section \<open>Requests that change something\<close>

text \<open>The actor of a request that may change the host or the ledger.\<close>

fun changing_actor :: "ops_request_body \<Rightarrow> subject option" where
  "changing_actor (PlanCertbotIssue actor _) = Some actor"
| "changing_actor (ApproveCertbotIssue actor _ _ _ _ _) = Some actor"
| "changing_actor (PlanCertbotRenewTest actor _) = Some actor"
| "changing_actor (ApproveCertbotRenewTest actor _ _ _ _) = Some actor"
| "changing_actor (PlanCertbotAttach actor _) = Some actor"
| "changing_actor (ApproveCertbotAttach actor _ _ _ _ _) = Some actor"
| "changing_actor (PlanNginxSiteState actor _) = Some actor"
| "changing_actor (ApproveNginxSiteState actor _ _ _) = Some actor"
| "changing_actor (PlanManagedConfig actor _) = Some actor"
| "changing_actor (PlanManagedConfigRestore actor _) = Some actor"
| "changing_actor (ApproveManagedConfig actor _ _ _ _) = Some actor"
| "changing_actor (PlanServiceControl actor _) = Some actor"
| "changing_actor (ApproveServiceControl actor _ _ _ _) = Some actor"
| "changing_actor (PlanUfwRule actor _) = Some actor"
| "changing_actor (ApproveUfwRule actor _ _ _ _) = Some actor"
| "changing_actor (ExecuteOperation actor _) = Some actor"
| "changing_actor _ = None"

lemma changing_guarded:
  assumes "changing_actor body = Some actor"
  shows "\<exists>m. handle_body env body now = guarded actor m"
  using assms by (cases body) auto

lemma guarded_refuses:
  assumes "w_lockdown w \<or> subj_role actor \<notin> {Admin, Operator}"
  shows "\<exists>e. guarded actor m w = (Inl e, w)"
  using assms
  by (auto simp: guarded_def require_write_available_def require_operator_def bindM_def reading_def liftR_def)

text \<open>
  (C0) A request that plans, approves or executes anything is refused without any effect when the daemon
  is in forensic lockdown or the caller is neither an administrator nor an operator: the ledger, the
  files and the host are exactly as before, and the response is a rejection.
\<close>

theorem refused_requests_change_nothing:
  assumes "changing_actor (or_body request) = Some actor"
    and "w_lockdown w \<or> subj_role actor \<notin> {Admin, Operator}"
  shows "\<exists>code. response_body env lock_usable request now w = (RespRejected code, w)"
proof -
  obtain m where m: "handle_body env (or_body request) now = guarded actor m"
    using changing_guarded [OF assms(1)] by blast
  obtain e where "guarded actor m w = (Inl e, w)" using guarded_refuses [OF assms(2)] by blast
  then show ?thesis by (auto simp: response_body_def m split: sum.splits)
qed

section \<open>Requests that only read\<close>

definition same_record :: "'h world \<Rightarrow> 'h world \<Rightarrow> bool" where
  "same_record w w' = (same_rows (w_ledger w) (w_ledger w') \<and> same_nodes (w_fs w) (w_fs w'))"

interpretation record_rel: step_relation same_record
  by unfold_locales (auto simp: same_record_def intro: rows_rel.R_refl rows_rel.R_trans nodes_rel.R_refl nodes_rel.R_trans)

lemma record_ledger: "moves same_rows m \<Longrightarrow> moves same_record (on_ledger m)"
  by (auto simp: moves_def same_record_def on_ledger_def within_def nodes_rel.R_refl split: prod.splits) (metis snd_conv)

lemma record_files: "moves same_nodes m \<Longrightarrow> moves same_record (on_files m)"
  by (auto simp: moves_def same_record_def on_files_def within_def rows_rel.R_refl split: prod.splits) (metis snd_conv)

lemma observes_nodes: "observes m \<Longrightarrow> moves same_nodes m"
  by (simp add: observes_def moves_def)

lemmas reads = nodes_rules moves_nodes_calls observes_nodes [OF observes_validate_root] observes_nodes [OF observes_content]
  observes_nodes [OF observes_discover_site]

lemma reads_config_bytes: "moves same_nodes (read_config_bytes env p n)"
  unfolding read_config_bytes_def by (intro reads)

lemma reads_regular: "moves same_nodes (read_regular_managed_config env adapter root basename display i)"
  unfolding read_regular_managed_config_def by (intro reads reads_config_bytes)

lemma reads_nginx_in: "moves same_nodes (discover_nginx_in env requested names)"
  by (induction names) (simp_all only: discover_nginx_in.simps, (intro reads | assumption)+)

lemma reads_enabled_link: "moves same_nodes (require_enabled_link available enabled basename enforce)"
  unfolding require_enabled_link_def by (intro reads)

lemma reads_directory_in: "moves same_nodes (discover_directory_in env adapter root enabled display requested prefix names)"
  by (induction names)
    (simp_all only: discover_directory_in.simps, (intro reads reads_enabled_link reads_regular | assumption)+)

lemma reads_pool_in: "moves same_nodes (discover_pool_in env requested names)"
  by (induction names) (simp_all only: discover_pool_in.simps, (intro reads reads_regular | assumption)+)

lemma reads_tree: "moves same_nodes (tree_walk env adapter root requested prefix observed stack current names)"
proof (induction env adapter root requested prefix observed stack current names rule: tree_walk.induct)
  case (3 env adapter root requested prefix observed stack directory depth name names)
  show ?case unfolding tree_walk.simps(3) by (intro reads reads_regular) (rule 3; assumption)+
next
  case (2 env adapter root requested prefix observed directory depth stack current)
  show ?case unfolding tree_walk.simps(2) by (intro reads) (rule 2; assumption)+
qed (simp, intro reads)

lemma reads_adapters:
  "moves same_nodes (discover_nginx_managed_config env requested)"
  "moves same_nodes (discover_tree_managed_config env adapter root requested prefix)"
  "moves same_nodes (discover_exact_managed_config env adapter p basename display requested prefix)"
  "moves same_nodes (discover_directory_managed_config env adapter root enabled display requested prefix)"
  "moves same_nodes (discover_php_fpm_managed_config env adapter p basename display)"
  "moves same_nodes (discover_php_fpm_pool_config env requested)"
  unfolding discover_nginx_managed_config_def discover_tree_managed_config_def discover_exact_managed_config_def
    discover_directory_managed_config_def discover_php_fpm_managed_config_def discover_php_fpm_pool_config_def
  by (intro reads reads_nginx_in reads_directory_in reads_pool_in reads_tree reads_regular reads_config_bytes)+

lemma reads_managed_config: "moves same_nodes (discover_managed_config env requested)"
  unfolding discover_managed_config_def Let_def
  by (intro nodes_rel.moves_bindM nodes_rel.moves_pure)
    (simp add: reads_adapters nodes_rel.moves_pure split: managed_config_adapter.split)

lemma reads_path_checks: "moves same_nodes (path_exists p)" "moves same_nodes (path_is_file p)"
  unfolding path_exists_def path_is_file_def by (intro reads)+

lemma reads_certificate_files:
  "moves same_nodes (validate_directory p b)" "moves same_nodes (validate_regular_file p b n)"
  "moves same_nodes (validate_lineage_target env domain p b)" "moves same_nodes (inspect_x509 env p)"
  unfolding validate_directory_def validate_regular_file_def validate_lineage_target_def inspect_x509_def
  by (intro reads)+

lemma reads_lineage: "moves same_nodes (inspect_lineage env domain)"
  unfolding inspect_lineage_def by (intro reads reads_certificate_files)

lemma reads_lineage_names: "moves same_nodes (lineage_names domains problems names)"
  by (induction names arbitrary: domains problems) (simp_all only: lineage_names.simps, (intro reads | assumption)+)

lemma reads_lineages: "moves same_nodes (inspect_lineages env certificates problems domains)"
  by (induction domains arbitrary: certificates problems)
    (simp_all only: inspect_lineages.simps, (intro reads reads_lineage | assumption)+)

lemma reads_certificates: "moves same_nodes (discover_certificates env)"
  unfolding discover_certificates_def
  by (intro reads reads_path_checks reads_certificate_files reads_lineage_names reads_lineages)

lemma record_host: "moves same_record (run_command env c)" "moves same_record (run_ufw_command env u)"
  by (auto simp: moves_def same_record_def run_command_def run_ufw_command_def rows_rel.R_refl nodes_rel.R_refl
      split: prod.splits)

lemma record_flag: "moves same_record (modify (w_lockdown_update f))"
  by (simp add: moves_def modify_def same_record_def rows_rel.R_refl nodes_rel.R_refl)

lemma record_queries:
  "moves same_record (on_ledger (open_ledger_file e))" "moves same_record (on_ledger (query f))"
  by (intro record_ledger rows_open rows_rel.moves_query)+

lemmas record_rules = moves_intros record_rel.moves_rules record_host record_flag record_queries

lemma record_inventories:
  "moves same_record (ufw_inventory env now)" "moves same_record (certificate_inventory env now)"
  unfolding ufw_inventory_def observe_ufw_def certificate_inventory_def observe_certificates_def command_succeeds_def
  by (intro record_rules record_files reads_path_checks reads_certificates)+

lemma record_open: "moves same_record (open_ledger env)"
  unfolding open_ledger_def
  apply (intro record_rules)
  apply (auto split: ops_error.splits intro!: record_rules)
  done

lemma reading_requests:
  assumes "changing_actor body = None"
  shows "moves same_record (handle_body env body now)"
proof (cases body)
  case Capabilities
  have "moves same_record (capabilities env)"
    unfolding capabilities_def
    by (intro record_rules) (auto split: ops_error.splits intro!: record_rules)
  then show ?thesis unfolding Capabilities handle_body.simps respond_def by (intro record_rules)
next
  case (OperationReceipt actor i)
  show ?thesis
    unfolding OperationReceipt handle_body.simps respond_def operation_receipt_def do_load_def do_receipt_def
      load_operation_def receipt_def
    by (intro record_rules record_open)
next
  case (RecentOperations actor)
  show ?thesis
    unfolding RecentOperations handle_body.simps respond_def recent_receipts_def by (intro record_rules record_open)
next
  case (ReadManagedConfig actor i)
  show ?thesis
    unfolding ReadManagedConfig handle_body.simps respond_def read_managed_config_def
    by (intro record_rules record_files reads_managed_config)
qed (use assms in \<open>auto simp: respond_def intro!: record_rules record_inventories\<close>)

text \<open>
  (C0) Requests that only read leave no trace.  Whatever they answer and whatever fails on the way, every
  recorded plan, operation, event and lock of the ledger and every file of the host is as before.  Opening
  the ledger may still create its database, migrate its schema and complete a pending checkpoint.
\<close>

theorem reading_requests_leave_no_trace:
  assumes "changing_actor (or_body request) = None" "response_for env lock_usable request now w = (response, w')"
  shows "same_rows (w_ledger w) (w_ledger w') \<and> same_nodes (w_fs w) (w_fs w')"
proof -
  have "same_record w (snd (response_body env lock_usable request now w))"
    using movesD [OF reading_requests [OF assms(1)], of w env now]
    by (auto simp: response_body_def record_rel.R_refl split: sum.splits prod.splits)
  then show ?thesis using assms(2) by (auto simp: response_for_def same_record_def split: prod.splits)
qed

end
