(* ===== verification/Verified_Outcomes.thy ===== *)
theory Verified_Outcomes
  imports Engine_Settles Engine_Guards
begin

text \<open>
  What stands behind a receipt that reports success.  The firewall and the configuration operations
  report it only after they have read the effect back, and nothing but the ledger, and the removal of
  the proposal, comes after that read.
\<close>

section \<open>Receipts and stages\<close>

lemma internal_loads:
  assumes "ledger_inv e l"
  shows "wp (transition_internal e i c d cm)
    (\<lambda>opn l'. so_stage opn = ch_next c \<and> so_operation_id opn = i \<and> load_operation_from e i (lg_tables l') = Inr opn)
    (\<lambda>_ _. True) l"
  unfolding transition_internal_def wp_bindM [of "transaction _"]
proof (rule wp_transactionI)
  fix x t fs assume run: "transition_body e i c d cm (lg_tables l) = Inr (x, t)"
  obtain cur where cur: "load_operation_from e i (lg_tables l) = Inr cur"
    by (rule transition_body_Inr [OF run])
  let ?l = "l\<lparr>lg_faults := fs, lg_tables := t\<rparr>"
  have now: "load_operation_from e i t = Inr (after_change c cur)"
    using transition_body_loads [OF _ cur run] assms unfolding ledger_inv_def by blast
  have "same_rows ?l (snd (complete_pending_checkpoint e ?l))" by (rule movesD [OF rows_complete_pending])
  then have then_load: "load_operation_from e i (lg_tables (snd (complete_pending_checkpoint e ?l))) = Inr (after_change c cur)"
    using now load_operation_cong [of _ t e i] same_rows_fields by (metis ledger.select_convs(1) ledger.surjective ledger.update_convs(1) ledger.update_convs(5))
  have "so_operation_id (after_change c cur) = i" using now by (rule load_operation_id)
  with then_load show "wp (bindM (complete_pending_checkpoint e) (\<lambda>_. load_operation e i))
      (\<lambda>opn l'. so_stage opn = ch_next c \<and> so_operation_id opn = i \<and> load_operation_from e i (lg_tables l') = Inr opn)
      (\<lambda>_ _. True) ?l"
    by (auto simp: wp_def bindM_def load_operation_def query_def storage_access_def reading_def after_change_def
        split: prod.splits sum.splits list.splits if_splits)
qed simp_all

text \<open>Ledger calls leave the files and the host alone.\<close>

definition same_outside :: "'h world \<Rightarrow> 'h world \<Rightarrow> bool" where
  "same_outside w w' = (w_fs w' = w_fs w \<and> w_host w' = w_host w)"

lemma on_ledger_outside: "on_ledger m w = (r, w') \<Longrightarrow> same_outside w w'"
  by (auto simp: on_ledger_def within_def same_outside_def split: prod.splits)

lemma on_ledger_run:
  assumes "on_ledger m w = (r, w')"
  obtains l where "m (w_ledger w) = (r, l)" "w' = w\<lparr>w_ledger := l\<rparr>"
  using assms by (cases "m (w_ledger w)") (simp add: on_ledger_def within_def)

lemma transition_loads:
  assumes "sound env w" "do_transition env i c w = (Inr opn, w')"
  shows "so_stage opn = ch_next c" "so_operation_id opn = i" "same_outside w w'"
    "load_operation_from (ledger_env_of env) i (lg_tables (w_ledger w')) = Inr opn"
proof -
  obtain l where l: "transition (ledger_env_of env) i c (w_ledger w) = (Inr opn, l)" "w' = w\<lparr>w_ledger := l\<rparr>"
    by (rule on_ledger_run [OF assms(2) [unfolded do_transition_def]])
  have "ledger_inv (ledger_env_of env) (w_ledger w)" using assms(1) by (simp add: sound_def)
  from internal_loads [OF this, of i c None None] l
  show "so_stage opn = ch_next c" "so_operation_id opn = i" "same_outside w w'"
      "load_operation_from (ledger_env_of env) i (lg_tables (w_ledger w')) = Inr opn"
    by (simp_all add: wp_def transition_def same_outside_def)
qed

lemma transition_command_loads:
  assumes "sound env w" "do_transition_command env i c v w = (Inr opn, w')"
  shows "so_stage opn = ch_next c" "so_operation_id opn = i" "same_outside w w'"
    "load_operation_from (ledger_env_of env) i (lg_tables (w_ledger w')) = Inr opn"
proof -
  let ?e = "ledger_env_of env"
  obtain l where l: "transition_with_command_evidence ?e i c (evidence_view_of v) (w_ledger w) = (Inr opn, l)" "w' = w\<lparr>w_ledger := l\<rparr>"
    by (rule on_ledger_run [OF assms(2) [unfolded do_transition_command_def]])
  then obtain stored where run: "transition_internal ?e i c None (Some stored) (w_ledger w) = (Inr opn, l)"
    by (cases "prepare_command_evidence ?e (evidence_view_of v) (ch_evidence_digest c)")
      (simp_all add: transition_with_command_evidence_def bindM_def liftR_def)
  have "ledger_inv ?e (w_ledger w)" using assms(1) by (simp add: sound_def)
  from internal_loads [OF this, of i c None "Some stored"] run
  show "so_stage opn = ch_next c" "so_operation_id opn = i" "same_outside w w'"
      "load_operation_from ?e i (lg_tables (w_ledger w')) = Inr opn"
    by (simp_all add: wp_def l(2) same_outside_def)
qed

lemma receipt_state:
  assumes "sound env w" "load_operation_from (ledger_env_of env) i (lg_tables (w_ledger w)) = Inr opn"
    and "do_receipt env i w = (Inr r, w')"
  shows "rv_terminal_state r = so_stage opn" "same_outside w w'"
proof -
  obtain l where l: "receipt (ledger_env_of env) i (w_ledger w) = (Inr r, l)" "w' = w\<lparr>w_ledger := l\<rparr>"
    by (rule on_ledger_run [OF assms(3) [unfolded do_receipt_def]])
  have "ledger_inv (ledger_env_of env) (w_ledger w)" using assms(1) by (simp add: sound_def)
  from receipt_outcome [OF this assms(2)] l show "rv_terminal_state r = so_stage opn" "same_outside w w'"
    by (simp_all add: wp_def same_outside_def)
qed

lemma finish_reports:
  assumes "sound env w" "change_ok c" "finish env i c w = (Inr r, w')"
  shows "rv_terminal_state r = ch_next c" "same_outside w w'"
proof -
  obtain opn v where run: "do_transition env i c w = (Inr opn, v)" "do_receipt env (so_operation_id opn) v = (Inr r, w')"
    using assms(3) by (auto simp: finish_def bindM_def split: prod.splits sum.splits)
  note t = transition_loads [OF assms(1) run(1)]
  have "moves (keeps (sound env)) (do_transition env i c)"
    unfolding do_transition_def by (rule sound_rel.moves_ledger_writes(5) [OF assms(2)])
  then have "sound env v" using assms(1) run(1) by (rule sound_after)
  note state = receipt_state [OF this t(4) run(2) [unfolded t(2)]]
  show "rv_terminal_state r = ch_next c" using state(1) t(1) by simp
  show "same_outside w w'" using state(2) t(3) by (simp add: same_outside_def)
qed

section \<open>Following the executions\<close>

definition reports :: "('h world \<Rightarrow> bool) \<Rightarrow> (receipt_view \<Rightarrow> 'h world \<Rightarrow> bool) \<Rightarrow> ('h, receipt_view) engine \<Rightarrow> bool" where
  "reports P Q m = (\<forall>w r w'. P w \<longrightarrow> m w = (Inr r, w') \<longrightarrow> Q r w')"

abbreviation no_success :: "receipt_view \<Rightarrow> 'h world \<Rightarrow> bool" where
  "no_success r w \<equiv> rv_terminal_state r \<noteq> Succeeded"

lemma reportsI: "(\<And>w r w'. P w \<Longrightarrow> m w = (Inr r, w') \<Longrightarrow> Q r w') \<Longrightarrow> reports P Q m"
  by (auto simp: reports_def)

lemma reportsD: "reports P Q m \<Longrightarrow> P w \<Longrightarrow> m w = (Inr r, w') \<Longrightarrow> Q r w'"
  by (auto simp: reports_def)

lemma reports_mono: "reports P Q m \<Longrightarrow> (\<And>r w. Q r w \<Longrightarrow> Q' r w) \<Longrightarrow> reports P Q' m"
  by (auto simp: reports_def)

lemma reports_stronger: "reports P Q m \<Longrightarrow> (\<And>w. P' w \<Longrightarrow> P w) \<Longrightarrow> reports P' Q m"
  by (auto simp: reports_def)

lemma kept_after: "moves (keeps P) m \<Longrightarrow> P w \<Longrightarrow> m w = (r, w') \<Longrightarrow> P w'"
  using movesD [of "keeps P" m w] by (simp add: keeps_def)

lemma reports_bindM:
  assumes "moves (keeps P) m" and "\<And>x. reports P Q (k x)"
  shows "reports P Q (bindM m k)"
  by (rule reportsI)
    (auto simp: bindM_def split: prod.splits sum.splits, meson reportsD assms(2) kept_after [OF assms(1)])

lemma reports_attempt:
  assumes "moves (keeps P) m" and "\<And>r. reports P Q (k r)"
  shows "reports P Q (attempt m k)"
  by (rule reportsI)
    (auto simp: attempt_def split: prod.splits, meson reportsD assms(2) kept_after [OF assms(1)])

lemma reports_fail: "reports P Q (fail e)"
  by (simp add: reports_def fail_def)

lemma reports_if: "(b \<Longrightarrow> reports P Q m) \<Longrightarrow> (\<not> b \<Longrightarrow> reports P Q n) \<Longrightarrow> reports P Q (if b then m else n)"
  by simp

lemma reports_case_sum:
  "(\<And>e. v = Inl e \<Longrightarrow> reports P Q (m e)) \<Longrightarrow> (\<And>x. v = Inr x \<Longrightarrow> reports P Q (n x)) \<Longrightarrow>
    reports P Q (case v of Inl e \<Rightarrow> m e | Inr x \<Rightarrow> n x)"
  by (cases v) auto

lemma reports_case_option:
  "(v = None \<Longrightarrow> reports P Q m) \<Longrightarrow> (\<And>x. v = Some x \<Longrightarrow> reports P Q (n x)) \<Longrightarrow>
    reports P Q (case v of None \<Rightarrow> m | Some x \<Rightarrow> n x)"
  by (cases v) auto

lemma reports_finish:
  assumes "change_ok c" "ch_next c \<noteq> Succeeded"
  shows "reports (sound env) no_success (finish env i c)"
  by (rule reportsI, drule finish_reports(1) [OF _ assms(1)], assumption) (simp add: assms(2))

lemmas reports_rules = reports_bindM reports_attempt reports_fail reports_if reports_case_sum reports_case_option

section \<open>The firewall operation\<close>

text \<open>The last observation of the host before the receipt shows the effect of the payload.\<close>

definition ufw_read_back :: "'h ops_env \<Rightarrow> ufw_plan_payload \<Rightarrow> int \<Rightarrow> 'h world \<Rightarrow> bool" where
  "ufw_read_back env payload now w' =
    (\<exists>v view u. ufw_inventory env now v = (Inr view, u) \<and> effect_verified payload view \<and> same_outside u w')"

abbreviation success_read_back :: "'h ops_env \<Rightarrow> ufw_plan_payload \<Rightarrow> int \<Rightarrow> receipt_view \<Rightarrow> 'h world \<Rightarrow> bool" where
  "success_read_back env payload now r w' \<equiv> rv_terminal_state r = Succeeded \<longrightarrow> ufw_read_back env payload now w'"

lemmas ufw_moves = sound_rel.rules sound_rel.parts sound_rel.moves_enter_rollback sound_rel.moves_ufw_commands
  sound_rel.moves_ufw_inventory

lemma reports_ufw_rollback: "reports (sound env) no_success (rollback_ufw_rule env i c ev now)"
  unfolding rollback_ufw_rule_def Let_def
  by (intro reports_rules ufw_moves reports_finish) (simp_all add: ufw_rollback_stages_def)

lemma reports_verify_ufw: "reports (sound env) (success_read_back env payload now) (verify_ufw env i payload now)"
proof (rule reportsI)
  fix w r w' assume w: "sound env w" "verify_ufw env i payload now w = (Inr r, w')"
  then obtain after v where v: "ufw_inventory env now w = (Inr after, v)"
      "(if \<not> effect_verified payload after then rollback_ufw_rule env i ''rule_verify_failed'' (vw_state_digest after) now
        else finish env i (stage_step [Verifying] Succeeded ''ufw_rule_verified'' (vw_state_digest after)
          (Some (vw_state_digest after)) None now)) v = (Inr r, w')"
    unfolding verify_ufw_def bindM_def by (auto split: prod.splits sum.splits)
  have s: "sound env v" using sound_after [OF sound_rel.moves_ufw_inventory w(1) v(1)] .
  show "success_read_back env payload now r w'"
  proof (cases "effect_verified payload after")
    case True
    let ?c = "stage_step [Verifying] Succeeded ''ufw_rule_verified'' (vw_state_digest after) (Some (vw_state_digest after)) None now"
    have "change_ok ?c" by simp
    moreover have "finish env i ?c v = (Inr r, w')" using v(2) True by simp
    ultimately have "same_outside v w'" by (rule finish_reports(2) [OF s])
    with v(1) True show ?thesis by (auto simp: ufw_read_back_def)
  next
    case False
    with v(2) reportsD [OF reports_ufw_rollback s] show ?thesis by simp
  qed
qed

lemma reports_execute_ufw:
  assumes "sp_ufw_rule (so_plan opn) = Some payload"
  shows "reports (sound env) (success_read_back env payload now) (execute_ufw_rule env opn now)"
proof -
  have undo: "reports (sound env) (success_read_back env payload now) (rollback_ufw_rule env i c ev now)" for i c ev
    by (rule reports_mono [OF reports_ufw_rollback]) simp
  have stop: "reports (sound env) (success_read_back env payload now) (finish env i c)"
    if "change_ok c" "ch_next c \<noteq> Succeeded" for i c
    by (rule reports_mono [OF reports_finish [OF that]]) simp
  have apply_ufw: "reports (sound env) (success_read_back env payload now) (apply_ufw env i payload sn now)" for i sn
    unfolding apply_ufw_def
    by (intro reports_rules reports_verify_ufw undo ufw_moves) simp_all
  have known: "bindM (liftR (Inr payload)) k = k payload" for k :: "ufw_plan_payload \<Rightarrow> ('a, receipt_view) engine"
    by (simp add: bindM_def liftR_def fun_eq_iff)
  show ?thesis
    unfolding execute_ufw_rule_def cancel_before_apply_def Let_def assms ok_or_def option.case known
    by (intro reports_rules stop apply_ufw ufw_moves; simp)
qed

text \<open>
  (C0) A receipt that reports success of a firewall change is backed by the firewall: the last thing the
  daemon did on the host before writing the receipt was to list the rules, and that list shows the rule
  as planned, or no rule of that identifier when it was to be deleted.
\<close>

theorem firewall_success_was_read_back:
  assumes "env_ok (ledger_env_of env)" "ledger_run (ledger_env_of env) fresh_ledger (w_ledger w)"
    and "sp_ufw_rule (so_plan opn) = Some payload" "execute_ufw_rule env opn now w = (Inr r, w')"
  shows "rv_terminal_state r = Succeeded \<longrightarrow>
    (\<exists>v view u. ufw_inventory env now v = (Inr view, u) \<and> effect_verified payload view
       \<and> w_fs w' = w_fs u \<and> w_host w' = w_host u)"
proof -
  have "sound env w" using assms(1,2) run_inv by (simp add: sound_def)
  from reportsD [OF reports_execute_ufw [OF assms(3)] this assms(4)] show ?thesis
    by (simp add: ufw_read_back_def same_outside_def)
qed

lemma query_returns: "query f l = (Inr x, l') \<Longrightarrow> f (lg_tables l) = Inr x"
  by (cases "lg_faults l") (auto simp: query_def storage_access_def bindM_def reading_def split: if_splits)

lemma load_found:
  assumes "load_operation_from (ledger_env_of env) i (lg_tables (w_ledger w)) = Inr opn" "do_load env i w = (Inr q, u)"
  shows "q = opn"
proof -
  obtain l where "query (load_operation_from (ledger_env_of env) i) (w_ledger w) = (Inr q, l)"
    using assms(2) unfolding do_load_def on_ledger_def within_def load_operation_def
    by (cases "query (load_operation_from (ledger_env_of env) i) (w_ledger w)") simp
  from query_returns [OF this] assms(1) show ?thesis by simp
qed

lemma execute_unapproved:
  assumes "load_operation_from (ledger_env_of env) i (lg_tables (w_ledger w)) = Inr opn" "so_stage opn \<noteq> Approved"
  shows "same_record w (snd (execute_operation env actor i now w))"
proof -
  let ?rest = "\<lambda>q. if sp_actor (so_plan q) \<noteq> actor then fail (Rejected ''operation_access_denied'')
    else if is_terminal (so_stage q) \<or> so_stage q \<noteq> Approved then do_receipt env (so_operation_id q)
    else execute_by_type env q now"
  have loads: "moves same_record (do_load env i)" "moves same_record (do_receipt env j)" for j
    unfolding do_load_def load_operation_def do_receipt_def receipt_def by (intro record_rules)+
  obtain a v where v: "open_ledger env w = (a, v)" by fastforce
  have wv: "same_record w v" using movesD [OF record_open, of w env] v by simp
  then have rows: "same_rows (w_ledger w) (w_ledger v)" by (simp add: same_record_def)
  have "load_operation_from (ledger_env_of env) i (lg_tables (w_ledger v)) = Inr opn"
    using assms(1) load_operation_cong [OF same_rows_fields(2,3) [OF rows]] by simp
  note found = load_found [OF this]
  obtain b u where u: "do_load env i v = (b, u)" by fastforce
  have vu: "same_record v u" using movesD [OF loads(1), of v] u by simp
  have "same_record u (snd (?rest opn u))"
    using assms(2) movesD [OF loads(2), of u "so_operation_id opn"] by (simp add: fail_def record_rel.R_refl)
  then have "same_record v (snd (bindM (do_load env i) ?rest v))"
    using vu u found by (cases b) (auto simp: bindM_def intro: record_rel.R_trans)
  then show ?thesis
    using wv v unfolding execute_operation_def bindM_def [of "open_ledger env"]
    by (cases a) (auto intro: record_rel.R_trans)
qed

text \<open>
  (C0) A firewall change whose read-back fails is left undecided until the next start.  When the rules
  cannot be listed after a change was applied, the request ends in that error with the operation still in
  the verifying stage and neither confirmed nor rolled back, and no later execution request changes any
  record of the ledger.
\<close>

theorem firewall_read_back_failure_strands:
  assumes "load_operation_from (ledger_env_of env) i (lg_tables (w_ledger w)) = Inr opn" "so_stage opn = Verifying"
    and "ufw_inventory env now w = (Inl e, w1)"
  shows "verify_ufw env i payload now w = (Inl e, w1)
    \<and> load_operation_from (ledger_env_of env) i (lg_tables (w_ledger w1)) = Inr opn
    \<and> same_rows (w_ledger w1) (w_ledger (snd (execute_operation env actor i later w1)))"
proof -
  have rows: "same_rows (w_ledger w) (w_ledger w1)"
    using movesD [OF record_inventories(1), of w env now] assms(3) by (simp add: same_record_def)
  have opn: "load_operation_from (ledger_env_of env) i (lg_tables (w_ledger w1)) = Inr opn"
    using assms(1) load_operation_cong [OF same_rows_fields(2,3) [OF rows]] by simp
  have "same_record w1 (snd (execute_operation env actor i later w1))"
    using execute_unapproved [OF opn] assms(2) by simp
  then show ?thesis using opn assms(3) by (simp add: verify_ufw_def bindM_def same_record_def)
qed

section \<open>The configuration operation\<close>

lemma reports_then_ret:
  assumes "reports P (\<lambda>r _. R r) m"
  shows "reports P (\<lambda>r _. R r) (bindM m (\<lambda>r. bindM (c r) (\<lambda>_. ret r)))"
  by (rule reportsI) (auto simp: bindM_def ret_def split: prod.splits sum.splits dest: reportsD [OF assms])

lemma reports_receipt_clean:
  assumes "sound env w" "change_ok ch"
    and "m = do_transition env i ch \<or> m = do_transition_command env i ch v"
    and "bindM m (\<lambda>t. bindM (do_receipt env (so_operation_id t)) (\<lambda>r. bindM (c t) (\<lambda>_. ret r))) w = (Inr r, w')"
  shows "\<exists>t u. rv_terminal_state r = ch_next ch \<and> same_outside w u \<and> snd (c t u) = w'"
proof -
  obtain t u x where run: "m w = (Inr t, u)" "do_receipt env (so_operation_id t) u = (Inr r, x)" "snd (c t x) = w'"
    using assms(4) by (auto simp: bindM_def ret_def split: prod.splits sum.splits)
  have "moves (keeps (sound env)) m"
    using assms(2,3) unfolding do_transition_def do_transition_command_def
    by (auto intro: sound_rel.moves_ledger_writes)
  then have s: "sound env u" using assms(1) run(1) by (rule sound_after)
  have t: "so_stage t = ch_next ch" "so_operation_id t = i" "same_outside w u"
      "load_operation_from (ledger_env_of env) i (lg_tables (w_ledger u)) = Inr t"
    using assms(3) run(1) transition_loads [OF assms(1)] transition_command_loads [OF assms(1)] by (metis)+
  note state = receipt_state [OF s t(4) run(2) [unfolded t(2)]]
  have "same_outside w x" using state(2) t(3) by (simp add: same_outside_def)
  then show ?thesis using state(1) t(1) run(3) by auto
qed

lemma reports_clean:
  assumes "change_ok ch" "ch_next ch \<noteq> Succeeded"
  shows "reports (sound env) no_success (bindM (do_transition env i ch) (\<lambda>t. bindM (do_receipt env (so_operation_id t)) (\<lambda>r. bindM (c t) (\<lambda>_. ret r))))"
    and "reports (sound env) no_success (bindM (do_transition_command env i ch v) (\<lambda>t. bindM (do_receipt env (so_operation_id t)) (\<lambda>r. bindM (c t) (\<lambda>_. ret r))))"
  by (rule reportsI, drule (1) reports_receipt_clean [OF _ assms(1), rotated 2, where c = c and i = i and v = v],
      simp, use assms(2) in force)+

lemma reports_recovery_required: "reports (sound env) no_success (recovery_required env i reason now)"
  unfolding recovery_required_def by (rule reports_clean(1)) simp_all

lemma reports_config_rollback: "reports (sound env) no_success (rollback_managed_config_with_evidence env i evidence now)"
proof -
  have verify: "reports (sound env) no_success (config_rollback_verify env i snapshot restored config runtime now)"
    for snapshot restored config runtime
    unfolding config_rollback_verify_def Let_def
    by (intro reports_if reports_recovery_required reports_clean(2)) simp_all
  have enter: "moves (keeps (sound env)) (enter_config_rollback env i evidence now)"
    unfolding enter_config_rollback_def
    by (intro sound_rel.rules sound_rel.parts sound_rel.moves_record_rollback; simp add: rollback_stages_def)
  show ?thesis
    unfolding rollback_managed_config_with_evidence_def config_rollback_restore_def config_rollback_runtime_def
    by (intro reports_rules verify reports_recovery_required enter sound_rel.rules sound_rel.parts
        sound_rel.moves_files_replaced)
qed

text \<open>
  The file of the plan was found with the planned content and unchanged owner and mode, and all that
  happened to the files since then is the removal of the proposal.
\<close>

definition config_read_back ::
    "'h ops_env \<Rightarrow> stored_plan \<Rightarrow> managed_config_plan_payload \<Rightarrow> proposal_record \<Rightarrow> 'h world \<Rightarrow> bool" where
  "config_read_back env plan payload proposal w' =
    (\<exists>before resource fs. discover_managed_config env (sp_site_id plan) before = (Inr resource, fs)
       \<and> mr_content_digest resource = mp_proposed_content_digest payload
       \<and> mr_metadata_digest resource = sp_enabled_state_digest plan
       \<and> w_fs w' = snd (remove_proposal env proposal fs))"

abbreviation change_read_back ::
    "'h ops_env \<Rightarrow> stored_plan \<Rightarrow> managed_config_plan_payload \<Rightarrow> proposal_record \<Rightarrow> receipt_view \<Rightarrow> 'h world \<Rightarrow> bool" where
  "change_read_back env plan payload proposal r w' \<equiv>
    rv_terminal_state r = Succeeded \<longrightarrow> config_read_back env plan payload proposal w'"

lemma reports_config_undone:
  "reports (sound env) (change_read_back env plan payload proposal) (rollback_managed_config_with_evidence env i evidence now)"
  "reports (sound env) (change_read_back env plan payload proposal) (rollback_managed_config env i code digest now)"
  unfolding rollback_managed_config_def by (rule reports_mono [OF reports_config_rollback], simp)+

lemma check_active_files: "check_active env action adapter w = (r, w') \<Longrightarrow> w_fs w' = w_fs w"
  by (auto simp: check_active_def attempt_def ret_def run_command_def split: prod.splits if_splits)

lemma lifted_result: "bindM (liftR v) k w = (Inr r, w') \<Longrightarrow> (\<And>x. k x w = (Inr r, w') \<Longrightarrow> P) \<Longrightarrow> P"
  by (cases v) (auto simp: bindM_def liftR_def)

lemma reports_verify_config:
  assumes plan: "so_plan opn = plan"
  shows "reports (sound env) (change_read_back env plan payload proposal)
    (verify_config env opn payload proposal preflight tested digest now)"
proof (rule reportsI)
  fix w r w' assume w: "sound env w" "verify_config env opn payload proposal preflight tested digest now w = (Inr r, w')"
  let ?discover = "on_files (discover_managed_config env (sp_site_id plan))"
    and ?active = "check_active env (mp_service_action payload) (mr_adapter preflight)"
  obtain found u where u: "?discover w = (found, u)" by fastforce
  obtain active v where v: "?active u = (active, v)" by fastforce
  have files: "discover_managed_config env (sp_site_id plan) (w_fs w) = (found, w_fs u)" "w_fs v = w_fs u"
    using u check_active_files [OF v] by (auto simp: on_files_def within_def split: prod.splits)
  have "moves (keeps (sound env)) ?discover" by (intro sound_rel.rules)
  then have "sound env u" using w(1) u by (rule sound_after)
  with sound_rel.moves_check_active have s: "sound env v" using v by (rule sound_after)
  note undone = reportsD [OF reports_config_undone(1) s] reportsD [OF reports_config_undone(2) s]
  obtain a where a: "active = Inr a"
    using v by (auto simp: check_active_def attempt_def ret_def split: prod.splits if_splits)
  let ?good = "(case found of Inl _ \<Rightarrow> False | Inr resource \<Rightarrow> mr_content_digest resource = mp_proposed_content_digest payload
      \<and> mr_metadata_digest resource = sp_enabled_state_digest plan) \<and> active_verified a"
  show "change_read_back env plan payload proposal r w'"
  proof (cases ?good)
    case False
    then show ?thesis
      using w(2) undone u v a plan
      by (auto simp: verify_config_def Let_def attempt_def bindM_def split: option.splits sum.splits if_splits)
  next
    case True
    then obtain resource where resource: "found = Inr resource" "mr_content_digest resource = mp_proposed_content_digest payload"
        "mr_metadata_digest resource = sp_enabled_state_digest plan" by (auto split: sum.splits)
    let ?ch = "\<lambda>cmd. stage_step [Verifying] Succeeded ''config_verified'' (command_digest env cmd)
      (Some (mp_proposed_content_digest payload)) None now"
    let ?rest = "\<lambda>cmd. bindM (do_transition_command env (so_operation_id opn) (?ch cmd) cmd) (\<lambda>t.
      bindM (do_receipt env (so_operation_id t)) (\<lambda>r. bindM (discard (on_files (remove_proposal env proposal))) (\<lambda>_. ret r)))"
    have "bindM (liftR (case a of Some result \<Rightarrow> result | None \<Rightarrow> Inr tested)) ?rest v = (Inr r, w')"
      using w(2) True resource u v
      by (simp only: verify_config_def Let_def attempt_def bindM_def [of ?active] plan a prod.case sum.case simp_thms if_False)
    then obtain cmd where rest: "?rest cmd v = (Inr r, w')" by (rule lifted_result)
    have ch: "change_ok (?ch cmd)" by simp
    have "w_fs w' = snd (remove_proposal env proposal (w_fs u))"
      using reports_receipt_clean [where c = "\<lambda>_. discard (on_files (remove_proposal env proposal))", OF s ch disjI2 [OF refl] rest]
        files(2)
      by (elim exE conjE) (auto simp: same_outside_def discard_def attempt_def ret_def on_files_def within_def split: prod.splits)
    then show ?thesis using files(1) resource by (auto simp: config_read_back_def)
  qed
qed

lemma reports_apply_config:
  assumes "so_plan opn = plan"
  shows "reports (sound env) (change_read_back env plan payload proposal)
    (apply_config env opn payload proposal preflight proposed now)"
  unfolding apply_config_def test_config_def reload_config_def Let_def
  by (intro reports_rules reports_config_undone reports_verify_config [OF assms] sound_rel.rules sound_rel.parts
      sound_rel.moves_files_replaced) simp_all

text \<open>Up to its snapshot the operation stays as it was loaded.\<close>

definition approved_as :: "'h ops_env \<Rightarrow> stored_operation \<Rightarrow> 'h world \<Rightarrow> bool" where
  "approved_as env opn w =
    (sound env w \<and> so_stage opn = Approved
     \<and> load_operation_from (ledger_env_of env) (so_operation_id opn) (lg_tables (w_ledger w)) = Inr opn)"

lemma approved_elsewhere:
  "moves (keeps (approved_as env opn)) (on_files m)" "moves (keeps (approved_as env opn)) (run_command env c)"
  by (auto simp: moves_def keeps_def approved_as_def sound_def on_files_def within_def run_command_def split: prod.splits)

lemma reports_attach:
  assumes "\<And>q. so_plan q = so_plan opn \<Longrightarrow> reports (sound env) Q (k q)"
  shows "reports (approved_as env opn) Q
    (bindM (on_ledger (attach_snapshot (ledger_env_of env) (so_operation_id opn) sn now)) k)"
proof (rule reportsI)
  let ?attach = "attach_snapshot (ledger_env_of env) (so_operation_id opn) sn now"
  fix w r w' assume w: "approved_as env opn w" "bindM (on_ledger ?attach) k w = (Inr r, w')"
  then obtain q v where v: "on_ledger ?attach w = (Inr q, v)" "k q v = (Inr r, w')"
    by (auto simp: bindM_def split: prod.splits sum.splits)
  obtain l where l: "?attach (w_ledger w) = (Inr q, l)" "v = w\<lparr>w_ledger := l\<rparr>" by (rule on_ledger_run [OF v(1)])
  have ok: "env_ok (ledger_env_of env)" using w(1) by (simp add: approved_as_def sound_def)
  then have "q = with_snapshot sn opn" "ledger_inv (ledger_env_of env) l"
    using attach_snapshot_outcome [OF ok, of "w_ledger w" "so_operation_id opn" opn sn now] w(1) l(1)
    by (auto simp: approved_as_def sound_def wp_def)
  then have "so_plan q = so_plan opn" "sound env v" using ok l(2) by (simp_all add: with_snapshot_def sound_def)
  then show "Q r w'" using v(2) assms reportsD by metis
qed

lemma reports_execute_config:
  assumes payload: "sp_managed_config (so_plan opn) = Some payload"
    and change: "sp_available_digest (so_plan opn) \<noteq> mp_proposed_content_digest payload"
  shows "reports (approved_as env opn) (change_read_back env (so_plan opn) payload
      \<lparr> pp_relative_path = mp_proposal_relative_path payload, pp_digest = mp_proposal_digest payload \<rparr>)
    (execute_managed_config env opn now)"
proof -
  let ?proposal = "\<lparr> pp_relative_path = mp_proposal_relative_path payload, pp_digest = mp_proposal_digest payload \<rparr>"
  let ?Q = "change_read_back env (so_plan opn) payload ?proposal"
  have "reports (sound env) no_success (cancel_managed_before_apply env opn code now)" for code
    unfolding cancel_managed_before_apply_def by (intro reports_then_ret reports_finish) simp_all
  then have cancel: "reports (approved_as env opn) ?Q (cancel_managed_before_apply env opn code now)" for code
    by (blast intro: reports_stronger [OF reports_mono] dest: approved_as_def [THEN iffD1])
  have prepare: "reports (approved_as env opn) ?Q (prepare_config env opn payload preflight now)"
    if "mr_content_digest preflight = sp_available_digest (so_plan opn)" for preflight
    unfolding prepare_config_def Let_def that if_not_P [OF change]
    by (intro reports_rules reports_attach cancel reports_apply_config approved_elsewhere)
  have known: "bindM (liftR (Inr payload)) k = k payload" for k :: "managed_config_plan_payload \<Rightarrow> ('a, receipt_view) engine"
    by (simp add: bindM_def liftR_def fun_eq_iff)
  show ?thesis
    unfolding execute_managed_config_def Let_def payload ok_or_def option.case known
    by (intro reports_rules cancel prepare approved_elsewhere) simp_all
qed

text \<open>
  (C0) A receipt that reports success of a configuration change is backed by the file: after the change
  was applied the daemon read the file through the discovery of its adapter and found the proposed
  content with the owner and mode of the plan, and since then it touched nothing of the file system but
  the stored proposal, which it removes.  Plans that ask for the content already there are not changes.
\<close>

theorem config_success_was_read_back:
  assumes "env_ok (ledger_env_of env)" "ledger_run (ledger_env_of env) fresh_ledger (w_ledger w)"
    and "load_operation_from (ledger_env_of env) (so_operation_id opn) (lg_tables (w_ledger w)) = Inr opn"
    and "so_stage opn = Approved" "sp_managed_config (so_plan opn) = Some payload"
    and "sp_available_digest (so_plan opn) \<noteq> mp_proposed_content_digest payload"
    and "execute_managed_config env opn now w = (Inr r, w')" "rv_terminal_state r = Succeeded"
  shows "\<exists>before resource fs.
    discover_managed_config env (sp_site_id (so_plan opn)) before = (Inr resource, fs)
    \<and> mr_content_digest resource = mp_proposed_content_digest payload
    \<and> mr_metadata_digest resource = sp_enabled_state_digest (so_plan opn)
    \<and> w_fs w' = snd (remove_proposal env \<lparr> pp_relative_path = mp_proposal_relative_path payload,
        pp_digest = mp_proposal_digest payload \<rparr> fs)"
proof -
  have "approved_as env opn w" using assms(1-4) run_inv by (simp add: approved_as_def sound_def)
  from reportsD [OF reports_execute_config [OF assms(5,6)] this assms(7)] assms(8) show ?thesis
    by (simp add: config_read_back_def)
qed

end
