(* ===== verification/Spec2Isabelle.thy ===== *)
theory Spec2Isabelle
  imports Framing Request_Rules Daemon_Scenario Ufw_Guarantees Cert_Guarantees Verified_Outcomes
begin

text \<open>
  Verification of the privileged operations daemon of jw-agent and the contracts it shares with its
  clients.
\<close>

end
